(* ===== verification/Prelude.thy ===== *)
theory Prelude
  imports Main "HOL-Library.AList" "HOL-Library.Sublist"
begin

text \<open>
  Shared vocabulary of the development: Go errors as values, computations that thread an explicit
  state and may fail, Go string maps (nil or allocated), and the few functions of Go's
  \<^verbatim>\<open>strings\<close> package the operator uses. Every component theory builds on the combinators
  and on the two collections \<open>comp_simps\<close> (unfolding a computation) and \<open>frame\<close>
  (what a computation leaves untouched).
\<close>

named_theorems comp_simps \<open>equations that run a computation\<close>
named_theorems frame \<open>introduction rules for keeps\<close>

section \<open>Errors\<close>

text \<open>
  An error returned by the API client is known to the operator only through the answers of the
  predicates it is passed to (\<^verbatim>\<open>k8serr.IsNotFound\<close>, \<^verbatim>\<open>meta.IsNoMatchError\<close>,
  \<^verbatim>\<open>errors.Is(err, context.DeadlineExceeded)\<close>, ...), so it is the record of these answers.
  Nothing is assumed about which of them can hold together.
\<close>

record api_error =
  err_text :: string
  is_not_found :: bool
  is_conflict :: bool
  is_no_match :: bool
  is_service_unavailable :: bool
  is_timeout :: bool
  is_server_timeout :: bool
  is_too_many_requests :: bool
  is_internal_error :: bool
  is_deadline_exceeded :: bool

text \<open>
  A Go error value: an API error, an error of another library, or one built by
  \<^verbatim>\<open>fmt.Errorf\<close>/\<^verbatim>\<open>errors.New\<close> from a format, its arguments and the wrapped error
  (the \<^verbatim>\<open>%w\<close> verb). \<open>Panic\<close> is no error value: it stands for a run-time panic,
  here always a method call on a nil client.
\<close>

datatype go_error =
    Api api_error
  | External string
  | Errorf string "string list" "go_error option"
  | Panic string

definition new_error :: "string \<Rightarrow> go_error" where
  "new_error msg = Errorf msg [] None"

fun wrapf :: "string \<Rightarrow> string list \<Rightarrow> go_error \<Rightarrow> go_error" where
  "wrapf fmt args (Panic p) = Panic p"
| "wrapf fmt args e = Errorf fmt args (Some e)"

fun is_panic :: "go_error \<Rightarrow> bool" where
  "is_panic (Panic p) = True"
| "is_panic e = False"

text \<open>The error at the end of a chain of \<^verbatim>\<open>%w\<close> wrappings.\<close>

fun root_cause :: "go_error \<Rightarrow> go_error" where
  "root_cause (Errorf fmt args (Some e)) = root_cause e"
| "root_cause e = e"

lemma is_panic_wrapf [simp]: "is_panic (wrapf fmt args e) = is_panic e"
  by (cases e) auto

lemma root_cause_wrapf [simp]: "root_cause (wrapf fmt args e) = root_cause e"
  by (cases e) auto

lemma is_panic_new_error [simp]: "\<not> is_panic (new_error msg)"
  by (simp add: new_error_def)

lemma wrapf_Api [simp]: "wrapf fmt args (Api e) = Errorf fmt args (Some (Api e))"
  by simp

section \<open>Computations\<close>

text \<open>
  A computation takes a state and returns a result (\<open>Inl\<close> an error) together with the new
  state. The state is returned on an error too: what a Go function has written before it returns
  an error stays written.
\<close>

type_synonym ('s, 'a) comp = "'s \<Rightarrow> (go_error + 'a) \<times> 's"

definition ok :: "'a \<Rightarrow> ('s, 'a) comp" where
  "ok a s = (Inr a, s)"

definition fail :: "go_error \<Rightarrow> ('s, 'a) comp" where
  "fail e s = (Inl e, s)"

text \<open>\<^verbatim>\<open>a, err := m(); if err != nil { return err }; f(a)\<close>\<close>

definition and_then :: "('s, 'a) comp \<Rightarrow> ('a \<Rightarrow> ('s, 'b) comp) \<Rightarrow> ('s, 'b) comp" where
  "and_then m f s = (case m s of (Inl e, s') \<Rightarrow> (Inl e, s') | (Inr a, s') \<Rightarrow> f a s')"

text \<open>\<^verbatim>\<open>if err := m(); err != nil { return fmt.Errorf(fmt, args..., err) }\<close>\<close>

definition wrapping :: "string \<Rightarrow> string list \<Rightarrow> ('s, 'a) comp \<Rightarrow> ('s, 'a) comp" where
  "wrapping fmt args m s =
     (case m s of (Inl e, s') \<Rightarrow> (Inl (wrapf fmt args e), s') | (Inr a, s') \<Rightarrow> (Inr a, s'))"

text \<open>Read part of the state.\<close>

definition reading :: "('s \<Rightarrow> 'x) \<Rightarrow> ('x \<Rightarrow> ('s, 'a) comp) \<Rightarrow> ('s, 'a) comp" where
  "reading get k s = k (get s) s"

text \<open>Write the state.\<close>

definition modify :: "('s \<Rightarrow> 's) \<Rightarrow> ('s, unit) comp" where
  "modify f s = (Inr (), f s)"

lemma ok_run [comp_simps]: "ok a s = (Inr a, s)"
  by (simp add: ok_def)

lemma fail_run [comp_simps]: "fail e s = (Inl e, s)"
  by (simp add: fail_def)

lemma modify_run [comp_simps]: "modify f s = (Inr (), f s)"
  by (simp add: modify_def)

lemma reading_run [comp_simps]: "reading get k s = k (get s) s"
  by (simp add: reading_def)

lemmas [comp_simps] = and_then_def wrapping_def

lemma and_then_Inr: "m s = (Inr a, s') \<Longrightarrow> and_then m f s = f a s'"
  by (simp add: and_then_def)

lemma and_then_Inl: "m s = (Inl e, s') \<Longrightarrow> and_then m f s = (Inl e, s')"
  by (simp add: and_then_def)

lemma and_then_Inr_iff:
  "and_then m f s = (Inr b, t) \<longleftrightarrow> (\<exists>a s'. m s = (Inr a, s') \<and> f a s' = (Inr b, t))"
  by (auto simp: and_then_def split: prod.splits sum.splits)

lemma and_then_Inl_iff:
  "and_then m f s = (Inl e, t) \<longleftrightarrow>
     m s = (Inl e, t) \<or> (\<exists>a s'. m s = (Inr a, s') \<and> f a s' = (Inl e, t))"
  by (auto simp: and_then_def split: prod.splits sum.splits)

lemma wrapping_Inr_iff: "wrapping fmt args m s = (Inr b, t) \<longleftrightarrow> m s = (Inr b, t)"
  by (auto simp: wrapping_def split: prod.splits sum.splits)

lemma wrapping_Inl_iff:
  "wrapping fmt args m s = (Inl e, t) \<longleftrightarrow> (\<exists>e'. m s = (Inl e', t) \<and> e = wrapf fmt args e')"
  by (auto simp: wrapping_def split: prod.splits sum.splits)

lemmas comp_result_iffs =
  and_then_Inr_iff and_then_Inl_iff wrapping_Inr_iff wrapping_Inl_iff

lemma and_then_ok [simp]: "and_then (ok a) f = f a"
  by (rule ext) (simp add: comp_simps)

lemma and_then_fail [simp]: "and_then (fail e) f = fail e"
  by (rule ext) (simp add: comp_simps)

lemma and_then_assoc: "and_then (and_then m f) g = and_then m (\<lambda>a. and_then (f a) g)"
  by (rule ext) (auto simp: and_then_def split: prod.splits sum.splits)

section \<open>Frames\<close>

text \<open>\<open>keeps f m\<close>: whatever \<open>m\<close> does, fails included, it leaves \<open>f\<close> of the state as it was.\<close>

definition keeps :: "('s \<Rightarrow> 'x) \<Rightarrow> ('s, 'a) comp \<Rightarrow> bool" where
  "keeps f m \<longleftrightarrow> (\<forall>s. f (snd (m s)) = f s)"

lemma keepsD: "keeps f m \<Longrightarrow> m s = (r, s') \<Longrightarrow> f s' = f s"
  by (metis keeps_def snd_conv)

lemma keepsI: "(\<And>s. f (snd (m s)) = f s) \<Longrightarrow> keeps f m"
  by (simp add: keeps_def)

lemma keeps_ok [frame]: "keeps f (ok a)"
  by (simp add: keeps_def ok_def)

lemma keeps_fail [frame]: "keeps f (fail e)"
  by (simp add: keeps_def fail_def)

lemma keeps_and_then [frame]:
  "keeps f m \<Longrightarrow> (\<And>a. keeps f (k a)) \<Longrightarrow> keeps f (and_then m k)"
  by (auto simp: keeps_def and_then_def split: prod.splits sum.splits) (metis snd_conv)+

lemma keeps_wrapping [frame]: "keeps f m \<Longrightarrow> keeps f (wrapping fmt args m)"
  by (auto simp: keeps_def wrapping_def split: prod.splits sum.splits) (metis snd_conv)+

lemma keeps_reading [frame]: "(\<And>x. keeps f (k x)) \<Longrightarrow> keeps f (reading get k)"
  by (simp add: keeps_def reading_def)

lemma keeps_modify [frame]: "(\<And>s. f (g s) = f s) \<Longrightarrow> keeps f (modify g)"
  by (simp add: keeps_def modify_def)

lemma keeps_if [frame]: "keeps f m \<Longrightarrow> keeps f n \<Longrightarrow> keeps f (if b then m else n)"
  by simp

lemma keeps_case_option [frame]:
  "keeps f m \<Longrightarrow> (\<And>x. keeps f (k x)) \<Longrightarrow> keeps f (case v of None \<Rightarrow> m | Some x \<Rightarrow> k x)"
  by (cases v) auto

lemma keeps_case_sum [frame]:
  "(\<And>x. keeps f (h x)) \<Longrightarrow> (\<And>x. keeps f (k x)) \<Longrightarrow> keeps f (case v of Inl x \<Rightarrow> h x | Inr x \<Rightarrow> k x)"
  by (cases v) auto

lemma keeps_case_prod [frame]:
  "(\<And>x y. keeps f (k x y)) \<Longrightarrow> keeps f (case v of (x, y) \<Rightarrow> k x y)"
  by (cases v) auto

end
