(* ===== verification/Go_Base.thy ===== *)
theory Go_Base
  imports Prelude "HOL-Library.Char_ord" "HOL-Library.List_Lexorder" "HOL-Library.Word"
begin

text \<open>
  The pieces of the Go language and of its standard library that several components use: maps from
  strings to strings, which may be nil; byte strings and functions of package \<^verbatim>\<open>strings\<close>;
  the hexadecimal verb \<^verbatim>\<open>%08x\<close>. A Go string is a byte sequence, modelled as a list of
  \<open>char\<close> (HOL's eight-bit characters); \<^verbatim>\<open><\<close> on strings compares bytes from the left,
  which is the lexicographic order of \<^verbatim>\<open>HOL-Library.List_Lexorder\<close>.
\<close>

section \<open>Maps\<close>

text \<open>
  A \<^verbatim>\<open>map[string]string\<close>: \<open>None\<close> is the nil map. Reading a missing key, or any key of a
  nil map, gives the zero value \<^verbatim>\<open>""\<close>.
\<close>

type_synonym strmap = "(string \<rightharpoonup> string) option"

definition entries :: "strmap \<Rightarrow> (string \<rightharpoonup> string)" where
  "entries m = (case m of None \<Rightarrow> Map.empty | Some f \<Rightarrow> f)"

definition map_index :: "strmap \<Rightarrow> string \<Rightarrow> string" where
  "map_index m k = (case entries m k of None \<Rightarrow> '''' | Some v \<Rightarrow> v)"

definition map_present :: "strmap \<Rightarrow> string \<Rightarrow> bool" where
  "map_present m k \<longleftrightarrow> entries m k \<noteq> None"

text \<open>
  \<^verbatim>\<open>if m == nil { m = map[string]string{} }; m[k] = v\<close>: the guard every write in the operator
  is preceded by.
\<close>

definition map_put :: "strmap \<Rightarrow> string \<Rightarrow> string \<Rightarrow> strmap" where
  "map_put m k v = Some ((entries m)(k \<mapsto> v))"

lemma entries_None [simp]: "entries None = Map.empty"
  by (simp add: entries_def)

lemma entries_Some [simp]: "entries (Some f) = f"
  by (simp add: entries_def)

lemma entries_map_put [simp]: "entries (map_put m k v) = (entries m)(k \<mapsto> v)"
  by (simp add: map_put_def)

lemma map_index_put: "map_index (map_put m k v) k' = (if k' = k then v else map_index m k')"
  by (simp add: map_index_def)

lemma map_present_put: "map_present (map_put m k v) k' \<longleftrightarrow> k' = k \<or> map_present m k'"
  by (simp add: map_present_def)

lemma map_put_idem: "map_put (map_put m k v) k v = map_put m k v"
  by (simp add: map_put_def)

lemma map_index_nonempty_present: "map_index m k \<noteq> '''' \<Longrightarrow> map_present m k"
  by (auto simp: map_index_def map_present_def split: option.splits)

section \<open>Strings\<close>

text \<open>\<^verbatim>\<open>strings.HasPrefix\<close>, \<^verbatim>\<open>strings.HasSuffix\<close>, \<^verbatim>\<open>strings.TrimPrefix\<close>.\<close>

definition has_prefix :: "string \<Rightarrow> string \<Rightarrow> bool" where
  "has_prefix s p \<longleftrightarrow> length p \<le> length s \<and> take (length p) s = p"

definition has_suffix :: "string \<Rightarrow> string \<Rightarrow> bool" where
  "has_suffix s p \<longleftrightarrow> length p \<le> length s \<and> drop (length s - length p) s = p"

definition trim_prefix :: "string \<Rightarrow> string \<Rightarrow> string" where
  "trim_prefix s p = (if has_prefix s p then drop (length p) s else s)"

text \<open>\<^verbatim>\<open>strings.TrimRight(s, cutset)\<close> for a cutset of one byte.\<close>

definition trim_right :: "char \<Rightarrow> string \<Rightarrow> string" where
  "trim_right c s = rev (dropWhile (\<lambda>x. x = c) (rev s))"

lemma has_prefix_iff: "has_prefix s p \<longleftrightarrow> prefix p s"
  by (auto simp: has_prefix_def prefix_def) (metis append_take_drop_id)

lemma has_suffix_iff: "has_suffix s p \<longleftrightarrow> suffix p s"
  by (auto simp: has_suffix_def suffix_def) (metis append_take_drop_id)

lemma has_suffix_append [simp]: "has_suffix (s @ p) p"
  by (simp add: has_suffix_def)

lemma trim_right_decompose: "\<exists>n. s = trim_right c s @ replicate n c"
proof -
  have "rev s = takeWhile (\<lambda>x. x = c) (rev s) @ dropWhile (\<lambda>x. x = c) (rev s)"
    by simp
  moreover have "takeWhile (\<lambda>x. x = c) (rev s) =
      replicate (length (takeWhile (\<lambda>x. x = c) (rev s))) c"
    by (metis (mono_tags, lifting) replicate_length_same set_takeWhileD)
  ultimately have "s = trim_right c s @ replicate (length (takeWhile (\<lambda>x. x = c) (rev s))) c"
    unfolding trim_right_def by (metis rev_append rev_replicate rev_rev_ident)
  then show ?thesis by blast
qed

lemma trim_right_last: "trim_right c s \<noteq> [] \<Longrightarrow> last (trim_right c s) \<noteq> c"
  unfolding trim_right_def by (metis (full_types) hd_dropWhile last_rev rev_is_Nil_conv)

lemma trim_right_empty_iff: "trim_right c s = [] \<longleftrightarrow> (\<forall>x\<in>set s. x = c)"
  by (auto simp: trim_right_def dropWhile_eq_Nil_conv)

lemma length_trim_right: "length (trim_right c s) \<le> length s"
  using trim_right_decompose [of s c] by (metis le_add1 length_append)

lemma set_trim_right: "set (trim_right c s) \<subseteq> set s"
  by (auto simp: trim_right_def dest: set_dropWhileD)

lemma prefix_trim_right: "prefix (trim_right c s) s"
  using trim_right_decompose [of s c] by (metis prefixI)

lemma hd_trim_right: "trim_right c s \<noteq> [] \<Longrightarrow> hd (trim_right c s) = hd s"
  using prefix_trim_right [of c s] by (metis hd_append2 prefix_def)

section \<open>The verb %08x\<close>

definition hex_digit :: "nat \<Rightarrow> char" where
  "hex_digit n = ''0123456789abcdef'' ! n"

text \<open>\<^verbatim>\<open>fmt.Sprintf("%08x", h)\<close> of a \<^verbatim>\<open>uint32\<close>: eight nibbles, the highest first.\<close>

definition hex08 :: "32 word \<Rightarrow> string" where
  "hex08 h = map (\<lambda>i. hex_digit (unat h div 16 ^ i mod 16)) [7, 6, 5, 4, 3, 2, 1, 0]"

lemma length_hex08 [simp]: "length (hex08 h) = 8"
  by (simp add: hex08_def)

lemma hex_digit_in: "n < 16 \<Longrightarrow> hex_digit n \<in> set ''0123456789abcdef''"
  unfolding hex_digit_def by (rule nth_mem) simp

lemma hex_digit_inj: "m < 16 \<Longrightarrow> n < 16 \<Longrightarrow> hex_digit m = hex_digit n \<Longrightarrow> m = n"
  unfolding hex_digit_def by (subst (asm) nth_eq_iff_index_eq) auto

lemma set_hex08: "set (hex08 h) \<subseteq> set ''0123456789abcdef''"
proof
  fix x assume "x \<in> set (hex08 h)"
  then have "\<exists>i. x = hex_digit (unat h div 16 ^ i mod 16)"
    unfolding hex08_def set_map by blast
  then show "x \<in> set ''0123456789abcdef''"
    using hex_digit_in by fastforce
qed

text \<open>The eight nibbles determine the number: go down from the highest, where both quotients are 0.\<close>

lemma nibble_step:
  fixes m n :: nat
  assumes "m div (k * 16) = n div (k * 16)" and "m div k mod 16 = n div k mod 16"
  shows "m div k = n div k"
proof -
  have "m div k div 16 = n div k div 16"
    using assms(1) by (simp add: div_mult2_eq)
  then show ?thesis
    using assms(2) by (metis mult_div_mod_eq)
qed

lemma nibbles_eq:
  fixes m n :: nat
  assumes "m < 16 ^ l" "n < 16 ^ l" and "\<And>i. i < l \<Longrightarrow> m div 16 ^ i mod 16 = n div 16 ^ i mod 16"
  shows "j \<le> l \<Longrightarrow> m div 16 ^ (l - j) = n div 16 ^ (l - j)"
proof (induction j)
  case 0
  then show ?case using assms(1,2) by simp
next
  case (Suc j)
  then have "l - j = Suc (l - Suc j)" by simp
  then have "16 ^ (l - j) = 16 ^ (l - Suc j) * (16::nat)" by simp
  then show ?case
    using Suc assms(3) [of "l - Suc j"] nibble_step [of m "16 ^ (l - Suc j)" n] by simp
qed

lemma hex08_inj: "hex08 g = hex08 h \<Longrightarrow> g = h"
proof -
  assume eq: "hex08 g = hex08 h"
  have nib: "unat g div 16 ^ i mod 16 = unat h div 16 ^ i mod 16" if "i < 8" for i
  proof -
    have i: "i \<in> set [7, 6, 5, 4, 3, 2, 1, 0]"
      using that by (simp add: less_Suc_eq numeral_eq_Suc) linarith
    have "hex_digit (unat g div 16 ^ i mod 16) = hex_digit (unat h div 16 ^ i mod 16)"
      using eq i unfolding hex08_def map_eq_conv by blast
    then show ?thesis by (rule hex_digit_inj [rotated 2]) simp_all
  qed
  have "unat g div 16 ^ (8 - 8) = unat h div 16 ^ (8 - 8)"
    using unsigned_less [of g] unsigned_less [of h]
    by (intro nibbles_eq nib) simp_all
  then show "g = h" by (simp add: word_unat_eq_iff)
qed

end
