(* ===== verification/Cluster.thy ===== *)
theory Cluster
  imports Go_Base
begin

text \<open>
  The Kubernetes objects the operator reads and writes, with the fields its code touches, and the
  API client as a parameter: a record of operations over a world \<open>'w\<close> the model knows nothing
  about. An operation may change the world in any way (other controllers run between two calls),
  and may fail with any API error. What a property relies on beyond that is an assumption of one of
  the two contracts at the end of the theory.
\<close>

section \<open>Objects\<close>

record nsname =
  nn_namespace :: string
  nn_name :: string

abbreviation nsname_of :: "string \<Rightarrow> string \<Rightarrow> nsname" where
  "nsname_of ns n \<equiv> \<lparr>nn_namespace = ns, nn_name = n\<rparr>"

record gvk =
  gvk_group :: string
  gvk_version :: string
  gvk_kind :: string

text \<open>An owner reference, and the metadata of the owner that \<^verbatim>\<open>SetOwnerReference\<close> reads.\<close>

record owner_ref =
  or_kind :: string
  or_name :: string
  or_uid :: string

record object_meta =
  om_name :: string
  om_uid :: string
  om_generation :: int

text \<open>
  \<open>dep_selector\<close> is \<^verbatim>\<open>spec.selector\<close>, a pointer: \<open>None\<close> is nil, \<open>Some m\<close> a
  selector with \<^verbatim>\<open>matchLabels\<close> \<open>m\<close>.
\<close>

record deployment =
  dep_namespace :: string
  dep_name :: string
  dep_uid :: string
  dep_resource_version :: string
  dep_labels :: strmap
  dep_annotations :: strmap
  dep_selector :: "strmap option"
  dep_ready_replicas :: int

record preconditions =
  pre_uid :: "string option"
  pre_resource_version :: "string option"

text \<open>\<open>ns_rest\<close>, \<open>role_rest\<close> and \<open>rb_rest\<close> stand for the fields no code here looks at.\<close>

record namespace =
  ns_name :: string
  ns_labels :: strmap
  ns_rest :: string

record policy_rule =
  pr_api_groups :: "string list"
  pr_resources :: "string list"
  pr_resource_names :: "string list"
  pr_urls :: "string list"
  pr_verbs :: "string list"

record role =
  role_namespace :: string
  role_name :: string
  role_labels :: strmap
  role_owners :: "owner_ref list"
  role_rules :: "policy_rule list"
  role_rest :: string

record role_ref =
  rr_api_group :: string
  rr_kind :: string
  rr_name :: string

record subject =
  sub_kind :: string
  sub_name :: string
  sub_namespace :: string

record role_binding =
  rb_namespace :: string
  rb_name :: string
  rb_labels :: strmap
  rb_owners :: "owner_ref list"
  rb_role_ref :: role_ref
  rb_subjects :: "subject list"
  rb_rest :: string

record config_map =
  cm_data :: strmap

record crd =
  crd_name :: string
  crd_conditions :: "(string \<times> string) list"

text \<open>A value of Go type \<^verbatim>\<open>any\<close> as it comes out of decoded JSON.\<close>

datatype any =
    Nil
  | Bool bool
  | Number int
  | Str string
  | Slice "any list"
  | Obj "(string \<times> any) list"

text \<open>\<^verbatim>\<open>m[k]\<close> on a \<^verbatim>\<open>map[string]any\<close>: the zero value of \<^verbatim>\<open>any\<close> is nil.\<close>

definition obj_index :: "(string \<times> any) list \<Rightarrow> string \<Rightarrow> any" where
  "obj_index m k = (case map_of m k of None \<Rightarrow> Nil | Some v \<Rightarrow> v)"

text \<open>\<^verbatim>\<open>s, _ := v.(string)\<close>\<close>

fun as_string :: "any \<Rightarrow> string" where
  "as_string (Str s) = s"
| "as_string v = ''''"

record unstructured =
  us_gvk :: gvk
  us_namespace :: string
  us_name :: string
  us_labels :: strmap
  us_annotations :: strmap
  us_object :: any

section \<open>The client\<close>

type_synonym ('w, 'a) api_call = "'w \<Rightarrow> (api_error + 'a) \<times> 'w"

text \<open>
  The operations of \<^verbatim>\<open>client.Client\<close> that the operator calls, one field per kind of
  object, and \<^verbatim>\<open>controllerutil.SetOwnerReference\<close>, which works on the client's scheme.
\<close>

record 'w client =
  get_deployment :: "nsname \<Rightarrow> ('w, deployment) api_call"
  list_deployments :: "string \<Rightarrow> (string \<times> string) list \<Rightarrow> ('w, deployment list) api_call"
  delete_deployment :: "deployment \<Rightarrow> preconditions \<Rightarrow> ('w, unit) api_call"
  get_namespace :: "nsname \<Rightarrow> ('w, namespace) api_call"
  create_namespace :: "namespace \<Rightarrow> ('w, unit) api_call"
  update_namespace :: "namespace \<Rightarrow> ('w, unit) api_call"
  get_role :: "nsname \<Rightarrow> ('w, role) api_call"
  create_role :: "role \<Rightarrow> ('w, unit) api_call"
  update_role :: "role \<Rightarrow> ('w, unit) api_call"
  delete_role :: "nsname \<Rightarrow> ('w, unit) api_call"
  get_role_binding :: "nsname \<Rightarrow> ('w, role_binding) api_call"
  create_role_binding :: "role_binding \<Rightarrow> ('w, unit) api_call"
  update_role_binding :: "role_binding \<Rightarrow> ('w, unit) api_call"
  delete_role_binding :: "nsname \<Rightarrow> ('w, unit) api_call"
  get_config_map :: "nsname \<Rightarrow> ('w, config_map) api_call"
  get_crd :: "nsname \<Rightarrow> ('w, crd) api_call"
  get_unstructured :: "gvk \<Rightarrow> nsname \<Rightarrow> ('w, unstructured) api_call"
  set_owner_reference :: "object_meta \<Rightarrow> string \<Rightarrow> owner_ref list \<Rightarrow> go_error + owner_ref list"

text \<open>Make a call and go on with its error or its result.\<close>

definition calling ::
  "('w, 'a) api_call \<Rightarrow> (api_error \<Rightarrow> ('w, 'b) comp) \<Rightarrow> ('a \<Rightarrow> ('w, 'b) comp) \<Rightarrow> ('w, 'b) comp" where
  "calling m h k w = (case m w of (Inl e, w') \<Rightarrow> h e w' | (Inr a, w') \<Rightarrow> k a w')"

text \<open>\<^verbatim>\<open>return cli.Create(ctx, obj)\<close>: the API error is the function's error.\<close>

definition api :: "('w, 'a) api_call \<Rightarrow> ('w, 'a) comp" where
  "api m = calling m (\<lambda>e. fail (Api e)) ok"

text \<open>\<^verbatim>\<open>cli.Method(...)\<close> on a client that may be nil.\<close>

definition with_client :: "'w client option \<Rightarrow> ('w client \<Rightarrow> ('s, 'a) comp) \<Rightarrow> ('s, 'a) comp" where
  "with_client cli k = (case cli of None \<Rightarrow> fail (Panic ''nil client'') | Some c \<Rightarrow> k c)"

text \<open>The value of a sum as a computation.\<close>

definition returned :: "go_error + 'a \<Rightarrow> ('s, 'a) comp" where
  "returned r s = (r, s)"

lemma returned_run [comp_simps]: "returned r s = (r, s)"
  by (simp add: returned_def)

lemma with_client_simps [simp]:
  "with_client None k = fail (Panic ''nil client'')" "with_client (Some c) k = k c"
  by (simp_all add: with_client_def)

lemmas [comp_simps] = calling_def api_def

lemma keeps_calling [frame]:
  assumes "\<And>w. f (snd (m w)) = f w" "\<And>e. keeps f (h e)" "\<And>a. keeps f (k a)"
  shows "keeps f (calling m h k)"
proof (rule keepsI)
  fix w
  show "f (snd (calling m h k w)) = f w"
    using assms(1) [of w] assms(2,3) by (cases "m w"; cases "fst (m w)") (auto simp: calling_def keeps_def)
qed

lemma keeps_api [frame]: "(\<And>w. f (snd (m w)) = f w) \<Longrightarrow> keeps f (api m)"
  unfolding api_def by (intro frame)

lemma keeps_with_client [frame]: "(\<And>c. cli = Some c \<Longrightarrow> keeps f (k c)) \<Longrightarrow> keeps f (with_client cli k)"
  by (cases cli) (auto intro: frame)

lemma keeps_returned [frame]: "keeps f (returned r)"
  by (simp add: keeps_def returned_def)

lemma api_Inr_iff: "api m w = (Inr a, w') \<longleftrightarrow> m w = (Inr a, w')"
  by (auto simp: comp_simps split: prod.splits sum.splits)

lemma api_Inl_iff: "api m w = (Inl e, w') \<longleftrightarrow> (\<exists>e'. m w = (Inl e', w') \<and> e = Api e')"
  by (auto simp: comp_simps split: prod.splits sum.splits)

section \<open>Contracts\<close>

text \<open>
  What the operator's writes rely on, for one kind of object: a successful create or update leaves
  an object in the store that carries what was sent (the server may default more fields), a
  successful delete, or one that finds nothing, leaves none, and a read returns an object of the
  key it was asked for. Nothing is assumed about reads being fresh, nor about the rest of the
  world.
\<close>

locale object_store =
  fixes get_obj :: "nsname \<Rightarrow> ('w, 'o) api_call"
    and create_obj :: "'o \<Rightarrow> ('w, unit) api_call"
    and update_obj :: "'o \<Rightarrow> ('w, unit) api_call"
    and view :: "'w \<Rightarrow> nsname \<Rightarrow> 'o option"
    and key :: "'o \<Rightarrow> nsname"
    and carries :: "'o \<Rightarrow> 'o \<Rightarrow> bool"
  assumes get_key: "get_obj k w = (Inr ob, w') \<Longrightarrow> key ob = k"
    and create_view: "create_obj ob w = (Inr (), w') \<Longrightarrow> \<exists>st. view w' (key ob) = Some st \<and> carries st ob"
    and update_view: "update_obj ob w = (Inr (), w') \<Longrightarrow> \<exists>st. view w' (key ob) = Some st \<and> carries st ob"

locale deletable_store = object_store get_obj create_obj update_obj view key carries
  for get_obj :: "nsname \<Rightarrow> ('w, 'o) api_call"
    and create_obj update_obj view key carries +
  fixes delete_obj :: "nsname \<Rightarrow> ('w, unit) api_call"
  assumes delete_view: "delete_obj k w = (Inr (), w') \<Longrightarrow> view w' k = None"
    and delete_missing: "delete_obj k w = (Inl e, w') \<Longrightarrow> is_not_found e \<Longrightarrow> view w' k = None"

text \<open>
  A store whose reads return what it holds, for the one object the operator leaves alone when what
  it has read is as desired.
\<close>

locale fresh_store = object_store get_obj create_obj update_obj view key carries
  for get_obj :: "nsname \<Rightarrow> ('w, 'o) api_call"
    and create_obj update_obj view key carries +
  assumes get_view: "get_obj k w = (Inr ob, w') \<Longrightarrow> view w' k = Some ob"

text \<open>
  The get-or-create-or-update idiom of the operator, for any kind: read the object; create the
  desired one when there is none; otherwise update what was read.
\<close>

definition ensure_object ::
  "(nsname \<Rightarrow> ('w, 'o) api_call) \<Rightarrow> nsname \<Rightarrow> ('w, unit) comp \<Rightarrow> ('o \<Rightarrow> ('w, unit) comp) \<Rightarrow>
    ('w, unit) comp" where
  "ensure_object get_obj k absent present =
     calling (get_obj k)
       (\<lambda>e. if is_not_found e then absent else fail (Api e))
       present"

lemma keeps_ensure_object [frame]:
  assumes "\<And>w. f (snd (get_obj k w)) = f w" "keeps f absent" "\<And>ob. keeps f (present ob)"
  shows "keeps f (ensure_object get_obj k absent present)"
  unfolding ensure_object_def by (intro frame assms)

context object_store
begin

lemma create_ok: "api (create_obj ob) w = (Inr (), w') \<Longrightarrow> \<exists>st. view w' (key ob) = Some st \<and> carries st ob"
  using create_view by (auto simp: api_Inr_iff)

lemma update_ok: "api (update_obj ob) w = (Inr (), w') \<Longrightarrow> \<exists>st. view w' (key ob) = Some st \<and> carries st ob"
  using update_view by (auto simp: api_Inr_iff)

lemma ensure_ok:
  assumes run: "ensure_object get_obj k absent present w = (Inr (), w')"
    and absent: "\<And>w. absent w = (Inr (), w') \<Longrightarrow> P w'"
    and present: "\<And>ob w. key ob = k \<Longrightarrow> present ob w = (Inr (), w') \<Longrightarrow> P w'"
  shows "P w'"
proof (cases "get_obj k w")
  case (Pair r v)
  show ?thesis
  proof (cases r)
    case (Inl e)
    then show ?thesis
      using run Pair absent by (auto simp: ensure_object_def comp_simps split: if_splits)
  next
    case (Inr ob)
    then have "present ob v = (Inr (), w')"
      using run Pair by (simp add: ensure_object_def comp_simps)
    moreover have "key ob = k"
      using Pair Inr get_key by blast
    ultimately show ?thesis by (rule present [rotated])
  qed
qed

end

context fresh_store
begin

lemma ensure_fresh_ok:
  assumes run: "ensure_object get_obj k absent present w = (Inr (), w')"
    and absent: "\<And>w. absent w = (Inr (), w') \<Longrightarrow> P w'"
    and present: "\<And>ob w. key ob = k \<Longrightarrow> view w k = Some ob \<Longrightarrow> present ob w = (Inr (), w') \<Longrightarrow> P w'"
  shows "P w'"
proof (cases "get_obj k w")
  case (Pair r v)
  show ?thesis
  proof (cases r)
    case (Inl e)
    then show ?thesis
      using run Pair absent by (auto simp: ensure_object_def comp_simps split: if_splits)
  next
    case (Inr ob)
    then have "present ob v = (Inr (), w')"
      using run Pair by (simp add: ensure_object_def comp_simps)
    then show ?thesis
      using present get_key get_view Pair Inr by blast
  qed
qed

end

text \<open>
  Reads of one kind while no other writer is active: they return what the store holds, NotFound
  for nothing, and leave the world as it is.
\<close>

locale quiet_reads =
  fixes get_obj :: "nsname \<Rightarrow> ('w, 'o) api_call"
    and view :: "'w \<Rightarrow> nsname \<Rightarrow> 'o option"
  assumes read_missing: "view w k = None \<Longrightarrow> \<exists>e. get_obj k w = (Inl e, w) \<and> is_not_found e"
    and read_found: "view w k = Some x \<Longrightarrow> get_obj k w = (Inr x, w)"
begin

lemma calling_read:
  assumes "\<And>e w. is_not_found e \<Longrightarrow> h e w = h' w"
  shows "calling (get_obj k) h f w = (case view w k of None \<Rightarrow> h' w | Some x \<Rightarrow> f x w)"
proof (cases "view w k")
  case None
  then obtain e where "get_obj k w = (Inl e, w)" "is_not_found e"
    using read_missing by blast
  then show ?thesis
    using assms None by (simp add: calling_def)
next
  case (Some x)
  then show ?thesis
    using read_found by (simp add: calling_def)
qed

end

text \<open>
  The Deployments while no other writer is active: reads are quiet, and a delete removes the
  Deployment of a key or leaves it as it is. The cluster of \<open>free_deployments\<close> can hold no
  Deployment under a key, and the one it holds with any other annotations.
\<close>

locale settled_deployments = quiet_reads "get_deployment c" view
  for c :: "'w client" and view :: "'w \<Rightarrow> nsname \<Rightarrow> deployment option" +
  assumes delete_leaves: "delete_deployment c d p w = (r, w') \<Longrightarrow> view w' k = None \<or> view w' k = view w k"

locale free_deployments = settled_deployments +
  assumes removable: "\<exists>w'. view w' k = None"
    and annotatable: "view w k = Some d \<Longrightarrow> \<exists>w'. view w' k = Some (d\<lparr>dep_annotations := a\<rparr>)"

text \<open>
  A delete with preconditions removes at most the object that carries the given UID and resource
  version; a read returns an object of the key it was asked for.
\<close>

locale guarded_deletes =
  fixes delete_dep :: "deployment \<Rightarrow> preconditions \<Rightarrow> ('w, unit) api_call"
    and view :: "'w \<Rightarrow> nsname \<Rightarrow> deployment option"
  assumes delete_only:
      "delete_dep d p w = (r, w') \<Longrightarrow> view w k = Some live \<Longrightarrow> view w' k \<noteq> Some live \<Longrightarrow>
       k = nsname_of (dep_namespace d) (dep_name d) \<and>
       (\<forall>u. pre_uid p = Some u \<longrightarrow> dep_uid live = u) \<and>
       (\<forall>v. pre_resource_version p = Some v \<longrightarrow> dep_resource_version live = v)"

text \<open>
  What the answer of such a delete says: after a success and after NotFound there is no object of
  that key, after Conflict there is none that meets the preconditions.
\<close>

locale answered_deletes = guarded_deletes delete_dep view
  for delete_dep :: "deployment \<Rightarrow> preconditions \<Rightarrow> ('w, unit) api_call" and view +
  assumes deleted: "delete_dep d p w = (Inr (), w') \<Longrightarrow> view w' (nsname_of (dep_namespace d) (dep_name d)) = None"
    and missing: "delete_dep d p w = (Inl e, w') \<Longrightarrow> is_not_found e \<Longrightarrow>
      view w' (nsname_of (dep_namespace d) (dep_name d)) = None"
    and conflict: "delete_dep d p w = (Inl e, w') \<Longrightarrow> is_conflict e \<Longrightarrow>
      view w' (nsname_of (dep_namespace d) (dep_name d)) = Some live \<Longrightarrow>
      \<not> (pre_uid p = Some (dep_uid live) \<and> pre_resource_version p = Some (dep_resource_version live))"
begin

lemma tolerated:
  assumes del: "delete_dep d p w = (r, w')"
    and r: "r = Inr () \<or> (\<exists>e. r = Inl e \<and> (is_not_found e \<or> is_conflict e))"
    and live: "view w' (nsname_of (dep_namespace d) (dep_name d)) = Some live"
  shows "\<not> (pre_uid p = Some (dep_uid live) \<and> pre_resource_version p = Some (dep_resource_version live))"
proof (cases r)
  case (Inl e)
  then show ?thesis
    using r live missing [of d p w e w'] conflict [of d p w e w' live] del by auto
next
  case (Inr u)
  then show ?thesis
    using live deleted [of d p w w'] del by simp
qed

end

end
