(* ===== verification/Api_Types.thy ===== *)
theory Api_Types
  imports Cluster
begin

text \<open>
  The types of \<^verbatim>\<open>api/components/v1alpha1\<close>: semantic versions and platform names with their
  JSON codecs, the status records, and the AIGateway object. The semantic-version parser is the
  third-party package \<^verbatim>\<open>blang/semver\<close>, a parameter; the contract \<open>semver_contract\<close>
  says what the operator relies on. A JSON text is modelled by the value it decodes to, \<open>None\<close>
  for a text that is not JSON.
\<close>

section \<open>Decoding JSON into a string and into a struct\<close>

type_synonym json = "any option"

definition json_syntax_error :: go_error where
  "json_syntax_error = External ''json: syntax error''"

definition json_type_error :: go_error where
  "json_type_error = External ''json: cannot unmarshal into Go value''"

text \<open>
  \<^verbatim>\<open>json.Unmarshal(data, &s)\<close> for a Go string: a JSON string is stored, null leaves the
  string as it is, everything else is an error.
\<close>

fun json_into_string :: "json \<Rightarrow> string \<Rightarrow> go_error + string" where
  "json_into_string None s = Inl json_syntax_error"
| "json_into_string (Some (Str t)) s = Inr t"
| "json_into_string (Some Nil) s = Inr s"
| "json_into_string (Some v) s = Inl json_type_error"

text \<open>
  Object keys match a struct field's name exactly or up to the case of ASCII letters; every
  matching key is decoded, in order, and a mismatch of types is reported after the last one.
\<close>

definition ascii_lower :: "char \<Rightarrow> char" where
  "ascii_lower c = (if 65 \<le> (of_char c :: nat) \<and> (of_char c :: nat) \<le> 90
     then char_of ((of_char c :: nat) + 32) else c)"

definition key_matches :: "string \<Rightarrow> string \<Rightarrow> bool" where
  "key_matches field k \<longleftrightarrow> map ascii_lower k = map ascii_lower field"

fun json_fields_into :: "string \<Rightarrow> (string \<times> any) list \<Rightarrow> string \<Rightarrow> bool \<Rightarrow> go_error + string" where
  "json_fields_into field [] s bad = (if bad then Inl json_type_error else Inr s)"
| "json_fields_into field ((k, v) # kvs) s bad =
     (if key_matches field k
      then (case json_into_string (Some v) s of
              Inl e \<Rightarrow> json_fields_into field kvs s True
            | Inr t \<Rightarrow> json_fields_into field kvs t bad)
      else json_fields_into field kvs s bad)"

text \<open>\<^verbatim>\<open>json.Unmarshal(data, &struct{ F string `json:"field"` })\<close>\<close>

fun json_into_struct :: "string \<Rightarrow> json \<Rightarrow> go_error + string" where
  "json_into_struct field None = Inl json_syntax_error"
| "json_into_struct field (Some (Obj kvs)) = json_fields_into field kvs '''' False"
| "json_into_struct field (Some Nil) = Inr ''''"
| "json_into_struct field (Some v) = Inl json_type_error"

text \<open>
  \<^verbatim>\<open>json.Marshal\<close> of a Go string writes valid UTF-8: every byte that is not part of a
  well-formed encoding becomes the three bytes of U+FFFD. \<open>rune_length\<close> is the length of the
  encoding at the head of a byte string, 0 where there is none.
\<close>

definition cont_byte :: "nat \<Rightarrow> bool" where
  "cont_byte b \<longleftrightarrow> 128 \<le> b \<and> b \<le> 191"

fun rune_length :: "nat list \<Rightarrow> nat" where
  "rune_length [] = 0"
| "rune_length (a # bs) =
     (if a < 128 then 1
      else if 194 \<le> a \<and> a \<le> 223 then
        (case bs of b # _ \<Rightarrow> if cont_byte b then 2 else 0 | _ \<Rightarrow> 0)
      else if 224 \<le> a \<and> a \<le> 239 then
        (case bs of b # c # _ \<Rightarrow>
           if (if a = 224 then 160 else 128) \<le> b \<and> b \<le> (if a = 237 then 159 else 191) \<and> cont_byte c
           then 3 else 0
         | _ \<Rightarrow> 0)
      else if 240 \<le> a \<and> a \<le> 244 then
        (case bs of b # c # d # _ \<Rightarrow>
           if (if a = 240 then 144 else 128) \<le> b \<and> b \<le> (if a = 244 then 143 else 191) \<and>
              cont_byte c \<and> cont_byte d
           then 4 else 0
         | _ \<Rightarrow> 0)
      else 0)"

function to_valid_utf8 :: "string \<Rightarrow> string" where
  "to_valid_utf8 [] = []"
| "to_valid_utf8 (c # cs) =
     (case rune_length (map of_char (c # cs)) of
        0 \<Rightarrow> map char_of [239 :: nat, 191, 189] @ to_valid_utf8 cs
      | Suc n \<Rightarrow> (c # take n cs) @ to_valid_utf8 (drop n cs))"
  by pat_completeness auto
termination by (relation "measure length") auto

lemma to_valid_utf8_ascii: "\<forall>c\<in>set s. (of_char c :: nat) < 128 \<Longrightarrow> to_valid_utf8 s = s"
  by (induction s) auto

definition json_marshal_string :: "string \<Rightarrow> json" where
  "json_marshal_string s = Some (Str (to_valid_utf8 s))"

section \<open>PlatformName\<close>

type_synonym PlatformName = string

definition PlatformName_String :: "PlatformName \<Rightarrow> string" where
  "PlatformName_String p = p"

definition PlatformName_MarshalJSON :: "PlatformName \<Rightarrow> json" where
  "PlatformName_MarshalJSON p = json_marshal_string p"

text \<open>The receiver is a pointer: \<open>None\<close> is nil. The result is the value written through it.\<close>

definition PlatformName_UnmarshalJSON :: "PlatformName option \<Rightarrow> json \<Rightarrow> go_error + PlatformName" where
  "PlatformName_UnmarshalJSON p data =
     (case p of
        None \<Rightarrow> Inl (new_error ''PlatformName: UnmarshalJSON on nil pointer'')
      | Some _ \<Rightarrow>
          (case json_into_string data '''' of
             Inr s \<Rightarrow> Inr s
           | Inl _ \<Rightarrow>
               (case json_into_struct ''name'' data of
                  Inl e \<Rightarrow> Inl (wrapf ''PlatformName: expected string or object with name: %w'' [] e)
                | Inr s \<Rightarrow> Inr s)))"

text \<open>
  Reading back what \<^verbatim>\<open>MarshalJSON\<close> wrote gives the same name up to invalid UTF-8, so
  exactly the same name when it is ASCII, and an object in the legacy shape gives its name,
  whatever the version in it.
\<close>

theorem PlatformName_roundtrip:
  "PlatformName_UnmarshalJSON (Some old) (PlatformName_MarshalJSON p) = Inr (to_valid_utf8 p) \<and>
   (to_valid_utf8 p = p \<or> (\<exists>c\<in>set p. (of_char c :: nat) \<ge> 128)) \<and>
   PlatformName_UnmarshalJSON (Some old) (Some (Obj [(''name'', Str p), (''version'', v)])) = Inr p"
proof -
  have "to_valid_utf8 p = p \<or> (\<exists>c\<in>set p. (of_char c :: nat) \<ge> 128)"
    using to_valid_utf8_ascii [of p] by (meson not_less)
  then show ?thesis
    by (simp add: PlatformName_UnmarshalJSON_def PlatformName_MarshalJSON_def
        json_marshal_string_def key_matches_def)
qed

definition name_decodes :: "(string \<times> any) list \<Rightarrow> bool" where
  "name_decodes kvs \<longleftrightarrow>
     (\<forall>(k, v) \<in> set kvs. key_matches ''name'' k \<longrightarrow> v = Nil \<or> (\<exists>s. v = Str s))"

lemma json_into_string_Inr:
  "(\<exists>t. json_into_string (Some v) s = Inr t) \<longleftrightarrow> v = Nil \<or> (\<exists>t. v = Str t)"
  by (cases v) auto

lemma json_fields_into_Inr:
  "(\<exists>t. json_fields_into ''name'' kvs s bad = Inr t) \<longleftrightarrow> \<not> bad \<and> name_decodes kvs"
proof (induction kvs arbitrary: s bad)
  case Nil
  then show ?case by (simp add: name_decodes_def)
next
  case (Cons kv kvs)
  obtain k v where "kv = (k, v)" by (cases kv)
  then show ?case
    using Cons.IH by (cases v) (auto simp: name_decodes_def)
qed

text \<open>
  Decoding succeeds on exactly three shapes: a string, null, and an object in which every key
  that reads as \<^verbatim>\<open>name\<close> holds a string or null.
\<close>

theorem PlatformName_accepts:
  "(\<exists>p. PlatformName_UnmarshalJSON (Some old) data = Inr p) \<longleftrightarrow>
   data = Some Nil \<or> (\<exists>s. data = Some (Str s)) \<or> (\<exists>kvs. data = Some (Obj kvs) \<and> name_decodes kvs)"
proof (cases data)
  case None
  then show ?thesis by (simp add: PlatformName_UnmarshalJSON_def)
next
  case (Some v)
  show ?thesis
  proof (cases v)
    case (Obj kvs)
    then show ?thesis
      using Some json_fields_into_Inr [of kvs "''''" False]
      by (cases "json_fields_into ''name'' kvs '''' False")
        (simp_all add: PlatformName_UnmarshalJSON_def)
  qed (simp_all add: Some PlatformName_UnmarshalJSON_def)
qed

section \<open>SemVer\<close>

record 'v semver_lib =
  parse_tolerant :: "string \<Rightarrow> go_error + 'v"
  version_string :: "'v \<Rightarrow> string"
  version_gt :: "'v \<Rightarrow> 'v \<Rightarrow> bool"

type_synonym SemVer = string

definition NewSemVer :: "'v semver_lib \<Rightarrow> string \<Rightarrow> go_error + SemVer" where
  "NewSemVer L s =
     (case parse_tolerant L s of
        Inl e \<Rightarrow> Inl (wrapf ''invalid semver %q: %w'' [s] e)
      | Inr parsed \<Rightarrow> Inr (version_string L parsed))"

definition SemVer_IsZero :: "SemVer \<Rightarrow> bool" where
  "SemVer_IsZero v \<longleftrightarrow> v = ''''"

definition SemVer_Parse :: "'v semver_lib \<Rightarrow> SemVer \<Rightarrow> go_error + 'v" where
  "SemVer_Parse L v = parse_tolerant L v"

definition SemVer_GT :: "'v semver_lib \<Rightarrow> SemVer \<Rightarrow> SemVer \<Rightarrow> bool" where
  "SemVer_GT L v other =
     (case SemVer_Parse L v of
        Inl _ \<Rightarrow> False
      | Inr cv \<Rightarrow>
          (case SemVer_Parse L other of
             Inl _ \<Rightarrow> False
           | Inr ov \<Rightarrow> version_gt L cv ov))"

definition SemVer_String :: "SemVer \<Rightarrow> string" where
  "SemVer_String v = v"

definition SemVer_MarshalJSON :: "SemVer \<Rightarrow> json" where
  "SemVer_MarshalJSON v = json_marshal_string v"

definition SemVer_UnmarshalJSON :: "'v semver_lib \<Rightarrow> json \<Rightarrow> go_error + SemVer" where
  "SemVer_UnmarshalJSON L data =
     (case json_into_string data '''' of
        Inl e \<Rightarrow> Inl e
      | Inr s \<Rightarrow>
          if s = '''' then Inr ''''
          else
            (case parse_tolerant L s of
               Inl e \<Rightarrow> Inl (wrapf ''invalid semver %q: %w'' [s] e)
             | Inr parsed \<Rightarrow> Inr (version_string L parsed)))"

text \<open>
  What the code relies on of \<^verbatim>\<open>blang/semver\<close>: a parsed version prints to text that parses
  back to it, printed text is not empty, and \<^verbatim>\<open>GT\<close> is a strict order.
\<close>

locale semver_contract =
  fixes L :: "'v semver_lib"
  assumes reparse: "parse_tolerant L s = Inr v \<Longrightarrow> parse_tolerant L (version_string L v) = Inr v"
    and printed_nonempty: "parse_tolerant L s = Inr v \<Longrightarrow> version_string L v \<noteq> ''''"
    and printed_ascii:
      "parse_tolerant L s = Inr v \<Longrightarrow> \<forall>c\<in>set (version_string L v). (of_char c :: nat) < 128"
    and gt_irrefl: "\<not> version_gt L v v"
    and gt_trans: "version_gt L u v \<Longrightarrow> version_gt L v w \<Longrightarrow> version_gt L u w"
begin

lemma new_semver_fixed: "NewSemVer L s = Inr v \<Longrightarrow> NewSemVer L v = Inr v"
  by (auto simp: NewSemVer_def reparse split: sum.splits)

lemma gt_asym_versions: "\<not> SemVer_GT L v v"
  by (simp add: SemVer_GT_def gt_irrefl split: sum.splits)

lemma gt_trans_versions: "SemVer_GT L u v \<Longrightarrow> SemVer_GT L v w \<Longrightarrow> SemVer_GT L u w"
  by (auto simp: SemVer_GT_def split: sum.splits intro: gt_trans)

lemma unmarshal_canonical:
  "SemVer_UnmarshalJSON L data = Inr v \<Longrightarrow> SemVer_UnmarshalJSON L (SemVer_MarshalJSON v) = Inr v"
  by (auto simp: SemVer_UnmarshalJSON_def SemVer_MarshalJSON_def json_marshal_string_def
      reparse printed_nonempty to_valid_utf8_ascii [OF printed_ascii]
      split: sum.splits if_splits)

end

section \<open>Status records\<close>

record component_release =
  cr_name :: string
  cr_version :: string
  cr_repo_url :: string

type_synonym SourceRenderer = string

definition SourceRendererKustomize :: SourceRenderer where
  "SourceRendererKustomize = ''kustomize''"

definition SourceRendererHelm :: SourceRenderer where
  "SourceRendererHelm = ''helm''"

definition SourceRendererTemplate :: SourceRenderer where
  "SourceRendererTemplate = ''template''"

datatype source_status = SourceStatus (ss_path: string) (ss_renderer: string)

record module_status =
  ms_version :: SemVer
  ms_build_source :: string
  ms_platform :: PlatformName
  ms_sources :: "source_status list"

section \<open>The AIGateway object\<close>

record batch_gateway_component =
  bg_management_state :: string

record models_as_a_service_component =
  maas_management_state :: string

record ai_grid_component =
  grid_management_state :: string

record aigateway_spec =
  spec_batch_gateway :: batch_gateway_component
  spec_models_as_a_service :: models_as_a_service_component
  spec_ai_grid :: ai_grid_component

text \<open>
  The status conditions of the object are reached through the condition manager of the
  reconciliation request only, and are part of its state there.
\<close>

record aigateway_status =
  st_releases :: "component_release list"
  st_module :: module_status

record aigateway =
  gw_meta :: object_meta
  gw_spec :: aigateway_spec
  gw_status :: aigateway_status

definition releases :: "aigateway \<Rightarrow> component_release list" where
  "releases obj = st_releases (gw_status obj)"

definition SetReleaseStatus :: "aigateway \<Rightarrow> component_release list \<Rightarrow> aigateway" where
  "SetReleaseStatus obj rs = obj\<lparr>gw_status := (gw_status obj)\<lparr>st_releases := rs\<rparr>\<rparr>"

definition SetModuleStatus :: "aigateway \<Rightarrow> module_status \<Rightarrow> aigateway" where
  "SetModuleStatus obj ms = obj\<lparr>gw_status := (gw_status obj)\<lparr>st_module := ms\<rparr>\<rparr>"

abbreviation batch_state :: "aigateway \<Rightarrow> string" where
  "batch_state obj \<equiv> bg_management_state (spec_batch_gateway (gw_spec obj))"

abbreviation maas_state :: "aigateway \<Rightarrow> string" where
  "maas_state obj \<equiv> maas_management_state (spec_models_as_a_service (gw_spec obj))"

abbreviation grid_state :: "aigateway \<Rightarrow> string" where
  "grid_state obj \<equiv> grid_management_state (spec_ai_grid (gw_spec obj))"

lemma SetReleaseStatus_simps [simp]:
  "releases (SetReleaseStatus obj rs) = rs"
  "gw_spec (SetReleaseStatus obj rs) = gw_spec obj"
  "gw_meta (SetReleaseStatus obj rs) = gw_meta obj"
  "st_module (gw_status (SetReleaseStatus obj rs)) = st_module (gw_status obj)"
  by (simp_all add: SetReleaseStatus_def releases_def)

lemma SetModuleStatus_simps [simp]:
  "releases (SetModuleStatus obj ms) = releases obj"
  "gw_spec (SetModuleStatus obj ms) = gw_spec obj"
  "gw_meta (SetModuleStatus obj ms) = gw_meta obj"
  "st_module (gw_status (SetModuleStatus obj ms)) = ms"
  by (simp_all add: SetModuleStatus_def releases_def)

end
