(* ===== verification/Config.thy ===== *)
theory Config
  imports Api_Types
begin

text \<open>
  The operator's configuration, \<^verbatim>\<open>pkg/config\<close>.
\<close>

section \<open>The configuration record\<close>

record config =
  MetricsAddr :: string
  MetricsSecure :: bool
  MetricsCertPath :: string
  HealthProbeAddr :: string
  PprofAddr :: string
  LeaderElect :: bool
  LeaderElectionID :: string
  ManifestsPath :: string
  ApplicationsNamespace :: string
  PlatformType :: string
  PlatformVersion :: string

text \<open>\<^verbatim>\<open>common.Release\<close>: the version is a library value, its zero value 0.0.0.\<close>

record 'v release =
  rel_name :: string
  rel_version :: 'v

definition config_Release :: "'v semver_lib \<Rightarrow> 'v \<Rightarrow> config \<Rightarrow> 'v release" where
  "config_Release L zero c =
     (let rel = \<lparr>rel_name = PlatformType c, rel_version = zero\<rparr> in
      if PlatformVersion c \<noteq> '''' then
        (case parse_tolerant L (PlatformVersion c) of
           Inr v \<Rightarrow> rel\<lparr>rel_version := v\<rparr>
         | Inl _ \<Rightarrow> rel)
      else rel)"

end
