(* ===== verification/Namespaces.thy ===== *)
theory Namespaces
  imports Go_Base
begin

unbundle bit_operations_syntax

text \<open>
  Names derived from the applications namespace
  (\<^verbatim>\<open>internal/controller/aigateway/aigateway.go\<close>): the infrastructure namespace of MaaS, the
  namespace of the AI Grid operator, and the names of the AI Grid CRDs with the watch predicates
  over object names. The lemmas show that a derived namespace is a valid DNS-1123 label whenever
  the applications namespace is one, and exactly when two derived names coincide.
\<close>

section \<open>Constants\<close>

definition componentName :: string where
  "componentName = ''aigateway''"

definition rhoaiApplicationsNS :: string where
  "rhoaiApplicationsNS = ''redhat-ods-applications''"

definition rhoaiInfrastructureNS :: string where
  "rhoaiInfrastructureNS = ''redhat-ai-gateway-infra''"

definition odhApplicationsNS :: string where
  "odhApplicationsNS = ''opendatahub''"

definition odhInfrastructureNS :: string where
  "odhInfrastructureNS = ''odh-ai-gateway-infra''"

definition platformConfigName :: string where
  "platformConfigName = ''odh-'' @ componentName @ ''-config''"

text \<open>
  \<^verbatim>\<open>validation.DNS1123LabelMaxLength\<close> of apimachinery: the length limit of a DNS label
  (RFC 1123).
\<close>

definition dns1123LabelMaxLength :: nat where
  "dns1123LabelMaxLength = 63"

lemmas namespace_consts =
  componentName_def rhoaiApplicationsNS_def rhoaiInfrastructureNS_def odhApplicationsNS_def
  odhInfrastructureNS_def platformConfigName_def dns1123LabelMaxLength_def

section \<open>Derived namespaces\<close>

definition deriveInfrastructureNamespace :: "string \<Rightarrow> string" where
  "deriveInfrastructureNamespace appNs =
     (if appNs = rhoaiApplicationsNS then rhoaiInfrastructureNS
      else if appNs = odhApplicationsNS then odhInfrastructureNS
      else appNs)"

text \<open>\<^verbatim>\<open>hash/fnv.New32a\<close>: per byte, exclusive or, then the product modulo \<open>2\<^sup>3\<^sup>2\<close>.\<close>

definition fnv32a :: "string \<Rightarrow> 32 word" where
  "fnv32a s = fold (\<lambda>c h. (h XOR of_char c) * 16777619) s 2166136261"

definition aiGridSuffix :: string where
  "aiGridSuffix = ''-ai-grid''"

text \<open>The shortened name: a prefix without trailing dashes, a dash, the hash, the suffix.\<close>

definition shortenedBase :: "string \<Rightarrow> string" where
  "shortenedBase appNs =
     trim_right CHR ''-''
       (take (dns1123LabelMaxLength - length aiGridSuffix - length (hex08 (fnv32a appNs)) - 1) appNs)"

definition deriveAIGridNamespace :: "string \<Rightarrow> string" where
  "deriveAIGridNamespace appNs =
     (if appNs = rhoaiApplicationsNS then ''redhat-ai-grid''
      else if appNs = odhApplicationsNS then ''odh-ai-grid''
      else if length appNs + length aiGridSuffix \<le> dns1123LabelMaxLength then appNs @ aiGridSuffix
      else shortenedBase appNs @ ''-'' @ hex08 (fnv32a appNs) @ aiGridSuffix)"

section \<open>Names of CRDs and watch predicates\<close>

definition aiGridCRDSuffix :: string where
  "aiGridCRDSuffix = ''.grid.praxis.fast''"

definition aiGridCRDNames :: "string list" where
  "aiGridCRDNames =
     [''agenttoolproviders'' @ aiGridCRDSuffix,
      ''gridnetworks'' @ aiGridCRDSuffix,
      ''gridsites'' @ aiGridCRDSuffix,
      ''inferenceproviders'' @ aiGridCRDSuffix,
      ''siteinvites'' @ aiGridCRDSuffix]"

definition aiGridCRDPredicate :: "string \<Rightarrow> bool" where
  "aiGridCRDPredicate name = has_suffix name aiGridCRDSuffix"

definition platformConfigMapPredicate :: "string \<Rightarrow> string \<Rightarrow> string \<Rightarrow> bool" where
  "platformConfigMapPredicate ns name namespace = (name = platformConfigName \<and> namespace = ns)"

section \<open>Validity of derived names\<close>

text \<open>RFC 1123 labels: what the API server accepts as the name of a namespace.\<close>

definition dns_alnum :: "char \<Rightarrow> bool" where
  "dns_alnum c \<longleftrightarrow> c \<in> set ''abcdefghijklmnopqrstuvwxyz0123456789''"

definition dns1123_label :: "string \<Rightarrow> bool" where
  "dns1123_label s \<longleftrightarrow>
     s \<noteq> [] \<and> length s \<le> 63 \<and> (\<forall>c\<in>set s. dns_alnum c \<or> c = CHR ''-'') \<and>
     dns_alnum (hd s) \<and> dns_alnum (last s)"

lemma dns_label_parts:
  assumes "dns1123_label s"
  shows "s \<noteq> []" "length s \<le> 63" "\<forall>c\<in>set s. dns_alnum c \<or> c = CHR ''-''"
    "dns_alnum (hd s)" "dns_alnum (last s)"
  using assms by (simp_all add: dns1123_label_def)

lemma dash_not_alnum [simp]: "\<not> dns_alnum CHR ''-''"
  by (simp add: dns_alnum_def)

lemma hex_alnum: "c \<in> set (hex08 h) \<Longrightarrow> dns_alnum c"
proof -
  assume "c \<in> set (hex08 h)"
  then have "c \<in> set ''0123456789abcdef''"
    using set_hex08 by blast
  then show ?thesis
    unfolding dns_alnum_def by auto
qed

text \<open>
  Appending a block of label characters that ends in an alphanumeric one keeps a non-empty label
  prefix a label, up to the length.
\<close>

lemma dns1123_label_append:
  assumes "s \<noteq> []" "\<forall>c\<in>set s. dns_alnum c \<or> c = CHR ''-''" "dns_alnum (hd s)"
    and "t \<noteq> []" "\<forall>c\<in>set t. dns_alnum c \<or> c = CHR ''-''" "dns_alnum (last t)"
    and "length s + length t \<le> 63"
  shows "dns1123_label (s @ t)"
  using assms by (auto simp: dns1123_label_def)

lemma aiGridSuffix_facts:
  "length aiGridSuffix = 8" "aiGridSuffix \<noteq> []" "dns_alnum (last aiGridSuffix)"
  "\<forall>c\<in>set aiGridSuffix. dns_alnum c \<or> c = CHR ''-''"
  by (simp_all add: aiGridSuffix_def dns_alnum_def)

lemma shortenedBase_eq: "shortenedBase appNs = trim_right CHR ''-'' (take 46 appNs)"
  by (simp add: shortenedBase_def aiGridSuffix_facts dns1123LabelMaxLength_def)

lemma length_shortenedBase: "length (shortenedBase appNs) \<le> 46"
  unfolding shortenedBase_eq by (rule order_trans [OF length_trim_right]) simp

lemma shortenedBase_label:
  assumes "dns1123_label appNs"
  shows "shortenedBase appNs \<noteq> []" "dns_alnum (hd (shortenedBase appNs))"
    "\<forall>c\<in>set (shortenedBase appNs). dns_alnum c \<or> c = CHR ''-''"
proof -
  note p = dns_label_parts [OF assms]
  let ?t = "take 46 appNs"
  have hd: "hd ?t = hd appNs" and ne: "?t \<noteq> []"
    using p(1) by (simp_all add: hd_take)
  have "hd ?t \<in> set ?t" using ne by (rule hd_in_set)
  moreover have "hd ?t \<noteq> CHR ''-''"
    using p(4) hd by auto
  ultimately show ne': "shortenedBase appNs \<noteq> []"
    unfolding shortenedBase_eq trim_right_empty_iff by blast
  then have "hd (shortenedBase appNs) = hd appNs"
    using hd hd_trim_right shortenedBase_eq by metis
  then show "dns_alnum (hd (shortenedBase appNs))"
    using p(4) by simp
  show "\<forall>c\<in>set (shortenedBase appNs). dns_alnum c \<or> c = CHR ''-''"
    using p(3) set_trim_right [of "CHR ''-''" ?t] set_take_subset [of 46 appNs]
    unfolding shortenedBase_eq by blast
qed

lemma derived_tail:
  "\<forall>c\<in>set (''-'' @ hex08 h @ aiGridSuffix). dns_alnum c \<or> c = CHR ''-''"
  "dns_alnum (last (''-'' @ hex08 h @ aiGridSuffix))"
  "length (''-'' @ hex08 h @ aiGridSuffix) = 17"
  using aiGridSuffix_facts hex_alnum by auto

text \<open>
  C18. If the applications namespace is a valid Kubernetes namespace name (a DNS-1123 label), the
  namespace derived for the AI Grid operator is one too, on all four branches.
\<close>

theorem deriveAIGridNamespace_label:
  assumes "dns1123_label appNs"
  shows "dns1123_label (deriveAIGridNamespace appNs)"
proof -
  note p = dns_label_parts [OF assms]
  have special: "dns1123_label ''redhat-ai-grid''" "dns1123_label ''odh-ai-grid''"
    by (simp_all add: dns1123_label_def dns_alnum_def)
  have short: "dns1123_label (appNs @ aiGridSuffix)"
    if "length appNs + length aiGridSuffix \<le> dns1123LabelMaxLength"
    using p that aiGridSuffix_facts
    by (intro dns1123_label_append) (simp_all add: dns1123LabelMaxLength_def)
  have long: "dns1123_label (shortenedBase appNs @ (''-'' @ hex08 (fnv32a appNs) @ aiGridSuffix))"
    using shortenedBase_label [OF assms] derived_tail [of "fnv32a appNs"]
      length_shortenedBase [of appNs]
    by (intro dns1123_label_append) auto
  show ?thesis
    using special short long by (simp add: deriveAIGridNamespace_def)
qed

theorem deriveAIGridNamespace_label_witness:
  "dns1123_label (deriveAIGridNamespace (replicate 50 CHR ''a'' @ replicate 13 CHR ''z''))"
  by (rule deriveAIGridNamespace_label) (simp add: dns1123_label_def dns_alnum_def)

text \<open>
  Whatever the bytes of the applications namespace, the derived name never exceeds the 63 bytes
  of a namespace name.
\<close>

theorem deriveAIGridNamespace_length: "length (deriveAIGridNamespace appNs) \<le> 63"
  using length_shortenedBase [of appNs]
  by (simp add: deriveAIGridNamespace_def aiGridSuffix_facts dns1123LabelMaxLength_def)

lemma deriveAIGridNamespace_long:
  assumes "55 < length appNs"
  shows "deriveAIGridNamespace appNs =
    shortenedBase appNs @ ''-'' @ hex08 (fnv32a appNs) @ aiGridSuffix"
  using assms
  by (auto simp: deriveAIGridNamespace_def rhoaiApplicationsNS_def odhApplicationsNS_def
      aiGridSuffix_facts dns1123LabelMaxLength_def)

text \<open>
  Two applications namespaces too long for the plain suffix get the same AI Grid namespace
  exactly when their shortened bases agree and their 32-bit FNV-1a hashes collide: the hash in the
  name is the whole hash of the whole name.
\<close>

theorem deriveAIGridNamespace_long_eq_iff:
  assumes "55 < length a" and "55 < length b"
  shows "deriveAIGridNamespace a = deriveAIGridNamespace b \<longleftrightarrow>
    shortenedBase a = shortenedBase b \<and> fnv32a a = fnv32a b"
proof -
  have "length (''-'' @ hex08 (fnv32a a) @ aiGridSuffix) = length (''-'' @ hex08 (fnv32a b) @ aiGridSuffix)"
    by simp
  then have "deriveAIGridNamespace a = deriveAIGridNamespace b \<longleftrightarrow>
      shortenedBase a = shortenedBase b \<and>
      ''-'' @ hex08 (fnv32a a) @ aiGridSuffix = ''-'' @ hex08 (fnv32a b) @ aiGridSuffix"
    unfolding deriveAIGridNamespace_long [OF assms(1)] deriveAIGridNamespace_long [OF assms(2)]
    by (metis append_eq_append_conv)
  then show ?thesis
    using hex08_inj by auto
qed

text \<open>
  One round of FNV-1a is injective in the hash (the prime is odd, hence invertible modulo
  \<open>2\<^sup>3\<^sup>2\<close>) and in the byte.
\<close>

definition fnv_round :: "char \<Rightarrow> 32 word \<Rightarrow> 32 word" where
  "fnv_round c h = (h XOR of_char c) * 16777619"

lemma fnv32a_fold: "fnv32a s = fold fnv_round s 2166136261"
  by (simp add: fnv32a_def fnv_round_def [abs_def])

lemma fnv_prime_cancel: "(x::32 word) * 16777619 = y * 16777619 \<longleftrightarrow> x = y"
proof
  assume "x * 16777619 = y * 16777619"
  then have "x * (16777619 * 899433627) = y * (16777619 * 899433627)"
    by (simp only: mult.assoc [symmetric])
  moreover have inverse: "(16777619 :: 32 word) * 899433627 = 1"
    by simp
  ultimately have "x * 1 = y * 1" by (simp only: inverse)
  then show "x = y" by simp
qed simp

lemma xor_cancel: "(x::32 word) XOR z = y XOR z \<longleftrightarrow> x = y"
proof
  assume "x XOR z = y XOR z"
  then have "(x XOR z) XOR z = (y XOR z) XOR z" by (simp only:)
  then show "x = y" by (simp add: xor.assoc)
qed simp

lemma of_char_word_inject: "(of_char c :: 32 word) = of_char d \<longleftrightarrow> c = d"
proof
  assume "(of_char c :: 32 word) = of_char d"
  then have "unat (of_nat (of_char c) :: 32 word) = unat (of_nat (of_char d) :: 32 word)"
    by (simp only: of_nat_of_char)
  moreover have "(of_char x :: nat) < 2 ^ 32" for x
    using nat_of_char_less_256 [of x] by (rule less_trans) simp
  ultimately have "(of_char c :: nat) = of_char d"
    by (simp add: unat_of_nat take_bit_nat_eq_self)
  then show "c = d" by simp
qed simp

lemma fnv_round_inject:
  "fnv_round c g = fnv_round c h \<longleftrightarrow> g = h"
  "fnv_round c h = fnv_round d h \<longleftrightarrow> c = d"
proof -
  show "fnv_round c g = fnv_round c h \<longleftrightarrow> g = h"
    by (simp only: fnv_round_def fnv_prime_cancel xor_cancel)
  show "fnv_round c h = fnv_round d h \<longleftrightarrow> c = d"
    by (simp only: fnv_round_def fnv_prime_cancel xor.commute [of h] xor_cancel of_char_word_inject)
qed

lemma fold_fnv_inject: "fold fnv_round t g = fold fnv_round t h \<longleftrightarrow> g = h"
  by (induction t arbitrary: g h) (simp_all add: fnv_round_inject)

lemma fnv32a_one_byte: "fnv32a (s @ c # t) = fnv32a (s @ d # t) \<longleftrightarrow> c = d"
  by (simp add: fnv32a_fold fold_fnv_inject fnv_round_inject)

theorem deriveAIGridNamespace_long_eq_iff_witness:
  "deriveAIGridNamespace (replicate 60 CHR ''a'' @ ''b'') \<noteq>
   deriveAIGridNamespace (replicate 60 CHR ''a'' @ ''c'')"
proof -
  have "fnv32a (replicate 60 CHR ''a'' @ ''b'') \<noteq> fnv32a (replicate 60 CHR ''a'' @ ''c'')"
    by (simp add: fnv32a_one_byte)
  then show ?thesis
    by (subst deriveAIGridNamespace_long_eq_iff) simp_all
qed

text \<open>
  Two long applications namespaces that differ in a single byte, wherever it is (in particular
  past the point where the base is cut), never share an AI Grid namespace.
\<close>

theorem deriveAIGridNamespace_one_byte:
  assumes "55 < length (s @ c # t)" and "c \<noteq> d"
  shows "deriveAIGridNamespace (s @ c # t) \<noteq> deriveAIGridNamespace (s @ d # t)"
proof -
  have "fnv32a (s @ c # t) \<noteq> fnv32a (s @ d # t)"
    using assms(2) fnv32a_one_byte by blast
  then have "hex08 (fnv32a (s @ c # t)) \<noteq> hex08 (fnv32a (s @ d # t))"
    using hex08_inj by blast
  then show ?thesis
    using assms(1) deriveAIGridNamespace_long [of "s @ c # t"] deriveAIGridNamespace_long [of "s @ d # t"]
    by (simp add: append_eq_append_conv [symmetric])
qed

theorem deriveAIGridNamespace_one_byte_witness:
  "deriveAIGridNamespace (replicate 60 CHR ''a'' @ CHR ''b'' # []) \<noteq>
   deriveAIGridNamespace (replicate 60 CHR ''a'' @ CHR ''c'' # [])"
  by (rule deriveAIGridNamespace_one_byte) simp_all

text \<open>For a short name, the part in front of the suffix.\<close>

definition gridStem :: "string \<Rightarrow> string" where
  "gridStem appNs =
     (if appNs = rhoaiApplicationsNS then ''redhat''
      else if appNs = odhApplicationsNS then ''odh'' else appNs)"

lemma deriveAIGridNamespace_short:
  "length appNs \<le> 55 \<Longrightarrow> deriveAIGridNamespace appNs = gridStem appNs @ aiGridSuffix"
  by (simp add: deriveAIGridNamespace_def gridStem_def aiGridSuffix_def dns1123LabelMaxLength_def)

lemma special_names_distinct:
  "rhoaiApplicationsNS \<noteq> odhApplicationsNS" "''odh'' \<noteq> odhApplicationsNS"
  "''odh'' \<noteq> rhoaiApplicationsNS" "''redhat'' \<noteq> rhoaiApplicationsNS"
  "odhApplicationsNS \<noteq> ''redhat''" "rhoaiApplicationsNS \<noteq> ''odh''"
  "''redhat'' \<noteq> odhApplicationsNS" "''odh-ai-grid'' \<noteq> ''redhat-ai-grid''"
  by (simp_all add: namespace_consts)

text \<open>
  C35. On names short enough for the plain suffix, two different applications namespaces share an
  AI Grid namespace in exactly two cases: \<^verbatim>\<open>opendatahub\<close> with \<^verbatim>\<open>odh\<close>, and
  \<^verbatim>\<open>redhat-ods-applications\<close> with \<^verbatim>\<open>redhat\<close>.
\<close>

theorem deriveAIGridNamespace_short_eq_iff:
  assumes "length a \<le> 55" and "length b \<le> 55"
  shows "deriveAIGridNamespace a = deriveAIGridNamespace b \<longleftrightarrow>
    a = b \<or> {a, b} = {odhApplicationsNS, ''odh''} \<or> {a, b} = {rhoaiApplicationsNS, ''redhat''}"
proof -
  have "deriveAIGridNamespace a = deriveAIGridNamespace b \<longleftrightarrow> gridStem a = gridStem b"
    using assms by (simp add: deriveAIGridNamespace_short)
  also have "\<dots> \<longleftrightarrow> a = b \<or> {a, b} = {odhApplicationsNS, ''odh''} \<or>
      {a, b} = {rhoaiApplicationsNS, ''redhat''}"
    using special_names_distinct by (auto simp: gridStem_def doubleton_eq_iff)
  finally show ?thesis .
qed

theorem deriveAIGridNamespace_short_eq_iff_witness:
  "deriveAIGridNamespace ''opendatahub'' = deriveAIGridNamespace ''odh''"
  by (subst deriveAIGridNamespace_short_eq_iff) (simp_all add: odhApplicationsNS_def)

section \<open>Infrastructure namespace and predicates\<close>

lemma deriveInfrastructureNamespace_same_iff:
  "deriveInfrastructureNamespace appNs = appNs \<longleftrightarrow>
     appNs \<notin> {rhoaiApplicationsNS, odhApplicationsNS}"
  by (simp add: deriveInfrastructureNamespace_def namespace_consts)

lemma deriveInfrastructureNamespace_idem:
  "deriveInfrastructureNamespace (deriveInfrastructureNamespace appNs) =
     deriveInfrastructureNamespace appNs"
  by (simp add: deriveInfrastructureNamespace_def namespace_consts)

lemma aiGridCRDNames_match: "name \<in> set aiGridCRDNames \<Longrightarrow> aiGridCRDPredicate name"
  by (auto simp: aiGridCRDNames_def aiGridCRDPredicate_def has_suffix_def aiGridCRDSuffix_def)

lemma distinct_aiGridCRDNames: "distinct aiGridCRDNames"
  by (simp add: aiGridCRDNames_def aiGridCRDSuffix_def)

text \<open>Published FNV-1a test vectors.\<close>

lemma fnv32a_vectors:
  "fnv32a '''' = 0x811c9dc5" "fnv32a ''a'' = 0xe40c292c" "fnv32a ''foobar'' = 0xbf9cf968"
  by (simp_all add: fnv32a_def)

lemma hex08_vector: "hex08 0x0000beef = ''0000beef''"
  by (simp add: hex08_def hex_digit_def)

end
