(* ===== verification/Request.thy ===== *)
theory Request
  imports Config Namespaces
begin

text \<open>
  The state the actions of the controller share: the reconciliation request of the framework
  (\<^verbatim>\<open>odhtypes.ReconciliationRequest\<close>), the \<^verbatim>\<open>Module\<close> with its process-lifetime
  state, and the third-party functions the actions call, as the parameter record \<open>lib\<close>. The
  contract \<open>condition_manager\<close> says what the operator relies on of the framework's condition
  manager.
\<close>

section \<open>Conditions\<close>

record condition =
  c_status :: string
  c_severity :: string
  c_reason :: string
  c_message :: string

text \<open>The options of \<^verbatim>\<open>MarkTrue\<close>/\<^verbatim>\<open>MarkFalse\<close>, in the order they are passed.\<close>

datatype cond_option =
    WithSeverity string
  | WithReason string
  | WithMessage string "string list"

definition ConditionSeverityInfo :: string where "ConditionSeverityInfo = ''Info''"

definition ConditionTrue :: string where "ConditionTrue = ''True''"
definition ConditionFalse :: string where "ConditionFalse = ''False''"

text \<open>
  \<^verbatim>\<open>fmt.Sprintf\<close> with the one verb the messages of the operator use, \<^verbatim>\<open>%s\<close>.
\<close>

fun sprintf :: "string \<Rightarrow> string list \<Rightarrow> string" where
  "sprintf [] args = []"
| "sprintf [c] args = [c]"
| "sprintf (c # d # fmt) args =
     (if c = CHR ''%'' \<and> d = CHR ''s''
      then (case args of a # as \<Rightarrow> a @ sprintf fmt as | [] \<Rightarrow> ''%!s(MISSING)'' @ sprintf fmt [])
      else c # sprintf (d # fmt) args)"

definition apply_option :: "cond_option \<Rightarrow> condition \<Rightarrow> condition" where
  "apply_option opt c =
     (case opt of
        WithSeverity s \<Rightarrow> c\<lparr>c_severity := s\<rparr>
      | WithReason r \<Rightarrow> c\<lparr>c_reason := r\<rparr>
      | WithMessage fmt args \<Rightarrow> c\<lparr>c_message := sprintf fmt args\<rparr>)"

definition marked :: "string \<Rightarrow> cond_option list \<Rightarrow> condition" where
  "marked st opts =
     fold apply_option opts \<lparr>c_status = st, c_severity = '''', c_reason = '''', c_message = ''''\<rparr>"

lemma marked_simps [simp]:
  "marked st [] = \<lparr>c_status = st, c_severity = '''', c_reason = '''', c_message = ''''\<rparr>"
  "marked st [WithReason r, WithMessage f as] =
     \<lparr>c_status = st, c_severity = '''', c_reason = r, c_message = sprintf f as\<rparr>"
  "marked st [WithSeverity s, WithReason r, WithMessage f as] =
     \<lparr>c_status = st, c_severity = s, c_reason = r, c_message = sprintf f as\<rparr>"
  by (simp_all add: marked_def apply_option_def)

lemma c_status_fold: "c_status (fold apply_option opts c) = c_status c"
  by (induction opts arbitrary: c) (simp_all add: apply_option_def split: cond_option.splits)

lemma c_status_marked [simp]: "c_status (marked st opts) = st"
  by (simp add: marked_def c_status_fold)

section \<open>Manifests and the module\<close>

record manifest_info =
  mi_path :: string
  mi_context_dir :: string
  mi_source_path :: string

record template_info =
  ti_path :: string

record helm_chart_info =
  hc_chart :: string

record module =
  cfg :: config
  mod_version :: SemVer
  batchGatewayManifestInfo :: manifest_info
  maasManifestInfo :: manifest_info
  aiGatewayControllerManifestInfo :: manifest_info
  aiGridManifestInfo :: manifest_info
  aiGridOperatorManifestInfo :: manifest_info

section \<open>The request\<close>

text \<open>
  \<^verbatim>\<open>rr.Instance.(*AIGateway)\<close>: the instance is an interface value, and the type assertion of
  every action may fail. \<open>rr_world\<close> holds what is outside the process: the cluster, the
  manifest files, the environment. \<open>rr_conditions\<close> is the state of the condition manager,
  which the framework always sets.
\<close>

datatype instance_value = IsAIGateway aigateway | OtherInstance

record ('w, 'c) request =
  rr_client :: "'w client option"
  rr_instance :: instance_value
  rr_manifests :: "manifest_info list"
  rr_templates :: "template_info list"
  rr_helm_charts :: "helm_chart_info list"
  rr_resources :: "unstructured list"
  rr_conditions :: 'c
  rr_release_name :: string
  rr_manifests_base_path :: string
  rr_world :: 'w

type_synonym ('w, 'c, 'a) action = "(('w, 'c) request, 'a) comp"

text \<open>Run a computation over the world inside a request.\<close>

definition in_world :: "('w, 'a) comp \<Rightarrow> ('w, 'c, 'a) action" where
  "in_world m rr = (case m (rr_world rr) of (r, w) \<Rightarrow> (r, rr\<lparr>rr_world := w\<rparr>))"

text \<open>\<^verbatim>\<open>obj, ok := rr.Instance.(*componentApi.AIGateway); if !ok { return err }\<close>\<close>

definition with_aigateway :: "(aigateway \<Rightarrow> ('w, 'c, 'a) action) \<Rightarrow> ('w, 'c, 'a) action" where
  "with_aigateway k rr =
     (case rr_instance rr of
        OtherInstance \<Rightarrow> (Inl (new_error ''instance is not an AIGateway''), rr)
      | IsAIGateway obj \<Rightarrow> k obj rr)"

definition set_instance :: "aigateway \<Rightarrow> ('w, 'c) request \<Rightarrow> ('w, 'c) request" where
  "set_instance obj rr = rr\<lparr>rr_instance := IsAIGateway obj\<rparr>"

definition append_manifest :: "manifest_info \<Rightarrow> ('w, 'c, unit) action" where
  "append_manifest mi = modify (\<lambda>rr. rr\<lparr>rr_manifests := rr_manifests rr @ [mi]\<rparr>)"

lemma in_world_run [comp_simps]:
  "in_world m rr = (case m (rr_world rr) of (r, w) \<Rightarrow> (r, rr\<lparr>rr_world := w\<rparr>))"
  by (simp add: in_world_def)

lemma append_manifest_run [comp_simps]:
  "append_manifest mi rr = (Inr (), rr\<lparr>rr_manifests := rr_manifests rr @ [mi]\<rparr>)"
  by (simp add: append_manifest_def comp_simps)

lemma with_aigateway_simps [simp]:
  "rr_instance rr = IsAIGateway obj \<Longrightarrow> with_aigateway k rr = k obj rr"
  "rr_instance rr = OtherInstance \<Longrightarrow>
     with_aigateway k rr = (Inl (new_error ''instance is not an AIGateway''), rr)"
  by (simp_all add: with_aigateway_def)

lemma with_aigateway_Inr_iff:
  "with_aigateway k rr = (Inr a, rr') \<longleftrightarrow>
     (\<exists>obj. rr_instance rr = IsAIGateway obj \<and> k obj rr = (Inr a, rr'))"
  by (simp add: with_aigateway_def split: instance_value.splits)

lemma in_world_Inr_iff:
  "in_world m rr = (Inr a, rr') \<longleftrightarrow>
     (\<exists>w. m (rr_world rr) = (Inr a, w) \<and> rr' = rr\<lparr>rr_world := w\<rparr>)"
  by (auto simp: in_world_def split: prod.splits)

lemma in_world_Inl_iff:
  "in_world m rr = (Inl e, rr') \<longleftrightarrow>
     (\<exists>w. m (rr_world rr) = (Inl e, w) \<and> rr' = rr\<lparr>rr_world := w\<rparr>)"
  by (auto simp: in_world_def split: prod.splits)

lemma keeps_in_world [frame]:
  "(\<And>rr w. f (rr\<lparr>rr_world := w\<rparr>) = f rr) \<Longrightarrow> keeps f (in_world m)"
  by (simp add: keeps_def in_world_def split: prod.splits)

lemma keeps_with_aigateway [frame]:
  "(\<And>obj. keeps f (k obj)) \<Longrightarrow> keeps f (with_aigateway k)"
  by (simp add: keeps_def with_aigateway_def split: instance_value.splits)

lemma keeps_append_manifest [frame]:
  "(\<And>rr ms. f (rr\<lparr>rr_manifests := ms\<rparr>) = f rr) \<Longrightarrow> keeps f (append_manifest mi)"
  unfolding append_manifest_def by (intro frame)

text \<open>An AIGateway with the given management states and releases, and a request for it.\<close>

definition gateway_with :: "string \<Rightarrow> string \<Rightarrow> string \<Rightarrow> component_release list \<Rightarrow> aigateway" where
  "gateway_with batch maas grid rels =
     \<lparr>gw_meta = \<lparr>om_name = ''default-aigateway'', om_uid = ''u-0'', om_generation = 1\<rparr>,
      gw_spec = \<lparr>spec_batch_gateway = \<lparr>bg_management_state = batch\<rparr>,
        spec_models_as_a_service = \<lparr>maas_management_state = maas\<rparr>,
        spec_ai_grid = \<lparr>grid_management_state = grid\<rparr>\<rparr>,
      gw_status = \<lparr>st_releases = rels,
        st_module = \<lparr>ms_version = '''', ms_build_source = '''', ms_platform = '''', ms_sources = []\<rparr>\<rparr>\<rparr>"

definition request_for :: "'w client option \<Rightarrow> 'w \<Rightarrow> 'c \<Rightarrow> aigateway \<Rightarrow> ('w, 'c) request" where
  "request_for cli w c obj =
     \<lparr>rr_client = cli, rr_instance = IsAIGateway obj, rr_manifests = [], rr_templates = [],
      rr_helm_charts = [], rr_resources = [], rr_conditions = c,
      rr_release_name = ''OpenDataHub'', rr_manifests_base_path = ''/opt/manifests'',
      rr_world = w\<rparr>"

lemma request_for_simps [simp]:
  "rr_client (request_for cli w c obj) = cli"
  "rr_instance (request_for cli w c obj) = IsAIGateway obj"
  "rr_world (request_for cli w c obj) = w"
  "rr_conditions (request_for cli w c obj) = c"
  by (simp_all add: request_for_def)

lemma gateway_with_simps [simp]:
  "batch_state (gateway_with batch maas grid rels) = batch"
  "maas_state (gateway_with batch maas grid rels) = maas"
  "grid_state (gateway_with batch maas grid rels) = grid"
  "releases (gateway_with batch maas grid rels) = rels"
  by (simp_all add: gateway_with_def releases_def)

section \<open>Third-party functions\<close>

record ('w, 'c) lib =
  manifest_string :: "manifest_info \<Rightarrow> string"
  ApplyParams :: "string \<Rightarrow> string \<Rightarrow> strmap \<Rightarrow> strmap \<Rightarrow> ('w, unit) comp"
  Getenv :: "string \<Rightarrow> 'w \<Rightarrow> string"
  Render :: "string \<Rightarrow> string \<Rightarrow> (string \<times> string) list \<Rightarrow> ('w, unstructured list) comp"
  NestedSlice :: "any \<Rightarrow> string list \<Rightarrow> any list"
  IsCRDConditionTrue :: "crd \<Rightarrow> string \<Rightarrow> bool"
  MarkTrue :: "string \<Rightarrow> cond_option list \<Rightarrow> 'c \<Rightarrow> 'c"
  MarkFalse :: "string \<Rightarrow> cond_option list \<Rightarrow> 'c \<Rightarrow> 'c"
  GetCondition :: "string \<Rightarrow> 'c \<Rightarrow> condition option"
  PartOf :: string
  ODH_Component :: "string \<Rightarrow> string"
  labels_True :: string
  XKS :: string
  gvk_Deployment :: gvk
  gvk_CustomResourceDefinition :: gvk
  DefaultObjectPredicate :: "('w, 'c) request \<Rightarrow> unstructured \<Rightarrow> go_error + bool"

definition mark_true :: "('w, 'c) lib \<Rightarrow> string \<Rightarrow> cond_option list \<Rightarrow> ('w, 'c, unit) action" where
  "mark_true E t opts = modify (\<lambda>rr. rr\<lparr>rr_conditions := MarkTrue E t opts (rr_conditions rr)\<rparr>)"

definition mark_false :: "('w, 'c) lib \<Rightarrow> string \<Rightarrow> cond_option list \<Rightarrow> ('w, 'c, unit) action" where
  "mark_false E t opts = modify (\<lambda>rr. rr\<lparr>rr_conditions := MarkFalse E t opts (rr_conditions rr)\<rparr>)"

lemma mark_run [comp_simps]:
  "mark_true E t opts rr = (Inr (), rr\<lparr>rr_conditions := MarkTrue E t opts (rr_conditions rr)\<rparr>)"
  "mark_false E t opts rr = (Inr (), rr\<lparr>rr_conditions := MarkFalse E t opts (rr_conditions rr)\<rparr>)"
  by (simp_all add: mark_true_def mark_false_def comp_simps)

lemma keeps_mark [frame]:
  assumes "\<And>rr c. f (rr\<lparr>rr_conditions := c\<rparr>) = f rr"
  shows "keeps f (mark_true E t opts)" "keeps f (mark_false E t opts)"
  unfolding mark_true_def mark_false_def by (intro frame assms)+

section \<open>The condition manager\<close>

text \<open>
  The contract of \<^verbatim>\<open>conditions.Manager\<close>: a marked condition has the status and what the
  options say, and a mark touches no other condition but the aggregate one (\<open>happy\<close>, the
  Ready condition), which the manager computes itself.
\<close>

definition option_holds :: "condition \<Rightarrow> cond_option \<Rightarrow> bool" where
  "option_holds c opt =
     (case opt of
        WithSeverity s \<Rightarrow> c_severity c = s
      | WithReason r \<Rightarrow> c_reason c = r
      | WithMessage fmt args \<Rightarrow> c_message c = sprintf fmt args)"

definition shows_mark :: "string \<Rightarrow> cond_option list \<Rightarrow> condition option \<Rightarrow> bool" where
  "shows_mark st opts oc \<longleftrightarrow>
     (\<exists>c. oc = Some c \<and> c_status c = st \<and> list_all (option_holds c) opts)"

lemma option_holds_simps [simp]:
  "option_holds c (WithSeverity s) \<longleftrightarrow> c_severity c = s"
  "option_holds c (WithReason r) \<longleftrightarrow> c_reason c = r"
  "option_holds c (WithMessage fmt args) \<longleftrightarrow> c_message c = sprintf fmt args"
  by (simp_all add: option_holds_def)

definition option_kinds :: "cond_option list \<Rightarrow> nat list" where
  "option_kinds = map (\<lambda>opt. case opt of WithSeverity _ \<Rightarrow> 0 | WithReason _ \<Rightarrow> 1 | WithMessage _ _ \<Rightarrow> 2)"

text \<open>
  \<open>marks tr fa t b r c c'\<close>: a mark took the conditions from \<open>c\<close> to \<open>c'\<close>, of type
  \<open>t\<close>, true or false as \<open>b\<close> says, with reason \<open>r\<close>.
\<close>

definition marks ::
  "(string \<Rightarrow> cond_option list \<Rightarrow> 'c \<Rightarrow> 'c) \<Rightarrow> (string \<Rightarrow> cond_option list \<Rightarrow> 'c \<Rightarrow> 'c) \<Rightarrow>
    string \<Rightarrow> bool \<Rightarrow> string \<Rightarrow> 'c \<Rightarrow> 'c \<Rightarrow> bool" where
  "marks tr fa t b r c c' \<longleftrightarrow>
     (\<exists>opts. distinct (option_kinds opts) \<and> WithReason r \<in> set opts \<and>
        c' = (if b then tr t opts c else fa t opts c))"

text \<open>What a condition says: its status and its reason.\<close>

definition says :: "condition option \<Rightarrow> bool \<Rightarrow> string \<Rightarrow> bool" where
  "says oc b r \<longleftrightarrow>
     (\<exists>c. oc = Some c \<and> c_status c = (if b then ConditionTrue else ConditionFalse) \<and> c_reason c = r)"

locale condition_manager =
  fixes true_at :: "string \<Rightarrow> cond_option list \<Rightarrow> 'c \<Rightarrow> 'c"
    and false_at :: "string \<Rightarrow> cond_option list \<Rightarrow> 'c \<Rightarrow> 'c"
    and get_at :: "string \<Rightarrow> 'c \<Rightarrow> condition option"
    and happy :: string
  assumes get_true: "t \<noteq> happy \<Longrightarrow> distinct (option_kinds opts) \<Longrightarrow>
      shows_mark ConditionTrue opts (get_at t (true_at t opts c))"
    and get_false: "t \<noteq> happy \<Longrightarrow> distinct (option_kinds opts) \<Longrightarrow>
      shows_mark ConditionFalse opts (get_at t (false_at t opts c))"
    and other_true: "u \<noteq> t \<Longrightarrow> u \<noteq> happy \<Longrightarrow> get_at u (true_at t opts c) = get_at u c"
    and other_false: "u \<noteq> t \<Longrightarrow> u \<noteq> happy \<Longrightarrow> get_at u (false_at t opts c) = get_at u c"
begin

lemma marks_says: "marks true_at false_at t b r c c' \<Longrightarrow> t \<noteq> happy \<Longrightarrow> says (get_at t c') b r"
  using get_true [of t] get_false [of t]
  unfolding marks_def says_def shows_mark_def list_all_iff
  by (cases b) (fastforce dest!: bspec)+

lemma marks_other:
  "marks true_at false_at t b r c c' \<Longrightarrow> u \<noteq> t \<Longrightarrow> u \<noteq> happy \<Longrightarrow> get_at u c' = get_at u c"
  by (auto simp: marks_def other_true other_false)

end

text \<open>The condition manager of a library.\<close>

abbreviation manages_conditions :: "('w, 'c) lib \<Rightarrow> string \<Rightarrow> bool" where
  "manages_conditions E happy \<equiv> condition_manager (MarkTrue E) (MarkFalse E) (GetCondition E) happy"

end
