(* ===== verification/Releases.thy ===== *)
theory Releases
  imports Request
begin

text \<open>
  The platform handshake of \<^verbatim>\<open>aigateway.go\<close>: the entry named platform in
  \<^verbatim>\<open>status.releases\<close> and the wrapper that carries it over the framework's releases
  action. The contract \<open>handshake_store\<close> is what the wrapper and \<^verbatim>\<open>reportStatus\<close>
  rely on; it is interpreted on the code's functions over the release list.
\<close>

section \<open>The code\<close>

definition platformReleaseName :: string where
  "platformReleaseName = ''platform''"

definition platformVersionKey :: string where
  "platformVersionKey = ''platformVersion''"

definition zero_release :: component_release where
  "zero_release = \<lparr>cr_name = '''', cr_version = '''', cr_repo_url = ''''\<rparr>"

fun find_platform :: "component_release list \<Rightarrow> component_release" where
  "find_platform [] = zero_release"
| "find_platform (r # rs) = (if cr_name r = platformReleaseName then r else find_platform rs)"

definition getPlatformRelease :: "aigateway \<Rightarrow> component_release" where
  "getPlatformRelease obj = find_platform (releases obj)"

fun put_platform :: "string \<Rightarrow> component_release list \<Rightarrow> component_release list" where
  "put_platform v [] =
     [\<lparr>cr_name = platformReleaseName, cr_version = v, cr_repo_url = ''''\<rparr>]"
| "put_platform v (r # rs) =
     (if cr_name r = platformReleaseName then r\<lparr>cr_version := v\<rparr> # rs else r # put_platform v rs)"

definition setPlatformRelease :: "string \<Rightarrow> aigateway \<Rightarrow> aigateway" where
  "setPlatformRelease v obj = SetReleaseStatus obj (put_platform v (releases obj))"

definition clearPlatformRelease :: "aigateway \<Rightarrow> aigateway" where
  "clearPlatformRelease obj =
     SetReleaseStatus obj (filter (\<lambda>r. cr_name r \<noteq> platformReleaseName) (releases obj))"

definition update_instance :: "(aigateway \<Rightarrow> aigateway) \<Rightarrow> ('w, 'c) request \<Rightarrow> ('w, 'c) request" where
  "update_instance f rr =
     (case rr_instance rr of
        IsAIGateway obj \<Rightarrow> set_instance (f obj) rr
      | OtherInstance \<Rightarrow> rr)"

text \<open>
  \<^verbatim>\<open>obj\<close> is a pointer taken before the wrapped action runs; the action changes the same
  object through \<^verbatim>\<open>rr.Instance\<close>, so what is re-attached goes into the instance as the
  action left it. A panic of the wrapped action leaves the wrapper too.
\<close>

definition withPreservedPlatformRelease :: "('w, 'c, unit) action \<Rightarrow> ('w, 'c, unit) action" where
  "withPreservedPlatformRelease inner =
     with_aigateway (\<lambda>obj rr.
       let prev = getPlatformRelease obj in
       case inner rr of
         (Inl (Panic p), rr') \<Rightarrow> (Inl (Panic p), rr')
       | (r, rr') \<Rightarrow>
           (r, if cr_version prev \<noteq> '''' then update_instance (setPlatformRelease (cr_version prev)) rr'
               else rr'))"

text \<open>
  \<^verbatim>\<open>getPlatformVersion\<close>: any failure to read the ConfigMap gives the empty version.
\<close>

definition getPlatformVersion :: "module \<Rightarrow> ('w, 'c, string) action" where
  "getPlatformVersion m =
     reading rr_client (\<lambda>cli. with_client cli (\<lambda>c. in_world
       (calling (get_config_map c (nsname_of (ApplicationsNamespace (cfg m)) platformConfigName))
          (\<lambda>e. ok '''')
          (\<lambda>cm. ok (map_index (cm_data cm) platformVersionKey)))))"

section \<open>The contract\<close>

text \<open>
  The store of the handshake: one version (empty for none) beside entries that are not its own.
\<close>

locale handshake_store =
  fixes version_of :: "'o \<Rightarrow> string"
    and others :: "'o \<Rightarrow> 'r list"
    and put :: "string \<Rightarrow> 'o \<Rightarrow> 'o"
    and clear :: "'o \<Rightarrow> 'o"
  assumes version_put: "version_of (put v x) = v"
    and others_put: "others (put v x) = others x"
    and version_clear: "version_of (clear x) = ''''"
    and others_clear: "others (clear x) = others x"
begin

definition echo :: "string \<Rightarrow> 'o \<Rightarrow> 'o" where
  "echo v x = (if v \<noteq> '''' then put v x else clear x)"

definition carry :: "'o \<Rightarrow> 'o \<Rightarrow> 'o" where
  "carry before after = (if version_of before \<noteq> '''' then put (version_of before) after else after)"

lemma echo_version: "version_of (echo v x) = v"
  by (simp add: echo_def version_put version_clear)

lemma echo_others: "others (echo v x) = others x"
  by (simp add: echo_def others_put others_clear)

lemma carry_version:
  "version_of (carry before after) =
     (if version_of before \<noteq> '''' then version_of before else version_of after)"
  by (simp add: carry_def version_put)

lemma carry_others: "others (carry before after) = others after"
  by (simp add: carry_def others_put)

end

section \<open>Lemmas\<close>

definition platform_version :: "aigateway \<Rightarrow> string" where
  "platform_version obj = cr_version (getPlatformRelease obj)"

definition other_releases :: "aigateway \<Rightarrow> component_release list" where
  "other_releases obj = filter (\<lambda>r. cr_name r \<noteq> platformReleaseName) (releases obj)"

lemma find_put_platform: "cr_version (find_platform (put_platform v rs)) = v"
  by (induction rs) auto

lemma filter_put_platform:
  "filter (\<lambda>r. cr_name r \<noteq> platformReleaseName) (put_platform v rs) =
   filter (\<lambda>r. cr_name r \<noteq> platformReleaseName) rs"
  by (induction rs) auto

lemma find_filter_platform:
  "find_platform (filter (\<lambda>r. cr_name r \<noteq> platformReleaseName) rs) = zero_release"
  by (induction rs) auto

interpretation platform: handshake_store platform_version other_releases
  setPlatformRelease clearPlatformRelease
  by unfold_locales
    (simp_all add: platform_version_def other_releases_def getPlatformRelease_def
      setPlatformRelease_def clearPlatformRelease_def find_put_platform filter_put_platform
      find_filter_platform zero_release_def)

lemma set_clear_frame [simp]:
  "gw_spec (setPlatformRelease v obj) = gw_spec obj"
  "gw_meta (setPlatformRelease v obj) = gw_meta obj"
  "st_module (gw_status (setPlatformRelease v obj)) = st_module (gw_status obj)"
  "gw_spec (clearPlatformRelease obj) = gw_spec obj"
  "gw_meta (clearPlatformRelease obj) = gw_meta obj"
  "st_module (gw_status (clearPlatformRelease obj)) = st_module (gw_status obj)"
  by (simp_all add: setPlatformRelease_def clearPlatformRelease_def)

text \<open>The number of entries with the platform's name.\<close>

definition platform_entries :: "aigateway \<Rightarrow> nat" where
  "platform_entries obj = length (filter (\<lambda>r. cr_name r = platformReleaseName) (releases obj))"

lemma length_put_platform:
  "length (filter (\<lambda>r. cr_name r = platformReleaseName) (put_platform v rs)) =
   max 1 (length (filter (\<lambda>r. cr_name r = platformReleaseName) rs))"
  by (induction rs) auto

lemma entries_set: "platform_entries (setPlatformRelease v obj) = max 1 (platform_entries obj)"
  by (simp add: platform_entries_def setPlatformRelease_def length_put_platform)

lemma entries_clear: "platform_entries (clearPlatformRelease obj) = 0"
  by (simp add: platform_entries_def clearPlatformRelease_def)

lemma update_instance_AIGateway:
  "rr_instance rr = IsAIGateway obj \<Longrightarrow>
     update_instance f rr = rr\<lparr>rr_instance := IsAIGateway (f obj)\<rparr>"
  by (simp add: update_instance_def set_instance_def)

lemma withPreserved_run:
  assumes "rr_instance rr = IsAIGateway obj"
    and "inner rr = (r, rr\<^sub>1)" and "rr_instance rr\<^sub>1 = IsAIGateway obj\<^sub>1"
    and "\<And>p. r \<noteq> Inl (Panic p)"
  shows "withPreservedPlatformRelease inner rr =
    (r, rr\<^sub>1\<lparr>rr_instance := IsAIGateway (platform.carry obj obj\<^sub>1)\<rparr>)"
proof -
  have same: "rr\<^sub>1\<lparr>rr_instance := IsAIGateway obj\<^sub>1\<rparr> = rr\<^sub>1"
    using assms(3) by simp
  show ?thesis
  proof (cases r)
    case (Inl e)
    then show ?thesis
      using assms same
      by (cases e) (simp_all add: withPreservedPlatformRelease_def platform.carry_def
          platform_version_def update_instance_AIGateway)
  next
    case (Inr u)
    then show ?thesis
      using assms same
      by (simp add: withPreservedPlatformRelease_def platform.carry_def
          platform_version_def update_instance_AIGateway)
  qed
qed

section \<open>Properties\<close>

text \<open>
  Stamping a version and clearing it act on the platform entry alone: the version read back is
  the one stamped, at most one entry is added and an existing one is updated in place, clearing
  removes every entry of that name, and the order and content of all other releases, the spec and
  the module status are untouched.
\<close>

theorem handshake_stamp_clear:
  "platform_version (setPlatformRelease v obj) = v \<and>
   other_releases (setPlatformRelease v obj) = other_releases obj \<and>
   platform_entries (setPlatformRelease v obj) = max 1 (platform_entries obj) \<and>
   releases (clearPlatformRelease obj) = other_releases obj \<and>
   getPlatformRelease (clearPlatformRelease obj) = zero_release \<and>
   setPlatformRelease v (setPlatformRelease u obj) = setPlatformRelease v obj"
proof -
  have "put_platform v (put_platform u rs) = put_platform v rs" for rs
    by (induction rs) auto
  then show ?thesis
    by (simp add: platform.version_put platform.others_put entries_set)
      (simp add: clearPlatformRelease_def other_releases_def getPlatformRelease_def
        find_filter_platform setPlatformRelease_def SetReleaseStatus_def releases_def)
qed

text \<open>
  Whatever the wrapped releases action does, failing included, short of a panic, a platform
  version that was stamped before it is stamped after it, and every other release is the one the
  action wrote; the result of the action is passed on.
\<close>

theorem withPreservedPlatformRelease_carries:
  assumes "rr_instance rr = IsAIGateway obj"
    and "inner rr = (r, rr\<^sub>1)" and "rr_instance rr\<^sub>1 = IsAIGateway obj\<^sub>1"
    and "\<And>p. r \<noteq> Inl (Panic p)"
  shows "\<exists>obj\<^sub>2. withPreservedPlatformRelease inner rr = (r, rr\<^sub>1\<lparr>rr_instance := IsAIGateway obj\<^sub>2\<rparr>) \<and>
    platform_version obj\<^sub>2 =
      (if platform_version obj \<noteq> '''' then platform_version obj else platform_version obj\<^sub>1) \<and>
    other_releases obj\<^sub>2 = other_releases obj\<^sub>1 \<and>
    gw_spec obj\<^sub>2 = gw_spec obj\<^sub>1 \<and> st_module (gw_status obj\<^sub>2) = st_module (gw_status obj\<^sub>1)"
proof -
  let ?obj = "platform.carry obj obj\<^sub>1"
  have "withPreservedPlatformRelease inner rr = (r, rr\<^sub>1\<lparr>rr_instance := IsAIGateway ?obj\<rparr>)"
    by (intro withPreserved_run assms)
  moreover have "gw_spec ?obj = gw_spec obj\<^sub>1" "st_module (gw_status ?obj) = st_module (gw_status obj\<^sub>1)"
    by (simp_all add: platform.carry_def)
  ultimately show ?thesis
    by (intro exI [of _ ?obj]) (simp add: platform.carry_version platform.carry_others)
qed

theorem withPreservedPlatformRelease_carries_witness:
  "\<exists>obj\<^sub>2. withPreservedPlatformRelease
      (\<lambda>rr. (Inl (External ''no metadata''), update_instance (\<lambda>obj. SetReleaseStatus obj []) rr))
      (request_for None () () (gateway_with ''Managed'' ''Managed'' ''''
        [\<lparr>cr_name = ''platform'', cr_version = ''3.1.0'', cr_repo_url = ''''\<rparr>])) =
      (Inl (External ''no metadata''), request_for None () () obj\<^sub>2) \<and>
    platform_version obj\<^sub>2 = ''3.1.0''"
proof -
  let ?obj = "gateway_with ''Managed'' ''Managed'' ''''
    [\<lparr>cr_name = ''platform'', cr_version = ''3.1.0'', cr_repo_url = ''''\<rparr>]"
  let ?inner = "(\<lambda>rr. (Inl (External ''no metadata''),
    update_instance (\<lambda>obj. SetReleaseStatus obj []) rr)) :: (unit, unit, unit) action"
  have "\<exists>obj\<^sub>2. withPreservedPlatformRelease ?inner (request_for None () () ?obj) =
      (Inl (External ''no metadata''),
       request_for None () () (SetReleaseStatus ?obj [])\<lparr>rr_instance := IsAIGateway obj\<^sub>2\<rparr>) \<and>
    platform_version obj\<^sub>2 =
      (if platform_version ?obj \<noteq> '''' then platform_version ?obj
       else platform_version (SetReleaseStatus ?obj [])) \<and>
    other_releases obj\<^sub>2 = other_releases (SetReleaseStatus ?obj []) \<and>
    gw_spec obj\<^sub>2 = gw_spec (SetReleaseStatus ?obj []) \<and>
    st_module (gw_status obj\<^sub>2) = st_module (gw_status (SetReleaseStatus ?obj []))"
    by (rule withPreservedPlatformRelease_carries)
      (simp_all add: update_instance_def set_instance_def request_for_def)
  moreover have "platform_version ?obj = ''3.1.0''"
    by (simp add: platform_version_def getPlatformRelease_def platformReleaseName_def)
  ultimately show ?thesis
    by (auto simp: request_for_def)
qed

end
