(* ===== verification/Memory_Cluster.thy ===== *)
theory Memory_Cluster
  imports Cluster
begin

text \<open>
  A cluster in memory, with the documented behaviour of the API server for the calls the operator
  makes (the counterpart of controller-runtime's fake client): get fails with NotFound on a missing
  object, create with AlreadyExists on an existing one, update and delete with NotFound on a
  missing one, delete with preconditions with Conflict on a mismatch. It meets the contracts of
  \<open>Cluster\<close>, and the properties that assume them are evaluated on it.
\<close>

section \<open>The store of one kind\<close>

definition plain_error :: "string \<Rightarrow> api_error" where
  "plain_error txt =
     \<lparr>err_text = txt, is_not_found = False, is_conflict = False, is_no_match = False,
      is_service_unavailable = False, is_timeout = False, is_server_timeout = False,
      is_too_many_requests = False, is_internal_error = False, is_deadline_exceeded = False\<rparr>"

definition not_found_error :: api_error where
  "not_found_error = (plain_error ''NotFound'')\<lparr>is_not_found := True\<rparr>"

definition already_exists_error :: api_error where
  "already_exists_error = plain_error ''AlreadyExists''"

definition conflict_error :: api_error where
  "conflict_error = (plain_error ''Conflict'')\<lparr>is_conflict := True\<rparr>"

lemma error_simps [simp]:
  "is_not_found (plain_error t) = False" "is_conflict (plain_error t) = False"
  "is_no_match (plain_error t) = False"
  "is_not_found not_found_error = True" "is_conflict not_found_error = False"
  "is_not_found already_exists_error = False" "is_conflict already_exists_error = False"
  "is_not_found conflict_error = False" "is_conflict conflict_error = True"
  by (simp_all add: plain_error_def not_found_error_def already_exists_error_def conflict_error_def)

type_synonym 'o store = "(nsname \<times> 'o) list"

text \<open>What a store holds under a key, objects filed under another key than their own left out.\<close>

definition filed_in :: "('o \<Rightarrow> nsname) \<Rightarrow> 'o store \<Rightarrow> nsname \<Rightarrow> 'o option" where
  "filed_in key st k = map_of (filter (\<lambda>(k, x). key x = k) st) k"

definition filed :: "('w \<Rightarrow> 'o store) \<Rightarrow> ('o \<Rightarrow> nsname) \<Rightarrow> 'w \<Rightarrow> nsname \<Rightarrow> 'o option" where
  "filed get key w = filed_in key (get w)"

definition store_get ::
  "('w \<Rightarrow> 'o store) \<Rightarrow> ('o \<Rightarrow> nsname) \<Rightarrow> nsname \<Rightarrow> ('w, 'o) api_call" where
  "store_get get key k w =
     (case filed get key w k of None \<Rightarrow> (Inl not_found_error, w) | Some x \<Rightarrow> (Inr x, w))"

definition store_create ::
  "('w \<Rightarrow> 'o store) \<Rightarrow> ('o store \<Rightarrow> 'w \<Rightarrow> 'w) \<Rightarrow> ('o \<Rightarrow> nsname) \<Rightarrow> 'o \<Rightarrow> ('w, unit) api_call" where
  "store_create get put key ob w =
     (case filed get key w (key ob) of
        Some _ \<Rightarrow> (Inl already_exists_error, w)
      | None \<Rightarrow> (Inr (), put (AList.update (key ob) ob (get w)) w))"

definition store_update ::
  "('w \<Rightarrow> 'o store) \<Rightarrow> ('o store \<Rightarrow> 'w \<Rightarrow> 'w) \<Rightarrow> ('o \<Rightarrow> nsname) \<Rightarrow> 'o \<Rightarrow> ('w, unit) api_call" where
  "store_update get put key ob w =
     (case filed get key w (key ob) of
        None \<Rightarrow> (Inl not_found_error, w)
      | Some _ \<Rightarrow> (Inr (), put (AList.update (key ob) ob (get w)) w))"

definition store_delete ::
  "('w \<Rightarrow> 'o store) \<Rightarrow> ('o store \<Rightarrow> 'w \<Rightarrow> 'w) \<Rightarrow> ('o \<Rightarrow> nsname) \<Rightarrow> nsname \<Rightarrow> ('w, unit) api_call" where
  "store_delete get put key k w =
     (case filed get key w k of
        None \<Rightarrow> (Inl not_found_error, w)
      | Some _ \<Rightarrow> (Inr (), put (AList.delete k (get w)) w))"

lemma filed_in_key: "filed_in key st k = Some x \<Longrightarrow> key x = k"
  by (auto simp: filed_in_def dest: map_of_SomeD)

lemma filed_in_update:
  "filed_in key (AList.update (key x) x st) k = (if k = key x then Some x else filed_in key st k)"
  unfolding filed_in_def by (induction st) auto

lemma filed_in_delete:
  "filed_in key (AList.delete k' st) k = (if k = k' then None else filed_in key st k)"
  unfolding filed_in_def by (induction st) auto

lemma store_contract:
  assumes "\<And>l w. get (put l w) = l" and "\<And>ob. carries ob ob"
  shows "object_store (store_get get key) (store_create get put key) (store_update get put key)
    (filed get key) key carries"
proof
  fix k ob w w'
  show "store_get get key k w = (Inr ob, w') \<Longrightarrow> key ob = k"
    by (auto simp: store_get_def filed_def split: option.splits dest: filed_in_key)
  show "store_create get put key ob w = (Inr (), w') \<Longrightarrow>
      \<exists>st. filed get key w' (key ob) = Some st \<and> carries st ob"
    using assms by (auto simp: store_create_def filed_def filed_in_update split: option.splits)
  show "store_update get put key ob w = (Inr (), w') \<Longrightarrow>
      \<exists>st. filed get key w' (key ob) = Some st \<and> carries st ob"
    using assms by (auto simp: store_update_def filed_def filed_in_update split: option.splits)
qed

lemma store_fresh_contract:
  assumes "\<And>l w. get (put l w) = l" and "\<And>ob. carries ob ob"
  shows "fresh_store (store_get get key) (store_create get put key) (store_update get put key)
    (filed get key) key carries"
proof (intro fresh_store.intro fresh_store_axioms.intro store_contract assms)
  fix k ob w w'
  show "store_get get key k w = (Inr ob, w') \<Longrightarrow> filed get key w' k = Some ob"
    by (auto simp: store_get_def split: option.splits)
qed

lemma store_delete_contract:
  assumes "\<And>l w. get (put l w) = l" and "\<And>ob. carries ob ob"
  shows "deletable_store (store_get get key) (store_create get put key) (store_update get put key)
    (filed get key) key carries (store_delete get put key)"
proof (intro deletable_store.intro deletable_store_axioms.intro store_contract assms)
  fix k w w' e
  show "store_delete get put key k w = (Inr (), w') \<Longrightarrow> filed get key w' k = None"
    using assms(1) by (auto simp: store_delete_def filed_def filed_in_delete split: option.splits)
  show "store_delete get put key k w = (Inl e, w') \<Longrightarrow> is_not_found e \<Longrightarrow> filed get key w' k = None"
    by (auto simp: store_delete_def split: option.splits)
qed

lemma store_quiet: "quiet_reads (store_get get key) (filed get key)"
  by unfold_locales (auto simp: store_get_def split: option.splits)

section \<open>The cluster\<close>

text \<open>
  The world: the objects of each kind, the \<^verbatim>\<open>params.env\<close> files of the manifests by
  path, and the environment of the process.
\<close>

record mem =
  mem_deployments :: "deployment store"
  mem_namespaces :: "namespace store"
  mem_roles :: "role store"
  mem_role_bindings :: "role_binding store"
  mem_config_maps :: "(nsname \<times> config_map) list"
  mem_crds :: "crd store"
  mem_unstructured :: "(gvk \<times> nsname \<times> unstructured) list"
  mem_params :: "string \<Rightarrow> strmap"
  mem_env :: "string \<Rightarrow> string"

definition empty_mem :: mem where
  "empty_mem = \<lparr>mem_deployments = [], mem_namespaces = [], mem_roles = [], mem_role_bindings = [],
     mem_config_maps = [], mem_crds = [], mem_unstructured = [],
     mem_params = (\<lambda>_. None), mem_env = (\<lambda>_. '''')\<rparr>"

definition dep_key :: "deployment \<Rightarrow> nsname" where
  "dep_key d = nsname_of (dep_namespace d) (dep_name d)"

definition ns_key :: "namespace \<Rightarrow> nsname" where
  "ns_key n = nsname_of '''' (ns_name n)"

definition role_key :: "role \<Rightarrow> nsname" where
  "role_key r = nsname_of (role_namespace r) (role_name r)"

definition rb_key :: "role_binding \<Rightarrow> nsname" where
  "rb_key b = nsname_of (rb_namespace b) (rb_name b)"

definition crd_key :: "crd \<Rightarrow> nsname" where
  "crd_key d = nsname_of '''' (crd_name d)"

text \<open>Entries of a kind whose objects do not carry their key here.\<close>

definition entry_get :: "('w \<Rightarrow> (nsname \<times> 'o) list) \<Rightarrow> nsname \<Rightarrow> ('w, 'o) api_call" where
  "entry_get get k w =
     (case map_of (get w) k of None \<Rightarrow> (Inl not_found_error, w) | Some x \<Rightarrow> (Inr x, w))"

lemma entry_quiet: "quiet_reads (entry_get get) (\<lambda>w. map_of (get w))"
  by unfold_locales (auto simp: entry_get_def split: option.splits)

definition mem_delete_deployment :: "deployment \<Rightarrow> preconditions \<Rightarrow> (mem, unit) api_call" where
  "mem_delete_deployment d p w =
     (case filed mem_deployments dep_key w (dep_key d) of
        None \<Rightarrow> (Inl not_found_error, w)
      | Some live \<Rightarrow>
          if (\<forall>u \<in> set_option (pre_uid p). dep_uid live = u) \<and>
             (\<forall>v \<in> set_option (pre_resource_version p). dep_resource_version live = v)
          then (Inr (), w\<lparr>mem_deployments := AList.delete (dep_key d) (mem_deployments w)\<rparr>)
          else (Inl conflict_error, w))"

definition mem_list_deployments ::
  "string \<Rightarrow> (string \<times> string) list \<Rightarrow> (mem, deployment list) api_call" where
  "mem_list_deployments ns sel w =
     (Inr (filter (\<lambda>d. dep_namespace d = ns \<and> list_all (\<lambda>(k, v). entries (dep_labels d) k = Some v) sel)
        (map snd (mem_deployments w))), w)"

fun upsert_owner :: "owner_ref \<Rightarrow> owner_ref list \<Rightarrow> owner_ref list" where
  "upsert_owner r [] = [r]"
| "upsert_owner r (x # xs) =
     (if or_kind x = or_kind r \<and> or_name x = or_name r then r # xs else x # upsert_owner r xs)"

definition mem_set_owner :: "object_meta \<Rightarrow> string \<Rightarrow> owner_ref list \<Rightarrow> go_error + owner_ref list" where
  "mem_set_owner owner ns refs =
     Inr (upsert_owner \<lparr>or_kind = ''AIGateway'', or_name = om_name owner, or_uid = om_uid owner\<rparr> refs)"

definition mem_client :: "mem client" where
  "mem_client =
     \<lparr>get_deployment = store_get mem_deployments dep_key,
      list_deployments = mem_list_deployments,
      delete_deployment = mem_delete_deployment,
      get_namespace = store_get mem_namespaces ns_key,
      create_namespace = store_create mem_namespaces (\<lambda>l w. w\<lparr>mem_namespaces := l\<rparr>) ns_key,
      update_namespace = store_update mem_namespaces (\<lambda>l w. w\<lparr>mem_namespaces := l\<rparr>) ns_key,
      get_role = store_get mem_roles role_key,
      create_role = store_create mem_roles (\<lambda>l w. w\<lparr>mem_roles := l\<rparr>) role_key,
      update_role = store_update mem_roles (\<lambda>l w. w\<lparr>mem_roles := l\<rparr>) role_key,
      delete_role = store_delete mem_roles (\<lambda>l w. w\<lparr>mem_roles := l\<rparr>) role_key,
      get_role_binding = store_get mem_role_bindings rb_key,
      create_role_binding = store_create mem_role_bindings (\<lambda>l w. w\<lparr>mem_role_bindings := l\<rparr>) rb_key,
      update_role_binding = store_update mem_role_bindings (\<lambda>l w. w\<lparr>mem_role_bindings := l\<rparr>) rb_key,
      delete_role_binding = store_delete mem_role_bindings (\<lambda>l w. w\<lparr>mem_role_bindings := l\<rparr>) rb_key,
      get_config_map = entry_get mem_config_maps,
      get_crd = store_get mem_crds crd_key,
      get_unstructured = (\<lambda>g. entry_get (\<lambda>w. map snd (filter (\<lambda>(g', x). g' = g) (mem_unstructured w)))),
      set_owner_reference = mem_set_owner\<rparr>"

lemma mem_client_simps [simp]:
  "get_deployment mem_client = store_get mem_deployments dep_key"
  "list_deployments mem_client = mem_list_deployments"
  "delete_deployment mem_client = mem_delete_deployment"
  "get_namespace mem_client = store_get mem_namespaces ns_key"
  "create_namespace mem_client = store_create mem_namespaces (\<lambda>l w. w\<lparr>mem_namespaces := l\<rparr>) ns_key"
  "update_namespace mem_client = store_update mem_namespaces (\<lambda>l w. w\<lparr>mem_namespaces := l\<rparr>) ns_key"
  "get_role mem_client = store_get mem_roles role_key"
  "create_role mem_client = store_create mem_roles (\<lambda>l w. w\<lparr>mem_roles := l\<rparr>) role_key"
  "update_role mem_client = store_update mem_roles (\<lambda>l w. w\<lparr>mem_roles := l\<rparr>) role_key"
  "delete_role mem_client = store_delete mem_roles (\<lambda>l w. w\<lparr>mem_roles := l\<rparr>) role_key"
  "get_role_binding mem_client = store_get mem_role_bindings rb_key"
  "create_role_binding mem_client =
     store_create mem_role_bindings (\<lambda>l w. w\<lparr>mem_role_bindings := l\<rparr>) rb_key"
  "update_role_binding mem_client =
     store_update mem_role_bindings (\<lambda>l w. w\<lparr>mem_role_bindings := l\<rparr>) rb_key"
  "delete_role_binding mem_client = store_delete mem_role_bindings (\<lambda>l w. w\<lparr>mem_role_bindings := l\<rparr>) rb_key"
  "get_config_map mem_client = entry_get mem_config_maps"
  "get_crd mem_client = store_get mem_crds crd_key"
  "get_unstructured mem_client g =
     entry_get (\<lambda>w. map snd (filter (\<lambda>(g', x). g' = g) (mem_unstructured w)))"
  "set_owner_reference mem_client = mem_set_owner"
  by (simp_all add: mem_client_def)

text \<open>What the cluster holds under a key: reads return it, in a world they do not change.\<close>

abbreviation mem_deployment :: "mem \<Rightarrow> nsname \<Rightarrow> deployment option" where
  "mem_deployment \<equiv> filed mem_deployments dep_key"

interpretation mem_deps: quiet_reads "get_deployment mem_client" mem_deployment
  unfolding mem_client_simps by (rule store_quiet)

interpretation mem_deletes: answered_deletes "delete_deployment mem_client" mem_deployment
proof
  fix d :: deployment and p :: preconditions and w w' e live
  let ?k = "nsname_of (dep_namespace d) (dep_name d)"
  show "delete_deployment mem_client d p w = (Inr (), w') \<Longrightarrow> mem_deployment w' ?k = None"
    by (auto simp: mem_delete_deployment_def filed_def dep_key_def filed_in_delete
        split: option.splits if_splits)
  show "delete_deployment mem_client d p w = (Inl e, w') \<Longrightarrow> is_not_found e \<Longrightarrow> mem_deployment w' ?k = None"
    by (auto simp: mem_delete_deployment_def dep_key_def split: option.splits if_splits)
  show "delete_deployment mem_client d p w = (Inl e, w') \<Longrightarrow> is_conflict e \<Longrightarrow>
      mem_deployment w' ?k = Some live \<Longrightarrow>
      \<not> (pre_uid p = Some (dep_uid live) \<and> pre_resource_version p = Some (dep_resource_version live))"
    by (auto simp: mem_delete_deployment_def dep_key_def split: option.splits if_splits)
next
  fix d :: deployment and p w r w' k live
  assume "delete_deployment mem_client d p w = (r, w')"
    and "mem_deployment w k = Some live" "mem_deployment w' k \<noteq> Some live"
  then show "k = nsname_of (dep_namespace d) (dep_name d) \<and>
      (\<forall>u. pre_uid p = Some u \<longrightarrow> dep_uid live = u) \<and>
      (\<forall>v. pre_resource_version p = Some v \<longrightarrow> dep_resource_version live = v)"
    by (auto simp: mem_delete_deployment_def filed_def dep_key_def filed_in_delete
        split: option.splits if_splits)
qed

definition put_deployment :: "nsname \<Rightarrow> deployment option \<Rightarrow> mem \<Rightarrow> mem" where
  "put_deployment k d w =
     (case d of
        None \<Rightarrow> w\<lparr>mem_deployments := AList.delete k (mem_deployments w)\<rparr>
      | Some d \<Rightarrow> w\<lparr>mem_deployments := AList.update k d (mem_deployments w)\<rparr>)"

lemma mem_deployment_put:
  "mem_deployment (put_deployment k None w) k = None"
  "dep_key d = k \<Longrightarrow> mem_deployment (put_deployment k (Some d) w) k = Some d"
  using filed_in_update [of dep_key d "mem_deployments w" k]
  by (simp_all add: put_deployment_def filed_def filed_in_delete)

lemma dep_key_annotations [simp]: "dep_key (d\<lparr>dep_annotations := a\<rparr>) = dep_key d"
  by (simp add: dep_key_def)

interpretation mem_free: free_deployments mem_client mem_deployment
proof
  fix d p w r w' k
  assume "delete_deployment mem_client d p w = (r, w')"
  then show "mem_deployment w' k = None \<or> mem_deployment w' k = mem_deployment w k"
    by (auto simp: mem_delete_deployment_def filed_def filed_in_delete split: option.splits if_splits)
next
  show "\<exists>w'. mem_deployment w' k = None" for k
    using mem_deployment_put(1) by blast
next
  fix w k d a assume "mem_deployment w k = Some d"
  then have "dep_key d = k"
    unfolding filed_def by (rule filed_in_key)
  then have "mem_deployment (put_deployment k (Some (d\<lparr>dep_annotations := a\<rparr>)) w) k = Some (d\<lparr>dep_annotations := a\<rparr>)"
    by (intro mem_deployment_put) simp
  then show "\<exists>w'. mem_deployment w' k = Some (d\<lparr>dep_annotations := a\<rparr>)" by blast
qed

end
