(* ===== verification/Reference_Lib.thy ===== *)
theory Reference_Lib
  imports Request Memory_Cluster
begin

text \<open>
  Concrete values for the third-party parameters of \<open>Request\<close>, after their documentation: a
  condition manager over an association list that recomputes Ready from DeploymentsAvailable,
  parameter files in the memory cluster, \<^verbatim>\<open>NestedSlice\<close> over decoded objects, and the labels
  of the platform. The properties that assume the contracts are evaluated on them.
\<close>

section \<open>Conditions\<close>

type_synonym conds = "(string \<times> condition) list"

definition ready_type :: string where
  "ready_type = ''Ready''"

definition available_type :: string where
  "available_type = ''DeploymentsAvailable''"

text \<open>Ready is False exactly while DeploymentsAvailable is False at a severity other than Info.\<close>

definition ready_from :: "conds \<Rightarrow> condition" where
  "ready_from cs =
     (case map_of cs available_type of
        Some c \<Rightarrow> if c_status c = ConditionFalse \<and> c_severity c \<noteq> ConditionSeverityInfo
                  then c else marked ConditionTrue []
      | None \<Rightarrow> marked ConditionTrue [])"

definition put_condition :: "string \<Rightarrow> condition \<Rightarrow> conds \<Rightarrow> conds" where
  "put_condition t c cs =
     (let cs' = AList.update t c cs in AList.update ready_type (ready_from cs') cs')"

definition list_mark_true :: "string \<Rightarrow> cond_option list \<Rightarrow> conds \<Rightarrow> conds" where
  "list_mark_true t opts = put_condition t (marked ConditionTrue opts)"

definition list_mark_false :: "string \<Rightarrow> cond_option list \<Rightarrow> conds \<Rightarrow> conds" where
  "list_mark_false t opts = put_condition t (marked ConditionFalse opts)"

definition list_get :: "string \<Rightarrow> conds \<Rightarrow> condition option" where
  "list_get t cs = map_of cs t"

lemma list_get_put:
  "t \<noteq> ready_type \<Longrightarrow> list_get t (put_condition t c cs) = Some c"
  "u \<noteq> t \<Longrightarrow> u \<noteq> ready_type \<Longrightarrow> list_get u (put_condition t c cs) = list_get u cs"
  by (simp_all add: put_condition_def list_get_def Let_def update_conv')

lemma option_holds_later:
  assumes "option_holds c opt" "option_kinds [opt] \<noteq> option_kinds [o']"
  shows "option_holds (apply_option o' c) opt"
  using assms by (cases opt; cases o') (simp_all add: apply_option_def option_kinds_def)

lemma option_holds_fold:
  assumes "option_holds c opt" "\<forall>o' \<in> set opts. option_kinds [opt] \<noteq> option_kinds [o']"
  shows "option_holds (fold apply_option opts c) opt"
  using assms by (induction opts arbitrary: c) (auto intro: option_holds_later)

lemma fold_options_hold:
  "distinct (option_kinds opts) \<Longrightarrow> list_all (option_holds (fold apply_option opts c)) opts"
proof (induction opts arbitrary: c)
  case Nil
  then show ?case by simp
next
  case (Cons a opts)
  have "option_holds (apply_option a c) a"
    by (cases a) (simp_all add: apply_option_def)
  moreover have "\<forall>o' \<in> set opts. option_kinds [a] \<noteq> option_kinds [o']"
    using Cons.prems by (auto simp: option_kinds_def)
  ultimately show ?case
    using Cons by (simp add: option_holds_fold option_kinds_def)
qed

lemma shows_mark_marked: "distinct (option_kinds opts) \<Longrightarrow> shows_mark st opts (Some (marked st opts))"
  unfolding shows_mark_def using fold_options_hold by (auto simp: marked_def c_status_fold)

interpretation condition_list: condition_manager list_mark_true list_mark_false list_get ready_type
  by unfold_locales
    (simp_all add: list_mark_true_def list_mark_false_def list_get_put shows_mark_marked)

section \<open>The other parameters\<close>

definition mem_apply_params :: "string \<Rightarrow> string \<Rightarrow> strmap \<Rightarrow> strmap \<Rightarrow> (mem, unit) comp" where
  "mem_apply_params path file images extra w =
     (case mem_params w path of
        None \<Rightarrow> (Inr (), w)
      | Some kv \<Rightarrow>
          (Inr (), w\<lparr>mem_params := (mem_params w)(path :=
             Some (\<lambda>k. if kv k = None then None
                       else (case entries extra k of
                               Some v \<Rightarrow> Some v
                             | None \<Rightarrow>
                                 (case entries images k of
                                    Some var \<Rightarrow> if mem_env w var \<noteq> '''' then Some (mem_env w var) else kv k
                                  | None \<Rightarrow> kv k))))\<rparr>))"

fun nested_slice :: "any \<Rightarrow> string list \<Rightarrow> any list" where
  "nested_slice (Slice xs) [] = xs"
| "nested_slice (Obj kvs) (k # ks) = nested_slice (obj_index kvs k) ks"
| "nested_slice v ks = []"

definition apps_gvk :: gvk where
  "apps_gvk = \<lparr>gvk_group = ''apps'', gvk_version = ''v1'', gvk_kind = ''Deployment''\<rparr>"

definition crd_gvk :: gvk where
  "crd_gvk = \<lparr>gvk_group = ''apiextensions.k8s.io'', gvk_version = ''v1'',
     gvk_kind = ''CustomResourceDefinition''\<rparr>"

definition mem_lib :: "(mem, conds) lib" where
  "mem_lib =
     \<lparr>manifest_string = (\<lambda>mi. mi_path mi @ ''/'' @ mi_context_dir mi @ ''/'' @ mi_source_path mi),
      ApplyParams = mem_apply_params,
      Getenv = (\<lambda>v w. mem_env w v),
      Render = (\<lambda>path ns lbls. ok [\<lparr>us_gvk = apps_gvk, us_namespace = ns, us_name = ''grid-operator'',
         us_labels = Some (map_of lbls), us_annotations = None, us_object = Obj []\<rparr>]),
      NestedSlice = nested_slice,
      IsCRDConditionTrue = (\<lambda>d t. map_of (crd_conditions d) t = Some ''True''),
      MarkTrue = list_mark_true,
      MarkFalse = list_mark_false,
      GetCondition = list_get,
      PartOf = ''app.kubernetes.io/part-of'',
      ODH_Component = (\<lambda>c. ''app.opendatahub.io/'' @ c),
      labels_True = ''true'',
      XKS = ''XKS'',
      gvk_Deployment = apps_gvk,
      gvk_CustomResourceDefinition = crd_gvk,
      DefaultObjectPredicate = (\<lambda>rr u. Inr False)\<rparr>"

lemma mem_lib_simps [simp]:
  "ApplyParams mem_lib = mem_apply_params"
  "Getenv mem_lib = (\<lambda>v w. mem_env w v)"
  "NestedSlice mem_lib = nested_slice"
  "MarkTrue mem_lib = list_mark_true"
  "MarkFalse mem_lib = list_mark_false"
  "GetCondition mem_lib = list_get"
  "PartOf mem_lib = ''app.kubernetes.io/part-of''"
  "ODH_Component mem_lib c = ''app.opendatahub.io/'' @ c"
  "labels_True mem_lib = ''true''"
  "gvk_Deployment mem_lib = apps_gvk"
  "gvk_CustomResourceDefinition mem_lib = crd_gvk"
  "IsCRDConditionTrue mem_lib d t \<longleftrightarrow> map_of (crd_conditions d) t = Some ''True''"
  "DefaultObjectPredicate mem_lib = (\<lambda>rr u. Inr False)"
  by (simp_all add: mem_lib_def)

lemma mem_lib_conditions: "manages_conditions mem_lib ready_type"
  unfolding mem_lib_simps by (rule condition_list.condition_manager_axioms)

text \<open>A module and a Deployment for evaluating the components.\<close>

definition manifest_of :: "string \<Rightarrow> string \<Rightarrow> manifest_info" where
  "manifest_of dir source = \<lparr>mi_path = ''m'', mi_context_dir = dir, mi_source_path = source\<rparr>"

definition module_for :: "string \<Rightarrow> module" where
  "module_for ns =
     \<lparr>cfg = \<lparr>MetricsAddr = '':8080'', MetricsSecure = False, MetricsCertPath = '''',
        HealthProbeAddr = '':8081'', PprofAddr = '''', LeaderElect = True,
        LeaderElectionID = ''ai-gateway-lock'', ManifestsPath = ''m'', ApplicationsNamespace = ns,
        PlatformType = ''OpenDataHub'', PlatformVersion = ''''\<rparr>,
      mod_version = ''1.0.0'',
      batchGatewayManifestInfo = manifest_of ''batchgateway'' ''base'',
      maasManifestInfo = manifest_of ''maascontroller'' ''default'',
      aiGatewayControllerManifestInfo = manifest_of ''aigatewaycontroller'' ''default'',
      aiGridManifestInfo = manifest_of ''aigrid'' ''crds'',
      aiGridOperatorManifestInfo = manifest_of ''aigrid'' ''overlays/openshift''\<rparr>"

definition deployment_named :: "string \<Rightarrow> string \<Rightarrow> int \<Rightarrow> strmap \<Rightarrow> deployment" where
  "deployment_named ns n ready ann =
     \<lparr>dep_namespace = ns, dep_name = n, dep_uid = ''uid-'' @ n, dep_resource_version = ''7'',
      dep_labels = None, dep_annotations = ann, dep_selector = None, dep_ready_replicas = ready\<rparr>"

definition with_deployments :: "deployment list \<Rightarrow> mem" where
  "with_deployments ds = empty_mem\<lparr>mem_deployments := map (\<lambda>d. (dep_key d, d)) ds\<rparr>"

lemma module_for_ns [simp]: "ApplicationsNamespace (cfg (module_for ns)) = ns"
  by (simp add: module_for_def)

lemma deployment_named_simps [simp]:
  "dep_key (deployment_named ns n ready ann) = nsname_of ns n"
  "dep_annotations (deployment_named ns n ready ann) = ann"
  "dep_ready_replicas (deployment_named ns n ready ann) = ready"
  by (simp_all add: deployment_named_def dep_key_def)

lemma mem_deployment_with:
  "mem_deployment (with_deployments ds) k = find (\<lambda>d. dep_key d = k) ds"
proof -
  have "filed_in dep_key (map (\<lambda>d. (dep_key d, d)) ds) k = find (\<lambda>d. dep_key d = k) ds"
    by (induction ds) (auto simp: filed_in_def)
  then show ?thesis
    by (simp add: filed_def with_deployments_def)
qed

end
