(* ===== verification/Teardown.thy ===== *)
theory Teardown
  imports Reference_Lib
begin

text \<open>
  \<^verbatim>\<open>aigateway_remove.go\<close>: the teardown protocol with maas-controller (request by an
  annotation on its rendered Deployment, completion by an annotation on the live one), and the
  predicate of the garbage collector.
\<close>

section \<open>The code\<close>

definition managedState :: string where
  "managedState = ''Managed''"

definition removedState :: string where
  "removedState = ''Removed''"

definition maasControllerDeploymentName :: string where
  "maasControllerDeploymentName = ''maas-controller''"

definition aiGatewayControllerDeploymentName :: string where
  "aiGatewayControllerDeploymentName = ''ai-gateway-controller''"

definition batchGatewayOperatorDeploymentName :: string where
  "batchGatewayOperatorDeploymentName = ''llm-d-batch-gateway-operator''"

definition aiGridOperatorDeploymentName :: string where
  "aiGridOperatorDeploymentName = ''grid-operator''"

definition maasTeardownRequestedKey :: string where
  "maasTeardownRequestedKey = ''maas.opendatahub.io/teardown-requested''"

definition maasTeardownCompletedKey :: string where
  "maasTeardownCompletedKey = ''maas.opendatahub.io/teardown-completed''"

definition maasCRDComponentLabelKey :: string where
  "maasCRDComponentLabelKey = ''app.kubernetes.io/component''"

definition maasCRDComponentLabelValue :: string where
  "maasCRDComponentLabelValue = ''models-as-a-service''"

definition aiGatewayControllerComponentLabelValue :: string where
  "aiGatewayControllerComponentLabelValue = ''ai-gateway-controller''"

abbreviation apps_ns :: "module \<Rightarrow> string" where
  "apps_ns m \<equiv> ApplicationsNamespace (cfg m)"

definition maas_controller_key :: "module \<Rightarrow> nsname" where
  "maas_controller_key m = nsname_of (apps_ns m) maasControllerDeploymentName"

definition get_maas_controller_failed :: "module \<Rightarrow> api_error \<Rightarrow> go_error" where
  "get_maas_controller_failed m e =
     wrapf ''get maas-controller Deployment %s/%s: %w'' [apps_ns m, maasControllerDeploymentName] (Api e)"

text \<open>\<^verbatim>\<open>deployment.GetAnnotations()[maasTeardownCompletedKey] == "true"\<close>\<close>

definition teardown_completed_on :: "deployment \<Rightarrow> bool" where
  "teardown_completed_on d \<longleftrightarrow> map_index (dep_annotations d) maasTeardownCompletedKey = ''true''"

text \<open>The client of these two is an interface value that may be nil.\<close>

definition maasTeardownCompleted :: "module \<Rightarrow> 'w client option \<Rightarrow> ('w, bool) comp" where
  "maasTeardownCompleted m cli =
     with_client cli (\<lambda>c. calling (get_deployment c (maas_controller_key m))
       (\<lambda>e. if is_not_found e then ok True else fail (get_maas_controller_failed m e))
       (\<lambda>d. ok (teardown_completed_on d)))"

definition maasControllerDeploymentExists :: "module \<Rightarrow> 'w client option \<Rightarrow> ('w, bool) comp" where
  "maasControllerDeploymentExists m cli =
     with_client cli (\<lambda>c. calling (get_deployment c (maas_controller_key m))
       (\<lambda>e. if is_not_found e then ok False else fail (get_maas_controller_failed m e))
       (\<lambda>d. ok True))"

definition maasRemovalPending :: "module \<Rightarrow> 'w client option \<Rightarrow> ('w, bool) comp" where
  "maasRemovalPending m cli =
     (if cli = None then ok False
      else and_then (maasTeardownCompleted m cli) (\<lambda>completed.
        if \<not> completed then ok True else maasControllerDeploymentExists m cli))"

definition shouldKeepMaaSInstalled :: "module \<Rightarrow> ('w, 'c, bool) action" where
  "shouldKeepMaaSInstalled m =
     reading rr_client (\<lambda>cli.
       if cli = None then ok False
       else and_then (in_world (maasTeardownCompleted m cli)) (\<lambda>completed. ok (\<not> completed)))"

definition is_maas_controller :: "('w, 'c) lib \<Rightarrow> module \<Rightarrow> unstructured \<Rightarrow> bool" where
  "is_maas_controller E m u \<longleftrightarrow>
     us_gvk u = gvk_Deployment E \<and> us_name u = maasControllerDeploymentName \<and>
     us_namespace u = apps_ns m"

definition request_teardown :: "('w, 'c) lib \<Rightarrow> module \<Rightarrow> unstructured \<Rightarrow> unstructured" where
  "request_teardown E m u =
     (if us_gvk u \<noteq> gvk_Deployment E then u
      else if us_name u \<noteq> maasControllerDeploymentName \<or> us_namespace u \<noteq> apps_ns m then u
      else u\<lparr>us_annotations := map_put (us_annotations u) maasTeardownRequestedKey ''true''\<rparr>)"

definition annotateMaaSRequestedTeardown :: "('w, 'c) lib \<Rightarrow> module \<Rightarrow> ('w, 'c, unit) action" where
  "annotateMaaSRequestedTeardown E m =
     with_aigateway (\<lambda>obj.
       if maas_state obj \<noteq> removedState then ok ()
       else modify (\<lambda>rr. rr\<lparr>rr_resources := map (request_teardown E m) (rr_resources rr)\<rparr>))"

definition annotateResource :: "('w, 'c) lib \<Rightarrow> module \<Rightarrow> ('w, 'c, unit) action" where
  "annotateResource E m = annotateMaaSRequestedTeardown E m"

text \<open>
  The predicate runs inside the framework's gc action, which gives it the request it works on; the
  read it makes goes to the cluster and is bounded by a timeout, whose expiry is one more API error.
\<close>

definition maasAwareGCPredicate ::
  "('w, 'c) lib \<Rightarrow> module \<Rightarrow> unstructured \<Rightarrow> ('w, 'c, bool) action" where
  "maasAwareGCPredicate E m u rr =
     (if us_gvk u = gvk_CustomResourceDefinition E \<and> has_suffix (us_name u) aiGridCRDSuffix
      then (Inr False, rr)
      else
        (case DefaultObjectPredicate E rr u of
           Inl e \<Rightarrow> (Inl e, rr)
         | Inr True \<Rightarrow> (Inr True, rr)
         | Inr False \<Rightarrow>
             (let component = map_index (us_labels u) maasCRDComponentLabelKey in
              if component \<noteq> maasCRDComponentLabelValue \<and>
                 component \<noteq> aiGatewayControllerComponentLabelValue
              then (Inr False, rr)
              else if rr_client rr = None then (Inr False, rr)
              else in_world (maasTeardownCompleted m (rr_client rr)) rr)))"

section \<open>The protocol\<close>

text \<open>
  The phases of the removal of MaaS, read off the maas-controller Deployment: its own teardown is
  running, it has reported completion, or the Deployment is gone.
\<close>

datatype teardown_phase = Running | Finished | Gone

definition phase_of :: "deployment option \<Rightarrow> teardown_phase" where
  "phase_of d =
     (case d of
        None \<Rightarrow> Gone
      | Some d \<Rightarrow> if teardown_completed_on d then Finished else Running)"

lemma phase_of_simps [simp]:
  "phase_of None = Gone"
  "phase_of (Some d) = (if teardown_completed_on d then Finished else Running)"
  by (simp_all add: phase_of_def)

lemma maasTeardownCompleted_quiet:
  assumes "quiet_reads (get_deployment c) view"
  shows "maasTeardownCompleted m (Some c) w =
    (Inr (phase_of (view w (maas_controller_key m)) \<noteq> Running), w)"
  using quiet_reads.calling_read [OF assms, where h' = "ok True"]
  by (simp add: maasTeardownCompleted_def comp_simps split: option.splits)

lemma maasControllerDeploymentExists_quiet:
  assumes "quiet_reads (get_deployment c) view"
  shows "maasControllerDeploymentExists m (Some c) w =
    (Inr (phase_of (view w (maas_controller_key m)) \<noteq> Gone), w)"
  using quiet_reads.calling_read [OF assms, where h' = "ok False"]
  by (simp add: maasControllerDeploymentExists_def comp_simps split: option.splits)

text \<open>
  While no other writer is active, the four questions the operator asks about the removal of
  MaaS are answered from the phase of the protocol: the bundle stays installed exactly while the
  teardown is running, teardown counts as completed in the other two phases, and removal is
  pending until the Deployment is gone. No question changes the cluster.
\<close>

theorem teardown_phases:
  assumes "quiet_reads (get_deployment c) view" and "rr_client rr = Some c"
    and "p = phase_of (view (rr_world rr) (maas_controller_key m))"
  shows "shouldKeepMaaSInstalled m rr = (Inr (p = Running), rr) \<and>
    maasTeardownCompleted m (Some c) (rr_world rr) = (Inr (p \<noteq> Running), rr_world rr) \<and>
    maasControllerDeploymentExists m (Some c) (rr_world rr) = (Inr (p \<noteq> Gone), rr_world rr) \<and>
    maasRemovalPending m (Some c) (rr_world rr) = (Inr (p \<noteq> Gone), rr_world rr)"
  using assms(2,3) maasTeardownCompleted_quiet [OF assms(1)]
    maasControllerDeploymentExists_quiet [OF assms(1)]
  by (auto simp: shouldKeepMaaSInstalled_def maasRemovalPending_def comp_simps
      split: option.splits if_splits)

theorem teardown_phases_witness:
  "let w = with_deployments [deployment_named ''apps'' ''maas-controller'' 1
       (Some [''maas.opendatahub.io/teardown-completed'' \<mapsto> ''true''])];
       rr = request_for (Some mem_client) w ([] :: conds) (gateway_with '''' ''Removed'' '''' [])
   in shouldKeepMaaSInstalled (module_for ''apps'') rr = (Inr False, rr) \<and>
      maasRemovalPending (module_for ''apps'') (Some mem_client) w = (Inr True, w)"
proof -
  let ?w = "with_deployments [deployment_named ''apps'' ''maas-controller'' 1
    (Some [''maas.opendatahub.io/teardown-completed'' \<mapsto> ''true''])]"
  have "phase_of (mem_deployment ?w (maas_controller_key (module_for ''apps''))) = Finished"
    by (simp add: mem_deployment_with maas_controller_key_def maasControllerDeploymentName_def
        teardown_completed_on_def map_index_def maasTeardownCompletedKey_def)
  then show ?thesis
    using teardown_phases [OF mem_deps.quiet_reads_axioms, where m = "module_for ''apps''"
        and p = Finished
        and rr = "request_for (Some mem_client) ?w ([] :: conds) (gateway_with '''' ''Removed'' '''' [])"]
    by (simp add: Let_def)
qed

section \<open>Garbage collection\<close>

definition grid_crd :: "('w, 'c) lib \<Rightarrow> unstructured \<Rightarrow> bool" where
  "grid_crd E u \<longleftrightarrow> us_gvk u = gvk_CustomResourceDefinition E \<and> has_suffix (us_name u) aiGridCRDSuffix"

definition maas_bundle :: "unstructured \<Rightarrow> bool" where
  "maas_bundle u \<longleftrightarrow>
     map_index (us_labels u) maasCRDComponentLabelKey
       \<in> {maasCRDComponentLabelValue, aiGatewayControllerComponentLabelValue}"

lemma maasAwareGCPredicate_cases:
  "fst (maasAwareGCPredicate E m u rr) =
     (if grid_crd E u then Inr False
      else
        (case DefaultObjectPredicate E rr u of
           Inl e \<Rightarrow> Inl e
         | Inr d \<Rightarrow>
             if d then Inr True
             else
               (case rr_client rr of
                  None \<Rightarrow> Inr False
                | Some c \<Rightarrow> if maas_bundle u then fst (maasTeardownCompleted m (Some c) (rr_world rr))
                           else Inr False)))"
  by (simp add: maasAwareGCPredicate_def grid_crd_def maas_bundle_def Let_def comp_simps
      split: sum.splits bool.splits option.splits prod.splits)

text \<open>
  C1. What the collector deletes, whatever the cluster answers: an object is deletable exactly when
  it is no AI Grid CRD and either the framework's staleness predicate says so, or that predicate
  says no, the object carries the component label of one of the two MaaS bundles, and the read of
  the maas-controller Deployment succeeds with the teardown completed. A failing predicate or read
  is returned, never taken for permission to delete, and an AI Grid CRD is kept before either is
  asked.
\<close>

theorem maasAwareGCPredicate_deletes_iff:
  "(fst (maasAwareGCPredicate E m u rr) = Inr True \<longleftrightarrow>
      \<not> grid_crd E u \<and>
      (DefaultObjectPredicate E rr u = Inr True \<or>
       DefaultObjectPredicate E rr u = Inr False \<and> maas_bundle u \<and>
         (\<exists>c. rr_client rr = Some c \<and> fst (maasTeardownCompleted m (Some c) (rr_world rr)) = Inr True))) \<and>
   (fst (maasAwareGCPredicate E m u rr) = Inl e \<longleftrightarrow>
      \<not> grid_crd E u \<and>
      (DefaultObjectPredicate E rr u = Inl e \<or>
       DefaultObjectPredicate E rr u = Inr False \<and> maas_bundle u \<and>
         (\<exists>c. rr_client rr = Some c \<and> fst (maasTeardownCompleted m (Some c) (rr_world rr)) = Inl e)))"
  unfolding maasAwareGCPredicate_cases by (auto split: sum.splits option.splits if_splits)

text \<open>
  Every CustomResourceDefinition whose readiness AIGridReady reports is one the collector never
  deletes, whatever the management states, the staleness predicate and the cluster say.
\<close>

theorem grid_crds_kept:
  assumes "us_gvk u = gvk_CustomResourceDefinition E" and "us_name u \<in> set aiGridCRDNames"
  shows "maasAwareGCPredicate E m u rr = (Inr False, rr)"
proof -
  have "has_suffix (us_name u) aiGridCRDSuffix"
    using aiGridCRDNames_match [OF assms(2)] by (simp add: aiGridCRDPredicate_def)
  then show ?thesis
    using assms(1) by (simp add: maasAwareGCPredicate_def)
qed

text \<open>
  C22. With no other writer active, resources of the two MaaS bundles that are not stale by
  generation are released to the collector exactly when the teardown is no longer running.
\<close>

theorem bundle_released_after_teardown:
  assumes "quiet_reads (get_deployment c) view" and "rr_client rr = Some c"
    and "maas_bundle u" and "\<not> grid_crd E u" and "DefaultObjectPredicate E rr u = Inr False"
  shows "maasAwareGCPredicate E m u rr =
    (Inr (phase_of (view (rr_world rr) (maas_controller_key m)) \<noteq> Running), rr)"
  using assms(2-5) maasTeardownCompleted_quiet [OF assms(1)]
  by (auto simp: maasAwareGCPredicate_def grid_crd_def maas_bundle_def Let_def comp_simps)

text \<open>A rendered object with a component label.\<close>

definition labelled :: "gvk \<Rightarrow> string \<Rightarrow> string \<Rightarrow> unstructured" where
  "labelled g n component =
     \<lparr>us_gvk = g, us_namespace = ''apps'', us_name = n,
      us_labels = Some [maasCRDComponentLabelKey \<mapsto> component], us_annotations = None,
      us_object = Obj []\<rparr>"

theorem grid_crds_kept_witness:
  "maasAwareGCPredicate (mem_lib\<lparr>DefaultObjectPredicate := (\<lambda>rr u. Inr True)\<rparr>) (module_for ''apps'')
     (labelled crd_gvk ''gridsites.grid.praxis.fast'' ''models-as-a-service'')
     (request_for None empty_mem [] (gateway_with '''' ''Removed'' ''Removed'' [])) =
   (Inr False, request_for None empty_mem [] (gateway_with '''' ''Removed'' ''Removed'' []))"
  by (rule grid_crds_kept) (simp_all add: labelled_def aiGridCRDNames_def aiGridCRDSuffix_def)

theorem bundle_released_after_teardown_witness:
  "let rr = request_for (Some mem_client) (with_deployments []) [] (gateway_with '''' ''Managed'' '''' [])
   in maasAwareGCPredicate mem_lib (module_for ''apps'')
        (labelled apps_gvk ''maas-api'' ''models-as-a-service'') rr = (Inr True, rr)"
proof -
  let ?rr = "request_for (Some mem_client) (with_deployments []) ([] :: conds) (gateway_with '''' ''Managed'' '''' [])"
  have "maasAwareGCPredicate mem_lib (module_for ''apps'')
      (labelled apps_gvk ''maas-api'' ''models-as-a-service'') ?rr =
    (Inr (phase_of (mem_deployment (rr_world ?rr) (maas_controller_key (module_for ''apps''))) \<noteq> Running), ?rr)"
    by (rule bundle_released_after_teardown [OF mem_deps.quiet_reads_axioms])
      (simp_all add: labelled_def maas_bundle_def grid_crd_def map_index_def apps_gvk_def crd_gvk_def
        maasCRDComponentLabelValue_def)
  then show ?thesis
    by (simp add: Let_def mem_deployment_with)
qed

end
