(* ===== verification/Infra_RBAC.thy ===== *)
theory Infra_RBAC
  imports Teardown
begin

text \<open>
  \<^verbatim>\<open>aigateway_infra_rbac.go\<close>: the infrastructure namespace and the Role and RoleBinding in
  it that let maas-controller copy its database secret, created and repaired while MaaS is Managed
  and deleted once its teardown is completed.
\<close>

section \<open>The code\<close>

definition secretMigrateRoleName :: string where
  "secretMigrateRoleName = ''maas-controller-secret-migrate''"

definition maasControllerSAName :: string where
  "maasControllerSAName = ''maas-controller''"

definition maasDBConfigSecret :: string where
  "maasDBConfigSecret = ''maas-db-config''"

definition requiredLabels :: "(string \<times> string) list" where
  "requiredLabels =
     [(''app.kubernetes.io/part-of'', ''ai-gateway''),
      (''app.kubernetes.io/managed-by'', ''ai-gateway-operator''),
      (''opendatahub.io/generated-namespace'', ''true'')]"

text \<open>
  The loop over the required labels: Go iterates a map in any order, here the order of the list.
\<close>

fun merge_labels :: "(string \<times> string) list \<Rightarrow> strmap \<times> bool \<Rightarrow> strmap \<times> bool" where
  "merge_labels [] (m, needsUpdate) = (m, needsUpdate)"
| "merge_labels ((k, v) # kvs) (m, needsUpdate) =
     merge_labels kvs (if map_index m k \<noteq> v then (map_put m k v, True) else (m, needsUpdate))"

definition ensureNamespace :: "'w client option \<Rightarrow> string \<Rightarrow> ('w, unit) comp" where
  "ensureNamespace cli name = with_client cli (\<lambda>c.
     ensure_object (get_namespace c) (nsname_of '''' name)
       (api (create_namespace c
          \<lparr>ns_name = name, ns_labels = Some (map_of requiredLabels), ns_rest = ''''\<rparr>))
       (\<lambda>ns. case merge_labels requiredLabels (Some (entries (ns_labels ns)), False) of
          (labels, needsUpdate) \<Rightarrow>
            if needsUpdate then api (update_namespace c (ns\<lparr>ns_labels := labels\<rparr>)) else ok ()))"

definition secret_migrate_labels :: strmap where
  "secret_migrate_labels = Some
     [''app.kubernetes.io/part-of'' \<mapsto> ''models-as-a-service'',
      ''app.kubernetes.io/managed-by'' \<mapsto> ''ai-gateway-operator'']"

definition desired_role :: "string \<Rightarrow> role" where
  "desired_role ns =
     \<lparr>role_namespace = ns, role_name = secretMigrateRoleName, role_labels = secret_migrate_labels,
      role_owners = [],
      role_rules =
        [\<lparr>pr_api_groups = [''''], pr_resources = [''secrets''], pr_resource_names = [],
          pr_urls = [], pr_verbs = [''create'']\<rparr>,
         \<lparr>pr_api_groups = [''''], pr_resources = [''secrets''],
          pr_resource_names = [maasDBConfigSecret], pr_urls = [], pr_verbs = [''get'']\<rparr>],
      role_rest = ''''\<rparr>"

definition owned_by ::
  "'w client \<Rightarrow> aigateway \<Rightarrow> string \<Rightarrow> owner_ref list \<Rightarrow> (owner_ref list \<Rightarrow> ('w, unit) comp) \<Rightarrow>
    ('w, unit) comp" where
  "owned_by c owner ns refs k =
     (case set_owner_reference c (gw_meta owner) ns refs of
        Inl e \<Rightarrow> fail (wrapf ''setting owner reference: %w'' [] e)
      | Inr owners \<Rightarrow> k owners)"

definition ensureSecretMigrateRole ::
  "'w client option \<Rightarrow> aigateway \<Rightarrow> string \<Rightarrow> ('w, unit) comp" where
  "ensureSecretMigrateRole cli owner ns = with_client cli (\<lambda>c.
     let desired = desired_role ns in
     ensure_object (get_role c) (nsname_of ns secretMigrateRoleName)
       (owned_by c owner ns (role_owners desired) (\<lambda>owners.
          api (create_role c (desired\<lparr>role_owners := owners\<rparr>))))
       (\<lambda>existing. owned_by c owner (role_namespace existing) (role_owners existing) (\<lambda>owners.
          api (update_role c (existing\<lparr>role_owners := owners, role_rules := role_rules desired,
            role_labels := role_labels desired\<rparr>)))))"

definition desired_role_binding :: "string \<Rightarrow> string \<Rightarrow> role_binding" where
  "desired_role_binding infraNs appNs =
     \<lparr>rb_namespace = infraNs, rb_name = secretMigrateRoleName, rb_labels = secret_migrate_labels,
      rb_owners = [],
      rb_role_ref = \<lparr>rr_api_group = ''rbac.authorization.k8s.io'', rr_kind = ''Role'',
        rr_name = secretMigrateRoleName\<rparr>,
      rb_subjects = [\<lparr>sub_kind = ''ServiceAccount'', sub_name = maasControllerSAName,
        sub_namespace = appNs\<rparr>],
      rb_rest = ''''\<rparr>"

definition ensureSecretMigrateRoleBinding ::
  "'w client option \<Rightarrow> aigateway \<Rightarrow> string \<Rightarrow> string \<Rightarrow> ('w, unit) comp" where
  "ensureSecretMigrateRoleBinding cli owner infraNs appNs = with_client cli (\<lambda>c.
     let desired = desired_role_binding infraNs appNs in
     ensure_object (get_role_binding c) (nsname_of infraNs secretMigrateRoleName)
       (owned_by c owner infraNs (rb_owners desired) (\<lambda>owners.
          api (create_role_binding c (desired\<lparr>rb_owners := owners\<rparr>))))
       (\<lambda>existing. owned_by c owner (rb_namespace existing) (rb_owners existing) (\<lambda>owners.
          api (update_role_binding c (existing\<lparr>rb_owners := owners, rb_subjects := rb_subjects desired,
            rb_labels := rb_labels desired\<rparr>)))))"

text \<open>\<^verbatim>\<open>if err := cli.Delete(...); client.IgnoreNotFound(err) != nil { return err }\<close>\<close>

definition delete_ignoring_missing ::
  "string \<Rightarrow> string \<Rightarrow> ('w, unit) api_call \<Rightarrow> ('w, unit) comp" where
  "delete_ignoring_missing fmt ns m =
     calling m (\<lambda>e. if is_not_found e then ok () else fail (wrapf fmt [ns] (Api e))) ok"

definition ensureInfraRBACDeleted :: "'w client option \<Rightarrow> string \<Rightarrow> ('w, unit) comp" where
  "ensureInfraRBACDeleted cli ns = with_client cli (\<lambda>c.
     and_then (delete_ignoring_missing ''delete secret-migrate Role in %s: %w'' ns
       (delete_role c (nsname_of ns secretMigrateRoleName))) (\<lambda>_.
     delete_ignoring_missing ''delete secret-migrate RoleBinding in %s: %w'' ns
       (delete_role_binding c (nsname_of ns secretMigrateRoleName))))"

text \<open>The ensure logic that the Managed case falls through to.\<close>

definition ensure_infra_rbac :: "module \<Rightarrow> 'w client option \<Rightarrow> aigateway \<Rightarrow> string \<Rightarrow> ('w, unit) comp" where
  "ensure_infra_rbac m cli obj infraNs =
     and_then (wrapping ''ensuring infrastructure namespace %s: %w'' [infraNs]
       (ensureNamespace cli infraNs)) (\<lambda>_.
     and_then (wrapping ''ensuring secret-migrate Role in %s: %w'' [infraNs]
       (ensureSecretMigrateRole cli obj infraNs)) (\<lambda>_.
     wrapping ''ensuring secret-migrate RoleBinding in %s: %w'' [infraNs]
       (ensureSecretMigrateRoleBinding cli obj infraNs (apps_ns m))))"

definition ensureInfraSecretMigrationRBAC :: "module \<Rightarrow> ('w, 'c, unit) action" where
  "ensureInfraSecretMigrationRBAC m =
     with_aigateway (\<lambda>obj. reading rr_client (\<lambda>cli.
       let infraNs = deriveInfrastructureNamespace (apps_ns m) in
       if infraNs = apps_ns m then ok ()
       else if maas_state obj = managedState then in_world (ensure_infra_rbac m cli obj infraNs)
       else if maas_state obj = removedState then
         (if cli = None then fail (new_error ''reconciliation client is nil'')
          else in_world
            (and_then (maasTeardownCompleted m cli) (\<lambda>completed.
               if \<not> completed then ok () else ensureInfraRBACDeleted cli infraNs)))
       else ok ()))"

section \<open>Labels\<close>

lemma merge_labels_entries:
  assumes "distinct (map fst kvs)" "\<forall>(k, v) \<in> set kvs. v \<noteq> ''''"
  shows "entries (fst (merge_labels kvs (m, b))) = entries m ++ map_of kvs"
  using assms
proof (induction kvs arbitrary: m b)
  case Nil
  then show ?case by simp
next
  case (Cons kv kvs)
  obtain k v where kv: "kv = (k, v)" by (cases kv)
  have notin: "map_of kvs k = None"
    using Cons.prems kv by (auto simp: map_of_eq_None_iff)
  show ?case
  proof (cases "map_index m k = v")
    case True
    then have "entries m k = Some v"
      using Cons.prems kv by (auto simp: map_index_def split: option.splits)
    then have "entries m ++ map_of (kv # kvs) = entries m ++ map_of kvs"
      using notin kv by (intro ext) (simp add: map_add_def)
    moreover have "entries (fst (merge_labels (kv # kvs) (m, b))) = entries m ++ map_of kvs"
      using Cons kv True by simp
    ultimately show ?thesis by (simp only:)
  next
    case False
    then show ?thesis
      using Cons kv notin by (auto simp: fun_eq_iff map_add_def split: option.splits)
  qed
qed

lemma merge_labels_dirty:
  assumes "distinct (map fst kvs)"
  shows "snd (merge_labels kvs (m, b)) \<longleftrightarrow> b \<or> (\<exists>(k, v) \<in> set kvs. map_index m k \<noteq> v)"
  using assms
proof (induction kvs arbitrary: m b)
  case Nil
  then show ?case by simp
next
  case (Cons kv kvs)
  obtain k v where kv: "kv = (k, v)" by (cases kv)
  have "map_index (map_put m k v) k' = map_index m k'" if "(k', v') \<in> set kvs" for k' v'
    using Cons.prems that kv by (force simp: map_index_put)
  then show ?case
    using Cons kv by auto
qed

lemma merge_labels_Some: "fst (merge_labels kvs (Some f, b)) = Some (entries (fst (merge_labels kvs (Some f, b))))"
proof -
  have "\<exists>g. fst (merge_labels kvs (Some f, b)) = Some g"
    by (induction kvs arbitrary: f b) (auto simp: map_put_def)
  then show ?thesis by auto
qed

lemma requiredLabels_wf:
  "distinct (map fst requiredLabels)" "\<forall>(k, v) \<in> set requiredLabels. v \<noteq> ''''"
  by (simp_all add: requiredLabels_def)

lemma merge_labels_result:
  assumes "distinct (map fst l)" "\<forall>(k, v) \<in> set l. v \<noteq> ''''"
  shows "merge_labels l (Some old, False) = (Some (old ++ map_of l), \<not> (map_of l \<subseteq>\<^sub>m old))"
proof -
  have "fst (merge_labels l (Some old, False)) = Some (old ++ map_of l)"
    using merge_labels_entries [OF assms, of "Some old" False] merge_labels_Some [of l old False] by simp
  moreover have "snd (merge_labels l (Some old, False)) \<longleftrightarrow> \<not> (map_of l \<subseteq>\<^sub>m old)"
  proof -
    have "map_index (Some old) k \<noteq> v \<longleftrightarrow> old k \<noteq> Some v" if "(k, v) \<in> set l" for k v
      using that assms(2) by (auto simp: map_index_def split: option.splits)
    then have "(\<exists>(k, v) \<in> set l. map_index (Some old) k \<noteq> v) \<longleftrightarrow> (\<exists>(k, v) \<in> set l. old k \<noteq> Some v)"
      by blast
    also have "... \<longleftrightarrow> \<not> (map_of l \<subseteq>\<^sub>m old)"
      unfolding map_le_def dom_def using map_of_eq_Some_iff [OF assms(1)] by (force split: prod.splits)
    finally show ?thesis
      by (simp add: merge_labels_dirty [OF assms(1)])
  qed
  ultimately show ?thesis by (simp add: prod_eq_iff)
qed

lemmas merge_required = merge_labels_result [OF requiredLabels_wf]

text \<open>
  The order in which Go iterates over the map of required labels does not matter: for every
  ordering of them the loop leaves the same labels and takes the same decision to update, which is
  yes exactly when some required label is missing or different; the labels it leaves are the old
  ones overridden by the required ones.
\<close>

theorem merge_labels_any_order:
  assumes "set kvs = set requiredLabels" and "distinct kvs"
  shows "merge_labels kvs (Some old, False) = merge_labels requiredLabels (Some old, False) \<and>
    merge_labels kvs (Some old, False) =
      (Some (old ++ map_of requiredLabels), \<not> (map_of requiredLabels \<subseteq>\<^sub>m old))"
proof -
  have "inj_on fst (set kvs)"
    using requiredLabels_wf(1) assms(1) by (simp add: distinct_map)
  then have perm: "distinct (map fst kvs)"
    using assms(2) by (simp add: distinct_map)
  moreover have "map_of kvs = map_of requiredLabels"
    using perm requiredLabels_wf(1) assms(1) by (metis map_of_inject_set)
  ultimately show ?thesis
    using merge_labels_result [of kvs] requiredLabels_wf(2) assms(1) by (simp add: merge_required)
qed

theorem merge_labels_any_order_witness:
  "merge_labels (rev requiredLabels) (Some [''app.kubernetes.io/part-of'' \<mapsto> ''x''], False) =
   merge_labels requiredLabels (Some [''app.kubernetes.io/part-of'' \<mapsto> ''x''], False)"
proof -
  have "distinct (rev requiredLabels)"
    using requiredLabels_wf(1) by (simp add: distinct_map)
  then show ?thesis
    by (intro merge_labels_any_order [THEN conjunct1]) simp_all
qed

section \<open>What a successful run leaves in the cluster\<close>

text \<open>What the server keeps of an object that is sent to it: it may add labels of its own.\<close>

definition keeps_labels :: "strmap \<Rightarrow> strmap \<Rightarrow> bool" where
  "keeps_labels stored sent \<longleftrightarrow> entries sent \<subseteq>\<^sub>m entries stored"

definition ns_carries :: "namespace \<Rightarrow> namespace \<Rightarrow> bool" where
  "ns_carries stored sent \<longleftrightarrow> keeps_labels (ns_labels stored) (ns_labels sent)"

definition role_carries :: "role \<Rightarrow> role \<Rightarrow> bool" where
  "role_carries stored sent \<longleftrightarrow>
     role_rules stored = role_rules sent \<and> role_owners stored = role_owners sent \<and>
     keeps_labels (role_labels stored) (role_labels sent)"

definition rb_carries :: "role_binding \<Rightarrow> role_binding \<Rightarrow> bool" where
  "rb_carries stored sent \<longleftrightarrow>
     rb_subjects stored = rb_subjects sent \<and> rb_role_ref stored = rb_role_ref sent \<and>
     rb_owners stored = rb_owners sent \<and> keeps_labels (rb_labels stored) (rb_labels sent)"

definition ns_ready :: "namespace option \<Rightarrow> bool" where
  "ns_ready ns \<longleftrightarrow> (\<exists>n. ns = Some n \<and> map_of requiredLabels \<subseteq>\<^sub>m entries (ns_labels n))"

text \<open>
  \<open>read\<close> is what the step read before it wrote: the owner references are those the object
  had, with the AIGateway set as an owner, and a binding that existed keeps the role it refers to, which
  the API server does not let change.
\<close>

definition owned_after :: "'w client \<Rightarrow> aigateway \<Rightarrow> string \<Rightarrow> owner_ref list \<Rightarrow> owner_ref list \<Rightarrow> bool" where
  "owned_after c owner ns before after \<longleftrightarrow> set_owner_reference c (gw_meta owner) ns before = Inr after"

definition role_ready :: "'w client \<Rightarrow> aigateway \<Rightarrow> string \<Rightarrow> api_error + role \<Rightarrow> role option \<Rightarrow> bool" where
  "role_ready c owner ns read r \<longleftrightarrow>
     (\<exists>r'. r = Some r' \<and>
        role_rules r' =
          [\<lparr>pr_api_groups = [''''], pr_resources = [''secrets''], pr_resource_names = [], pr_urls = [],
            pr_verbs = [''create'']\<rparr>,
           \<lparr>pr_api_groups = [''''], pr_resources = [''secrets''], pr_resource_names = [''maas-db-config''],
            pr_urls = [], pr_verbs = [''get'']\<rparr>] \<and>
        keeps_labels (role_labels r') secret_migrate_labels \<and>
        owned_after c owner ns (case read of Inl _ \<Rightarrow> [] | Inr x \<Rightarrow> role_owners x) (role_owners r'))"

definition rb_ready ::
  "'w client \<Rightarrow> aigateway \<Rightarrow> string \<Rightarrow> string \<Rightarrow> api_error + role_binding \<Rightarrow> role_binding option \<Rightarrow> bool" where
  "rb_ready c owner ns appNs read b \<longleftrightarrow>
     (\<exists>b'. b = Some b' \<and>
        rb_subjects b' =
          [\<lparr>sub_kind = ''ServiceAccount'', sub_name = ''maas-controller'', sub_namespace = appNs\<rparr>] \<and>
        rb_role_ref b' =
          (case read of
             Inl _ \<Rightarrow> \<lparr>rr_api_group = ''rbac.authorization.k8s.io'', rr_kind = ''Role'',
               rr_name = ''maas-controller-secret-migrate''\<rparr>
           | Inr x \<Rightarrow> rb_role_ref x) \<and>
        keeps_labels (rb_labels b') secret_migrate_labels \<and>
        owned_after c owner ns (case read of Inl _ \<Rightarrow> [] | Inr x \<Rightarrow> rb_owners x) (rb_owners b'))"

text \<open>No call of the later steps disturbs what the earlier ones put in place.\<close>

definition leaves :: "('w \<Rightarrow> 'x) \<Rightarrow> ('w, 'a) api_call \<Rightarrow> bool" where
  "leaves f m \<longleftrightarrow> (\<forall>w. f (snd (m w)) = f w)"

definition undisturbed ::
  "'w client \<Rightarrow> ('w \<Rightarrow> nsname \<Rightarrow> namespace option) \<Rightarrow> ('w \<Rightarrow> nsname \<Rightarrow> role option) \<Rightarrow> bool" where
  "undisturbed c ns_view role_view \<longleftrightarrow>
     (\<forall>k r. leaves ns_view (get_role c k) \<and> leaves ns_view (create_role c r) \<and> leaves ns_view (update_role c r)) \<and>
     (\<forall>k b. leaves ns_view (get_role_binding c k) \<and> leaves ns_view (create_role_binding c b) \<and>
        leaves ns_view (update_role_binding c b)) \<and>
     (\<forall>k b. leaves role_view (get_role_binding c k) \<and> leaves role_view (create_role_binding c b) \<and>
        leaves role_view (update_role_binding c b))"

lemma keeps_labels_refl [simp]: "keeps_labels l l"
  by (simp add: keeps_labels_def)

lemma desired_simps [simp]:
  "role_namespace (desired_role ns) = ns" "role_name (desired_role ns) = secretMigrateRoleName"
  "role_labels (desired_role ns) = secret_migrate_labels"
  "NO_MATCH '''' ns \<Longrightarrow> role_rules (desired_role ns) = role_rules (desired_role '''')"
  "rb_namespace (desired_role_binding ns a) = ns"
  "rb_name (desired_role_binding ns a) = secretMigrateRoleName"
  "rb_labels (desired_role_binding ns a) = secret_migrate_labels"
  "NO_MATCH '''' ns \<Longrightarrow>
     rb_subjects (desired_role_binding ns a) = rb_subjects (desired_role_binding '''' a)"
  by (simp_all add: desired_role_def desired_role_binding_def)

lemma owned_by_Inr:
  "owned_by c owner ns refs k w = (Inr (), w') \<longleftrightarrow>
     (\<exists>os. set_owner_reference c (gw_meta owner) ns refs = Inr os \<and> k os w = (Inr (), w'))"
  by (auto simp: owned_by_def comp_simps split: sum.splits)

lemma ensureNamespace_ready:
  assumes "fresh_store (get_namespace c) (create_namespace c) (update_namespace c) view ns_key ns_carries"
    and "ensureNamespace (Some c) name w = (Inr (), w')"
  shows "ns_ready (view w' (nsname_of '''' name))"
proof (rule fresh_store.ensure_fresh_ok [OF assms(1), where w' = w'])
  note store = fresh_store.axioms(1) [OF assms(1)]
  show "ensure_object (get_namespace c) (nsname_of '''' name)
      (api (create_namespace c
        \<lparr>ns_name = name, ns_labels = Some (map_of requiredLabels), ns_rest = ''''\<rparr>))
      (\<lambda>ns. case merge_labels requiredLabels (Some (entries (ns_labels ns)), False) of
          (labels, needsUpdate) \<Rightarrow>
            if needsUpdate then api (update_namespace c (ns\<lparr>ns_labels := labels\<rparr>)) else ok ()) w = (Inr (), w')"
    using assms(2) by (simp add: ensureNamespace_def)
  show "ns_ready (view w' (nsname_of '''' name))"
    if "api (create_namespace c
        \<lparr>ns_name = name, ns_labels = Some (map_of requiredLabels), ns_rest = ''''\<rparr>) v = (Inr (), w')" for v
    using object_store.create_ok [OF store that]
    by (auto simp: ns_key_def ns_ready_def ns_carries_def keeps_labels_def)
  show "ns_ready (view w' (nsname_of '''' name))"
    if key: "ns_key ns = nsname_of '''' name" and seen: "view v (nsname_of '''' name) = Some ns"
      and run: "(case merge_labels requiredLabels (Some (entries (ns_labels ns)), False) of
          (labels, needsUpdate) \<Rightarrow>
            if needsUpdate then api (update_namespace c (ns\<lparr>ns_labels := labels\<rparr>)) else ok ()) v = (Inr (), w')"
    for ns v
  proof (cases "map_of requiredLabels \<subseteq>\<^sub>m entries (ns_labels ns)")
    case True
    then show ?thesis
      using run seen by (simp add: merge_required comp_simps ns_ready_def)
  next
    case False
    let ?ns = "ns\<lparr>ns_labels := Some (entries (ns_labels ns) ++ map_of requiredLabels)\<rparr>"
    have "api (update_namespace c ?ns) v = (Inr (), w')"
      using run False by (simp add: merge_required)
    moreover have "ns_key ?ns = nsname_of '''' name"
      using key by (simp add: ns_key_def)
    ultimately show ?thesis
      using object_store.update_ok [OF store, of ?ns v w']
      by (auto simp: ns_ready_def ns_carries_def keeps_labels_def intro: map_le_trans [OF map_le_map_add])
  qed
qed

lemma ensureSecretMigrateRole_ready:
  assumes store: "object_store (get_role c) (create_role c) (update_role c) view role_key role_carries"
    and run: "ensureSecretMigrateRole (Some c) owner ns w = (Inr (), w')"
    and get: "get_role c (nsname_of ns secretMigrateRoleName) w = (read, v)"
  shows "role_ready c owner ns read (view w' (nsname_of ns secretMigrateRoleName))"
proof (cases read)
  case (Inl e)
  obtain os where "owned_after c owner ns [] os"
      and "api (create_role c ((desired_role ns)\<lparr>role_owners := os\<rparr>)) v = (Inr (), w')"
    using run get Inl
    by (auto simp: ensureSecretMigrateRole_def Let_def ensure_object_def calling_def owned_by_Inr fail_run
        owned_after_def desired_role_def split: if_splits)
  then show ?thesis
    using object_store.create_ok [OF store] Inl
    by (fastforce simp: role_ready_def role_carries_def role_key_def desired_role_def maasDBConfigSecret_def)
next
  case (Inr ex)
  have key: "role_key ex = nsname_of ns secretMigrateRoleName"
    using object_store.get_key [OF store, of _ w ex v] get Inr by simp
  obtain os where "owned_after c owner ns (role_owners ex) os"
      and "api (update_role c (ex\<lparr>role_owners := os, role_rules := role_rules (desired_role ns),
           role_labels := role_labels (desired_role ns)\<rparr>)) v = (Inr (), w')"
    using run get Inr key
    by (auto simp: ensureSecretMigrateRole_def Let_def ensure_object_def calling_def owned_by_Inr
        owned_after_def role_key_def)
  then show ?thesis
    using object_store.update_ok [OF store] Inr key
    by (fastforce simp: role_ready_def role_carries_def role_key_def desired_role_def maasDBConfigSecret_def)
qed

lemma ensureSecretMigrateRoleBinding_ready:
  assumes store: "object_store (get_role_binding c) (create_role_binding c) (update_role_binding c)
      view rb_key rb_carries"
    and run: "ensureSecretMigrateRoleBinding (Some c) owner ns appNs w = (Inr (), w')"
    and get: "get_role_binding c (nsname_of ns secretMigrateRoleName) w = (read, v)"
  shows "rb_ready c owner ns appNs read (view w' (nsname_of ns secretMigrateRoleName))"
proof (cases read)
  case (Inl e)
  obtain os where "owned_after c owner ns [] os"
      and "api (create_role_binding c ((desired_role_binding ns appNs)\<lparr>rb_owners := os\<rparr>)) v = (Inr (), w')"
    using run get Inl
    by (auto simp: ensureSecretMigrateRoleBinding_def Let_def ensure_object_def calling_def owned_by_Inr fail_run
        owned_after_def desired_role_binding_def split: if_splits)
  then show ?thesis
    using object_store.create_ok [OF store] Inl
    by (fastforce simp: rb_ready_def rb_carries_def rb_key_def desired_role_binding_def
        maasControllerSAName_def secretMigrateRoleName_def)
next
  case (Inr ex)
  have key: "rb_key ex = nsname_of ns secretMigrateRoleName"
    using object_store.get_key [OF store, of _ w ex v] get Inr by simp
  obtain os where "owned_after c owner ns (rb_owners ex) os"
      and "api (update_role_binding c (ex\<lparr>rb_owners := os,
           rb_subjects := rb_subjects (desired_role_binding ns appNs),
           rb_labels := rb_labels (desired_role_binding ns appNs)\<rparr>)) v = (Inr (), w')"
    using run get Inr key
    by (auto simp: ensureSecretMigrateRoleBinding_def Let_def ensure_object_def calling_def owned_by_Inr
        owned_after_def rb_key_def)
  then show ?thesis
    using object_store.update_ok [OF store] Inr key
    by (fastforce simp: rb_ready_def rb_carries_def rb_key_def desired_role_binding_def maasControllerSAName_def)
qed

lemma keeps_owned_by [frame]: "(\<And>os. keeps f (k os)) \<Longrightarrow> keeps f (owned_by c owner ns refs k)"
  unfolding owned_by_def by (auto intro: frame split: sum.split)

lemma undisturbed_steps:
  assumes "undisturbed c ns_view role_view"
  shows "keeps ns_view (ensureSecretMigrateRole (Some c) owner ns)"
    "keeps ns_view (ensureSecretMigrateRoleBinding (Some c) owner ns a)"
    "keeps role_view (ensureSecretMigrateRoleBinding (Some c) owner ns a)"
  unfolding ensureSecretMigrateRole_def ensureSecretMigrateRoleBinding_def Let_def
  by ((intro frame; use assms in \<open>simp add: undisturbed_def leaves_def\<close>)+)

interpretation mem_namespaces: fresh_store "get_namespace mem_client" "create_namespace mem_client"
  "update_namespace mem_client" "filed mem_namespaces ns_key" ns_key ns_carries
  unfolding mem_client_simps by (rule store_fresh_contract) (simp_all add: ns_carries_def)

interpretation mem_roles: deletable_store "get_role mem_client" "create_role mem_client"
  "update_role mem_client" "filed mem_roles role_key" role_key role_carries "delete_role mem_client"
  unfolding mem_client_simps by (rule store_delete_contract) (simp_all add: role_carries_def)

interpretation mem_role_bindings: deletable_store "get_role_binding mem_client"
  "create_role_binding mem_client" "update_role_binding mem_client" "filed mem_role_bindings rb_key"
  rb_key rb_carries "delete_role_binding mem_client"
  unfolding mem_client_simps by (rule store_delete_contract) (simp_all add: rb_carries_def)

section \<open>Properties\<close>

text \<open>
  What a list of RBAC rules permits, after the Kubernetes documentation: a rule matches its groups,
  resources and verbs, and every object name unless it lists names.
\<close>

definition listed :: "string \<Rightarrow> string list \<Rightarrow> bool" where
  "listed x xs \<longleftrightarrow> x \<in> set xs \<or> ''*'' \<in> set xs"

definition permits :: "policy_rule list \<Rightarrow> string \<Rightarrow> string \<Rightarrow> string \<Rightarrow> string \<Rightarrow> bool" where
  "permits rules verb grp resource n \<longleftrightarrow>
     (\<exists>r \<in> set rules. listed verb (pr_verbs r) \<and> listed grp (pr_api_groups r) \<and>
        listed resource (pr_resources r) \<and> (pr_resource_names r = [] \<or> n \<in> set (pr_resource_names r)))"

text \<open>
  Least privilege: the Role the operator writes lets maas-controller create secrets in the
  infrastructure namespace and read the one secret maas-db-config, and nothing else: no other verb,
  no other resource, no other API group, no reading of any other secret.
\<close>

theorem secret_migrate_least_privilege:
  "permits (role_rules (desired_role ns)) verb grp resource n \<longleftrightarrow>
     grp = '''' \<and> resource = ''secrets'' \<and> (verb = ''create'' \<or> verb = ''get'' \<and> n = ''maas-db-config'')"
  by (auto simp: permits_def listed_def desired_role_def maasDBConfigSecret_def)

text \<open>
  C3. While MaaS is Managed and the infrastructure namespace is not the applications namespace, a
  run that succeeds has put in place, each at the end of its own step, whatever the objects were
  before and whatever other writers do in between: the namespace with all its required labels; the
  Role with exactly the two rules; and the RoleBinding whose only subject is the maas-controller
  service account of the applications namespace. Role and RoleBinding have the AIGateway set as an
  owner beside the owners they had. A binding that is created refers to the Role; one that was there
  keeps the role it refers to, so that a foreign reference is not repaired. If the calls of a step do
  not disturb the objects of the earlier ones, all three are in place when the run ends.
\<close>

theorem infra_rbac_in_place:
  assumes "fresh_store (get_namespace c) (create_namespace c) (update_namespace c) ns_view ns_key ns_carries"
    and "object_store (get_role c) (create_role c) (update_role c) role_view role_key role_carries"
    and "object_store (get_role_binding c) (create_role_binding c) (update_role_binding c) rb_view
      rb_key rb_carries"
    and "rr_instance rr = IsAIGateway obj" "rr_client rr = Some c" "maas_state obj = managedState"
    and "infra = deriveInfrastructureNamespace (apps_ns m)" "infra \<noteq> apps_ns m"
    and "ensureInfraSecretMigrationRBAC m rr = (Inr (), rr')"
    and "k = nsname_of infra ''maas-controller-secret-migrate''"
  shows "\<exists>w\<^sub>1 w\<^sub>2. ensureNamespace (Some c) infra (rr_world rr) = (Inr (), w\<^sub>1) \<and>
    ensureSecretMigrateRole (Some c) obj infra w\<^sub>1 = (Inr (), w\<^sub>2) \<and>
    ns_ready (ns_view w\<^sub>1 (nsname_of '''' infra)) \<and>
    role_ready c obj infra (fst (get_role c k w\<^sub>1)) (role_view w\<^sub>2 k) \<and>
    rb_ready c obj infra (apps_ns m) (fst (get_role_binding c k w\<^sub>2)) (rb_view (rr_world rr') k) \<and>
    (undisturbed c ns_view role_view \<longrightarrow>
       ns_ready (ns_view (rr_world rr') (nsname_of '''' infra)) \<and>
       role_ready c obj infra (fst (get_role c k w\<^sub>1)) (role_view (rr_world rr') k))"
proof -
  have "in_world (ensure_infra_rbac m (Some c) obj infra) rr = (Inr (), rr')"
    using assms(4-9) by (simp add: ensureInfraSecretMigrationRBAC_def reading_run Let_def)
  then obtain w\<^sub>1 w\<^sub>2 w\<^sub>3
    where 1: "ensureNamespace (Some c) infra (rr_world rr) = (Inr (), w\<^sub>1)"
      and 2: "ensureSecretMigrateRole (Some c) obj infra w\<^sub>1 = (Inr (), w\<^sub>2)"
      and 3: "ensureSecretMigrateRoleBinding (Some c) obj infra (apps_ns m) w\<^sub>2 = (Inr (), w\<^sub>3)"
      and rr': "rr' = rr\<lparr>rr_world := w\<^sub>3\<rparr>"
    unfolding in_world_Inr_iff ensure_infra_rbac_def comp_result_iffs by auto
  have k: "k = nsname_of infra secretMigrateRoleName"
    by (simp add: assms(10) secretMigrateRoleName_def)
  have ns: "ns_ready (ns_view w\<^sub>1 (nsname_of '''' infra))"
    by (rule ensureNamespace_ready [OF assms(1) 1])
  have role: "role_ready c obj infra (fst (get_role c k w\<^sub>1)) (role_view w\<^sub>2 k)"
    unfolding k by (rule ensureSecretMigrateRole_ready [OF assms(2) 2]) (rule prod.collapse [symmetric])
  have rb: "rb_ready c obj infra (apps_ns m) (fst (get_role_binding c k w\<^sub>2)) (rb_view w\<^sub>3 k)"
    unfolding k
    by (rule ensureSecretMigrateRoleBinding_ready [OF assms(3) 3]) (rule prod.collapse [symmetric])
  have "ns_view w\<^sub>3 = ns_view w\<^sub>1 \<and> role_view w\<^sub>3 = role_view w\<^sub>2" if "undisturbed c ns_view role_view"
    using keepsD [OF undisturbed_steps(1) [OF that] 2] keepsD [OF undisturbed_steps(2) [OF that] 3]
      keepsD [OF undisturbed_steps(3) [OF that] 3] by simp
  then show ?thesis
    using 1 2 ns role rb by (intro exI [of _ w\<^sub>1] exI [of _ w\<^sub>2]) (simp add: rr')
qed

lemma delete_ignoring_missing_gone:
  assumes "deletable_store g cr up view k carries d"
    and "delete_ignoring_missing fmt ns (d key) w = (Inr (), w')"
  shows "view w' key = None"
  using assms(2) deletable_store.delete_view [OF assms(1)] deletable_store.delete_missing [OF assms(1)]
  by (auto simp: delete_ignoring_missing_def comp_simps split: prod.splits sum.splits if_splits)

text \<open>
  C4. While MaaS is Removed, a run that succeeds has asked for the teardown first: with the teardown
  still running it has written nothing (the world is the one the read left), and with the teardown
  completed the Role is gone after its own deletion and the RoleBinding is gone at the end, whether
  the run deleted them or found them missing.
\<close>

theorem infra_rbac_removed:
  assumes "deletable_store (get_role c) (create_role c) (update_role c) role_view role_key role_carries
      (delete_role c)"
    and "deletable_store (get_role_binding c) (create_role_binding c) (update_role_binding c) rb_view
      rb_key rb_carries (delete_role_binding c)"
    and "rr_instance rr = IsAIGateway obj" "rr_client rr = Some c" "maas_state obj = removedState"
    and "infra = deriveInfrastructureNamespace (apps_ns m)" "infra \<noteq> apps_ns m"
    and "ensureInfraSecretMigrationRBAC m rr = (Inr (), rr')"
  shows "\<exists>completed w\<^sub>1. maasTeardownCompleted m (Some c) (rr_world rr) = (Inr completed, w\<^sub>1) \<and>
    (if completed
     then (\<exists>w\<^sub>2. delete_ignoring_missing ''delete secret-migrate Role in %s: %w'' infra
           (delete_role c (nsname_of infra secretMigrateRoleName)) w\<^sub>1 = (Inr (), w\<^sub>2) \<and>
         role_view w\<^sub>2 (nsname_of infra secretMigrateRoleName) = None) \<and>
       rb_view (rr_world rr') (nsname_of infra secretMigrateRoleName) = None
     else rr' = rr\<lparr>rr_world := w\<^sub>1\<rparr>)"
proof -
  have "removedState \<noteq> managedState"
    by (simp add: removedState_def managedState_def)
  then have "in_world (and_then (maasTeardownCompleted m (Some c)) (\<lambda>completed.
      if \<not> completed then ok () else ensureInfraRBACDeleted (Some c) infra)) rr = (Inr (), rr')"
    using assms(3-8) by (simp add: ensureInfraSecretMigrationRBAC_def reading_run Let_def cong: if_cong)
  then obtain completed w\<^sub>1 w
    where "maasTeardownCompleted m (Some c) (rr_world rr) = (Inr completed, w\<^sub>1)"
      and "(if \<not> completed then ok () else ensureInfraRBACDeleted (Some c) infra) w\<^sub>1 = (Inr (), w)"
      and "rr' = rr\<lparr>rr_world := w\<rparr>"
    unfolding in_world_Inr_iff and_then_Inr_iff by blast
  then show ?thesis
    using delete_ignoring_missing_gone [OF assms(1)] delete_ignoring_missing_gone [OF assms(2)]
    by (cases completed) (auto simp: ok_run ensureInfraRBACDeleted_def and_then_Inr_iff)
qed

lemma managed_ignores_deletes:
  "ensure_infra_rbac m (Some (c\<lparr>delete_role := d, delete_role_binding := d'\<rparr>)) obj infra =
   ensure_infra_rbac m (Some c) obj infra"
  by (simp add: ensure_infra_rbac_def ensureNamespace_def ensureSecretMigrateRole_def
      ensureSecretMigrateRoleBinding_def owned_by_def Let_def
      cong: if_cong sum.case_cong prod.case_cong)

lemma removed_ignores_writes:
  assumes "c' = c\<lparr>create_namespace := cn, update_namespace := un, create_role := cr, update_role := ur,
    create_role_binding := cb, update_role_binding := ub\<rparr>"
  shows "ensureInfraRBACDeleted (Some c') infra = ensureInfraRBACDeleted (Some c) infra"
    and "maasTeardownCompleted m (Some c') = maasTeardownCompleted m (Some c)"
  by (simp_all add: assms ensureInfraRBACDeleted_def maasTeardownCompleted_def)

text \<open>
  Which writes a run can make: while MaaS is Managed it never deletes a Role or RoleBinding, and
  while MaaS is Removed it never creates or updates anything: replacing these operations of the
  client by arbitrary others changes neither the result nor the world. In any other state, and when
  the infrastructure namespace is the applications namespace, it makes no call at all.
\<close>

theorem infra_rbac_writes:
  assumes "rr_instance rr = IsAIGateway obj" "rr_client rr = Some c"
  shows "(maas_state obj = managedState \<longrightarrow>
      c' = c\<lparr>delete_role := d, delete_role_binding := d'\<rparr> \<longrightarrow>
      map_prod id rr_world (ensureInfraSecretMigrationRBAC m (rr\<lparr>rr_client := Some c'\<rparr>)) =
      map_prod id rr_world (ensureInfraSecretMigrationRBAC m rr)) \<and>
    (maas_state obj = removedState \<longrightarrow>
      c' = c\<lparr>create_namespace := cn, update_namespace := un, create_role := cr, update_role := ur,
        create_role_binding := cb, update_role_binding := ub\<rparr> \<longrightarrow>
      map_prod id rr_world (ensureInfraSecretMigrationRBAC m (rr\<lparr>rr_client := Some c'\<rparr>)) =
      map_prod id rr_world (ensureInfraSecretMigrationRBAC m rr)) \<and>
    (maas_state obj \<notin> {managedState, removedState} \<or>
       deriveInfrastructureNamespace (apps_ns m) = apps_ns m \<longrightarrow>
      ensureInfraSecretMigrationRBAC m rr = (Inr (), rr))"
proof (intro conjI impI)
  assume "maas_state obj = managedState" "c' = c\<lparr>delete_role := d, delete_role_binding := d'\<rparr>"
  then show "map_prod id rr_world (ensureInfraSecretMigrationRBAC m (rr\<lparr>rr_client := Some c'\<rparr>)) =
      map_prod id rr_world (ensureInfraSecretMigrationRBAC m rr)"
    using assms
    by (simp add: ensureInfraSecretMigrationRBAC_def reading_run in_world_run ok_run Let_def
        managed_ignores_deletes split: prod.split)
next
  assume st: "maas_state obj = removedState"
    and c': "c' = c\<lparr>create_namespace := cn, update_namespace := un, create_role := cr, update_role := ur,
        create_role_binding := cb, update_role_binding := ub\<rparr>"
  have ne: "removedState \<noteq> managedState"
    by (simp add: removedState_def managedState_def)
  have same: "and_then (maasTeardownCompleted m (Some c')) (\<lambda>completed.
      if \<not> completed then ok () else ensureInfraRBACDeleted (Some c') infra) =
    and_then (maasTeardownCompleted m (Some c)) (\<lambda>completed.
      if \<not> completed then ok () else ensureInfraRBACDeleted (Some c) infra)" for infra
    by (simp only: removed_ignores_writes [OF c'])
  show "map_prod id rr_world (ensureInfraSecretMigrationRBAC m (rr\<lparr>rr_client := Some c'\<rparr>)) =
      map_prod id rr_world (ensureInfraSecretMigrationRBAC m rr)"
    using assms st ne
    by (simp add: ensureInfraSecretMigrationRBAC_def reading_run in_world_run ok_run Let_def same
        cong: if_cong split: prod.split)
next
  assume "maas_state obj \<notin> {managedState, removedState} \<or>
    deriveInfrastructureNamespace (apps_ns m) = apps_ns m"
  then show "ensureInfraSecretMigrationRBAC m rr = (Inr (), rr)"
    using assms by (auto simp: ensureInfraSecretMigrationRBAC_def reading_run ok_run Let_def)
qed

section \<open>Witnesses\<close>

lemma rbac_run_managed:
  "fst (ensureInfraSecretMigrationRBAC (module_for ''opendatahub'')
     (request_for (Some mem_client) empty_mem ([] :: conds) (gateway_with '''' ''Managed'' '''' []))) = Inr ()"
  by code_simp

lemma infra_of_opendatahub: "deriveInfrastructureNamespace ''opendatahub'' = ''odh-ai-gateway-infra''"
  by code_simp

lemma mem_undisturbed: "undisturbed mem_client (filed mem_namespaces ns_key) (filed mem_roles role_key)"
  by (auto simp: undisturbed_def leaves_def store_get_def store_create_def store_update_def filed_def
      split: option.splits)

theorem infra_rbac_in_place_witness:
  "\<exists>rr'. ensureInfraSecretMigrationRBAC (module_for ''opendatahub'')
       (request_for (Some mem_client) empty_mem ([] :: conds) (gateway_with '''' ''Managed'' '''' [])) =
       (Inr (), rr') \<and>
     ns_ready (filed mem_namespaces ns_key (rr_world rr') (nsname_of '''' ''odh-ai-gateway-infra'')) \<and>
     filed mem_roles role_key (rr_world rr')
       (nsname_of ''odh-ai-gateway-infra'' ''maas-controller-secret-migrate'') \<noteq> None \<and>
     filed mem_role_bindings rb_key (rr_world rr')
       (nsname_of ''odh-ai-gateway-infra'' ''maas-controller-secret-migrate'') \<noteq> None"
proof -
  let ?obj = "gateway_with '''' ''Managed'' '''' []"
  let ?rr = "request_for (Some mem_client) empty_mem ([] :: conds) ?obj"
  obtain rr' where run: "ensureInfraSecretMigrationRBAC (module_for ''opendatahub'') ?rr = (Inr (), rr')"
    using rbac_run_managed by (metis prod.collapse)
  have infra: "''odh-ai-gateway-infra'' = deriveInfrastructureNamespace (apps_ns (module_for ''opendatahub''))"
    by (simp add: infra_of_opendatahub)
  have "maas_state ?obj = managedState"
    by (simp add: managedState_def)
  from infra_rbac_in_place [OF mem_namespaces.fresh_store_axioms mem_roles.object_store_axioms
      mem_role_bindings.object_store_axioms _ _ this infra _ run refl] mem_undisturbed
  show ?thesis
    using run by (auto simp: role_ready_def rb_ready_def)
qed

theorem infra_rbac_removed_witness:
  "\<exists>rr'. ensureInfraSecretMigrationRBAC (module_for ''opendatahub'')
       (request_for (Some mem_client) empty_mem ([] :: conds) (gateway_with '''' ''Removed'' '''' [])) =
       (Inr (), rr') \<and>
     filed mem_role_bindings rb_key (rr_world rr')
       (nsname_of ''odh-ai-gateway-infra'' ''maas-controller-secret-migrate'') = None"
proof -
  let ?obj = "gateway_with '''' ''Removed'' '''' []"
  let ?rr = "request_for (Some mem_client) empty_mem ([] :: conds) ?obj"
  have "fst (ensureInfraSecretMigrationRBAC (module_for ''opendatahub'') ?rr) = Inr ()"
    by code_simp
  then obtain rr' where run: "ensureInfraSecretMigrationRBAC (module_for ''opendatahub'') ?rr = (Inr (), rr')"
    by (metis prod.collapse)
  have finished: "fst (maasTeardownCompleted (module_for ''opendatahub'') (Some mem_client) empty_mem) = Inr True"
    by code_simp
  have "\<exists>completed w\<^sub>1.
    maasTeardownCompleted (module_for ''opendatahub'') (Some mem_client) (rr_world ?rr) = (Inr completed, w\<^sub>1) \<and>
    (if completed
     then (\<exists>w\<^sub>2. delete_ignoring_missing ''delete secret-migrate Role in %s: %w'' ''odh-ai-gateway-infra''
           (delete_role mem_client (nsname_of ''odh-ai-gateway-infra'' secretMigrateRoleName)) w\<^sub>1 = (Inr (), w\<^sub>2) \<and>
         filed mem_roles role_key w\<^sub>2 (nsname_of ''odh-ai-gateway-infra'' secretMigrateRoleName) = None) \<and>
       filed mem_role_bindings rb_key (rr_world rr')
         (nsname_of ''odh-ai-gateway-infra'' secretMigrateRoleName) = None
     else rr' = ?rr\<lparr>rr_world := w\<^sub>1\<rparr>)"
    by (rule infra_rbac_removed [OF mem_roles.deletable_store_axioms
          mem_role_bindings.deletable_store_axioms _ _ _ _ _ run, where obj = ?obj])
      (simp_all add: removedState_def infra_of_opendatahub)
  then show ?thesis
    using run finished by (auto simp: secretMigrateRoleName_def)
qed

theorem infra_rbac_writes_witness:
  "map_prod id rr_world (ensureInfraSecretMigrationRBAC (module_for ''opendatahub'')
     (request_for (Some (mem_client\<lparr>delete_role := (\<lambda>k w. (Inl conflict_error, w)),
        delete_role_binding := (\<lambda>k w. (Inl conflict_error, w))\<rparr>)) empty_mem ([] :: conds)
        (gateway_with '''' ''Managed'' '''' []))) =
   map_prod id rr_world (ensureInfraSecretMigrationRBAC (module_for ''opendatahub'')
     (request_for (Some mem_client) empty_mem ([] :: conds) (gateway_with '''' ''Managed'' '''' [])))"
  using infra_rbac_writes [where m = "module_for ''opendatahub''" and c = mem_client
      and obj = "gateway_with '''' ''Managed'' '''' []"
      and rr = "request_for (Some mem_client) empty_mem ([] :: conds) (gateway_with '''' ''Managed'' '''' [])"
      and d = "\<lambda>k w. (Inl conflict_error, w)" and d' = "\<lambda>k w. (Inl conflict_error, w)"
      and c' = "mem_client\<lparr>delete_role := (\<lambda>k w. (Inl conflict_error, w)),
        delete_role_binding := (\<lambda>k w. (Inl conflict_error, w))\<rparr>"]
  by (simp add: managedState_def) (simp add: request_for_def)

end
