(* ===== verification/Semver_Decimal.thy ===== *)
theory Semver_Decimal
  imports Api_Types
begin

text \<open>
  The documented behaviour of \<^verbatim>\<open>ParseTolerant\<close> and \<^verbatim>\<open>String\<close> on versions without
  prerelease and build parts: spaces and one leading v are dropped, one or two missing numbers are
  zero, leading zeros disappear. It meets \<open>semver_contract\<close>; the properties of
  \<^verbatim>\<open>SemVer\<close> that hold for every library with that contract are evaluated on it.
\<close>

section \<open>Decimal numbers\<close>

definition dec_digit :: "nat \<Rightarrow> char" where
  "dec_digit n = char_of (48 + n)"

fun dec :: "nat \<Rightarrow> string" where
  "dec n = (if n < 10 then [dec_digit n] else dec (n div 10) @ [dec_digit (n mod 10)])"

declare dec.simps [simp del]

definition is_digit :: "char \<Rightarrow> bool" where
  "is_digit c \<longleftrightarrow> 48 \<le> (of_char c :: nat) \<and> (of_char c :: nat) \<le> 57"

definition undec :: "string \<Rightarrow> nat" where
  "undec s = foldl (\<lambda>a c. a * 10 + (of_char c - 48)) 0 s"

definition number :: "string \<Rightarrow> nat option" where
  "number s = (if s \<noteq> [] \<and> list_all is_digit s then Some (undec s) else None)"

lemma of_char_dec_digit: "n < 10 \<Longrightarrow> (of_char (dec_digit n) :: nat) = 48 + n"
  by (simp add: dec_digit_def)

lemma is_digit_dec_digit: "n < 10 \<Longrightarrow> is_digit (dec_digit n)"
  by (simp add: is_digit_def of_char_dec_digit)

lemma dec_digits: "list_all is_digit (dec n) \<and> dec n \<noteq> []"
  by (induction n rule: dec.induct) (subst dec.simps, simp add: is_digit_dec_digit)+

lemma undec_dec: "undec (dec n) = n"
proof (induction n rule: dec.induct)
  case (1 n)
  show ?case
  proof (cases "n < 10")
    case True
    then show ?thesis by (subst dec.simps) (simp add: undec_def of_char_dec_digit)
  next
    case False
    then show ?thesis
      using 1 by (subst dec.simps) (simp add: undec_def of_char_dec_digit)
  qed
qed

lemma number_dec: "number (dec n) = Some n"
  using dec_digits [of n] by (simp add: number_def undec_dec)

section \<open>Versions\<close>

fun split_at :: "char \<Rightarrow> string \<Rightarrow> string list" where
  "split_at c [] = [[]]"
| "split_at c (x # xs) =
     (if x = c then [] # split_at c xs
      else (case split_at c xs of y # ys \<Rightarrow> (x # y) # ys | [] \<Rightarrow> [[x]]))"

lemma split_at_plain: "c \<notin> set s \<Longrightarrow> split_at c s = [s]"
  by (induction s) auto

lemma split_at_append: "c \<notin> set s \<Longrightarrow> split_at c (s @ c # t) = s # split_at c t"
  by (induction s) auto

definition tolerant_trim :: "string \<Rightarrow> string" where
  "tolerant_trim s = trim_prefix (trim_right CHR '' '' (dropWhile (\<lambda>c. c = CHR '' '') s)) ''v''"

definition decimal_parse :: "string \<Rightarrow> go_error + nat \<times> nat \<times> nat" where
  "decimal_parse s =
     (case those (map number (split_at CHR ''.'' (tolerant_trim s))) of
        Some [a] \<Rightarrow> Inr (a, 0, 0)
      | Some [a, b] \<Rightarrow> Inr (a, b, 0)
      | Some [a, b, c] \<Rightarrow> Inr (a, b, c)
      | _ \<Rightarrow> Inl (External ''invalid version''))"

fun decimal_string :: "nat \<times> nat \<times> nat \<Rightarrow> string" where
  "decimal_string (a, b, c) = dec a @ ''.'' @ dec b @ ''.'' @ dec c"

fun decimal_gt :: "nat \<times> nat \<times> nat \<Rightarrow> nat \<times> nat \<times> nat \<Rightarrow> bool" where
  "decimal_gt (a, b, c) (a', b', c') \<longleftrightarrow> a' < a \<or> a' = a \<and> (b' < b \<or> b' = b \<and> c' < c)"

definition decimal_lib :: "(nat \<times> nat \<times> nat) semver_lib" where
  "decimal_lib = \<lparr>parse_tolerant = decimal_parse, version_string = decimal_string,
     version_gt = decimal_gt\<rparr>"

lemma dec_no_char: "\<not> is_digit c \<Longrightarrow> c \<notin> set (dec n)"
  using dec_digits [of n] by (auto simp: list_all_iff)

lemma hd_dec: "is_digit (hd (dec n)) \<and> is_digit (last (dec n))"
  using dec_digits [of n] by (simp add: list_all_iff)

lemma tolerant_trim_plain:
  assumes "is_digit (hd s)" "is_digit (last s)" "s \<noteq> []"
  shows "tolerant_trim s = s"
proof -
  have ne: "hd s \<noteq> CHR '' ''" "last s \<noteq> CHR '' ''" "hd s \<noteq> CHR ''v''"
    using assms(1,2) by (auto simp: is_digit_def)
  have "dropWhile (\<lambda>c. c = CHR '' '') s = s"
    using ne(1) assms(3) by (cases s) auto
  moreover have "trim_right CHR '' '' s = s"
    using ne(2) assms(3) by (cases s rule: rev_cases) (auto simp: trim_right_def)
  ultimately show ?thesis
    using ne(3) assms(3) by (cases s) (auto simp: tolerant_trim_def trim_prefix_def has_prefix_def)
qed

lemma decimal_reparse: "decimal_parse (decimal_string v) = Inr v"
proof -
  obtain a b c where v: "v = (a, b, c)" by (cases v)
  have dot: "CHR ''.'' \<notin> set (dec n)" for n
    by (rule dec_no_char) (simp add: is_digit_def)
  have "tolerant_trim (decimal_string v) = decimal_string v"
    using hd_dec [of a] hd_dec [of c] dec_digits [of a] dec_digits [of c]
    by (intro tolerant_trim_plain) (simp_all add: v)
  moreover have "split_at CHR ''.'' (decimal_string v) = [dec a, dec b, dec c]"
    by (simp add: v split_at_append split_at_plain dot)
  ultimately show ?thesis
    by (simp add: decimal_parse_def number_dec v)
qed

lemma decimal_string_ascii: "c \<in> set (decimal_string v) \<Longrightarrow> (of_char c :: nat) < 128"
  using dec_digits by (cases v) (fastforce simp: list_all_iff is_digit_def)

interpretation semver: semver_contract decimal_lib
proof unfold_locales
  fix u v w s
  show "parse_tolerant decimal_lib s = Inr v \<Longrightarrow>
      parse_tolerant decimal_lib (version_string decimal_lib v) = Inr v"
    by (simp add: decimal_lib_def decimal_reparse)
  show "parse_tolerant decimal_lib s = Inr v \<Longrightarrow> version_string decimal_lib v \<noteq> ''''"
    by (cases v) (simp add: decimal_lib_def)
  show "parse_tolerant decimal_lib s = Inr v \<Longrightarrow>
      \<forall>c\<in>set (version_string decimal_lib v). (of_char c :: nat) < 128"
    by (simp add: decimal_lib_def decimal_string_ascii)
  show "\<not> version_gt decimal_lib v v"
    by (cases v) (simp add: decimal_lib_def)
  show "version_gt decimal_lib u v \<Longrightarrow> version_gt decimal_lib v w \<Longrightarrow> version_gt decimal_lib u w"
    by (cases u; cases v; cases w) (auto simp: decimal_lib_def)
qed

section \<open>Properties of SemVer\<close>

text \<open>
  C38. Over every semantic-version library with the contract: what \<^verbatim>\<open>NewSemVer\<close> accepts is
  canonical (accepting it again changes nothing), parses to the same version as the text it was made
  from and survives a JSON round trip; decoding a JSON string normalises it just as
  \<^verbatim>\<open>NewSemVer\<close> does, with the same error, and leaves only the empty string as it is;
  \<^verbatim>\<open>GT\<close> holds exactly when both texts parse and the first version is the greater one, so
  that it is a strict order in which an unparseable version is never related.
\<close>

theorem SemVer_canonical:
  assumes "semver_contract L" and "NewSemVer L s = Inr v"
  shows "NewSemVer L v = Inr v \<and>
    SemVer_Parse L v = SemVer_Parse L s \<and>
    SemVer_UnmarshalJSON L (SemVer_MarshalJSON v) = Inr v \<and>
    \<not> SemVer_IsZero v \<and>
    SemVer_UnmarshalJSON L (Some (Str t)) = (if t = '''' then Inr '''' else NewSemVer L t) \<and>
    (SemVer_GT L u x \<longleftrightarrow>
      (\<exists>cv ov. parse_tolerant L u = Inr cv \<and> parse_tolerant L x = Inr ov \<and> version_gt L cv ov)) \<and>
    \<not> SemVer_GT L v v \<and>
    (SemVer_GT L u v \<and> SemVer_GT L v x \<longrightarrow> SemVer_GT L u x) \<and>
    (NewSemVer L u = Inl e \<longrightarrow> \<not> SemVer_GT L u v \<and> \<not> SemVer_GT L v u)"
proof -
  obtain p where p: "parse_tolerant L s = Inr p" "v = version_string L p"
    using assms(2) by (auto simp: NewSemVer_def split: sum.splits)
  have "SemVer_Parse L v = SemVer_Parse L s"
    using semver_contract.reparse [OF assms(1) p(1)] p by (simp add: SemVer_Parse_def)
  moreover have "SemVer_UnmarshalJSON L (SemVer_MarshalJSON v) = Inr v"
    using assms(1) p
    by (simp add: SemVer_UnmarshalJSON_def SemVer_MarshalJSON_def json_marshal_string_def
        to_valid_utf8_ascii semver_contract.printed_ascii semver_contract.reparse)
  moreover have "\<not> SemVer_IsZero v"
    using semver_contract.printed_nonempty [OF assms(1) p(1)] p(2) by (simp add: SemVer_IsZero_def)
  moreover have "SemVer_UnmarshalJSON L (Some (Str t)) = (if t = '''' then Inr '''' else NewSemVer L t)"
    by (simp add: SemVer_UnmarshalJSON_def NewSemVer_def)
  moreover have "SemVer_GT L u x \<longleftrightarrow>
      (\<exists>cv ov. parse_tolerant L u = Inr cv \<and> parse_tolerant L x = Inr ov \<and> version_gt L cv ov)"
    by (auto simp: SemVer_GT_def SemVer_Parse_def split: sum.splits)
  moreover have "NewSemVer L u = Inl e \<longrightarrow> \<not> SemVer_GT L u v \<and> \<not> SemVer_GT L v u"
    by (auto simp: NewSemVer_def SemVer_GT_def SemVer_Parse_def split: sum.splits)
  ultimately show ?thesis
    using semver_contract.new_semver_fixed [OF assms]
      semver_contract.gt_asym_versions [OF assms(1)] semver_contract.gt_trans_versions [OF assms(1)]
    by blast
qed

theorem SemVer_canonical_witness:
  "NewSemVer decimal_lib ''v1.02'' = Inr ''1.2.0'' \<and>
   NewSemVer decimal_lib ''1.2.0'' = Inr ''1.2.0'' \<and>
   SemVer_GT decimal_lib ''1.10'' ''1.9.5''"
proof -
  have "NewSemVer decimal_lib ''v1.02'' = Inr ''1.2.0''" by code_simp
  moreover from SemVer_canonical [OF semver.semver_contract_axioms this]
  have "NewSemVer decimal_lib ''1.2.0'' = Inr ''1.2.0''" by blast
  moreover have "SemVer_GT decimal_lib ''1.10'' ''1.9.5''" by code_simp
  ultimately show ?thesis by blast
qed

end
