(* ===== verification/Initialize.thy ===== *)
theory Initialize
  imports Infra_RBAC Semver_Decimal
begin

text \<open>
  The constructor of the module, \<^verbatim>\<open>NewModule\<close>, and the first action of the pipeline,
  \<^verbatim>\<open>initialize\<close>, which selects the manifests of the sub-modules and writes their parameter
  files; the two predicates on the management states of the spec.
\<close>

section \<open>Build metadata and image parameters\<close>

record build_info =
  Version :: string
  Commit :: string
  Branch :: string
  Repo :: string

text \<open>The values without \<^verbatim>\<open>-ldflags\<close>.\<close>

definition default_build :: build_info where
  "default_build =
     \<lparr>Version = ''0.0.0-dev'', Commit = ''unknown'', Branch = ''unknown'', Repo = ''unknown''\<rparr>"

definition batchGatewayImageParamMap :: strmap where
  "batchGatewayImageParamMap = Some
     [''LLM_D_BATCH_GATEWAY_OPERATOR_IMAGE'' \<mapsto> ''RELATED_IMAGE_ODH_LLM_D_BATCH_GATEWAY_OPERATOR_IMAGE'',
      ''LLM_D_BATCH_GATEWAY_APISERVER_IMAGE'' \<mapsto> ''RELATED_IMAGE_ODH_LLM_D_BATCH_GATEWAY_APISERVER_IMAGE'',
      ''LLM_D_BATCH_GATEWAY_PROCESSOR_IMAGE'' \<mapsto> ''RELATED_IMAGE_ODH_LLM_D_BATCH_GATEWAY_PROCESSOR_IMAGE'',
      ''LLM_D_BATCH_GATEWAY_GC_IMAGE'' \<mapsto> ''RELATED_IMAGE_ODH_LLM_D_BATCH_GATEWAY_GC_IMAGE'',
      ''LLM_D_ASYNC_IMAGE'' \<mapsto> ''RELATED_IMAGE_ODH_LLM_D_ASYNC_IMAGE'']"

definition maasImageParamMap :: strmap where
  "maasImageParamMap = Some
     [''maas-controller-image'' \<mapsto> ''RELATED_IMAGE_ODH_MAAS_CONTROLLER_IMAGE'',
      ''maas-api-image'' \<mapsto> ''RELATED_IMAGE_ODH_MAAS_API_IMAGE'',
      ''maas-discovery-image'' \<mapsto> ''RELATED_IMAGE_ODH_MAAS_DISCOVERY_IMAGE'',
      ''payload-processing-image'' \<mapsto> ''RELATED_IMAGE_ODH_AI_GATEWAY_PAYLOAD_PROCESSING_IMAGE'',
      ''maas-api-key-cleanup-image'' \<mapsto> ''RELATED_IMAGE_UBI_MINIMAL_IMAGE'',
      ''usage-logs-tenancy-proxy-image'' \<mapsto> ''RELATED_IMAGE_ODH_PYTHON_312_IMAGE'']"

definition aiGatewayControllerImageParamMap :: strmap where
  "aiGatewayControllerImageParamMap = Some
     [''ai-gateway-controller-image'' \<mapsto> ''RELATED_IMAGE_ODH_AI_GATEWAY_CONTROLLER_IMAGE'',
      ''praxis-extproc-image'' \<mapsto> ''RELATED_IMAGE_ODH_PRAXIS_EXTPROC_IMAGE'',
      ''kube-auth-proxy-image'' \<mapsto> ''RELATED_IMAGE_ODH_KUBE_AUTH_PROXY_IMAGE'']"

definition aiGridOperatorImageParamMap :: strmap where
  "aiGridOperatorImageParamMap = Some
     [''grid-operator-image'' \<mapsto> ''RELATED_IMAGE_ODH_PRAXIS_AI_GRID_OPERATOR_IMAGE'']"

section \<open>NewModule\<close>

text \<open>\<^verbatim>\<open>odhdeploy.ApplyParams(mi.String(), "params.env", images, extra)\<close>\<close>

definition apply_params :: "('w, 'c) lib \<Rightarrow> manifest_info \<Rightarrow> strmap \<Rightarrow> strmap \<Rightarrow> ('w, unit) comp" where
  "apply_params E mi images extra = ApplyParams E (manifest_string E mi) ''params.env'' images extra"

definition update_images :: "('w, 'c) lib \<Rightarrow> manifest_info \<Rightarrow> strmap \<Rightarrow> strmap \<Rightarrow> ('w, unit) comp" where
  "update_images E mi images extra =
     wrapping ''failed to update images on path %s: %w'' [manifest_string E mi]
       (apply_params E mi images extra)"

definition NewModule ::
  "('w, 'c) lib \<Rightarrow> 'v semver_lib \<Rightarrow> build_info \<Rightarrow> config \<Rightarrow> ('w, module) comp" where
  "NewModule E L build cf =
     and_then (wrapping ''parsing module version %q: %w'' [Version build] (returned (NewSemVer L (Version build))))
     (\<lambda>v.
       let batchMI = \<lparr>mi_path = ManifestsPath cf, mi_context_dir = ''batchgateway'', mi_source_path = ''base''\<rparr>
       in and_then (update_images E batchMI batchGatewayImageParamMap None) (\<lambda>_.
       let maasSourcePath = (if PlatformType cf = XKS E then ''overlays/xks'' else ''default'');
           maasMI = \<lparr>mi_path = ManifestsPath cf, mi_context_dir = ''maascontroller'',
             mi_source_path = maasSourcePath\<rparr>
       in and_then (update_images E maasMI maasImageParamMap None) (\<lambda>_.
       let aiGatewayControllerMI = \<lparr>mi_path = ManifestsPath cf,
             mi_context_dir = ''aigatewaycontroller'', mi_source_path = ''default''\<rparr>
       in and_then (update_images E aiGatewayControllerMI aiGatewayControllerImageParamMap None) (\<lambda>_.
       let aiGridMI = \<lparr>mi_path = ManifestsPath cf, mi_context_dir = ''aigrid'', mi_source_path = ''crds''\<rparr>;
           aiGridOperatorMI = \<lparr>mi_path = ManifestsPath cf, mi_context_dir = ''aigrid'',
             mi_source_path = ''overlays/openshift''\<rparr>
       in and_then (update_images E aiGridOperatorMI aiGridOperatorImageParamMap
            (Some [''namespace'' \<mapsto> deriveAIGridNamespace (ApplicationsNamespace cf)])) (\<lambda>_.
       ok \<lparr>cfg = cf, mod_version = v, batchGatewayManifestInfo = batchMI, maasManifestInfo = maasMI,
           aiGatewayControllerManifestInfo = aiGatewayControllerMI, aiGridManifestInfo = aiGridMI,
           aiGridOperatorManifestInfo = aiGridOperatorMI\<rparr>)))))"

section \<open>The predicates on the spec\<close>

definition anySubModuleManaged :: "aigateway \<Rightarrow> bool" where
  "anySubModuleManaged obj \<longleftrightarrow>
     batch_state obj = managedState \<or> maas_state obj = managedState \<or> grid_state obj = managedState"

definition aiGridOnly :: "aigateway \<Rightarrow> bool" where
  "aiGridOnly obj \<longleftrightarrow>
     grid_state obj = managedState \<and> maas_state obj \<noteq> managedState \<and> batch_state obj \<noteq> managedState"

section \<open>initialize\<close>

definition init_batch_gateway :: "('w, 'c) lib \<Rightarrow> module \<Rightarrow> aigateway \<Rightarrow> ('w, 'c, unit) action" where
  "init_batch_gateway E m obj =
     (if batch_state obj = managedState then
        and_then (append_manifest (batchGatewayManifestInfo m)) (\<lambda>_.
        in_world (wrapping ''failed to update batch-gateway params.env: %w'' []
          (apply_params E (batchGatewayManifestInfo m) None (Some [''namespace'' \<mapsto> apps_ns m]))))
      else ok ())"

definition init_ai_grid :: "module \<Rightarrow> aigateway \<Rightarrow> ('w, 'c, unit) action" where
  "init_ai_grid m obj =
     (if grid_state obj = managedState then
        reading rr_client (\<lambda>cli.
          if cli = None then fail (new_error ''reconciliation client is nil'')
          else
            let gridNs = deriveAIGridNamespace (apps_ns m) in
            and_then (in_world (wrapping ''ensure namespace %s: %w'' [gridNs] (ensureNamespace cli gridNs)))
              (\<lambda>_. append_manifest (aiGridManifestInfo m)))
      else ok ())"

definition keep_maas_installed :: "module \<Rightarrow> aigateway \<Rightarrow> ('w, 'c, bool) action" where
  "keep_maas_installed m obj =
     (if maas_state obj = managedState then ok True
      else if maas_state obj = removedState then
        wrapping ''determine MaaS teardown state: %w'' [] (shouldKeepMaaSInstalled m)
      else ok False)"

definition maas_params :: "module \<Rightarrow> string \<Rightarrow> strmap" where
  "maas_params m monitoringNamespace =
     (let params = [''namespace'' \<mapsto> apps_ns m,
        ''infrastructure-namespace'' \<mapsto> deriveInfrastructureNamespace (apps_ns m)] in
      Some (if monitoringNamespace \<noteq> '''' then params(''monitoring-namespace'' \<mapsto> monitoringNamespace)
            else params))"

definition init_maas :: "('w, 'c) lib \<Rightarrow> module \<Rightarrow> ('w, 'c, unit) action" where
  "init_maas E m =
     and_then (append_manifest (maasManifestInfo m)) (\<lambda>_.
     reading rr_client (\<lambda>cli.
       if cli = None then fail (new_error ''reconciliation client is nil'')
       else
         reading (\<lambda>rr. Getenv E ''MONITORING_NAMESPACE'' (rr_world rr)) (\<lambda>monitoringNamespace.
         and_then (in_world (wrapping ''failed to update maas params.env: %w'' []
           (apply_params E (maasManifestInfo m) None (maas_params m monitoringNamespace)))) (\<lambda>_.
         and_then (append_manifest (aiGatewayControllerManifestInfo m)) (\<lambda>_.
         in_world (wrapping ''failed to update ai-gateway-controller params.env: %w'' []
           (apply_params E (aiGatewayControllerManifestInfo m) None (Some [''namespace'' \<mapsto> apps_ns m]))))))))"

definition initialize_module :: "('w, 'c) lib \<Rightarrow> module \<Rightarrow> ('w, 'c, unit) action" where
  "initialize_module E m =
     with_aigateway (\<lambda>obj.
       and_then (init_batch_gateway E m obj) (\<lambda>_.
       and_then (init_ai_grid m obj) (\<lambda>_.
       and_then (keep_maas_installed m obj) (\<lambda>keepMaaSInstalled.
       if keepMaaSInstalled then init_maas E m else ok ()))))"

section \<open>What the steps do to the request\<close>

definition batch_manifests :: "module \<Rightarrow> aigateway \<Rightarrow> manifest_info list" where
  "batch_manifests m obj = (if batch_state obj = managedState then [batchGatewayManifestInfo m] else [])"

definition grid_manifests :: "module \<Rightarrow> aigateway \<Rightarrow> manifest_info list" where
  "grid_manifests m obj = (if grid_state obj = managedState then [aiGridManifestInfo m] else [])"

definition maas_manifests :: "module \<Rightarrow> bool \<Rightarrow> manifest_info list" where
  "maas_manifests m keep =
     (if keep then [maasManifestInfo m, aiGatewayControllerManifestInfo m] else [])"

text \<open>A step that succeeds has changed the manifests, by appending, and the world.\<close>

definition appends :: "('w, 'c) request \<Rightarrow> manifest_info list \<Rightarrow> ('w, 'c) request \<Rightarrow> bool" where
  "appends rr ms rr' \<longleftrightarrow>
     rr' = rr\<lparr>rr_manifests := rr_manifests rr @ ms, rr_world := rr_world rr'\<rparr>"

lemma appends_Nil: "appends rr [] rr"
  by (simp add: appends_def)

lemma appends_trans:
  assumes "appends rr ms rr1" and "appends rr1 ns rr2"
  shows "appends rr (ms @ ns) rr2"
proof -
  obtain w where "rr1 = rr\<lparr>rr_manifests := rr_manifests rr @ ms, rr_world := w\<rparr>"
    using assms(1) unfolding appends_def by blast
  moreover obtain w' where "rr2 = rr1\<lparr>rr_manifests := rr_manifests rr1 @ ns, rr_world := w'\<rparr>"
    using assms(2) unfolding appends_def by blast
  ultimately show ?thesis by (simp add: appends_def)
qed

lemma appends_frame:
  assumes "appends rr ms rr'"
  shows "rr_client rr' = rr_client rr" "rr_instance rr' = rr_instance rr"
    "rr_conditions rr' = rr_conditions rr" "rr_resources rr' = rr_resources rr"
    "rr_manifests rr' = rr_manifests rr @ ms"
proof -
  obtain w where "rr' = rr\<lparr>rr_manifests := rr_manifests rr @ ms, rr_world := w\<rparr>"
    using assms unfolding appends_def by blast
  then show "rr_client rr' = rr_client rr" "rr_instance rr' = rr_instance rr"
    "rr_conditions rr' = rr_conditions rr" "rr_resources rr' = rr_resources rr"
    "rr_manifests rr' = rr_manifests rr @ ms"
    by simp_all
qed

lemma init_batch_gateway_appends:
  "init_batch_gateway E m obj rr = (Inr (), rr') \<Longrightarrow> appends rr (batch_manifests m obj) rr'"
  by (auto simp: init_batch_gateway_def batch_manifests_def and_then_Inr_iff append_manifest_run
      in_world_Inr_iff ok_run appends_Nil split: if_splits) (auto simp: appends_def)

lemma init_ai_grid_appends:
  "init_ai_grid m obj rr = (Inr (), rr') \<Longrightarrow> appends rr (grid_manifests m obj) rr'"
  by (auto simp: init_ai_grid_def grid_manifests_def and_then_Inr_iff append_manifest_run reading_run
      Let_def fail_run in_world_Inr_iff ok_run appends_Nil split: if_splits) (auto simp: appends_def)

lemma init_maas_appends:
  "init_maas E m rr = (Inr (), rr') \<Longrightarrow> appends rr (maas_manifests m True) rr' \<and> rr_client rr \<noteq> None"
  by (auto simp: init_maas_def maas_manifests_def and_then_Inr_iff append_manifest_run reading_run
      fail_run in_world_Inr_iff split: if_splits) (auto simp: appends_def)

lemma keep_maas_installed_Inr:
  assumes "keep_maas_installed m obj rr = (Inr keep, rr')"
  shows "appends rr [] rr'"
    and "keep \<longleftrightarrow> maas_state obj = managedState \<or>
      maas_state obj = removedState \<and>
        (\<exists>c. rr_client rr = Some c \<and> fst (maasTeardownCompleted m (Some c) (rr_world rr)) = Inr False)"
proof -
  have ne: "removedState \<noteq> managedState"
    by (simp add: removedState_def managedState_def)
  show "appends rr [] rr'"
    using assms
    by (auto simp: keep_maas_installed_def shouldKeepMaaSInstalled_def ok_run reading_run
        comp_result_iffs in_world_Inr_iff appends_Nil split: if_splits) (auto simp: appends_def)
  show "keep \<longleftrightarrow> maas_state obj = managedState \<or>
      maas_state obj = removedState \<and>
        (\<exists>c. rr_client rr = Some c \<and> fst (maasTeardownCompleted m (Some c) (rr_world rr)) = Inr False)"
    using assms ne
    by (auto simp: keep_maas_installed_def shouldKeepMaaSInstalled_def ok_run reading_run
        comp_result_iffs in_world_Inr_iff split: if_splits)
qed

section \<open>Properties\<close>

text \<open>
  C16. A run of initialize that succeeds has appended, in this order, the batch-gateway manifests if
  it is Managed, the AI Grid CRDs if the grid is Managed, and both MaaS bundles if MaaS is Managed,
  or is Removed and the read of its Deployment, made after the steps for the other two, says the
  teardown is not completed. Nothing of the request but the manifest list and the world has
  changed.
\<close>

theorem initialize_selects:
  assumes "rr_instance rr = IsAIGateway obj" and "initialize_module E m rr = (Inr (), rr')"
    and "w = rr_world (snd (and_then (init_batch_gateway E m obj) (\<lambda>_. init_ai_grid m obj) rr))"
    and "keep \<longleftrightarrow> maas_state obj = managedState \<or> maas_state obj = removedState \<and>
      (\<exists>c. rr_client rr = Some c \<and> fst (maasTeardownCompleted m (Some c) w) = Inr False)"
  shows "\<exists>w'. rr' = rr\<lparr>rr_manifests := rr_manifests rr @
      batch_manifests m obj @ grid_manifests m obj @ maas_manifests m keep, rr_world := w'\<rparr>"
proof -
  obtain rr1 rr2 rr3 k
    where 1: "init_batch_gateway E m obj rr = (Inr (), rr1)"
      and 2: "init_ai_grid m obj rr1 = (Inr (), rr2)"
      and 3: "keep_maas_installed m obj rr2 = (Inr k, rr3)"
      and 4: "(if k then init_maas E m else ok ()) rr3 = (Inr (), rr')"
    using assms(1,2) by (auto simp: initialize_module_def and_then_Inr_iff)
  have w: "w = rr_world rr2"
    using 1 2 assms(3) by (simp add: and_then_def)
  have pre: "appends rr (batch_manifests m obj @ grid_manifests m obj) rr2"
    using init_batch_gateway_appends [OF 1] init_ai_grid_appends [OF 2] by (rule appends_trans)
  have "k = keep"
    using keep_maas_installed_Inr(2) [OF 3] appends_frame(1) [OF pre] assms(4) w by simp
  have "appends rr3 (maas_manifests m k) rr'"
    using 4 init_maas_appends appends_Nil by (cases k) (auto simp: ok_run maas_manifests_def)
  then have "appends rr (batch_manifests m obj @ grid_manifests m obj @ [] @ maas_manifests m k) rr'"
    using pre keep_maas_installed_Inr(1) [OF 3] appends_trans by (metis append.assoc)
  then show ?thesis
    using \<open>k = keep\<close> unfolding appends_def append_Nil by blast
qed

text \<open>
  Without a client initialize never panics: it succeeds exactly when neither MaaS nor the AI
  Grid is Managed and the parameters of a Managed batch-gateway can be written, and otherwise
  returns an error.
\<close>

theorem initialize_nil_client:
  assumes "rr_instance rr = IsAIGateway obj" and "rr_client rr = None"
    and "\<And>p f i x w. \<exists>w'. ApplyParams E p f i x w = (Inr (), w')"
  shows "(fst (initialize_module E m rr) = Inr () \<longleftrightarrow>
      grid_state obj \<noteq> managedState \<and> maas_state obj \<noteq> managedState) \<and>
    (fst (initialize_module E m rr) \<noteq> Inr () \<longrightarrow>
      fst (initialize_module E m rr) = Inl (new_error ''reconciliation client is nil''))"
proof -
  obtain rr1 where 1: "init_batch_gateway E m obj rr = (Inr (), rr1)" "rr_client rr1 = None"
    using assms(2) assms(3) [of "manifest_string E (batchGatewayManifestInfo m)" "''params.env''" None
        "Some [''namespace'' \<mapsto> apps_ns m]" "rr_world rr"]
    by (cases "batch_state obj = managedState")
      (fastforce simp: init_batch_gateway_def apply_params_def and_then_def append_manifest_run
        in_world_run wrapping_def ok_run)+
  have ne: "removedState \<noteq> managedState"
    by (simp add: removedState_def managedState_def)
  show ?thesis
    using assms(1) 1 ne
    by (auto simp: initialize_module_def and_then_def init_ai_grid_def keep_maas_installed_def
        shouldKeepMaaSInstalled_def init_maas_def append_manifest_run reading_run fail_run ok_run
        wrapping_def)
qed

lemma NewModule_fields:
  assumes "NewModule E L build cf w = (Inr m, w')"
  shows "NewSemVer L (Version build) = Inr (mod_version m)" "cfg m = cf"
    "batchGatewayManifestInfo m =
        \<lparr>mi_path = ManifestsPath cf, mi_context_dir = ''batchgateway'', mi_source_path = ''base''\<rparr>"
    "maasManifestInfo m = \<lparr>mi_path = ManifestsPath cf, mi_context_dir = ''maascontroller'',
        mi_source_path = (if PlatformType cf = XKS E then ''overlays/xks'' else ''default'')\<rparr>"
    "aiGatewayControllerManifestInfo m =
        \<lparr>mi_path = ManifestsPath cf, mi_context_dir = ''aigatewaycontroller'', mi_source_path = ''default''\<rparr>"
    "aiGridManifestInfo m =
        \<lparr>mi_path = ManifestsPath cf, mi_context_dir = ''aigrid'', mi_source_path = ''crds''\<rparr>"
    "aiGridOperatorManifestInfo m =
        \<lparr>mi_path = ManifestsPath cf, mi_context_dir = ''aigrid'', mi_source_path = ''overlays/openshift''\<rparr>"
  using assms by (auto simp: NewModule_def Let_def comp_result_iffs returned_run ok_run)

text \<open>
  C37. NewModule returns a module exactly when the version that was linked in parses and the image
  parameters of batch-gateway, MaaS, the AI Gateway controller and the grid operator, the last with
  the derived grid namespace, are written, in this order, each to the parameter file of its own
  manifests; the module then has the configuration it was given, the canonical version (parsing it
  again gives it back) and its five manifest sources, each at its directory under the configured
  base path, MaaS taking its xKS overlay exactly on the xKS platform. A version that does not parse
  is an error before any parameter file is written.
\<close>

theorem NewModule_result:
  assumes "semver_contract L"
    and "manifest = (\<lambda>dir source. \<lparr>mi_path = ManifestsPath cf, mi_context_dir = dir, mi_source_path = source\<rparr>)"
    and "maas = manifest ''maascontroller'' (if PlatformType cf = XKS E then ''overlays/xks'' else ''default'')"
    and "write_images = (\<lambda>mi. ApplyParams E (manifest_string E mi) ''params.env'')"
  shows "(NewModule E L build cf w = (Inr m, w') \<longleftrightarrow>
      (\<exists>v w\<^sub>1 w\<^sub>2 w\<^sub>3. NewSemVer L (Version build) = Inr v \<and>
        write_images (manifest ''batchgateway'' ''base'') batchGatewayImageParamMap None w = (Inr (), w\<^sub>1) \<and>
        write_images maas maasImageParamMap None w\<^sub>1 = (Inr (), w\<^sub>2) \<and>
        write_images (manifest ''aigatewaycontroller'' ''default'') aiGatewayControllerImageParamMap None w\<^sub>2 =
          (Inr (), w\<^sub>3) \<and>
        write_images (manifest ''aigrid'' ''overlays/openshift'') aiGridOperatorImageParamMap
          (Some [''namespace'' \<mapsto> deriveAIGridNamespace (ApplicationsNamespace cf)]) w\<^sub>3 = (Inr (), w') \<and>
        m = \<lparr>cfg = cf, mod_version = v, batchGatewayManifestInfo = manifest ''batchgateway'' ''base'',
          maasManifestInfo = maas, aiGatewayControllerManifestInfo = manifest ''aigatewaycontroller'' ''default'',
          aiGridManifestInfo = manifest ''aigrid'' ''crds'',
          aiGridOperatorManifestInfo = manifest ''aigrid'' ''overlays/openshift''\<rparr>)) \<and>
    (NewModule E L build cf w = (Inr m, w') \<longrightarrow> NewSemVer L (mod_version m) = Inr (mod_version m)) \<and>
    (NewSemVer L (Version build) = Inl e \<longrightarrow>
      NewModule E L build cf w =
        (Inl (wrapf ''parsing module version %q: %w'' [Version build] e), w))"
  (is "(_ \<longleftrightarrow> ?returns) \<and> _ \<and> _")
proof (intro conjI impI)
  show "NewModule E L build cf w = (Inr m, w') \<longleftrightarrow> ?returns"
    unfolding assms(2-4)
    by (auto simp: NewModule_def Let_def comp_result_iffs returned_run ok_run update_images_def apply_params_def)
next
  assume "NewModule E L build cf w = (Inr m, w')"
  then show "NewSemVer L (mod_version m) = Inr (mod_version m)"
    by (rule semver_contract.new_semver_fixed [OF assms(1) NewModule_fields(1)])
next
  assume "NewSemVer L (Version build) = Inl e"
  then show "NewModule E L build cf w =
      (Inl (wrapf ''parsing module version %q: %w'' [Version build] e), w)"
    by (simp add: NewModule_def and_then_def wrapping_def returned_run)
qed

theorem NewModule_result_witness:
  "\<exists>m w'. NewModule mem_lib decimal_lib (default_build\<lparr>Version := ''v0.7''\<rparr>) (cfg (module_for ''apps''))
       empty_mem = (Inr m, w') \<and> mod_version m = ''0.7.0'' \<and>
     mi_context_dir (aiGridOperatorManifestInfo m) = ''aigrid''"
proof -
  let ?b = "default_build\<lparr>Version := ''v0.7''\<rparr>"
  have "\<not> isl (fst (NewModule mem_lib decimal_lib ?b (cfg (module_for ''apps'')) empty_mem))"
    by code_simp
  then obtain m w' where run: "NewModule mem_lib decimal_lib ?b (cfg (module_for ''apps'')) empty_mem = (Inr m, w')"
    by (metis isl_def prod.collapse sum.exhaust)
  moreover have "NewSemVer decimal_lib ''v0.7'' = Inr ''0.7.0''"
    by code_simp
  ultimately show ?thesis
    using NewModule_result [OF semver.semver_contract_axioms refl refl refl, where E = mem_lib and build = ?b
        and cf = "cfg (module_for ''apps'')" and w = empty_mem and m = m and w' = w', THEN conjunct1]
    by auto
qed

theorem initialize_selects_witness:
  "let w = with_deployments [deployment_named ''apps'' ''maas-controller'' 1 None];
       rr = request_for (Some mem_client) w ([] :: conds) (gateway_with ''Managed'' ''Removed'' ''Managed'' []) in
   \<exists>rr'. initialize_module mem_lib (module_for ''apps'') rr = (Inr (), rr') \<and>
     map mi_context_dir (rr_manifests rr') = [''batchgateway'', ''aigrid'', ''maascontroller'', ''aigatewaycontroller'']"
proof -
  let ?obj = "gateway_with ''Managed'' ''Removed'' ''Managed'' []"
  let ?m = "module_for ''apps''"
  let ?rr = "request_for (Some mem_client)
    (with_deployments [deployment_named ''apps'' ''maas-controller'' 1 None]) ([] :: conds) ?obj"
  let ?w = "rr_world (snd (and_then (init_batch_gateway mem_lib ?m ?obj) (\<lambda>_. init_ai_grid ?m ?obj) ?rr))"
  have "fst (initialize_module mem_lib ?m ?rr) = Inr ()"
    by code_simp
  then obtain rr' where run: "initialize_module mem_lib ?m ?rr = (Inr (), rr')"
    by (metis prod.collapse)
  have keep: "fst (maasTeardownCompleted ?m (Some mem_client) ?w) = Inr False"
    by code_simp
  have "\<exists>w'. rr' = ?rr\<lparr>rr_manifests := rr_manifests ?rr @
      batch_manifests ?m ?obj @ grid_manifests ?m ?obj @ maas_manifests ?m True, rr_world := w'\<rparr>"
    by (rule initialize_selects [OF _ run refl]) (use keep in \<open>simp_all add: removedState_def\<close>)
  then show ?thesis
    using run by (auto simp: Let_def batch_manifests_def grid_manifests_def maas_manifests_def managedState_def
        module_for_def manifest_of_def request_for_def)
qed

theorem initialize_nil_client_witness:
  "fst (initialize_module mem_lib (module_for ''apps'')
     (request_for None empty_mem ([] :: conds) (gateway_with ''Managed'' ''Managed'' '''' []))) =
   Inl (new_error ''reconciliation client is nil'')"
proof -
  have "\<exists>w'. ApplyParams mem_lib p f i x w = (Inr (), w')" for p f i x w
    by (simp add: mem_apply_params_def split: option.split)
  from initialize_nil_client [where E = mem_lib and m = "module_for ''apps''" and
      rr = "request_for None empty_mem ([] :: conds) (gateway_with ''Managed'' ''Managed'' '''' [])",
      OF _ _ this]
  show ?thesis
    by (simp add: managedState_def)
qed

end
