(* ===== verification/Report_Status.thy ===== *)
theory Report_Status
  imports Releases Initialize "HOL-Library.Multiset"
begin

text \<open>
  \<^verbatim>\<open>reportStatus\<close> of \<^verbatim>\<open>aigateway.go\<close>: version, build, platform and the sorted list
  of manifest sources in the module status, and the echo of the platform version into the releases.
\<close>

section \<open>The order of the sources\<close>

text \<open>
  The comparison passed to \<^verbatim>\<open>sort.Slice\<close>: by path, then by renderer, as byte strings.
\<close>

definition source_less :: "source_status \<Rightarrow> source_status \<Rightarrow> bool" where
  "source_less x y \<longleftrightarrow>
     (if ss_path x = ss_path y then ss_renderer x < ss_renderer y else ss_path x < ss_path y)"

instantiation source_status :: linorder
begin

definition less_source_status :: "source_status \<Rightarrow> source_status \<Rightarrow> bool" where
  "less_source_status x y \<longleftrightarrow> source_less x y"

definition less_eq_source_status :: "source_status \<Rightarrow> source_status \<Rightarrow> bool" where
  "less_eq_source_status x y \<longleftrightarrow> x = y \<or> source_less x y"

instance
proof
  fix x y z :: source_status
  show "x < y \<longleftrightarrow> x \<le> y \<and> \<not> y \<le> x"
    by (auto simp: less_source_status_def less_eq_source_status_def source_less_def split: if_splits)
  show "x \<le> x" by (simp add: less_eq_source_status_def)
  show "x \<le> y \<Longrightarrow> y \<le> z \<Longrightarrow> x \<le> z"
    by (auto simp: less_eq_source_status_def source_less_def split: if_splits)
  show "x \<le> y \<Longrightarrow> y \<le> x \<Longrightarrow> x = y"
    by (auto simp: less_eq_source_status_def source_less_def split: if_splits)
  show "x \<le> y \<or> y \<le> x"
    by (auto simp: less_eq_source_status_def source_less_def intro: source_status.expand)
qed

end

section \<open>The code\<close>

definition collect_sources :: "('w, 'c) lib \<Rightarrow> ('w, 'c) request \<Rightarrow> source_status list" where
  "collect_sources E rr =
     map (\<lambda>mi. SourceStatus (manifest_string E mi) SourceRendererKustomize) (rr_manifests rr) @
     map (\<lambda>t. SourceStatus (ti_path t) SourceRendererTemplate) (rr_templates rr) @
     map (\<lambda>h. SourceStatus (hc_chart h) SourceRendererHelm) (rr_helm_charts rr)"

definition build_source :: "build_info \<Rightarrow> string" where
  "build_source b = Repo b @ ''@'' @ Branch b @ ''/'' @ Commit b"

definition module_status_of ::
  "('w, 'c) lib \<Rightarrow> build_info \<Rightarrow> module \<Rightarrow> ('w, 'c) request \<Rightarrow> module_status" where
  "module_status_of E b m rr =
     \<lparr>ms_version = mod_version m, ms_build_source = build_source b, ms_platform = rr_release_name rr,
      ms_sources = sort (collect_sources E rr)\<rparr>"

definition reportStatus :: "('w, 'c) lib \<Rightarrow> build_info \<Rightarrow> module \<Rightarrow> ('w, 'c, unit) action" where
  "reportStatus E b m =
     with_aigateway (\<lambda>obj.
       and_then (modify (\<lambda>rr. set_instance (SetModuleStatus obj (module_status_of E b m rr)) rr)) (\<lambda>_.
       and_then (getPlatformVersion m) (\<lambda>platformVersion.
       modify (update_instance
         (if platformVersion \<noteq> '''' then setPlatformRelease platformVersion else clearPlatformRelease)))))"

section \<open>Properties\<close>

lemma sorted_wrt_less_eq: "sorted_wrt (\<lambda>x y. \<not> source_less y x) xs \<longleftrightarrow> sorted xs"
proof -
  have "\<not> source_less y x \<longleftrightarrow> x \<le> y" for x y :: source_status
    using less_source_status_def [of y x] by (metis not_less)
  then show ?thesis by simp
qed

text \<open>
  The sources are determined by what was rendered, not by its order nor by the sorting algorithm:
  any rearrangement of the collected sources in which no element is less than an earlier one is the
  list that is reported.
\<close>

theorem sources_sorted_unique:
  "mset xs = mset (collect_sources E rr) \<and> sorted_wrt (\<lambda>x y. \<not> source_less y x) xs \<longleftrightarrow>
   xs = ms_sources (module_status_of E b m rr)"
  unfolding sorted_wrt_less_eq
  by (auto simp: module_status_of_def intro: properties_for_sort [symmetric])

lemma getPlatformVersion_run:
  assumes "rr_client rr = Some c"
    and "get_config_map c (nsname_of (ApplicationsNamespace (cfg m)) platformConfigName) (rr_world rr) = (r, w)"
  shows "getPlatformVersion m rr =
    (Inr (case r of Inl e \<Rightarrow> '''' | Inr cm \<Rightarrow> map_index (cm_data cm) platformVersionKey), rr\<lparr>rr_world := w\<rparr>)"
  using assms by (simp add: getPlatformVersion_def comp_simps split: sum.split)

lemma reportStatus_run:
  assumes "rr_instance rr = IsAIGateway obj" "rr_client rr = Some c"
    and "get_config_map c (nsname_of (ApplicationsNamespace (cfg m)) platformConfigName) (rr_world rr) = (r, w)"
    and "v = (case r of Inl e \<Rightarrow> '''' | Inr cm \<Rightarrow> map_index (cm_data cm) platformVersionKey)"
  shows "reportStatus E b m rr = (Inr (), rr\<lparr>rr_world := w,
    rr_instance := IsAIGateway (platform.echo v (SetModuleStatus obj (module_status_of E b m rr)))\<rparr>)"
proof -
  let ?obj = "SetModuleStatus obj (module_status_of E b m rr)"
  have "getPlatformVersion m (rr\<lparr>rr_instance := IsAIGateway ?obj\<rparr>) =
      (Inr v, rr\<lparr>rr_instance := IsAIGateway ?obj, rr_world := w\<rparr>)"
    using getPlatformVersion_run [where rr = "rr\<lparr>rr_instance := IsAIGateway ?obj\<rparr>" and r = r and w = w and c = c and m = m]
      assms(2-4) by simp
  then show ?thesis
    using assms(1)
    by (simp add: reportStatus_def and_then_def modify_run set_instance_def
        update_instance_AIGateway platform.echo_def)
qed

text \<open>
  C14. The handshake: the action succeeds whatever the read of the platform's ConfigMap answers; the
  version in the platform entry is then the one of the ConfigMap, and there is none when the key is
  missing or empty and also when the read failed, transiently or not; the other releases and the
  spec are untouched, and the module status carries the version, the build and the platform.
\<close>

theorem reportStatus_echoes_platform_version:
  assumes "rr_instance rr = IsAIGateway obj" "rr_client rr = Some c"
    and "get_config_map c (nsname_of (ApplicationsNamespace (cfg m)) platformConfigName) (rr_world rr) = (r, w)"
  shows "\<exists>obj'. reportStatus E b m rr = (Inr (), rr\<lparr>rr_world := w, rr_instance := IsAIGateway obj'\<rparr>) \<and>
    platform_version obj' = (case r of Inl e \<Rightarrow> '''' | Inr cm \<Rightarrow> map_index (cm_data cm) platformVersionKey) \<and>
    other_releases obj' = other_releases obj \<and> gw_spec obj' = gw_spec obj \<and>
    st_module (gw_status obj') = module_status_of E b m rr"
proof -
  define v where "v = (case r of Inl e \<Rightarrow> '''' | Inr cm \<Rightarrow> map_index (cm_data cm) platformVersionKey)"
  define obj1 where "obj1 = SetModuleStatus obj (module_status_of E b m rr)"
  let ?obj = "platform.echo v obj1"
  have "reportStatus E b m rr = (Inr (), rr\<lparr>rr_world := w, rr_instance := IsAIGateway ?obj\<rparr>)"
    using reportStatus_run [OF assms v_def] by (simp add: obj1_def)
  moreover have "other_releases obj1 = other_releases obj" "gw_spec obj1 = gw_spec obj"
    "st_module (gw_status obj1) = module_status_of E b m rr"
    by (simp_all add: obj1_def other_releases_def)
  moreover have "gw_spec ?obj = gw_spec obj1" "st_module (gw_status ?obj) = st_module (gw_status obj1)"
    by (simp_all add: platform.echo_def)
  ultimately show ?thesis
    unfolding v_def [symmetric]
    by (intro exI [of _ ?obj]) (simp add: platform.echo_version platform.echo_others)
qed

theorem reportStatus_echoes_platform_version_witness:
  "\<exists>obj'. reportStatus mem_lib default_build (module_for ''apps'')
      (request_for (Some (mem_client\<lparr>get_config_map := (\<lambda>k w. (Inl conflict_error, w))\<rparr>)) empty_mem
        ([] :: conds) (gateway_with '''' '''' '''' [\<lparr>cr_name = ''platform'', cr_version = ''3.1.0'', cr_repo_url = ''''\<rparr>])) =
      (Inr (), request_for (Some (mem_client\<lparr>get_config_map := (\<lambda>k w. (Inl conflict_error, w))\<rparr>)) empty_mem [] obj') \<and>
    platform_version obj' = ''''"
proof -
  let ?c = "mem_client\<lparr>get_config_map := (\<lambda>k w. (Inl conflict_error, w))\<rparr>"
  let ?obj = "gateway_with '''' '''' '''' [\<lparr>cr_name = ''platform'', cr_version = ''3.1.0'', cr_repo_url = ''''\<rparr>]"
  let ?rr = "request_for (Some ?c) empty_mem ([] :: conds) ?obj"
  have "get_config_map ?c (nsname_of (ApplicationsNamespace (cfg (module_for ''apps''))) platformConfigName)
      (rr_world ?rr) = (Inl conflict_error, empty_mem)"
    by simp
  from reportStatus_echoes_platform_version [OF _ _ this, where obj = ?obj and E = mem_lib and b = default_build]
  show ?thesis
    by (auto simp: request_for_def)
qed

end
