(* ===== verification/Sub_Module_Status.thy ===== *)
theory Sub_Module_Status
  imports Initialize
begin

text \<open>
  The per-sub-module conditions of \<^verbatim>\<open>aigateway.go\<close>: what is read of the cluster
  (Deployments, the MaaS Config, the AI Grid CRDs) and the four conditions
  \<^verbatim>\<open>reportSubModuleStatus\<close> sets from it.
\<close>

section \<open>Condition types and reasons\<close>

definition ConditionDeploymentsAvailable :: string where
  "ConditionDeploymentsAvailable = ''DeploymentsAvailable''"

definition ConditionModelsAsAServiceReady :: string where
  "ConditionModelsAsAServiceReady = ''ModelsAsAServiceReady''"

definition ConditionBatchGatewayReady :: string where
  "ConditionBatchGatewayReady = ''BatchGatewayReady''"

definition ConditionAIGridReady :: string where
  "ConditionAIGridReady = ''AIGridReady''"

definition ConditionTenantsHealthy :: string where
  "ConditionTenantsHealthy = ''TenantsHealthy''"

definition NoSubModuleManagedReason :: string where
  "NoSubModuleManagedReason = ''NoSubModuleManaged''"

definition MaaSRemovalInProgressReason :: string where
  "MaaSRemovalInProgressReason = ''MaaSRemovalInProgress''"

definition SubModuleRemovedReason :: string where
  "SubModuleRemovedReason = ''Removed''"

definition SubModuleReadyReason :: string where
  "SubModuleReadyReason = ''Ready''"

definition SubModuleNotReadyReason :: string where
  "SubModuleNotReadyReason = ''NotReady''"

definition TenantsHealthyReason :: string where
  "TenantsHealthyReason = ''AllTenantsHealthy''"

definition TenantsDegradedReason :: string where
  "TenantsDegradedReason = ''TenantsDegraded''"

definition TenantsBlockedReason :: string where
  "TenantsBlockedReason = ''TenantsBlocked''"

definition TenantsNoneReason :: string where
  "TenantsNoneReason = ''NoTenantsFound''"

lemmas condition_type_defs =
  ConditionDeploymentsAvailable_def ConditionModelsAsAServiceReady_def ConditionBatchGatewayReady_def
  ConditionAIGridReady_def ConditionTenantsHealthy_def

lemma condition_types_distinct:
  "distinct [ConditionDeploymentsAvailable, ConditionModelsAsAServiceReady, ConditionTenantsHealthy,
     ConditionBatchGatewayReady, ConditionAIGridReady]"
  by (simp add: condition_type_defs)

section \<open>Reading the cluster\<close>

definition deploymentAvailable :: "string \<Rightarrow> string \<Rightarrow> ('w, 'c, bool) action" where
  "deploymentAvailable name ns =
     reading rr_client (\<lambda>cli.
       case cli of
         None \<Rightarrow> ok False
       | Some c \<Rightarrow> in_world
           (calling (get_deployment c (nsname_of ns name))
             (\<lambda>e. if is_not_found e then ok False else fail (Api e))
             (\<lambda>d. ok (1 \<le> dep_ready_replicas d))))"

definition maasConfigGVK :: gvk where
  "maasConfigGVK =
     \<lparr>gvk_group = ''maas.opendatahub.io'', gvk_version = ''v1alpha1'', gvk_kind = ''Config''\<rparr>"

definition maasConfigName :: string where
  "maasConfigName = ''default''"

text \<open>
  The loop over \<^verbatim>\<open>status.conditions\<close>: entries that are not objects are skipped, and the
  first one of the wanted type decides.
\<close>

fun find_raw_condition :: "string \<Rightarrow> any list \<Rightarrow> (string \<times> any) list option" where
  "find_raw_condition t [] = None"
| "find_raw_condition t (Obj kvs # xs) =
     (if obj_index kvs ''type'' = Str t then Some kvs else find_raw_condition t xs)"
| "find_raw_condition t (x # xs) = find_raw_condition t xs"

definition raw_conditions :: "('w, 'c) lib \<Rightarrow> unstructured \<Rightarrow> any list" where
  "raw_conditions E u = NestedSlice E (us_object u) [''status'', ''conditions'']"

text \<open>The answer read off the object, and the answer of the function.\<close>

definition config_ready_of :: "('w, 'c) lib \<Rightarrow> unstructured \<Rightarrow> string \<times> bool" where
  "config_ready_of E u =
     (case find_raw_condition ''Ready'' (raw_conditions E u) of
        None \<Rightarrow> ('''', True)
      | Some cond \<Rightarrow>
          if obj_index cond ''status'' = Str ''True'' then ('''', True)
          else
            (let msg = as_string (obj_index cond ''message'') in
             (if msg = '''' then ''MaaS operands are not ready; check Config/default status for details''
              else msg, False)))"

definition maasConfigReady :: "('w, 'c) lib \<Rightarrow> 'w client option \<Rightarrow> ('w, string \<times> bool) comp" where
  "maasConfigReady E cli =
     (case cli of
        None \<Rightarrow> ok ('''', True)
      | Some c \<Rightarrow>
          calling (get_unstructured c maasConfigGVK (nsname_of '''' maasConfigName))
            (\<lambda>e. if is_not_found e \<or> is_no_match e then ok ('''', True) else fail (Api e))
            (\<lambda>u. ok (config_ready_of E u)))"

definition tenants_health_of :: "('w, 'c) lib \<Rightarrow> unstructured \<Rightarrow> string \<times> string \<times> bool" where
  "tenants_health_of E u =
     (case find_raw_condition ''TenantsHealthy'' (raw_conditions E u) of
        None \<Rightarrow> ('''', '''', True)
      | Some cond \<Rightarrow>
          let r = as_string (obj_index cond ''reason'');
              msg = as_string (obj_index cond ''message'') in
          if obj_index cond ''status'' = Str ''True'' then (r, msg, True)
          else
            (r, if msg = '''' then ''tenant health check failed; check Config/default status for details''
                else msg, False))"

definition tenantsHealthFromConfig ::
  "('w, 'c) lib \<Rightarrow> 'w client option \<Rightarrow> ('w, string \<times> string \<times> bool) comp" where
  "tenantsHealthFromConfig E cli =
     (case cli of
        None \<Rightarrow> ok ('''', '''', True)
      | Some c \<Rightarrow>
          calling (get_unstructured c maasConfigGVK (nsname_of '''' maasConfigName))
            (\<lambda>e. if is_not_found e \<or> is_no_match e then ok ('''', '''', True) else fail (Api e))
            (\<lambda>u. ok (tenants_health_of E u)))"

fun crds_established_loop :: "('w, 'c) lib \<Rightarrow> 'w client \<Rightarrow> string list \<Rightarrow> ('w, bool) comp" where
  "crds_established_loop E c [] = ok True"
| "crds_established_loop E c (name # names) =
     calling (get_crd c (nsname_of '''' name))
       (\<lambda>e. if is_not_found e then ok False else fail (Api e))
       (\<lambda>d. if \<not> IsCRDConditionTrue E d ''Established'' then ok False
            else crds_established_loop E c names)"

definition crdsEstablished :: "('w, 'c) lib \<Rightarrow> 'w client option \<Rightarrow> string list \<Rightarrow> ('w, bool) comp" where
  "crdsEstablished E cli names =
     (case cli of None \<Rightarrow> ok False | Some c \<Rightarrow> crds_established_loop E c names)"

text \<open>Run a computation over the world with the client of the request.\<close>

definition with_rr_client :: "('w client option \<Rightarrow> ('w, 'a) comp) \<Rightarrow> ('w, 'c, 'a) action" where
  "with_rr_client m = reading rr_client (\<lambda>cli. in_world (m cli))"

section \<open>reportSubModuleStatus\<close>

definition checking_deployment :: "string \<Rightarrow> string \<Rightarrow> ('w, 'c, bool) action" where
  "checking_deployment name ns =
     wrapping ''checking %s Deployment: %w'' [name] (deploymentAvailable name ns)"

definition not_managed :: "('w, 'c) lib \<Rightarrow> string \<Rightarrow> string \<Rightarrow> ('w, 'c, unit) action" where
  "not_managed E t msg =
     mark_false E t
       [WithSeverity ConditionSeverityInfo, WithReason SubModuleRemovedReason, WithMessage msg []]"

definition report_maas :: "('w, 'c) lib \<Rightarrow> module \<Rightarrow> aigateway \<Rightarrow> ('w, 'c, unit) action" where
  "report_maas E m obj =
     (if maas_state obj = managedState then
        and_then (checking_deployment maasControllerDeploymentName (apps_ns m)) (\<lambda>maasReady.
        and_then (checking_deployment aiGatewayControllerDeploymentName (apps_ns m))
          (\<lambda>aiGatewayControllerReady.
        if maasReady \<and> aiGatewayControllerReady then
          and_then (wrapping ''checking MaaS Config operand status: %w'' []
            (with_rr_client (maasConfigReady E))) (\<lambda>(configMsg, configReady).
          if configReady then
            mark_true E ConditionModelsAsAServiceReady [WithReason SubModuleReadyReason,
              WithMessage ''modelsAsAService is Managed and deployments are available'' []]
          else
            mark_false E ConditionModelsAsAServiceReady [WithReason SubModuleNotReadyReason,
              WithMessage ''%s'' [configMsg]])
        else
          mark_false E ConditionModelsAsAServiceReady [WithReason SubModuleNotReadyReason,
            WithMessage ''modelsAsAService is Managed but deployments are not yet available'' []]))
      else
        not_managed E ConditionModelsAsAServiceReady ''modelsAsAService ManagementState is Removed'')"

definition healthy_reason :: "string \<Rightarrow> string" where
  "healthy_reason reason =
     (if reason = TenantsNoneReason then TenantsNoneReason
      else if reason \<noteq> '''' then reason else TenantsHealthyReason)"

definition unhealthy_reason :: "string \<Rightarrow> string" where
  "unhealthy_reason reason =
     (if reason = TenantsBlockedReason then TenantsBlockedReason
      else if reason \<noteq> '''' then reason else TenantsDegradedReason)"

definition report_tenants :: "('w, 'c) lib \<Rightarrow> aigateway \<Rightarrow> ('w, 'c, unit) action" where
  "report_tenants E obj =
     (if maas_state obj = managedState then
        and_then (wrapping ''checking tenant health from Config: %w'' []
          (with_rr_client (tenantsHealthFromConfig E))) (\<lambda>(reason, msg, healthy).
        if healthy then
          mark_true E ConditionTenantsHealthy
            [WithReason (healthy_reason reason), WithMessage ''%s'' [msg]]
        else
          mark_false E ConditionTenantsHealthy
            [WithReason (unhealthy_reason reason), WithMessage ''%s'' [msg]])
      else
        not_managed E ConditionTenantsHealthy
          ''modelsAsAService ManagementState is Removed; tenant health not applicable'')"

definition report_batch_gateway :: "('w, 'c) lib \<Rightarrow> module \<Rightarrow> aigateway \<Rightarrow> ('w, 'c, unit) action" where
  "report_batch_gateway E m obj =
     (if batch_state obj = managedState then
        and_then (checking_deployment batchGatewayOperatorDeploymentName (apps_ns m)) (\<lambda>ready.
        if ready then
          mark_true E ConditionBatchGatewayReady [WithReason SubModuleReadyReason,
            WithMessage ''batchGateway is Managed and deployments are available'' []]
        else
          mark_false E ConditionBatchGatewayReady [WithReason SubModuleNotReadyReason,
            WithMessage ''batchGateway is Managed but deployments are not yet available'' []])
      else
        not_managed E ConditionBatchGatewayReady ''batchGateway ManagementState is Removed'')"

definition report_ai_grid :: "('w, 'c) lib \<Rightarrow> module \<Rightarrow> aigateway \<Rightarrow> ('w, 'c, unit) action" where
  "report_ai_grid E m obj =
     (if grid_state obj = managedState then
        and_then (wrapping ''checking AI Grid CRDs: %w'' []
          (with_rr_client (\<lambda>cli. crdsEstablished E cli aiGridCRDNames))) (\<lambda>crdsReady.
        and_then (checking_deployment aiGridOperatorDeploymentName (deriveAIGridNamespace (apps_ns m)))
          (\<lambda>operatorReady.
        if crdsReady \<and> operatorReady then
          mark_true E ConditionAIGridReady [WithReason SubModuleReadyReason,
            WithMessage ''aiGrid is Managed, CRDs are established and the grid operator is available'' []]
        else if \<not> crdsReady then
          mark_false E ConditionAIGridReady [WithReason SubModuleNotReadyReason,
            WithMessage ''aiGrid is Managed but CRDs are not yet established'' []]
        else
          mark_false E ConditionAIGridReady [WithReason SubModuleNotReadyReason,
            WithMessage ''aiGrid is Managed but the grid operator is not yet available'' []]))
      else
        not_managed E ConditionAIGridReady
          ''aiGrid ManagementState is Removed; the grid operator is removed and CRDs are kept'')"

definition reportSubModuleStatus :: "('w, 'c) lib \<Rightarrow> module \<Rightarrow> ('w, 'c, unit) action" where
  "reportSubModuleStatus E m =
     with_aigateway (\<lambda>obj.
       and_then (report_maas E m obj) (\<lambda>_.
       and_then (report_tenants E obj) (\<lambda>_.
       and_then (report_batch_gateway E m obj) (\<lambda>_.
       report_ai_grid E m obj))))"

section \<open>Reading a quiet cluster\<close>

text \<open>
  Deployments, CRDs and unstructured objects read while no other writer is active, by what the
  cluster holds.
\<close>

definition quiet_client ::
  "'w client \<Rightarrow> ('w \<Rightarrow> nsname \<Rightarrow> deployment option) \<Rightarrow> ('w \<Rightarrow> nsname \<Rightarrow> crd option) \<Rightarrow>
    (gvk \<Rightarrow> 'w \<Rightarrow> nsname \<Rightarrow> unstructured option) \<Rightarrow> bool" where
  "quiet_client c vd vc vu \<longleftrightarrow>
     quiet_reads (get_deployment c) vd \<and> quiet_reads (get_crd c) vc \<and>
     (\<forall>g. quiet_reads (get_unstructured c g) (vu g))"

definition available :: "('w \<Rightarrow> nsname \<Rightarrow> deployment option) \<Rightarrow> 'w \<Rightarrow> string \<Rightarrow> string \<Rightarrow> bool" where
  "available vd w ns name \<longleftrightarrow> (\<exists>d. vd w (nsname_of ns name) = Some d \<and> 1 \<le> dep_ready_replicas d)"

definition maas_config :: "(gvk \<Rightarrow> 'w \<Rightarrow> nsname \<Rightarrow> unstructured option) \<Rightarrow> 'w \<Rightarrow> unstructured option" where
  "maas_config vu w = vu maasConfigGVK w (nsname_of '''' maasConfigName)"

definition established ::
  "('w, 'c) lib \<Rightarrow> ('w \<Rightarrow> nsname \<Rightarrow> crd option) \<Rightarrow> 'w \<Rightarrow> string \<Rightarrow> bool" where
  "established E vc w n \<longleftrightarrow>
     (\<exists>d. vc w (nsname_of '''' n) = Some d \<and> IsCRDConditionTrue E d ''Established'')"

lemma deploymentAvailable_quiet:
  assumes "quiet_client c vd vc vu" "rr_client rr = Some c"
  shows "deploymentAvailable name ns rr = (Inr (available vd (rr_world rr) ns name), rr)"
  using assms(2) quiet_reads.calling_read [of "get_deployment c" vd, where h' = "ok False"] assms(1)
  by (auto simp: quiet_client_def deploymentAvailable_def available_def comp_simps split: option.splits)

lemma checking_deployment_quiet:
  assumes "quiet_client c vd vc vu" "rr_client rr = Some c"
  shows "checking_deployment name ns rr = (Inr (available vd (rr_world rr) ns name), rr)"
  by (simp add: checking_deployment_def wrapping_def deploymentAvailable_quiet [OF assms])

lemma maasConfigReady_quiet:
  assumes "quiet_client c vd vc vu"
  shows "maasConfigReady E (Some c) w =
    (Inr (case maas_config vu w of None \<Rightarrow> ('''', True) | Some u \<Rightarrow> config_ready_of E u), w)"
  using quiet_reads.calling_read [of "get_unstructured c maasConfigGVK" "vu maasConfigGVK",
      where h' = "ok ('''' :: string, True)"] assms
  by (simp add: quiet_client_def maasConfigReady_def maas_config_def ok_run split: option.splits)

lemma tenantsHealthFromConfig_quiet:
  assumes "quiet_client c vd vc vu"
  shows "tenantsHealthFromConfig E (Some c) w =
    (Inr (case maas_config vu w of None \<Rightarrow> ('''', '''', True) | Some u \<Rightarrow> tenants_health_of E u), w)"
  using quiet_reads.calling_read [of "get_unstructured c maasConfigGVK" "vu maasConfigGVK",
      where h' = "ok ('''' :: string, '''' :: string, True)"] assms
  by (simp add: quiet_client_def tenantsHealthFromConfig_def maas_config_def ok_run split: option.splits)

lemma crdsEstablished_quiet:
  assumes "quiet_client c vd vc vu"
  shows "crdsEstablished E (Some c) names w = (Inr (list_all (established E vc w) names), w)"
proof -
  have "crds_established_loop E c names w = (Inr (list_all (established E vc w) names), w)"
  proof (induction names)
    case Nil
    then show ?case by (simp add: ok_run)
  next
    case (Cons n names)
    then show ?case
      using quiet_reads.calling_read [of "get_crd c" vc, where h' = "ok False"] assms
      by (simp add: quiet_client_def established_def ok_run split: option.splits)
  qed
  then show ?thesis by (simp add: crdsEstablished_def)
qed

text \<open>The reads of the steps, over the request.\<close>

lemma quiet_steps:
  assumes "quiet_client c vd vc vu" "rr_client rr = Some c"
  shows "checking_deployment name ns rr = (Inr (available vd (rr_world rr) ns name), rr)"
    and "with_rr_client (maasConfigReady E) rr = (Inr (case maas_config vu (rr_world rr) of
      None \<Rightarrow> ('''', True) | Some u \<Rightarrow> config_ready_of E u), rr)"
    and "with_rr_client (tenantsHealthFromConfig E) rr = (Inr (case maas_config vu (rr_world rr) of
      None \<Rightarrow> ('''', '''', True) | Some u \<Rightarrow> tenants_health_of E u), rr)"
    and "with_rr_client (\<lambda>cli. crdsEstablished E cli names) rr =
      (Inr (list_all (established E vc (rr_world rr)) names), rr)"
  using assms(2)
  by (simp_all add: checking_deployment_quiet [OF assms] with_rr_client_def reading_run in_world_run
      maasConfigReady_quiet [OF assms(1)] tenantsHealthFromConfig_quiet [OF assms(1)]
      crdsEstablished_quiet [OF assms(1)])

section \<open>What each step reports\<close>

definition maas_ready ::
  "('w, 'c) lib \<Rightarrow> ('w \<Rightarrow> nsname \<Rightarrow> deployment option) \<Rightarrow> (gvk \<Rightarrow> 'w \<Rightarrow> nsname \<Rightarrow> unstructured option) \<Rightarrow>
    module \<Rightarrow> 'w \<Rightarrow> bool" where
  "maas_ready E vd vu m w \<longleftrightarrow>
     available vd w (apps_ns m) maasControllerDeploymentName \<and>
     available vd w (apps_ns m) aiGatewayControllerDeploymentName \<and>
     (\<forall>u \<in> set_option (maas_config vu w). snd (config_ready_of E u))"

definition tenant_report ::
  "('w, 'c) lib \<Rightarrow> (gvk \<Rightarrow> 'w \<Rightarrow> nsname \<Rightarrow> unstructured option) \<Rightarrow> 'w \<Rightarrow> string \<times> string \<times> bool" where
  "tenant_report E vu w =
     (case maas_config vu w of None \<Rightarrow> ('''', '''', True) | Some u \<Rightarrow> tenants_health_of E u)"

definition grid_ready ::
  "('w, 'c) lib \<Rightarrow> ('w \<Rightarrow> nsname \<Rightarrow> deployment option) \<Rightarrow> ('w \<Rightarrow> nsname \<Rightarrow> crd option) \<Rightarrow>
    module \<Rightarrow> 'w \<Rightarrow> bool" where
  "grid_ready E vd vc m w \<longleftrightarrow>
     (\<forall>n \<in> set aiGridCRDNames. established E vc w n) \<and>
     available vd w (deriveAIGridNamespace (apps_ns m)) aiGridOperatorDeploymentName"

text \<open>The reason of a sub-module's condition.\<close>

definition ready_reason :: "bool \<Rightarrow> bool \<Rightarrow> string" where
  "ready_reason managed ready =
     (if \<not> managed then SubModuleRemovedReason
      else if ready then SubModuleReadyReason else SubModuleNotReadyReason)"

text \<open>A step that succeeds, changes the conditions only, and marks one of them.\<close>

definition reports ::
  "('w, 'c) lib \<Rightarrow> ('w, 'c, unit) action \<Rightarrow> ('w, 'c) request \<Rightarrow> string \<Rightarrow> bool \<Rightarrow> string \<Rightarrow> bool" where
  "reports E step rr t b r \<longleftrightarrow>
     (\<exists>cs. step rr = (Inr (), rr\<lparr>rr_conditions := cs\<rparr>) \<and>
        marks (MarkTrue E) (MarkFalse E) t b r (rr_conditions rr) cs)"

lemma reports_mark_true:
  "distinct (option_kinds opts) \<Longrightarrow> WithReason r \<in> set opts \<Longrightarrow> step rr = mark_true E t opts rr \<Longrightarrow>
     reports E step rr t True r"
  by (auto simp: reports_def marks_def mark_run)

lemma reports_mark_false:
  "distinct (option_kinds opts) \<Longrightarrow> WithReason r \<in> set opts \<Longrightarrow> step rr = mark_false E t opts rr \<Longrightarrow>
     reports E step rr t False r"
  by (auto simp: reports_def marks_def mark_run)

lemma reports_intros:
  "step rr = mark_true E t [WithReason r, WithMessage f as] rr \<Longrightarrow> reports E step rr t True r"
  "step rr = mark_false E t [WithReason r, WithMessage f as] rr \<Longrightarrow> reports E step rr t False r"
  by (rule reports_mark_true reports_mark_false; simp add: option_kinds_def)+

lemma reports_not_managed: "reports E (not_managed E t msg) rr t False SubModuleRemovedReason"
  unfolding not_managed_def by (rule reports_mark_false) (simp_all add: option_kinds_def)

lemma reports_cong: "step rr = step' rr \<Longrightarrow> reports E step rr t b r = reports E step' rr t b r"
  by (simp add: reports_def)

lemma report_maas_reports:
  assumes "quiet_client c vd vc vu" "rr_client rr = Some c"
    and "managed \<longleftrightarrow> maas_state obj = managedState" and "ready \<longleftrightarrow> maas_ready E vd vu m (rr_world rr)"
  shows "reports E (report_maas E m obj) rr ConditionModelsAsAServiceReady
    (managed \<and> ready) (ready_reason managed ready)"
proof -
  note reads = quiet_steps [OF assms(1,2)]
  show ?thesis
  proof (cases managed)
    case False
    then show ?thesis
      using assms(3) reports_not_managed by (auto simp: report_maas_def ready_reason_def)
  next
    case True
    obtain msg cr where cr: "(case maas_config vu (rr_world rr) of None \<Rightarrow> ('''', True)
        | Some u \<Rightarrow> config_ready_of E u) = (msg, cr)"
      by fastforce
    let ?avail = "available vd (rr_world rr) (apps_ns m) maasControllerDeploymentName \<and>
      available vd (rr_world rr) (apps_ns m) aiGatewayControllerDeploymentName"
    have ready: "ready \<longleftrightarrow> ?avail \<and> cr"
      using assms(4) cr by (auto simp: maas_ready_def split: option.splits)
    consider "\<not> ?avail" | "?avail" "cr" | "?avail" "\<not> cr" by blast
    then show ?thesis
    proof cases
      case 1
      then have "report_maas E m obj rr = mark_false E ConditionModelsAsAServiceReady
        [WithReason SubModuleNotReadyReason,
         WithMessage ''modelsAsAService is Managed but deployments are not yet available'' []] rr"
        using True assms(3) by (auto simp: report_maas_def and_then_def reads)
      then show ?thesis
        using True 1 ready by (auto simp: ready_reason_def dest: reports_intros)
    next
      case 2
      then have "report_maas E m obj rr = mark_true E ConditionModelsAsAServiceReady
        [WithReason SubModuleReadyReason,
         WithMessage ''modelsAsAService is Managed and deployments are available'' []] rr"
        using True assms(3) by (simp add: report_maas_def and_then_def wrapping_def reads cr)
      then show ?thesis
        using True 2 ready by (auto simp: ready_reason_def dest: reports_intros)
    next
      case 3
      then have "report_maas E m obj rr = mark_false E ConditionModelsAsAServiceReady
        [WithReason SubModuleNotReadyReason, WithMessage ''%s'' [msg]] rr"
        using True assms(3) by (simp add: report_maas_def and_then_def wrapping_def reads cr)
      then show ?thesis
        using True 3 ready by (auto simp: ready_reason_def dest: reports_intros)
    qed
  qed
qed

lemma report_tenants_reports:
  assumes "quiet_client c vd vc vu" "rr_client rr = Some c"
    and "tenant_report E vu (rr_world rr) = (reason, msg, healthy)"
  shows "reports E (report_tenants E obj) rr ConditionTenantsHealthy
    (maas_state obj = managedState \<and> healthy)
    (if maas_state obj \<noteq> managedState then SubModuleRemovedReason
     else if reason \<noteq> '''' then reason
     else if healthy then TenantsHealthyReason else TenantsDegradedReason)"
proof (cases "maas_state obj = managedState")
  case False
  then show ?thesis
    using reports_not_managed by (auto simp: report_tenants_def)
next
  case True
  then have "report_tenants E obj rr =
    (if healthy then mark_true E ConditionTenantsHealthy
       [WithReason (healthy_reason reason), WithMessage ''%s'' [msg]] rr
     else mark_false E ConditionTenantsHealthy
       [WithReason (unhealthy_reason reason), WithMessage ''%s'' [msg]] rr)"
    using assms(3) by (simp add: report_tenants_def and_then_def wrapping_def
        quiet_steps [OF assms(1,2)] tenant_report_def split: option.splits)
  moreover have "healthy_reason reason = (if reason \<noteq> '''' then reason else TenantsHealthyReason)"
    "unhealthy_reason reason = (if reason \<noteq> '''' then reason else TenantsDegradedReason)"
    by (auto simp: healthy_reason_def unhealthy_reason_def TenantsNoneReason_def TenantsBlockedReason_def)
  ultimately show ?thesis
    using True by (cases healthy) (auto dest: reports_intros)
qed

lemma report_batch_gateway_reports:
  assumes "quiet_client c vd vc vu" "rr_client rr = Some c"
    and "managed \<longleftrightarrow> batch_state obj = managedState"
    and "ready \<longleftrightarrow> available vd (rr_world rr) (apps_ns m) batchGatewayOperatorDeploymentName"
  shows "reports E (report_batch_gateway E m obj) rr ConditionBatchGatewayReady
    (managed \<and> ready) (ready_reason managed ready)"
proof (cases managed)
  case False
  then show ?thesis
    using assms(3) reports_not_managed by (auto simp: report_batch_gateway_def ready_reason_def)
next
  case True
  then have "report_batch_gateway E m obj rr =
    (if ready then mark_true E ConditionBatchGatewayReady [WithReason SubModuleReadyReason,
       WithMessage ''batchGateway is Managed and deployments are available'' []] rr
     else mark_false E ConditionBatchGatewayReady [WithReason SubModuleNotReadyReason,
       WithMessage ''batchGateway is Managed but deployments are not yet available'' []] rr)"
    using assms(3,4) by (simp add: report_batch_gateway_def and_then_def quiet_steps [OF assms(1,2)])
  then show ?thesis
    using True by (cases ready) (auto simp: ready_reason_def dest: reports_intros)
qed

lemma report_ai_grid_reports:
  assumes "quiet_client c vd vc vu" "rr_client rr = Some c"
    and "managed \<longleftrightarrow> grid_state obj = managedState" and "ready \<longleftrightarrow> grid_ready E vd vc m (rr_world rr)"
  shows "reports E (report_ai_grid E m obj) rr ConditionAIGridReady
    (managed \<and> ready) (ready_reason managed ready)"
proof (cases managed)
  case False
  then show ?thesis
    using assms(3) reports_not_managed by (auto simp: report_ai_grid_def ready_reason_def)
next
  case True
  let ?crds = "list_all (established E vc (rr_world rr)) aiGridCRDNames"
  let ?op = "available vd (rr_world rr) (deriveAIGridNamespace (apps_ns m)) aiGridOperatorDeploymentName"
  have ready: "ready \<longleftrightarrow> ?crds \<and> ?op"
    using assms(4) by (simp add: grid_ready_def list_all_iff)
  have "report_ai_grid E m obj rr =
    (if ?crds \<and> ?op then mark_true E ConditionAIGridReady [WithReason SubModuleReadyReason,
       WithMessage ''aiGrid is Managed, CRDs are established and the grid operator is available'' []] rr
     else if \<not> ?crds then mark_false E ConditionAIGridReady [WithReason SubModuleNotReadyReason,
       WithMessage ''aiGrid is Managed but CRDs are not yet established'' []] rr
     else mark_false E ConditionAIGridReady [WithReason SubModuleNotReadyReason,
       WithMessage ''aiGrid is Managed but the grid operator is not yet available'' []] rr)"
    using True assms(3) by (simp add: report_ai_grid_def and_then_def wrapping_def quiet_steps [OF assms(1,2)])
  then show ?thesis
    using True ready by (cases ?crds; cases ?op) (auto simp: ready_reason_def dest: reports_intros)
qed

text \<open>
  Several steps in a row, each with its condition: they succeed, change conditions only, and those
  of \<open>L\<close> say at the end what the list gives, whatever the steps after them do.
\<close>

definition settles ::
  "('w, 'c) lib \<Rightarrow> string \<Rightarrow> ('w, 'c, unit) action \<Rightarrow> ('w, 'c) request \<Rightarrow> (string \<times> bool \<times> string) list \<Rightarrow> bool" where
  "settles E happy act rr L \<longleftrightarrow>
     (\<exists>cs. act rr = (Inr (), rr\<lparr>rr_conditions := cs\<rparr>) \<and>
        (\<forall>(t, b, r) \<in> set L. says (GetCondition E t cs) b r) \<and>
        (\<forall>t. t \<notin> insert happy (fst ` set L) \<longrightarrow> GetCondition E t cs = GetCondition E t (rr_conditions rr)))"

lemma reports_settles:
  assumes "manages_conditions E happy" "t \<noteq> happy" "reports E act rr t b r"
  shows "settles E happy act rr [(t, b, r)]"
proof -
  obtain cs where run: "act rr = (Inr (), rr\<lparr>rr_conditions := cs\<rparr>)"
    and marks: "marks (MarkTrue E) (MarkFalse E) t b r (rr_conditions rr) cs"
    using assms(3) by (auto simp: reports_def)
  then show ?thesis
    unfolding settles_def
    using condition_manager.marks_says [OF assms(1) marks assms(2)]
      condition_manager.marks_other [OF assms(1) marks]
    by (intro exI [of _ cs]) simp
qed

lemma settles_then:
  assumes "settles E happy a rr L" "\<And>cs. settles E happy b (rr\<lparr>rr_conditions := cs\<rparr>) K"
    and "\<forall>x \<in> set L. fst x \<notin> insert happy (fst ` set K)"
  shows "settles E happy (and_then a (\<lambda>_. b)) rr (L @ K)"
proof -
  obtain cs where a: "a rr = (Inr (), rr\<lparr>rr_conditions := cs\<rparr>)"
    and L: "\<forall>(t, b, r) \<in> set L. says (GetCondition E t cs) b r"
    and keep: "\<forall>t. t \<notin> insert happy (fst ` set L) \<longrightarrow> GetCondition E t cs = GetCondition E t (rr_conditions rr)"
    using assms(1) by (auto simp: settles_def)
  obtain ds where b: "b (rr\<lparr>rr_conditions := cs\<rparr>) = (Inr (), rr\<lparr>rr_conditions := ds\<rparr>)"
    and K: "\<forall>(t, b, r) \<in> set K. says (GetCondition E t ds) b r"
    and keep': "\<forall>t. t \<notin> insert happy (fst ` set K) \<longrightarrow> GetCondition E t ds = GetCondition E t cs"
    using assms(2) [of cs] by (auto simp: settles_def)
  have "\<forall>(t, b, r) \<in> set L. says (GetCondition E t ds) b r"
    using L keep' assms(3) by fastforce
  moreover have "GetCondition E t ds = GetCondition E t (rr_conditions rr)"
    if "t \<notin> insert happy (fst ` set (L @ K))" for t
    using that keep keep' by (simp add: image_Un)
  ultimately show ?thesis
    unfolding settles_def using a b K by (intro exI [of _ ds]) (auto simp: and_then_def)
qed

section \<open>Properties\<close>

text \<open>
  C15. On a quiet cluster the action succeeds, changes nothing but conditions, and each condition is
  a function of its own inputs: ModelsAsAServiceReady is True exactly when MaaS is Managed, both of
  its Deployments have a ready replica and the MaaS Config, where it exists, does not report Ready
  other than True; BatchGatewayReady when batch-gateway is Managed and its Deployment is ready;
  AIGridReady when the grid is Managed, every AI Grid CRD is established and the grid operator is
  ready in its own namespace; TenantsHealthy mirrors the Config's condition and its reason. A
  sub-module that is not Managed has the reason Removed, one that is and is not ready NotReady. No
  other condition changes, Ready apart.
\<close>

theorem reportSubModuleStatus_conditions:
  assumes quiet: "quiet_client c vd vc vu" and "rr_client rr = Some c" "rr_instance rr = IsAIGateway obj"
    and conds: "manages_conditions E happy"
    and happy: "happy \<notin> {ConditionModelsAsAServiceReady, ConditionTenantsHealthy,
      ConditionBatchGatewayReady, ConditionAIGridReady}"
    and "w = rr_world rr"
    and maas: "maas \<longleftrightarrow> maas_state obj = managedState" and batch: "batch \<longleftrightarrow> batch_state obj = managedState"
    and grid: "grid \<longleftrightarrow> grid_state obj = managedState"
    and batch_ready: "batch_ready \<longleftrightarrow> available vd w (apps_ns m) batchGatewayOperatorDeploymentName"
    and tenants: "tenant_report E vu w = (reason, msg, healthy)"
  shows "\<exists>cs. reportSubModuleStatus E m rr = (Inr (), rr\<lparr>rr_conditions := cs\<rparr>) \<and>
    says (GetCondition E ConditionModelsAsAServiceReady cs)
      (maas \<and> maas_ready E vd vu m w) (ready_reason maas (maas_ready E vd vu m w)) \<and>
    says (GetCondition E ConditionTenantsHealthy cs) (maas \<and> healthy)
      (if \<not> maas then SubModuleRemovedReason else if reason \<noteq> '''' then reason
       else if healthy then TenantsHealthyReason else TenantsDegradedReason) \<and>
    says (GetCondition E ConditionBatchGatewayReady cs) (batch \<and> batch_ready)
      (ready_reason batch batch_ready) \<and>
    says (GetCondition E ConditionAIGridReady cs)
      (grid \<and> grid_ready E vd vc m w) (ready_reason grid (grid_ready E vd vc m w)) \<and>
    (\<forall>t. t \<notin> {happy, ConditionModelsAsAServiceReady, ConditionTenantsHealthy,
        ConditionBatchGatewayReady, ConditionAIGridReady} \<longrightarrow>
      GetCondition E t cs = GetCondition E t (rr_conditions rr))"
proof -
  let ?maas = "(ConditionModelsAsAServiceReady, maas \<and> maas_ready E vd vu m w, ready_reason maas (maas_ready E vd vu m w))"
  let ?tenants = "(ConditionTenantsHealthy, maas \<and> healthy,
    if \<not> maas then SubModuleRemovedReason else if reason \<noteq> '''' then reason
    else if healthy then TenantsHealthyReason else TenantsDegradedReason)"
  let ?batch = "(ConditionBatchGatewayReady, batch \<and> batch_ready, ready_reason batch batch_ready)"
  let ?grid = "(ConditionAIGridReady, grid \<and> grid_ready E vd vc m w, ready_reason grid (grid_ready E vd vc m w))"
  have at: "rr_client (rr\<lparr>rr_conditions := cs\<rparr>) = Some c" "rr_world (rr\<lparr>rr_conditions := cs\<rparr>) = w" for cs
    using assms(2,6) by simp_all
  note dist = condition_types_distinct happy
  have maas: "settles E happy (report_maas E m obj) rr [?maas]"
    using report_maas_reports [OF quiet assms(2) maas refl] assms(6) dist
    by (intro reports_settles [OF conds]) auto
  have tenants: "settles E happy (report_tenants E obj) (rr\<lparr>rr_conditions := cs\<rparr>) [?tenants]" for cs
    using report_tenants_reports [OF quiet at(1), where E = E and obj = obj] tenants at(2) assms(7) dist
    by (intro reports_settles [OF conds]) auto
  have batch: "settles E happy (report_batch_gateway E m obj) (rr\<lparr>rr_conditions := cs\<rparr>) [?batch]" for cs
    using report_batch_gateway_reports [OF quiet at(1) batch, where E = E and m = m] batch_ready at(2) dist
    by (intro reports_settles [OF conds]) auto
  have grid: "settles E happy (report_ai_grid E m obj) (rr\<lparr>rr_conditions := cs\<rparr>) [?grid]" for cs
    using report_ai_grid_reports [OF quiet at(1) grid refl, where E = E and m = m] at(2) dist
    by (intro reports_settles [OF conds]) auto
  have "settles E happy (reportSubModuleStatus E m) rr ([?maas] @ [?tenants] @ [?batch] @ [?grid])"
  proof -
    have "settles E happy (and_then (report_maas E m obj) (\<lambda>_. and_then (report_tenants E obj) (\<lambda>_.
        and_then (report_batch_gateway E m obj) (\<lambda>_. report_ai_grid E m obj)))) rr
        ([?maas] @ [?tenants] @ [?batch] @ [?grid])"
      by (intro settles_then maas) (use tenants batch grid dist in \<open>auto intro!: settles_then\<close>)
    then show ?thesis
      using assms(3) by (simp add: reportSubModuleStatus_def settles_def)
  qed
  then show ?thesis
    by (auto simp: settles_def)
qed

definition mem_crd :: "mem \<Rightarrow> nsname \<Rightarrow> crd option" where
  "mem_crd = filed mem_crds crd_key"

definition mem_object :: "gvk \<Rightarrow> mem \<Rightarrow> nsname \<Rightarrow> unstructured option" where
  "mem_object g w = map_of (map snd (filter (\<lambda>(g', x). g' = g) (mem_unstructured w)))"

lemma mem_quiet_client: "quiet_client mem_client mem_deployment mem_crd mem_object"
  unfolding quiet_client_def mem_client_simps mem_crd_def mem_object_def
  by (simp add: store_quiet entry_quiet)

text \<open>The Config of a MaaS whose operands are not ready, with one Ready condition.\<close>

definition config_not_ready :: unstructured where
  "config_not_ready =
     \<lparr>us_gvk = maasConfigGVK, us_namespace = '''', us_name = ''default'', us_labels = None,
      us_annotations = None,
      us_object = Obj [(''status'', Obj [(''conditions'', Slice
        [Number 1, Obj [(''type'', Str ''Ready''), (''status'', Str ''False'')]])])]\<rparr>"

definition mem_with_config :: mem where
  "mem_with_config =
     (with_deployments [deployment_named ''apps'' ''maas-controller'' 1 None,
        deployment_named ''apps'' ''ai-gateway-controller'' 2 None])
     \<lparr>mem_unstructured := [(maasConfigGVK, nsname_of '''' ''default'', config_not_ready)]\<rparr>"

theorem reportSubModuleStatus_conditions_witness:
  "\<exists>cs. reportSubModuleStatus mem_lib (module_for ''apps'')
      (request_for (Some mem_client) mem_with_config [] (gateway_with '''' ''Managed'' '''' [])) =
      (Inr (), request_for (Some mem_client) mem_with_config cs (gateway_with '''' ''Managed'' '''' [])) \<and>
    says (list_get ''ModelsAsAServiceReady'' cs) False ''NotReady'' \<and>
    says (list_get ''TenantsHealthy'' cs) True ''AllTenantsHealthy'' \<and>
    says (list_get ''AIGridReady'' cs) False ''Removed''"
proof -
  let ?obj = "gateway_with '''' ''Managed'' '''' []" and ?m = "module_for ''apps''"
  let ?rr = "request_for (Some mem_client) mem_with_config ([] :: conds) ?obj"
  have cfg: "maas_config mem_object mem_with_config = Some config_not_ready"
    by (simp add: maas_config_def mem_object_def mem_with_config_def maasConfigName_def)
  have not_ready: "\<not> maas_ready mem_lib mem_deployment mem_object ?m mem_with_config"
    by (simp add: maas_ready_def cfg config_ready_of_def raw_conditions_def config_not_ready_def
        obj_index_def)
  have tenants: "tenant_report mem_lib mem_object mem_with_config = ('''', '''', True)"
    by (simp add: tenant_report_def cfg tenants_health_of_def raw_conditions_def config_not_ready_def
        obj_index_def)
  obtain cs where "reportSubModuleStatus mem_lib ?m ?rr = (Inr (), ?rr\<lparr>rr_conditions := cs\<rparr>)"
    and "says (GetCondition mem_lib ConditionModelsAsAServiceReady cs)
      (True \<and> maas_ready mem_lib mem_deployment mem_object ?m mem_with_config)
      (ready_reason True (maas_ready mem_lib mem_deployment mem_object ?m mem_with_config))"
    and "says (GetCondition mem_lib ConditionTenantsHealthy cs) (True \<and> True) TenantsHealthyReason"
    and "says (GetCondition mem_lib ConditionAIGridReady cs)
      (False \<and> grid_ready mem_lib mem_deployment mem_crd ?m mem_with_config)
      (ready_reason False (grid_ready mem_lib mem_deployment mem_crd ?m mem_with_config))"
    using reportSubModuleStatus_conditions [OF mem_quiet_client, where E = mem_lib and m = ?m and
        rr = ?rr and obj = ?obj and w = mem_with_config and maas = True and grid = False and batch = False and
        happy = ready_type and reason = "''''" and msg = "''''" and healthy = True and
        batch_ready = "available mem_deployment mem_with_config ''apps'' batchGatewayOperatorDeploymentName"]
      mem_lib_conditions tenants
    by (auto simp: managedState_def condition_type_defs ready_type_def)
  then show ?thesis
    using not_ready
    by (intro exI [of _ cs]) (simp add: request_for_def ready_reason_def condition_type_defs
        SubModuleNotReadyReason_def SubModuleRemovedReason_def TenantsHealthyReason_def)
qed

text \<open>
  C40. The conditions are not independent of failures: when MaaS is Managed and the read of its first
  Deployment fails with anything but NotFound, the action returns the error at once and none of the
  four conditions is touched, those of the other sub-modules included, whatever the state of these.
\<close>

theorem reportSubModuleStatus_error_is_global:
  assumes "rr_client rr = Some c" "rr_instance rr = IsAIGateway obj" "maas_state obj = managedState"
    and "get_deployment c (maas_controller_key m) (rr_world rr) = (Inl e, w)" and "\<not> is_not_found e"
  shows "reportSubModuleStatus E m rr =
      (Inl (wrapf ''checking %s Deployment: %w'' [maasControllerDeploymentName] (Api e)), rr\<lparr>rr_world := w\<rparr>)"
  using assms
  by (simp add: reportSubModuleStatus_def report_maas_def checking_deployment_def deploymentAvailable_def
      maas_controller_key_def and_then_def wrapping_def comp_simps)

theorem reportSubModuleStatus_error_is_global_witness:
  "reportSubModuleStatus mem_lib (module_for ''apps'')
     (request_for (Some (mem_client\<lparr>get_deployment := (\<lambda>k w. (Inl conflict_error, w))\<rparr>)) empty_mem
       ([] :: conds) (gateway_with ''Managed'' ''Managed'' '''' [])) =
   (Inl (wrapf ''checking %s Deployment: %w'' [''maas-controller''] (Api conflict_error)),
    request_for (Some (mem_client\<lparr>get_deployment := (\<lambda>k w. (Inl conflict_error, w))\<rparr>)) empty_mem
       [] (gateway_with ''Managed'' ''Managed'' '''' []))"
proof -
  let ?c = "mem_client\<lparr>get_deployment := (\<lambda>k w. (Inl conflict_error, w))\<rparr>"
  let ?rr = "request_for (Some ?c) empty_mem ([] :: conds) (gateway_with ''Managed'' ''Managed'' '''' [])"
  have "reportSubModuleStatus mem_lib (module_for ''apps'') ?rr =
      (Inl (wrapf ''checking %s Deployment: %w'' [maasControllerDeploymentName] (Api conflict_error)),
       ?rr\<lparr>rr_world := empty_mem\<rparr>)"
    by (rule reportSubModuleStatus_error_is_global [where c = ?c and
          obj = "gateway_with ''Managed'' ''Managed'' '''' []"]) (simp_all add: managedState_def)
  then show ?thesis
    by (simp add: maasControllerDeploymentName_def request_for_def)
qed

end
