(* ===== verification/Deployments_Available.thy ===== *)
theory Deployments_Available
  imports Sub_Module_Status
begin

text \<open>
  \<^verbatim>\<open>overWriteCondition\<close> of \<^verbatim>\<open>aigateway.go\<close>: the correction of the condition
  DeploymentsAvailable after the framework's generic deployments action, when the AI Grid is the
  only Managed sub-module or none is.
\<close>

section \<open>The code\<close>

definition applicationsNamespaceDeployments :: "('w, 'c) lib \<Rightarrow> module \<Rightarrow> ('w, 'c, nat) action" where
  "applicationsNamespaceDeployments E m =
     reading rr_client (\<lambda>cli.
       case cli of
         None \<Rightarrow> ok 0
       | Some c \<Rightarrow> in_world
           (calling (list_deployments c (apps_ns m) [(PartOf E, componentName)])
             (\<lambda>e. fail (wrapf ''listing %s Deployments: %w'' [componentName] (Api e)))
             (\<lambda>ds. ok (length ds))))"

definition aiGridOnlyDeploymentsAvailable :: "('w, 'c) lib \<Rightarrow> module \<Rightarrow> ('w, 'c, unit) action" where
  "aiGridOnlyDeploymentsAvailable E m =
     and_then (applicationsNamespaceDeployments E m) (\<lambda>counted.
     reading (\<lambda>rr. GetCondition E ConditionDeploymentsAvailable (rr_conditions rr)) (\<lambda>generic.
       if 0 < counted \<and> (case generic of None \<Rightarrow> True | Some g \<Rightarrow> c_status g \<noteq> ConditionTrue) then ok ()
       else
         and_then (checking_deployment aiGridOperatorDeploymentName (deriveAIGridNamespace (apps_ns m)))
           (\<lambda>ready.
             if ready then mark_true E ConditionDeploymentsAvailable []
             else
               mark_false E ConditionDeploymentsAvailable [WithReason SubModuleNotReadyReason,
                 WithMessage ''aiGrid is Managed but the grid operator is not yet available'' []])))"

definition overWriteCondition :: "('w, 'c) lib \<Rightarrow> module \<Rightarrow> ('w, 'c, unit) action" where
  "overWriteCondition E m =
     with_aigateway (\<lambda>obj.
       if aiGridOnly obj then aiGridOnlyDeploymentsAvailable E m
       else if anySubModuleManaged obj then ok ()
       else
         reading rr_client (\<lambda>cli.
         and_then
           (if cli \<noteq> None then
              wrapping ''determine MaaS removal progress: %w'' [] (in_world (maasRemovalPending m cli))
            else ok False)
           (\<lambda>removalPending.
             if removalPending then
               mark_false E ConditionDeploymentsAvailable [WithSeverity ConditionSeverityInfo,
                 WithReason MaaSRemovalInProgressReason,
                 WithMessage ''MaaS removal is in progress; waiting for remaining resources to be deleted'' []]
             else
               mark_false E ConditionDeploymentsAvailable [WithSeverity ConditionSeverityInfo,
                 WithReason NoSubModuleManagedReason,
                 WithMessage ''No sub-module is Managed; nothing to deploy'' []])))"

section \<open>Properties\<close>

text \<open>
  C23. With no sub-module Managed, on a quiet cluster, DeploymentsAvailable ends False at severity
  Info, so that it does not count against Ready, with reason MaaSRemovalInProgress exactly until
  the maas-controller Deployment is gone, and NoSubModuleManaged from then on; without a client it
  is NoSubModuleManaged. Nothing but the conditions changes.
\<close>

theorem overWriteCondition_none_managed:
  assumes "rr_instance rr = IsAIGateway obj" "\<not> anySubModuleManaged obj"
    and "rr_client rr = Some c \<and> quiet_reads (get_deployment c) view \<and>
        gone = (phase_of (view (rr_world rr) (maas_controller_key m)) = Gone) \<or>
      rr_client rr = None \<and> gone = True"
    and conds: "manages_conditions E happy" "happy \<noteq> ConditionDeploymentsAvailable"
  shows "\<exists>cs cond. overWriteCondition E m rr = (Inr (), rr\<lparr>rr_conditions := cs\<rparr>) \<and>
    GetCondition E ConditionDeploymentsAvailable cs = Some cond \<and>
    c_status cond = ConditionFalse \<and> c_severity cond = ConditionSeverityInfo \<and>
    c_reason cond = (if gone then NoSubModuleManagedReason else MaaSRemovalInProgressReason)"
proof -
  have "\<not> aiGridOnly obj"
    using assms(2) by (simp add: anySubModuleManaged_def aiGridOnly_def)
  have pending: "maasRemovalPending m (Some c) (rr_world rr) =
      (Inr (phase_of (view (rr_world rr) (maas_controller_key m)) \<noteq> Gone), rr_world rr)"
    if "quiet_reads (get_deployment c) view"
    using maasTeardownCompleted_quiet [OF that] maasControllerDeploymentExists_quiet [OF that]
    by (auto simp: maasRemovalPending_def and_then_def ok_run)
  let ?opts = "[WithSeverity ConditionSeverityInfo,
    WithReason (if gone then NoSubModuleManagedReason else MaaSRemovalInProgressReason),
    WithMessage (if gone then ''No sub-module is Managed; nothing to deploy''
      else ''MaaS removal is in progress; waiting for remaining resources to be deleted'') []]"
  have run: "overWriteCondition E m rr = mark_false E ConditionDeploymentsAvailable ?opts rr"
    using assms(1-3) \<open>\<not> aiGridOnly obj\<close> pending
    by (auto simp: overWriteCondition_def reading_run and_then_def wrapping_def in_world_run ok_run)
  have "shows_mark ConditionFalse ?opts
      (GetCondition E ConditionDeploymentsAvailable (MarkFalse E ConditionDeploymentsAvailable ?opts (rr_conditions rr)))"
    using conds by (intro condition_manager.get_false [OF conds(1)]) (auto simp: option_kinds_def)
  then show ?thesis
    unfolding run mark_run by (auto simp: shows_mark_def)
qed

text \<open>What \<open>aiGridOnlyDeploymentsAvailable\<close> comes to on a quiet cluster.\<close>

definition grid_opts :: "cond_option list" where
  "grid_opts = [WithReason SubModuleNotReadyReason,
     WithMessage ''aiGrid is Managed but the grid operator is not yet available'' []]"

lemma aiGridOnly_run:
  assumes quiet: "quiet_client c vd vc vu" "rr_client rr = Some c"
    and "list_deployments c (apps_ns m) [(PartOf E, componentName)] (rr_world rr) = (Inr ds, rr_world rr)"
  shows "aiGridOnlyDeploymentsAvailable E m rr =
    (if ds = [] \<or> (\<exists>g. GetCondition E ConditionDeploymentsAvailable (rr_conditions rr) = Some g \<and>
         c_status g = ConditionTrue)
     then (if available vd (rr_world rr) (deriveAIGridNamespace (apps_ns m)) aiGridOperatorDeploymentName
           then mark_true E ConditionDeploymentsAvailable []
           else mark_false E ConditionDeploymentsAvailable grid_opts) rr
     else (Inr (), rr))"
proof -
  have "applicationsNamespaceDeployments E m rr = (Inr (length ds), rr)"
    using assms(2,3) by (simp add: applicationsNamespaceDeployments_def comp_simps)
  then show ?thesis
    by (auto simp: aiGridOnlyDeploymentsAvailable_def and_then_def reading_run quiet_steps [OF quiet] ok_run
        grid_opts_def split: option.split)
qed

lemma grid_mark:
  assumes conds: "manages_conditions E happy" "happy \<noteq> ConditionDeploymentsAvailable"
  shows "\<exists>cs cond. (if up then mark_true E ConditionDeploymentsAvailable []
      else mark_false E ConditionDeploymentsAvailable grid_opts) rr = (Inr (), rr\<lparr>rr_conditions := cs\<rparr>) \<and>
    GetCondition E ConditionDeploymentsAvailable cs = Some cond \<and>
    c_status cond = (if up then ConditionTrue else ConditionFalse) \<and>
    (up \<or> c_reason cond = SubModuleNotReadyReason)"
  using condition_manager.get_true [OF conds(1) conds(2) [symmetric], of "[]" "rr_conditions rr"]
    condition_manager.get_false [OF conds(1) conds(2) [symmetric], of grid_opts "rr_conditions rr"]
  by (auto simp: mark_run shows_mark_def option_kinds_def grid_opts_def)

text \<open>
  C17. With the AI Grid alone Managed, on a quiet cluster: while Deployments of the module are left in
  the applications namespace and the generic result is not True, that result is kept; otherwise the
  condition is True exactly when the grid operator is ready in its own namespace, with reason
  NotReady when it is not. Otherwise, with some sub-module Managed, the request is left as it is,
  even when the grid is one of several and its operator is not available.
\<close>

theorem overWriteCondition_some_managed:
  assumes "rr_instance rr = IsAIGateway obj" "anySubModuleManaged obj"
    and quiet: "quiet_client c vd vc vu" "rr_client rr = Some c"
    and "list_deployments c (apps_ns m) [(PartOf E, componentName)] (rr_world rr) = (Inr ds, rr_world rr)"
    and conds: "manages_conditions E happy" "happy \<noteq> ConditionDeploymentsAvailable"
    and "generic = GetCondition E ConditionDeploymentsAvailable (rr_conditions rr)"
    and "up \<longleftrightarrow> available vd (rr_world rr) (deriveAIGridNamespace (apps_ns m)) aiGridOperatorDeploymentName"
  shows "if aiGridOnly obj \<and> (ds = [] \<or> (\<exists>g. generic = Some g \<and> c_status g = ConditionTrue))
    then (\<exists>cs cond. overWriteCondition E m rr = (Inr (), rr\<lparr>rr_conditions := cs\<rparr>) \<and>
      GetCondition E ConditionDeploymentsAvailable cs = Some cond \<and>
      c_status cond = (if up then ConditionTrue else ConditionFalse) \<and>
      (up \<or> c_reason cond = SubModuleNotReadyReason))
    else overWriteCondition E m rr = (Inr (), rr)"
proof (cases "aiGridOnly obj")
  case False
  then show ?thesis
    using assms(1,2) by (simp add: overWriteCondition_def ok_run)
next
  case True
  then have "overWriteCondition E m rr = aiGridOnlyDeploymentsAvailable E m rr"
    using assms(1) by (simp add: overWriteCondition_def)
  then show ?thesis
    using True grid_mark [OF conds, of up rr] assms(8)
    by (auto simp: aiGridOnly_run [OF quiet assms(5)] simp flip: assms(9))
qed

theorem overWriteCondition_none_managed_witness:
  "\<exists>cs cond. overWriteCondition mem_lib (module_for ''apps'')
       (request_for None empty_mem [] (gateway_with '''' '''' '''' [])) =
       (Inr (), request_for None empty_mem cs (gateway_with '''' '''' '''' [])) \<and>
     list_get ''DeploymentsAvailable'' cs = Some cond \<and> c_severity cond = ''Info'' \<and>
     c_reason cond = ''NoSubModuleManaged''"
proof -
  let ?rr = "request_for None empty_mem ([] :: conds) (gateway_with '''' '''' '''' [])"
  have "\<exists>cs cond. overWriteCondition mem_lib (module_for ''apps'') ?rr = (Inr (), ?rr\<lparr>rr_conditions := cs\<rparr>) \<and>
    GetCondition mem_lib ConditionDeploymentsAvailable cs = Some cond \<and>
    c_status cond = ConditionFalse \<and> c_severity cond = ConditionSeverityInfo \<and>
    c_reason cond = (if True then NoSubModuleManagedReason else MaaSRemovalInProgressReason)"
    by (rule overWriteCondition_none_managed [OF _ _ _ mem_lib_conditions,
          where obj = "gateway_with '''' '''' '''' []"])
      (simp_all add: anySubModuleManaged_def managedState_def ready_type_def ConditionDeploymentsAvailable_def)
  then show ?thesis
    by (auto simp: request_for_def ConditionDeploymentsAvailable_def ConditionSeverityInfo_def
        NoSubModuleManagedReason_def)
qed

theorem overWriteCondition_some_managed_witness:
  "overWriteCondition mem_lib (module_for ''apps'')
     (request_for (Some mem_client) empty_mem [] (gateway_with ''Managed'' '''' ''Managed'' [])) =
   (Inr (), request_for (Some mem_client) empty_mem [] (gateway_with ''Managed'' '''' ''Managed'' []))"
proof -
  let ?obj = "gateway_with ''Managed'' '''' ''Managed'' []"
  let ?rr = "request_for (Some mem_client) empty_mem ([] :: conds) ?obj"
  have list: "list_deployments mem_client (apps_ns (module_for ''apps''))
      [(PartOf mem_lib, componentName)] (rr_world ?rr) = (Inr [], rr_world ?rr)"
    by (simp add: mem_list_deployments_def empty_mem_def)
  have "\<not> aiGridOnly ?obj" "anySubModuleManaged ?obj"
    by (simp_all add: aiGridOnly_def anySubModuleManaged_def managedState_def)
  then show ?thesis
    using overWriteCondition_some_managed [OF _ _ mem_quiet_client _ list mem_lib_conditions _ refl refl,
        where obj = ?obj]
    by (simp add: ready_type_def ConditionDeploymentsAvailable_def)
qed

end
