(* ===== verification/Migrate_Selector.thy ===== *)
theory Migrate_Selector
  imports Teardown
begin

text \<open>
  \<^verbatim>\<open>aigateway_migrate_selector.go\<close>: a maas-controller Deployment whose immutable selector
  is stale is deleted so that the deploy action can create it again, under preconditions that pin
  the object that was read.
\<close>

section \<open>The code\<close>

definition maasControllerRequiredSelectorLabels :: "('w, 'c) lib \<Rightarrow> (string \<times> string) list" where
  "maasControllerRequiredSelectorLabels E =
     [(PartOf E, componentName), (ODH_Component E componentName, labels_True E)]"

definition maasControllerLegacySelectorLabelKeys :: "('w, 'c) lib \<Rightarrow> string list" where
  "maasControllerLegacySelectorLabelKeys E = [ODH_Component E ''modelsasservice'']"

definition selectorHasRequiredLabels ::
  "deployment \<Rightarrow> (string \<times> string) list \<Rightarrow> string list \<Rightarrow> bool" where
  "selectorHasRequiredLabels dep required forbidden \<longleftrightarrow>
     (case dep_selector dep of
        None \<Rightarrow> False
      | Some matchLabels \<Rightarrow>
          list_all (\<lambda>(k, v). map_index matchLabels k = v) required \<and>
          list_all (\<lambda>k. \<not> map_present matchLabels k) forbidden)"

definition selector_current :: "('w, 'c) lib \<Rightarrow> deployment \<Rightarrow> bool" where
  "selector_current E dep \<longleftrightarrow>
     selectorHasRequiredLabels dep (maasControllerRequiredSelectorLabels E)
       (maasControllerLegacySelectorLabelKeys E)"

definition read_preconditions :: "deployment \<Rightarrow> preconditions" where
  "read_preconditions dep =
     \<lparr>pre_uid = Some (dep_uid dep), pre_resource_version = Some (dep_resource_version dep)\<rparr>"

definition migrateMaasControllerSelector :: "('w, 'c) lib \<Rightarrow> module \<Rightarrow> ('w, 'c, unit) action" where
  "migrateMaasControllerSelector E m =
     reading rr_client (\<lambda>cli.
       case cli of
         None \<Rightarrow> fail (new_error ''reconciliation client is nil'')
       | Some c \<Rightarrow> in_world
           (calling (get_deployment c (maas_controller_key m))
             (\<lambda>e. if is_not_found e then ok () else fail (get_maas_controller_failed m e))
             (\<lambda>dep.
               if selector_current E dep then ok ()
               else calling (delete_deployment c dep (read_preconditions dep))
                 (\<lambda>e. if \<not> is_not_found e \<and> \<not> is_conflict e
                      then fail (wrapf ''delete maas-controller Deployment %s/%s with stale selector: %w''
                        [apps_ns m, maasControllerDeploymentName] (Api e))
                      else ok ())
                 ok)))"

definition migrateSelector :: "('w, 'c) lib \<Rightarrow> module \<Rightarrow> ('w, 'c, unit) action" where
  "migrateSelector E m = migrateMaasControllerSelector E m"

section \<open>Properties\<close>

text \<open>
  C34. A selector counts as current exactly when it exists, carries both labels the module stamps
  and does not carry the legacy key; entries under any other key, such as control-plane, make no
  difference, and no order in which Go iterates over the required labels changes the verdict.
\<close>

theorem selector_current_iff:
  assumes "labels_True E \<noteq> ''''"
  shows "(selector_current E dep \<longleftrightarrow>
      (\<exists>sel. dep_selector dep = Some sel \<and>
         entries sel (PartOf E) = Some componentName \<and>
         entries sel (ODH_Component E componentName) = Some (labels_True E) \<and>
         entries sel (ODH_Component E ''modelsasservice'') = None)) \<and>
    (k \<notin> {PartOf E, ODH_Component E componentName, ODH_Component E ''modelsasservice''} \<longrightarrow>
      dep_selector dep = Some sel \<longrightarrow>
      (selector_current E (dep\<lparr>dep_selector := Some (map_put sel k v)\<rparr>) \<longleftrightarrow> selector_current E dep)) \<and>
    (set req = set (maasControllerRequiredSelectorLabels E) \<longrightarrow>
      (selectorHasRequiredLabels dep req (maasControllerLegacySelectorLabelKeys E) \<longleftrightarrow>
       selector_current E dep))"
proof (intro conjI impI)
  have index: "map_index sel k = v \<longleftrightarrow> entries sel k = Some v" if "v \<noteq> ''''" for sel k v
    using that by (auto simp: map_index_def split: option.splits)
  show "selector_current E dep \<longleftrightarrow>
      (\<exists>sel. dep_selector dep = Some sel \<and>
         entries sel (PartOf E) = Some componentName \<and>
         entries sel (ODH_Component E componentName) = Some (labels_True E) \<and>
         entries sel (ODH_Component E ''modelsasservice'') = None)"
    using assms index [of componentName] index [of "labels_True E"]
    by (auto simp: selector_current_def selectorHasRequiredLabels_def map_present_def componentName_def
        maasControllerRequiredSelectorLabels_def maasControllerLegacySelectorLabelKeys_def
        split: option.splits)
  show "selector_current E (dep\<lparr>dep_selector := Some (map_put sel k v)\<rparr>) \<longleftrightarrow> selector_current E dep"
    if "k \<notin> {PartOf E, ODH_Component E componentName, ODH_Component E ''modelsasservice''}"
      and "dep_selector dep = Some sel"
    using that
    by (auto simp: selector_current_def selectorHasRequiredLabels_def map_present_put map_index_put
        maasControllerRequiredSelectorLabels_def maasControllerLegacySelectorLabelKeys_def)
  show "selectorHasRequiredLabels dep req (maasControllerLegacySelectorLabelKeys E) \<longleftrightarrow> selector_current E dep"
    if "set req = set (maasControllerRequiredSelectorLabels E)"
    using that by (simp add: selector_current_def selectorHasRequiredLabels_def list_all_iff
        split: option.split)
qed

lemma migrateSelector_run:
  assumes "rr_client rr = Some c"
  shows "migrateSelector E m rr =
    (case get_deployment c (maas_controller_key m) (rr_world rr) of
       (Inl e, w) \<Rightarrow>
         (if is_not_found e then Inr () else Inl (get_maas_controller_failed m e), rr\<lparr>rr_world := w\<rparr>)
     | (Inr dep, w) \<Rightarrow>
         if selector_current E dep then (Inr (), rr\<lparr>rr_world := w\<rparr>)
         else
           (case delete_deployment c dep (read_preconditions dep) w of
              (Inl e, w') \<Rightarrow>
                (if is_not_found e \<or> is_conflict e then Inr ()
                 else Inl (wrapf ''delete maas-controller Deployment %s/%s with stale selector: %w''
                   [apps_ns m, maasControllerDeploymentName] (Api e)), rr\<lparr>rr_world := w'\<rparr>)
            | (Inr u, w') \<Rightarrow> (Inr u, rr\<lparr>rr_world := w'\<rparr>)))"
  using assms
  by (simp add: migrateSelector_def migrateMaasControllerSelector_def comp_simps
      split: sum.splits prod.splits)

text \<open>
  C2. Race safety: whatever other writers do between the read and the delete, a Deployment that
  disappears in the delete is the one that was read (same UID, same resource version), under the
  name of maas-controller, and its selector as read was stale. After a failed read nothing
  disappears.
\<close>

theorem migrateSelector_deletes_only_stale:
  assumes "guarded_deletes (delete_deployment c) view" and "rr_client rr = Some c"
    and "get_deployment c (maas_controller_key m) (rr_world rr) = (read, w)"
    and "view w k = Some live" and "view (rr_world (snd (migrateSelector E m rr))) k \<noteq> Some live"
  shows "\<exists>dep. read = Inr dep \<and> \<not> selector_current E dep \<and>
    k = nsname_of (dep_namespace dep) (dep_name dep) \<and>
    dep_uid live = dep_uid dep \<and> dep_resource_version live = dep_resource_version dep"
proof -
  obtain dep r w' where "read = Inr dep" "\<not> selector_current E dep"
    and "delete_deployment c dep (read_preconditions dep) w = (r, w')" "view w' k \<noteq> Some live"
    using assms(3-5) by (auto simp: migrateSelector_run [OF assms(2)] split: sum.splits prod.splits if_splits)
  then show ?thesis
    using guarded_deletes.delete_only [OF assms(1), of dep "read_preconditions dep" w r w' k live] assms(4)
    by (simp add: read_preconditions_def)
qed

text \<open>
  After a successful run no Deployment with the stale selector is left for the deploy action to
  trip over: if what was read was stale, the name is free, or it holds another object or revision
  than the one read; if it was current or missing, nothing was written.
\<close>

theorem migrateSelector_clears_stale:
  assumes "answered_deletes (delete_deployment c) view" and "rr_client rr = Some c"
    and "get_deployment c (maas_controller_key m) (rr_world rr) = (read, w)"
    and "migrateSelector E m rr = (Inr (), rr')"
  shows "case read of
      Inl e \<Rightarrow> is_not_found e \<and> rr' = rr\<lparr>rr_world := w\<rparr>
    | Inr dep \<Rightarrow>
        if selector_current E dep then rr' = rr\<lparr>rr_world := w\<rparr>
        else
          (case view (rr_world rr') (nsname_of (dep_namespace dep) (dep_name dep)) of
             None \<Rightarrow> True
           | Some live \<Rightarrow>
               dep_uid live \<noteq> dep_uid dep \<or> dep_resource_version live \<noteq> dep_resource_version dep)"
proof (cases read)
  case (Inl e)
  then show ?thesis
    using assms(3,4) by (simp add: migrateSelector_run [OF assms(2)] split: if_splits)
next
  case (Inr dep)
  show ?thesis
  proof (cases "selector_current E dep")
    case True
    then show ?thesis
      using Inr assms(3,4) by (simp add: migrateSelector_run [OF assms(2)])
  next
    case False
    obtain r w' where del: "delete_deployment c dep (read_preconditions dep) w = (r, w')"
      and w': "rr_world rr' = w'" and r: "r = Inr () \<or> (\<exists>e. r = Inl e \<and> (is_not_found e \<or> is_conflict e))"
      using Inr False assms(3,4)
      by (cases "delete_deployment c dep (read_preconditions dep) w"; cases "fst (delete_deployment c dep (read_preconditions dep) w)")
        (auto simp: migrateSelector_run [OF assms(2)] split: if_splits)
    then have "view w' (nsname_of (dep_namespace dep) (dep_name dep)) = Some live \<Longrightarrow>
        dep_uid live \<noteq> dep_uid dep \<or> dep_resource_version live \<noteq> dep_resource_version dep" for live
      using answered_deletes.tolerated [OF assms(1), of dep "read_preconditions dep" w r w' live] del r
      by (auto simp: read_preconditions_def)
    then show ?thesis
      using Inr False w' by (auto split: option.split)
  qed
qed

section \<open>Witnesses\<close>

text \<open>A selector that carries the current labels and the legacy key at once.\<close>

definition merged_selector :: strmap where
  "merged_selector = Some [''app.kubernetes.io/part-of'' \<mapsto> ''aigateway'',
     ''app.opendatahub.io/aigateway'' \<mapsto> ''true'', ''app.opendatahub.io/modelsasservice'' \<mapsto> ''true'']"

definition stale_controller :: deployment where
  "stale_controller =
     (deployment_named ''apps'' ''maas-controller'' 1 None)\<lparr>dep_selector := Some merged_selector\<rparr>"

definition current_selector :: strmap where
  "current_selector = Some [''app.kubernetes.io/part-of'' \<mapsto> ''aigateway'',
     ''app.opendatahub.io/aigateway'' \<mapsto> ''true'']"

theorem selector_current_iff_witness:
  "\<not> selector_current mem_lib stale_controller \<and>
   selector_current mem_lib (stale_controller\<lparr>dep_selector := Some current_selector\<rparr>) \<and>
   selector_current mem_lib
     (stale_controller\<lparr>dep_selector := Some (map_put current_selector ''control-plane'' ''maas'')\<rparr>)"
proof -
  have same: "selector_current mem_lib
      ((stale_controller\<lparr>dep_selector := Some current_selector\<rparr>)
        \<lparr>dep_selector := Some (map_put current_selector ''control-plane'' ''maas'')\<rparr>) \<longleftrightarrow>
    selector_current mem_lib (stale_controller\<lparr>dep_selector := Some current_selector\<rparr>)"
    using selector_current_iff [where E = mem_lib and sel = current_selector and v = "''maas''" and
        k = "''control-plane''" and dep = "stale_controller\<lparr>dep_selector := Some current_selector\<rparr>"]
    by (simp add: componentName_def)
  show ?thesis
    using selector_current_iff [where E = mem_lib and dep = stale_controller]
      selector_current_iff [where E = mem_lib and dep = "stale_controller\<lparr>dep_selector := Some current_selector\<rparr>"] same
    by (simp add: stale_controller_def merged_selector_def current_selector_def componentName_def)
qed

lemma stale_run:
  "rr_world (snd (migrateSelector mem_lib (module_for ''apps'')
     (request_for (Some mem_client) (with_deployments [stale_controller]) ([] :: conds)
       obj))) = with_deployments []"
  "fst (migrateSelector mem_lib (module_for ''apps'')
     (request_for (Some mem_client) (with_deployments [stale_controller]) ([] :: conds)
       obj)) = Inr ()"
proof -
  have key: "dep_key stale_controller = maas_controller_key (module_for ''apps'')"
    by (simp add: stale_controller_def deployment_named_def dep_key_def maas_controller_key_def
        maasControllerDeploymentName_def)
  have read: "get_deployment mem_client (maas_controller_key (module_for ''apps''))
      (with_deployments [stale_controller]) = (Inr stale_controller, with_deployments [stale_controller])"
    by (rule mem_deps.read_found) (simp add: mem_deployment_with key)
  have stale: "\<not> selector_current mem_lib stale_controller"
    by code_simp
  have del: "delete_deployment mem_client stale_controller (read_preconditions stale_controller)
      (with_deployments [stale_controller]) = (Inr (), with_deployments [])"
    by (simp add: mem_delete_deployment_def mem_deployment_with read_preconditions_def)
      (simp add: with_deployments_def)
  show "rr_world (snd (migrateSelector mem_lib (module_for ''apps'')
     (request_for (Some mem_client) (with_deployments [stale_controller]) ([] :: conds)
       obj))) = with_deployments []"
    "fst (migrateSelector mem_lib (module_for ''apps'')
     (request_for (Some mem_client) (with_deployments [stale_controller]) ([] :: conds)
       obj)) = Inr ()"
    using read stale del by (simp_all add: migrateSelector_run)
qed

text \<open>The stale Deployment is there before the run and gone after it.\<close>

theorem migrateSelector_deletes_only_stale_witness:
  "mem_deployment (with_deployments [stale_controller]) (dep_key stale_controller) = Some stale_controller \<and>
   mem_deployment (rr_world (snd (migrateSelector mem_lib (module_for ''apps'')
     (request_for (Some mem_client) (with_deployments [stale_controller]) ([] :: conds)
       (gateway_with '''' ''Managed'' '''' []))))) (dep_key stale_controller) = None \<and>
   \<not> selector_current mem_lib stale_controller"
proof -
  let ?w = "with_deployments [stale_controller]" and ?k = "maas_controller_key (module_for ''apps'')"
  have key: "dep_key stale_controller = ?k"
    by (simp add: stale_controller_def deployment_named_def dep_key_def maas_controller_key_def
        maasControllerDeploymentName_def)
  have live: "mem_deployment ?w ?k = Some stale_controller"
    by (simp add: mem_deployment_with key)
  have "\<exists>dep. (Inr stale_controller :: api_error + deployment) = Inr dep \<and> \<not> selector_current mem_lib dep \<and>
    ?k = nsname_of (dep_namespace dep) (dep_name dep) \<and>
    dep_uid stale_controller = dep_uid dep \<and>
    dep_resource_version stale_controller = dep_resource_version dep"
    by (rule migrateSelector_deletes_only_stale [where w = ?w and view = mem_deployment and c = mem_client and
          m = "module_for ''apps''" and rr = "request_for (Some mem_client) ?w ([] :: conds) (gateway_with '''' ''Managed'' '''' [])"])
      (use mem_deletes.guarded_deletes_axioms mem_deps.read_found [OF live] live stale_run(1) in
        \<open>simp_all add: mem_deployment_with del: mem_client_simps\<close>)
  then show ?thesis
    using live key by (simp add: stale_run(1) mem_deployment_with)
qed

theorem migrateSelector_clears_stale_witness:
  "\<exists>rr'. migrateSelector mem_lib (module_for ''apps'')
       (request_for (Some mem_client) (with_deployments [stale_controller]) ([] :: conds)
         (gateway_with '''' ''Managed'' '''' [])) = (Inr (), rr') \<and>
     mem_deployment (rr_world rr') (dep_key stale_controller) \<noteq> Some stale_controller"
proof -
  let ?w = "with_deployments [stale_controller]" and ?k = "maas_controller_key (module_for ''apps'')"
  let ?rr = "request_for (Some mem_client) ?w ([] :: conds) (gateway_with '''' ''Managed'' '''' [])"
  have key: "dep_key stale_controller = ?k"
    by (simp add: stale_controller_def deployment_named_def dep_key_def maas_controller_key_def
        maasControllerDeploymentName_def)
  have live: "mem_deployment ?w ?k = Some stale_controller"
    by (simp add: mem_deployment_with key)
  obtain rr' where run: "migrateSelector mem_lib (module_for ''apps'') ?rr = (Inr (), rr')"
    using stale_run(2) by (metis prod.collapse)
  have stale: "\<not> selector_current mem_lib stale_controller"
    by code_simp
  have read: "get_deployment mem_client ?k (rr_world ?rr) = (Inr stale_controller, ?w)"
    using mem_deps.read_found [OF live] by simp
  have "case (Inr stale_controller :: api_error + deployment) of
      Inl e \<Rightarrow> is_not_found e \<and> rr' = ?rr\<lparr>rr_world := ?w\<rparr>
    | Inr dep \<Rightarrow>
        if selector_current mem_lib dep then rr' = ?rr\<lparr>rr_world := ?w\<rparr>
        else
          (case mem_deployment (rr_world rr') (nsname_of (dep_namespace dep) (dep_name dep)) of
             None \<Rightarrow> True
           | Some live \<Rightarrow>
               dep_uid live \<noteq> dep_uid dep \<or> dep_resource_version live \<noteq> dep_resource_version dep)"
    by (rule migrateSelector_clears_stale [OF mem_deletes.answered_deletes_axioms _ read run]) simp
  then show ?thesis
    using run stale by (auto simp: dep_key_def split: option.splits)
qed

end
