(* ===== verification/File_Path.thy ===== *)
theory File_Path
  imports Go_Base
begin

text \<open>
  \<^verbatim>\<open>filepath.Clean\<close> and \<^verbatim>\<open>filepath.Join\<close> of Go's standard library on a Unix
  system: purely lexical, whatever the file system holds.
\<close>

section \<open>Splitting at slashes\<close>

abbreviation slash :: char where
  "slash \<equiv> CHR ''/''"

text \<open>\<^verbatim>\<open>strings.Split(s, "/")\<close> and \<^verbatim>\<open>strings.Join(xs, "/")\<close>.\<close>

fun split_slash :: "string \<Rightarrow> string list" where
  "split_slash [] = [[]]"
| "split_slash (c # s) =
     (if c = slash then [] # split_slash s
      else (case split_slash s of [] \<Rightarrow> [[c]] | x # xs \<Rightarrow> (c # x) # xs))"

fun join_slash :: "string list \<Rightarrow> string" where
  "join_slash [] = []"
| "join_slash [x] = x"
| "join_slash (x # y # xs) = x @ slash # join_slash (y # xs)"

lemma split_slash_not_Nil [simp]: "split_slash s \<noteq> []"
  by (cases s) (auto split: list.splits)

lemma join_split: "join_slash (split_slash s) = s"
proof (induction s)
  case (Cons c s)
  then show ?case
    by (cases "split_slash s" rule: join_slash.cases) (auto split: list.splits)
qed simp

lemma split_append_slash: "slash \<notin> set x \<Longrightarrow> split_slash (x @ slash # s) = x # split_slash s"
  by (induction x) auto

lemma split_plain: "slash \<notin> set x \<Longrightarrow> split_slash x = [x]"
  by (induction x) auto

lemma split_join:
  "xs \<noteq> [] \<Longrightarrow> (\<forall>x \<in> set xs. slash \<notin> set x) \<Longrightarrow> split_slash (join_slash xs) = xs"
  by (induction xs rule: join_slash.induct) (simp_all add: split_append_slash split_plain)

lemma split_no_slash: "x \<in> set (split_slash s) \<Longrightarrow> slash \<notin> set x"
  by (induction s arbitrary: x) (auto split: if_splits list.splits)

section \<open>Clean\<close>

text \<open>
  One path element after another: empty elements and dots disappear, a double dot takes back the
  element before it, or stays where there is none to take back and the path is relative.
\<close>

definition clean_step :: "bool \<Rightarrow> string list \<Rightarrow> string \<Rightarrow> string list" where
  "clean_step rooted out x =
     (if x = '''' \<or> x = ''.'' then out
      else if x = ''..'' then
        (if out \<noteq> [] \<and> last out \<noteq> ''..'' then butlast out else if rooted then out else out @ [x])
      else out @ [x])"

definition clean_elements :: "bool \<Rightarrow> string list \<Rightarrow> string list" where
  "clean_elements rooted xs = foldl (clean_step rooted) [] xs"

definition is_rooted :: "string \<Rightarrow> bool" where
  "is_rooted s = has_prefix s ''/''"

definition Clean :: "string \<Rightarrow> string" where
  "Clean s =
     (let path = (if is_rooted s then ''/'' else '''') @ join_slash (clean_elements (is_rooted s) (split_slash s))
      in if path = '''' then ''.'' else path)"

fun filepath_Join :: "string list \<Rightarrow> string" where
  "filepath_Join [] = ''''"
| "filepath_Join (x # xs) = (if x = '''' then filepath_Join xs else Clean (join_slash (x # xs)))"

section \<open>Clean paths\<close>

abbreviation plain_element :: "string \<Rightarrow> bool" where
  "plain_element x \<equiv> slash \<notin> set x \<and> x \<noteq> '''' \<and> x \<noteq> ''.''"

text \<open>
  What \<^verbatim>\<open>Clean\<close> leaves: elements without slashes, none empty or a dot, double dots only at
  the front of a relative path.
\<close>

definition clean_list :: "bool \<Rightarrow> string list \<Rightarrow> bool" where
  "clean_list rooted xs \<longleftrightarrow>
     (\<forall>x \<in> set xs. plain_element x) \<and>
     (\<exists>n ys. xs = replicate n ''..'' @ ys \<and> ''..'' \<notin> set ys \<and> (rooted \<longrightarrow> n = 0))"

lemma clean_listI:
  "\<forall>x \<in> set xs. plain_element x \<Longrightarrow> xs = replicate n ''..'' @ ys \<Longrightarrow> ''..'' \<notin> set ys \<Longrightarrow> rooted \<longrightarrow> n = 0 \<Longrightarrow>
   clean_list rooted xs"
  unfolding clean_list_def by blast

lemma clean_listE:
  assumes "clean_list rooted xs"
  obtains n ys where "\<forall>x \<in> set xs. plain_element x" "xs = replicate n ''..'' @ ys" "''..'' \<notin> set ys"
    "rooted \<longrightarrow> n = 0"
  using assms unfolding clean_list_def by blast

lemma clean_step_dots: "clean_step False (replicate n ''..'') ''..'' = replicate (Suc n) ''..''"
  by (cases n) (simp_all add: clean_step_def replicate_append_same)

lemma clean_step_ok:
  assumes "clean_list rooted out" "slash \<notin> set x"
  shows "clean_list rooted (clean_step rooted out x)"
proof -
  obtain n ys where plain: "\<forall>x \<in> set out. plain_element x" and out: "out = replicate n ''..'' @ ys"
    and ys: "''..'' \<notin> set ys" and n: "rooted \<longrightarrow> n = 0"
    by (rule clean_listE [OF assms(1)])
  consider "x = '''' \<or> x = ''.''" | "x = ''..''" "ys = []" | "x = ''..''" "ys \<noteq> []" | "plain_element x" "x \<noteq> ''..''"
    using assms(2) by blast
  then show ?thesis
  proof cases
    case 1
    then show ?thesis using assms(1) by (auto simp: clean_step_def)
  next
    case 2
    then have "out = replicate n ''..''" using out by simp
    then have "clean_step rooted out x = replicate (if rooted then 0 else Suc n) ''..''"
      using 2(1) n clean_step_dots [of n] by (cases rooted) (simp_all add: clean_step_def)
    moreover have "clean_list rooted (replicate (if rooted then 0 else Suc n) ''..'')"
      by (rule clean_listI [where ys = "[]"]) auto
    ultimately show ?thesis by simp
  next
    case 3
    have "last out = last ys" "out \<noteq> []" and b: "butlast out = replicate n ''..'' @ butlast ys"
      using 3(2) by (simp_all add: out butlast_append)
    moreover have "last ys \<noteq> ''..''"
      using ys last_in_set [OF 3(2)] by metis
    ultimately have "last out \<noteq> ''..''" "out \<noteq> []" by simp_all
    then have "clean_step rooted out x = butlast out"
      using 3(1) by (simp add: clean_step_def)
    moreover have "clean_list rooted (butlast out)"
    proof (rule clean_listI [OF _ b _ n])
      show "\<forall>x \<in> set (butlast out). plain_element x"
        using plain by (blast dest: in_set_butlastD)
      show "''..'' \<notin> set (butlast ys)"
        using ys by (blast dest: in_set_butlastD)
    qed
    ultimately show ?thesis by simp
  next
    case 4
    then have "clean_step rooted out x = replicate n ''..'' @ (ys @ [x])"
      using out by (auto simp: clean_step_def)
    moreover have "clean_list rooted (replicate n ''..'' @ (ys @ [x]))"
      using plain out ys n 4 by (intro clean_listI [where n = n and ys = "ys @ [x]"]) auto
    ultimately show ?thesis by simp
  qed
qed

lemma foldl_clean:
  "clean_list r out \<Longrightarrow> (\<And>x. x \<in> set xs \<Longrightarrow> slash \<notin> set x) \<Longrightarrow> clean_list r (foldl (clean_step r) out xs)"
  by (induction xs arbitrary: out) (simp_all add: clean_step_ok)

lemma clean_elements_ok:
  assumes "\<And>x. x \<in> set xs \<Longrightarrow> slash \<notin> set x"
  shows "clean_list rooted (clean_elements rooted xs)"
  unfolding clean_elements_def
  by (rule foldl_clean [OF clean_listI [where n = 0 and ys = "[]"] assms]) simp_all

lemma foldl_dots: "foldl (clean_step False) (replicate k ''..'') (replicate n ''..'') = replicate (k + n) ''..''"
proof (induction n arbitrary: k)
  case (Suc n)
  then show ?case
    using Suc [of "Suc k"] by (simp only: replicate_Suc [of n] foldl.simps clean_step_dots add_Suc add_Suc_right)
qed simp

lemma foldl_plain:
  "(\<forall>x \<in> set ys. x \<noteq> '''' \<and> x \<noteq> ''.'' \<and> x \<noteq> ''..'') \<Longrightarrow> foldl (clean_step r) out ys = out @ ys"
  by (induction ys arbitrary: out) (auto simp: clean_step_def)

lemma clean_elements_id:
  assumes "clean_list rooted xs"
  shows "clean_elements rooted xs = xs"
proof -
  obtain n ys where xs: "xs = replicate n ''..'' @ ys" "''..'' \<notin> set ys" "rooted \<longrightarrow> n = 0"
    and plain: "\<forall>x \<in> set xs. slash \<notin> set x \<and> x \<noteq> '''' \<and> x \<noteq> ''.''"
    using assms by (auto simp: clean_list_def)
  have "foldl (clean_step rooted) [] (replicate n ''..'') = replicate n ''..''"
    using foldl_dots [of 0 n] xs(3) by (cases rooted) auto
  moreover have "foldl (clean_step rooted) (replicate n ''..'') ys = replicate n ''..'' @ ys"
    using xs plain by (intro foldl_plain) auto
  ultimately show ?thesis
    by (simp add: clean_elements_def xs(1))
qed

lemma clean_elements_skip [simp]:
  "clean_elements r ([] # xs) = clean_elements r xs"
  "clean_elements r [''''] = []" "clean_elements r [''.''] = []"
  by (simp_all add: clean_elements_def clean_step_def)

lemma is_rooted_Cons [simp]: "is_rooted (c # s) \<longleftrightarrow> c = slash"
  by (simp add: is_rooted_def has_prefix_def)

lemma hd_join_slash:
  assumes "clean_list r xs" "xs \<noteq> []"
  shows "\<not> is_rooted (join_slash xs) \<and> join_slash xs \<noteq> ''''"
proof -
  obtain c x ys where xs: "xs = (c # x) # ys" "c \<noteq> slash"
    using assms by (cases xs; cases "hd xs") (fastforce simp: clean_list_def)+
  obtain s where "join_slash xs = c # s"
    unfolding xs(1) by (cases ys) simp_all
  then show ?thesis
    using xs(2) by (simp add: is_rooted_def has_prefix_def)
qed

lemma Clean_cases:
  obtains xs where "clean_list (is_rooted s) xs"
    "Clean s = (if is_rooted s then slash # join_slash xs else if xs = [] then ''.'' else join_slash xs)"
proof -
  define xs where "xs = clean_elements (is_rooted s) (split_slash s)"
  have clean: "clean_list (is_rooted s) xs"
    unfolding xs_def by (rule clean_elements_ok) (rule split_no_slash)
  moreover have "Clean s = (if is_rooted s then slash # join_slash xs else if xs = [] then ''.'' else join_slash xs)"
    using hd_join_slash [OF clean] by (auto simp: Clean_def xs_def [symmetric])
  ultimately show thesis by (rule that)
qed

lemma Clean_join:
  assumes "clean_list r xs" "xs \<noteq> []"
  shows "split_slash (join_slash xs) = xs"
  using assms by (intro split_join) (auto simp: clean_list_def)

theorem Clean_idem: "Clean (Clean s) = Clean s"
proof -
  obtain xs where xs: "clean_list (is_rooted s) xs"
    "Clean s = (if is_rooted s then slash # join_slash xs else if xs = [] then ''.'' else join_slash xs)"
    by (rule Clean_cases)
  show ?thesis
  proof (cases "is_rooted s")
    case True
    have "is_rooted (slash # join_slash xs)"
      by (simp add: is_rooted_def has_prefix_def)
    moreover have "clean_elements True (split_slash (join_slash xs)) = xs"
      using xs(1) True Clean_join [of True xs] clean_elements_id [of True xs] by (cases "xs = []") auto
    ultimately show ?thesis
      using xs(2) True by (simp add: Clean_def)
  next
    case False
    show ?thesis
    proof (cases "xs = []")
      case True
      then show ?thesis
        using xs(2) False by (simp add: Clean_def is_rooted_def has_prefix_def)
    next
      case nonempty: False
      then show ?thesis
        using xs False hd_join_slash [OF xs(1) nonempty] Clean_join [OF xs(1) nonempty]
          clean_elements_id [OF xs(1)]
        by (simp add: Clean_def)
    qed
  qed
qed

text \<open>
  Joining names to a base that is clean and not a root or a dot appends them; no file system is
  looked at.
\<close>

lemma join_append: "xs \<noteq> [] \<Longrightarrow> ys \<noteq> [] \<Longrightarrow> join_slash (xs @ ys) = join_slash xs @ slash # join_slash ys"
  by (induction xs rule: join_slash.induct) (auto simp: neq_Nil_conv)

lemma filepath_Join_names:
  assumes "Clean base = base" "base \<noteq> ''/''" "base \<noteq> ''.''" "base \<noteq> ''''"
    and "\<forall>x \<in> set (y # ys). plain_element x \<and> x \<noteq> ''..''"
  shows "filepath_Join (base # y # ys) = base @ slash # join_slash (y # ys)"
proof -
  obtain xs where xs: "clean_list (is_rooted base) xs"
    and b: "base = (if is_rooted base then slash # join_slash xs else if xs = [] then ''.'' else join_slash xs)"
    using assms(1) by (metis Clean_cases)
  have nonempty: "xs \<noteq> []"
    using b assms(2,3) by (cases "is_rooted base"; cases xs) simp_all
  have base: "base = (if is_rooted base then ''/'' else '''') @ join_slash xs"
    using b nonempty by (cases "is_rooted base") simp_all
  have path: "join_slash (base # y # ys) = (if is_rooted base then ''/'' else '''') @ join_slash (xs @ y # ys)"
    using base join_append [OF nonempty, of "y # ys"] by simp
  obtain n zs where n: "\<forall>x \<in> set xs. plain_element x" "xs = replicate n ''..'' @ zs" "''..'' \<notin> set zs"
      "is_rooted base \<longrightarrow> n = 0"
    by (rule clean_listE [OF xs])
  have clean: "clean_list (is_rooted base) (xs @ y # ys)"
    using n assms(5) by (intro clean_listI [where n = n and ys = "zs @ y # ys"]) auto
  have rooted: "is_rooted (join_slash (base # y # ys)) \<longleftrightarrow> is_rooted base"
    unfolding path using hd_join_slash [OF clean] by (cases "is_rooted base") simp_all
  have "clean_elements (is_rooted base) (split_slash (join_slash (base # y # ys))) = xs @ y # ys"
    unfolding path using Clean_join [OF clean] clean_elements_id [OF clean] by (cases "is_rooted base") simp_all
  then have "Clean (join_slash (base # y # ys)) = join_slash (base # y # ys)"
    unfolding Clean_def rooted using hd_join_slash [OF clean] by (cases "is_rooted base") (simp_all only: path Let_def, simp_all)
  then show ?thesis
    using assms(4) by simp
qed

end
