(* ===== verification/Pipeline.thy ===== *)
theory Pipeline
  imports Report_Status Deployments_Available Migrate_Selector File_Path
begin

text \<open>
  The remaining actions, \<^verbatim>\<open>upgradeIfNeeded\<close> and \<^verbatim>\<open>renderAIGridOperator\<close>, and the
  action pipeline that \<^verbatim>\<open>NewReconciler\<close> registers. The framework's own actions (releases,
  kustomize, deploy, deployments, gc) are parameters; the framework runs the actions in order and
  stops at the first error.
\<close>

section \<open>Upgrade and the grid operator\<close>

definition upgrade :: "module_status \<Rightarrow> ('w, 'c, unit) action" where
  "upgrade prev = ok ()"

definition upgradeIfNeeded :: "'v semver_lib \<Rightarrow> module \<Rightarrow> ('w, 'c, unit) action" where
  "upgradeIfNeeded L m =
     with_aigateway (\<lambda>obj.
       let prev = st_module (gw_status obj);
           moduleVersionChanged =
             (\<not> SemVer_IsZero (ms_version prev) \<and> SemVer_GT L (mod_version m) (ms_version prev)) in
       if \<not> moduleVersionChanged then ok () else upgrade prev)"

definition renderAIGridOperator :: "('w, 'c) lib \<Rightarrow> module \<Rightarrow> ('w, 'c, unit) action" where
  "renderAIGridOperator E m =
     with_aigateway (\<lambda>obj.
       if grid_state obj \<noteq> managedState then ok ()
       else
         and_then (wrapping ''render grid operator: %w'' []
           (in_world (Render E (manifest_string E (aiGridOperatorManifestInfo m))
             (deriveAIGridNamespace (apps_ns m))
             [(ODH_Component E componentName, labels_True E), (PartOf E, componentName)])))
         (\<lambda>objs. modify (\<lambda>rr. rr\<lparr>rr_resources := rr_resources rr @ objs\<rparr>)))"

section \<open>The pipeline\<close>

text \<open>
  The framework's actions with the options they are built with: the path of the metadata file as a
  function of the request, the labels kustomize adds, the switches of deploy, the namespace and the
  predicate of the collector.
\<close>

datatype deploy_option = WithCache | WithApplyOrder

record ('w, 'c) framework =
  ComponentMetadataFilename :: string
  releases_action :: "(('w, 'c) request \<Rightarrow> string) \<Rightarrow> ('w, 'c, unit) action"
  kustomize_action :: "(string \<times> string) list \<Rightarrow> ('w, 'c, unit) action"
  deploy_action :: "deploy_option list \<Rightarrow> ('w, 'c, unit) action"
  deployments_action :: "('w, 'c, unit) action"
  gc_action :: "string \<Rightarrow> (unstructured \<Rightarrow> ('w, 'c, bool) action) \<Rightarrow> ('w, 'c, unit) action"

fun run_actions :: "('w, 'c, unit) action list \<Rightarrow> ('w, 'c, unit) action" where
  "run_actions [] = ok ()"
| "run_actions (a # as) = and_then a (\<lambda>_. run_actions as)"

definition metadata_file_path :: "('w, 'c) framework \<Rightarrow> ('w, 'c) request \<Rightarrow> string" where
  "metadata_file_path F rr =
     filepath_Join [rr_manifests_base_path rr, ''ai-gateway-operator'', ComponentMetadataFilename F]"

definition release_step :: "('w, 'c) framework \<Rightarrow> ('w, 'c, unit) action" where
  "release_step F = releases_action F (metadata_file_path F)"

definition deploy_step :: "('w, 'c) framework \<Rightarrow> ('w, 'c, unit) action" where
  "deploy_step F = deploy_action F [WithCache, WithApplyOrder]"

lemma metadata_file_path_below_base:
  assumes "Clean (rr_manifests_base_path rr) = rr_manifests_base_path rr"
    and "rr_manifests_base_path rr \<notin> {'''', ''/'', ''.''}"
    and "plain_element (ComponentMetadataFilename F)" "ComponentMetadataFilename F \<noteq> ''..''"
  shows "metadata_file_path F rr =
    rr_manifests_base_path rr @ ''/ai-gateway-operator/'' @ ComponentMetadataFilename F"
  using assms filepath_Join_names [of "rr_manifests_base_path rr" "''ai-gateway-operator''"
      "[ComponentMetadataFilename F]"]
  by (simp add: metadata_file_path_def)

text \<open>The actions registered before and after the one that annotates the rendered resources.\<close>

definition render_actions ::
  "('w, 'c) lib \<Rightarrow> 'v semver_lib \<Rightarrow> ('w, 'c) framework \<Rightarrow> module \<Rightarrow> ('w, 'c, unit) action list" where
  "render_actions E L F m =
     [initialize_module E m,
      ensureInfraSecretMigrationRBAC m,
      upgradeIfNeeded L m,
      withPreservedPlatformRelease (release_step F),
      kustomize_action F [(ODH_Component E componentName, labels_True E), (PartOf E, componentName)],
      renderAIGridOperator E m]"

definition apply_actions ::
  "('w, 'c) lib \<Rightarrow> ('w, 'c) framework \<Rightarrow> module \<Rightarrow> ('w, 'c, unit) action list" where
  "apply_actions E F m =
     [annotateResource E m,
      migrateSelector E m,
      deploy_step F,
      deployments_action F,
      reportSubModuleStatus E m,
      overWriteCondition E m]"

definition reconcile_actions ::
  "('w, 'c) lib \<Rightarrow> 'v semver_lib \<Rightarrow> build_info \<Rightarrow> ('w, 'c) framework \<Rightarrow> module \<Rightarrow>
    ('w, 'c, unit) action list" where
  "reconcile_actions E L b F m =
     render_actions E L F m @ apply_actions E F m @
     [reportStatus E b m,
      gc_action F (apps_ns m) (maasAwareGCPredicate E m)]"

section \<open>Frames\<close>

lemma keeps_run_actions [frame]: "(\<And>a. a \<in> set as \<Longrightarrow> keeps f a) \<Longrightarrow> keeps f (run_actions as)"
  by (induction as) (auto intro: frame)

lemmas action_defs =
  initialize_module_def init_batch_gateway_def init_ai_grid_def keep_maas_installed_def
  shouldKeepMaaSInstalled_def init_maas_def ensureInfraSecretMigrationRBAC_def upgradeIfNeeded_def
  upgrade_def renderAIGridOperator_def annotateResource_def annotateMaaSRequestedTeardown_def
  migrateSelector_def migrateMaasControllerSelector_def reportSubModuleStatus_def report_maas_def
  report_tenants_def report_batch_gateway_def report_ai_grid_def not_managed_def
  checking_deployment_def deploymentAvailable_def with_rr_client_def overWriteCondition_def
  aiGridOnlyDeploymentsAvailable_def applicationsNamespaceDeployments_def Let_def

text \<open>
  No action of the operator but the release wrapper and \<^verbatim>\<open>reportStatus\<close> writes the
  instance, and none writes the client.
\<close>

lemma keeps_instance [frame]:
  "keeps rr_instance (initialize_module E m)"
  "keeps rr_instance (ensureInfraSecretMigrationRBAC m)"
  "keeps rr_instance (upgradeIfNeeded L m)"
  "keeps rr_instance (renderAIGridOperator E m)"
  "keeps rr_instance (annotateResource E m)"
  "keeps rr_instance (migrateSelector E m)"
  "keeps rr_instance (reportSubModuleStatus E m)"
  "keeps rr_instance (overWriteCondition E m)"
  unfolding action_defs by (intro frame; simp)+

definition panics :: "go_error + 'a \<Rightarrow> bool" where
  "panics r \<longleftrightarrow> (\<exists>p. r = Inl (Panic p))"

lemma panics_Inr [simp]: "\<not> panics (Inr a)"
  by (simp add: panics_def)

text \<open>
  What the pipeline relies on of the framework's actions: they do not panic, they work on the same
  AIGateway with the same client, and none but the releases action writes it.
\<close>

definition framework_frame :: "('w, 'c) framework \<Rightarrow> bool" where
  "framework_frame F \<longleftrightarrow>
     (\<forall>labels. keeps rr_instance (kustomize_action F labels)) \<and>
     keeps rr_instance (deploy_step F) \<and> keeps rr_instance (deployments_action F) \<and>
     (\<forall>rr obj. rr_instance rr = IsAIGateway obj \<longrightarrow>
        \<not> panics (fst (release_step F rr)) \<and>
        (\<exists>obj'. rr_instance (snd (release_step F rr)) = IsAIGateway obj'))"

text \<open>The action works on the same AIGateway and keeps its platform version, if it is one of \<open>P\<close>.\<close>

definition preserves_when :: "(string \<Rightarrow> bool) \<Rightarrow> ('w, 'c, unit) action \<Rightarrow> bool" where
  "preserves_when P a \<longleftrightarrow>
     (\<forall>rr obj. rr_instance rr = IsAIGateway obj \<longrightarrow> P (platform_version obj) \<longrightarrow>
        (\<exists>obj'. rr_instance (snd (a rr)) = IsAIGateway obj' \<and>
           platform_version obj' = platform_version obj))"

abbreviation preserves_version :: "('w, 'c, unit) action \<Rightarrow> bool" where
  "preserves_version \<equiv> preserves_when (\<lambda>v. v \<noteq> '''')"

lemma keeps_preserves: "keeps rr_instance a \<Longrightarrow> preserves_when P a"
  by (simp add: preserves_when_def keeps_def)

lemma preserves_whenE:
  assumes "preserves_when P a" "rr_instance rr = IsAIGateway obj" "P (platform_version obj)"
  obtains obj' where "rr_instance (snd (a rr)) = IsAIGateway obj'" "platform_version obj' = platform_version obj"
  using assms by (auto simp: preserves_when_def)

lemma preserves_run:
  fixes as :: "('w, 'c, unit) action list"
  shows "(\<And>a. a \<in> set as \<Longrightarrow> preserves_when P a) \<Longrightarrow> preserves_when P (run_actions as)"
proof (induction as)
  case Nil
  then show ?case by (simp add: preserves_when_def ok_run)
next
  case (Cons a as)
  show ?case
    unfolding preserves_when_def
  proof (intro allI impI)
    fix rr :: "('w, 'c) request" and obj
    assume obj: "rr_instance rr = IsAIGateway obj" "P (platform_version obj)"
    have a: "preserves_when P a" and as: "preserves_when P (run_actions as)"
      using Cons by simp_all
    obtain obj1 where 1: "rr_instance (snd (a rr)) = IsAIGateway obj1"
        "platform_version obj1 = platform_version obj"
      by (rule preserves_whenE [OF a obj])
    obtain obj2 where 2: "rr_instance (snd (run_actions as (snd (a rr)))) = IsAIGateway obj2"
        "platform_version obj2 = platform_version obj"
      by (rule preserves_whenE [where P = P, OF as 1(1)]) (use obj(2) 1(2) in simp_all)
    show "\<exists>obj'. rr_instance (snd (run_actions (a # as) rr)) = IsAIGateway obj' \<and>
        platform_version obj' = platform_version obj"
      using 1 2 by (cases "a rr"; cases "fst (a rr)") (auto simp: and_then_def)
  qed
qed

lemma preserves_wrapper:
  fixes F :: "('w, 'c) framework"
  assumes "framework_frame F"
  shows "preserves_version (withPreservedPlatformRelease (release_step F))"
  unfolding preserves_when_def
proof (intro allI impI)
  fix rr :: "('w, 'c) request" and obj
  assume obj: "rr_instance rr = IsAIGateway obj" and v: "platform_version obj \<noteq> ''''"
  obtain r rr1 where run: "release_step F rr = (r, rr1)" by fastforce
  obtain obj1 where obj1: "rr_instance rr1 = IsAIGateway obj1" and np: "\<not> panics r"
    using assms obj run unfolding framework_frame_def by (metis fst_conv snd_conv)
  have "withPreservedPlatformRelease (release_step F) rr =
      (r, rr1\<lparr>rr_instance := IsAIGateway (platform.carry obj obj1)\<rparr>)"
    using np by (intro withPreserved_run obj run obj1) (auto simp: panics_def)
  then show "\<exists>obj'. rr_instance (snd (withPreservedPlatformRelease (release_step F) rr)) = IsAIGateway obj' \<and>
      platform_version obj' = platform_version obj"
    using v by (simp add: platform.carry_version)
qed

lemma preserves_prefix_when:
  assumes "framework_frame F" "preserves_when P (withPreservedPlatformRelease (release_step F))"
  shows "preserves_when P (run_actions (render_actions E L F m @ apply_actions E F m))"
proof (rule preserves_run)
  fix a
  assume "a \<in> set (render_actions E L F m @ apply_actions E F m)"
  then show "preserves_when P a"
    using assms
    by (auto simp: render_actions_def apply_actions_def framework_frame_def intro: keeps_preserves frame)
qed

lemmas preserves_prefix = preserves_prefix_when [OF _ preserves_wrapper]

lemma run_actions_append:
  "run_actions (as @ bs) = and_then (run_actions as) (\<lambda>_. run_actions bs)"
  by (induction as) (simp_all add: and_then_assoc)

text \<open>
  C13. A reconcile that fails before reportStatus leaves the version the platform handshake last
  reported in place: it is neither wiped nor advanced, at whichever action the run stops, even when
  the releases action itself has replaced the list.
\<close>

theorem failed_reconcile_keeps_platform_version:
  assumes "framework_frame F" and "rr_instance rr = IsAIGateway obj" and "platform_version obj \<noteq> ''''"
    and "run_actions (render_actions E L F m @ apply_actions E F m) rr = (Inl e, rr')"
  shows "run_actions (reconcile_actions E L b F m) rr = (Inl e, rr') \<and>
    (\<exists>obj'. rr_instance rr' = IsAIGateway obj' \<and> platform_version obj' = platform_version obj)"
proof -
  have "run_actions (reconcile_actions E L b F m) rr = (Inl e, rr')"
    using assms(4) unfolding reconcile_actions_def append_assoc [symmetric]
    by (subst run_actions_append) (rule and_then_Inl)
  moreover have "\<exists>obj'. rr_instance (snd (run_actions (render_actions E L F m @ apply_actions E F m) rr)) =
      IsAIGateway obj' \<and> platform_version obj' = platform_version obj"
    using preserves_prefix [OF assms(1) assms(1)] assms(2,3) unfolding preserves_when_def by blast
  ultimately show ?thesis
    using assms(4) by simp
qed

text \<open>
  The version is advanced before the garbage collector runs: when everything up to reportStatus
  succeeds and the collector then fails, the reconcile fails with the collector's error and the
  releases already carry the version of the platform's ConfigMap.
\<close>

theorem gc_failure_keeps_advanced_version:
  assumes "run_actions (render_actions E L F m @ apply_actions E F m) rr = (Inr (), rr\<^sub>1)"
    and "rr_instance rr\<^sub>1 = IsAIGateway obj\<^sub>1" "rr_client rr\<^sub>1 = Some c"
    and "get_config_map c (nsname_of (apps_ns m) platformConfigName) (rr_world rr\<^sub>1) = (Inr cm, w)"
    and "map_index (cm_data cm) platformVersionKey = v" "v \<noteq> ''''"
    and "\<And>rr. gc_action F (apps_ns m) (maasAwareGCPredicate E m) rr = (Inl e, rr)"
  shows "\<exists>rr' obj'. run_actions (reconcile_actions E L b F m) rr = (Inl e, rr') \<and>
    rr_instance rr' = IsAIGateway obj' \<and> platform_version obj' = v"
proof -
  let ?obj = "platform.echo v (SetModuleStatus obj\<^sub>1 (module_status_of E b m rr\<^sub>1))"
  let ?rr = "rr\<^sub>1\<lparr>rr_world := w, rr_instance := IsAIGateway ?obj\<rparr>"
  have "reportStatus E b m rr\<^sub>1 = (Inr (), ?rr)"
    using reportStatus_run [OF assms(2-4), of v] assms(5) by simp
  then have "run_actions (reconcile_actions E L b F m) rr = (Inl e, ?rr)"
    using assms(1,7) unfolding reconcile_actions_def append_assoc [symmetric]
    by (subst run_actions_append) (simp add: and_then_def)
  then show ?thesis
    by (intro exI [of _ ?rr] exI [of _ ?obj]) (simp add: platform.echo_version)
qed

section \<open>The teardown request reaches the deploy action\<close>

lemma request_teardown_annotated:
  "is_maas_controller E m (request_teardown E m u) \<Longrightarrow>
   map_index (us_annotations (request_teardown E m u)) maasTeardownRequestedKey = ''true''"
  by (auto simp: is_maas_controller_def request_teardown_def map_index_put split: if_splits)

lemma annotateResource_resources:
  assumes "annotateResource E m rr = (Inr (), rr')" and "rr_instance rr' = IsAIGateway obj"
    and "maas_state obj = removedState"
  shows "rr_resources rr' = map (request_teardown E m) (rr_resources rr)"
proof -
  have "rr_instance rr = IsAIGateway obj"
    using assms(2) keepsD [OF keeps_instance(5) assms(1)] by simp
  then have "(Inr (), rr\<lparr>rr_resources := map (request_teardown E m) (rr_resources rr)\<rparr>) =
      (Inr () :: go_error + unit, rr')"
    using assms(1,3) by (simp add: annotateResource_def annotateMaaSRequestedTeardown_def modify_run)
  then show ?thesis by auto
qed

lemma keeps_resources_migrateSelector: "keeps rr_resources (migrateSelector E m)"
  unfolding action_defs by (intro frame; simp)

text \<open>
  C8. While MaaS is Removed, whatever the render actions produced, every maas-controller Deployment
  among the resources the deploy action is given carries the teardown request.
\<close>

theorem deploy_sees_teardown_request:
  assumes "run_actions (take 8 (reconcile_actions E L b F m)) rr = (Inr (), rr')"
    and "rr_instance rr' = IsAIGateway obj" "maas_state obj = removedState"
    and "u \<in> set (rr_resources rr')" "is_maas_controller E m u"
  shows "map_index (us_annotations u) maasTeardownRequestedKey = ''true''"
proof -
  have "take 8 (reconcile_actions E L b F m) =
      render_actions E L F m @ [annotateResource E m, migrateSelector E m]"
    by (simp add: reconcile_actions_def render_actions_def apply_actions_def)
  then obtain rr1 rr2 where 1: "annotateResource E m rr1 = (Inr (), rr2)"
      and 2: "migrateSelector E m rr2 = (Inr (), rr')"
    using assms(1) by (auto simp: run_actions_append and_then_Inr_iff ok_run)
  have "rr_instance rr2 = IsAIGateway obj"
    using assms(2) keepsD [OF keeps_instance(6) 2] by simp
  then have "rr_resources rr2 = map (request_teardown E m) (rr_resources rr1)"
    using annotateResource_resources [OF 1] assms(3) by simp
  moreover have "rr_resources rr' = rr_resources rr2"
    using keepsD [OF keeps_resources_migrateSelector 2] .
  ultimately show ?thesis
    using assms(4,5) request_teardown_annotated by auto
qed

section \<open>Running without a client\<close>

text \<open>No action of the framework writes the client.\<close>

definition framework_client :: "('w, 'c) framework \<Rightarrow> bool" where
  "framework_client F \<longleftrightarrow>
     keeps rr_client (release_step F) \<and> (\<forall>labels. keeps rr_client (kustomize_action F labels)) \<and>
     keeps rr_client (deploy_step F) \<and> keeps rr_client (deployments_action F)"

text \<open>
  The panics that \<open>Q\<close> does not allow; an action that, without a client, has none of them and
  finds no client.
\<close>

definition blameless :: "(string \<Rightarrow> bool) \<Rightarrow> go_error + 'a \<Rightarrow> bool" where
  "blameless Q r \<longleftrightarrow> (\<forall>p. r = Inl (Panic p) \<longrightarrow> Q p)"

definition safe_without_client :: "(string \<Rightarrow> bool) \<Rightarrow> ('w, 'c, 'a) action \<Rightarrow> bool" where
  "safe_without_client Q a \<longleftrightarrow>
     (\<forall>rr. rr_client rr = None \<longrightarrow> blameless Q (fst (a rr)) \<and> rr_client (snd (a rr)) = None)"

text \<open>A panic of third-party code: the parameter files, the renderer, the framework's actions.\<close>

definition panics_outside :: "('w, 'c) lib \<Rightarrow> ('w, 'c) framework \<Rightarrow> string \<Rightarrow> bool" where
  "panics_outside E F p \<longleftrightarrow>
     (\<exists>mi f i x w. fst (ApplyParams E mi f i x w) = Inl (Panic p)) \<or>
     (\<exists>path ns ls w. fst (Render E path ns ls w) = Inl (Panic p)) \<or>
     (\<exists>rr. fst (release_step F rr) = Inl (Panic p)) \<or>
     (\<exists>ls rr. fst (kustomize_action F ls rr) = Inl (Panic p))"

lemma wrapf_Panic_iff [simp]: "wrapf f as e = Panic p \<longleftrightarrow> e = Panic p"
  by (cases e) simp_all

lemma blameless_simps [simp]:
  "blameless Q (Inr a)" "blameless Q (Inl e) \<longleftrightarrow> (\<forall>p. e = Panic p \<longrightarrow> Q p)" "new_error t \<noteq> Panic p"
  by (simp_all add: blameless_def new_error_def)

lemma panics_outside_blameless:
  "blameless (panics_outside E F) (fst (ApplyParams E mi f i x w))"
  "blameless (panics_outside E F) (fst (Render E path ns ls w))"
  "blameless (panics_outside E F) (fst (release_step F rr))"
  "blameless (panics_outside E F) (fst (kustomize_action F labels rr))"
  by (auto simp: blameless_def panics_outside_def)

lemma safeI:
  "(\<And>rr. rr_client rr = None \<Longrightarrow> blameless Q (fst (a rr)) \<and> rr_client (snd (a rr)) = None) \<Longrightarrow>
   safe_without_client Q a"
  by (simp add: safe_without_client_def)

lemma safe_and_then:
  fixes a :: "('w, 'c, 'a) action"
  assumes "safe_without_client Q a" "\<And>x. safe_without_client Q (k x)"
  shows "safe_without_client Q (and_then a k)"
proof (rule safeI)
  fix rr :: "('w, 'c) request"
  assume "rr_client rr = None"
  moreover obtain r rr1 where run: "a rr = (r, rr1)" by fastforce
  ultimately have 1: "blameless Q r" "rr_client rr1 = None"
    using assms(1) unfolding safe_without_client_def by (metis fst_conv, metis snd_conv)
  show "blameless Q (fst (and_then a k rr)) \<and> rr_client (snd (and_then a k rr)) = None"
  proof (cases r)
    case (Inl e)
    then show ?thesis using run 1 by (simp add: and_then_def)
  next
    case (Inr x)
    then show ?thesis
      using run 1 assms(2) [of x] by (simp add: and_then_def safe_without_client_def)
  qed
qed

lemma keeps_client [frame]:
  "keeps rr_client (initialize_module E m)"
  "keeps rr_client (ensureInfraSecretMigrationRBAC m)"
  "keeps rr_client (upgradeIfNeeded L m)"
  "keeps rr_client (renderAIGridOperator E m)"
  "keeps rr_client (annotateResource E m)"
  "keeps rr_client (migrateSelector E m)"
  unfolding action_defs by (intro frame; simp)+

lemma blameless_wrapping [simp]: "blameless Q (fst (wrapping f as m s)) = blameless Q (fst (m s))"
  by (auto simp: wrapping_def split: prod.split sum.split)

lemma safe_ok: "safe_without_client Q (ok a)"
  by (rule safeI) (simp add: ok_run)

lemma safe_fail: "\<not> is_panic e \<Longrightarrow> safe_without_client Q (fail e)"
  by (rule safeI) (auto simp: fail_run)

lemma safe_modify: "(\<And>rr. rr_client (f rr) = rr_client rr) \<Longrightarrow> safe_without_client Q (modify f)"
  by (rule safeI) (simp add: modify_run)

lemma safe_append_manifest: "safe_without_client Q (append_manifest mi)"
  by (rule safeI) (simp add: append_manifest_run)

lemma safe_in_world: "(\<And>w. blameless Q (fst (m w))) \<Longrightarrow> safe_without_client Q (in_world m)"
  by (rule safeI) (simp add: in_world_def split: prod.split, metis fst_conv)

lemma snd_wrapping [simp]: "snd (wrapping f as m s) = snd (m s)"
  by (auto simp: wrapping_def split: prod.split sum.split)

lemma safe_wrapping: "safe_without_client Q a \<Longrightarrow> safe_without_client Q (wrapping f as a)"
  by (simp add: safe_without_client_def)

lemma safe_reading: "(\<And>x. safe_without_client Q (k x)) \<Longrightarrow> safe_without_client Q (reading g k)"
  by (simp add: safe_without_client_def reading_run)

lemma safe_guarded:
  "safe_without_client Q a \<Longrightarrow> safe_without_client Q (reading rr_client (\<lambda>cli. if cli = None then a else k cli))"
  by (simp add: safe_without_client_def reading_run)

lemma safe_with_aigateway: "(\<And>obj. safe_without_client Q (k obj)) \<Longrightarrow> safe_without_client Q (with_aigateway k)"
  by (simp add: safe_without_client_def with_aigateway_def split: instance_value.split)

lemma safe_if: "safe_without_client Q a \<Longrightarrow> safe_without_client Q b \<Longrightarrow> safe_without_client Q (if c then a else b)"
  by simp

lemmas safe_intros =
  safe_and_then safe_ok safe_fail safe_modify safe_append_manifest safe_in_world safe_wrapping
  safe_with_aigateway safe_guarded safe_if

lemma safe_initialize: "safe_without_client (panics_outside E F) (initialize_module E m)"
  unfolding initialize_module_def init_batch_gateway_def init_ai_grid_def keep_maas_installed_def
    shouldKeepMaaSInstalled_def init_maas_def apply_params_def
  by (intro safe_intros; simp add: new_error_def panics_outside_blameless)

lemma safe_render: "safe_without_client (panics_outside E F) (renderAIGridOperator E m)"
  unfolding renderAIGridOperator_def
  by (intro safe_intros; simp add: panics_outside_blameless)

lemma safe_upgrade: "safe_without_client Q (upgradeIfNeeded L m)"
  unfolding upgradeIfNeeded_def upgrade_def Let_def by (intro safe_intros)

lemma safe_annotate: "safe_without_client Q (annotateResource E m)"
  unfolding annotateResource_def annotateMaaSRequestedTeardown_def by (intro safe_intros; simp)

lemma safe_wrapper:
  assumes "safe_without_client Q inner"
  shows "safe_without_client Q (withPreservedPlatformRelease inner)"
proof (rule safeI)
  fix rr :: "('a, 'b) request"
  assume none: "rr_client rr = None"
  obtain r rr1 where run: "inner rr = (r, rr1)" by fastforce
  then have 1: "blameless Q r" "rr_client rr1 = None"
    using assms none unfolding safe_without_client_def by (metis fst_conv, metis snd_conv)
  have "rr_client (update_instance f rr1) = None" for f
    using 1 by (simp add: update_instance_def set_instance_def split: instance_value.split)
  then show "blameless Q (fst (withPreservedPlatformRelease inner rr)) \<and>
      rr_client (snd (withPreservedPlatformRelease inner rr)) = None"
    using none run 1
    by (cases r; cases "rr_instance rr")
      (auto simp: withPreservedPlatformRelease_def Let_def with_aigateway_def new_error_def
        split: go_error.split)
qed

lemma safe_framework:
  assumes "framework_client F"
  shows "safe_without_client (panics_outside E F) (release_step F)"
    "safe_without_client (panics_outside E F) (kustomize_action F labels)"
  using assms by (simp_all add: safe_without_client_def panics_outside_blameless framework_client_def keeps_def)

lemma safe_run_actions:
  "(\<And>a. a \<in> set as \<Longrightarrow> safe_without_client Q a) \<Longrightarrow> safe_without_client Q (run_actions as)"
  by (induction as) (auto intro: safe_ok safe_and_then)

lemma initialize_not_managed:
  assumes "initialize_module E m rr = (Inr (), rr')" "rr_instance rr = IsAIGateway obj" "rr_client rr = None"
  shows "maas_state obj \<noteq> managedState"
proof
  assume managed: "maas_state obj = managedState"
  obtain rr1 rr2 rr3 k
    where 1: "init_batch_gateway E m obj rr = (Inr (), rr1)" and 2: "init_ai_grid m obj rr1 = (Inr (), rr2)"
      and 3: "keep_maas_installed m obj rr2 = (Inr k, rr3)"
      and 4: "(if k then init_maas E m else ok ()) rr3 = (Inr (), rr')"
    using assms(1,2) by (auto simp: initialize_module_def and_then_Inr_iff)
  have "rr_client rr3 = None"
    using assms(3) appends_frame(1) [OF init_batch_gateway_appends [OF 1]]
      appends_frame(1) [OF init_ai_grid_appends [OF 2]] appends_frame(1) [OF keep_maas_installed_Inr(1) [OF 3]]
    by simp
  moreover have k
    using keep_maas_installed_Inr(2) [OF 3] managed by simp
  ultimately show False
    using 4 init_maas_appends [of E m rr3 rr'] by simp
qed

lemma ensure_rbac_without_client:
  assumes "rr_client rr = None" "rr_instance rr = IsAIGateway obj" "maas_state obj \<noteq> managedState"
  shows "blameless Q (fst (ensureInfraSecretMigrationRBAC m rr)) \<and> snd (ensureInfraSecretMigrationRBAC m rr) = rr"
  using assms
  by (simp add: ensureInfraSecretMigrationRBAC_def reading_run ok_run fail_run Let_def new_error_def)

lemma migrate_without_client:
  assumes "rr_client rr = None"
  shows "migrateSelector E m rr = (Inl (new_error ''reconciliation client is nil''), rr)"
  using assms by (simp add: migrateSelector_def migrateMaasControllerSelector_def reading_run fail_run)

lemma safe_until_migrate:
  assumes "\<And>a. a \<in> set as \<Longrightarrow> safe_without_client Q a" and "rr_client rr = None"
  shows "\<exists>e rr'. run_actions (as @ migrateSelector E m # bs) rr = (Inl e, rr') \<and> (\<forall>p. e = Panic p \<longrightarrow> Q p)"
proof -
  obtain r rr1 where run: "run_actions as rr = (r, rr1)" by fastforce
  then have 1: "blameless Q r" "rr_client rr1 = None"
    using safe_run_actions [of as, OF assms(1)] assms(2) unfolding safe_without_client_def
    by (metis fst_conv, metis snd_conv)
  show ?thesis
    using run 1 migrate_without_client [OF 1(2), of E m]
    by (cases r) (auto simp: run_actions_append and_then_def)
qed

text \<open>
  C36. A reconcile without a client is refused, never crashed by the operator itself: the run of the
  whole pipeline ends in an error, and that error is a panic only if a third-party function raised it
  (writing a parameter file, rendering, the releases or the kustomize action of the framework),
  although two of the operator's actions (the RBAC of a Managed MaaS and the read of the platform's
  ConfigMap) would call a method of the nil client if they were reached. The framework's actions are
  taken not to put a client into the request.
\<close>

theorem nil_client_never_panics:
  assumes "framework_client F" and "rr_client rr = None"
  shows "\<exists>e rr'. run_actions (reconcile_actions E L b F m) rr = (Inl e, rr') \<and>
    (\<forall>p. e = Panic p \<longrightarrow> panics_outside E F p)"
proof -
  obtain r rr1 where init: "initialize_module E m rr = (r, rr1)" by fastforce
  then have 1: "blameless (panics_outside E F) r" "rr_client rr1 = None"
    using safe_initialize [of E F m] assms(2) unfolding safe_without_client_def
    by (metis fst_conv, metis snd_conv)
  show ?thesis
  proof (cases r)
    case (Inl e)
    then show ?thesis
      using init 1 by (auto simp: reconcile_actions_def render_actions_def and_then_def)
  next
    case (Inr u)
    then obtain obj where obj: "rr_instance rr = IsAIGateway obj" "rr_instance rr1 = IsAIGateway obj"
      using init keepsD [OF keeps_instance(1) init]
      by (auto simp: initialize_module_def with_aigateway_def split: instance_value.splits)
    have "maas_state obj \<noteq> managedState"
      using initialize_not_managed init Inr obj(1) assms(2) by fastforce
    then obtain r2 where rbac: "ensureInfraSecretMigrationRBAC m rr1 = (r2, rr1)" "blameless (panics_outside E F) r2"
      using ensure_rbac_without_client [OF 1(2) obj(2)] by (metis prod.collapse)
    show ?thesis
    proof (cases r2)
      case (Inl e)
      then show ?thesis
        using init Inr rbac by (auto simp: reconcile_actions_def render_actions_def and_then_def)
    next
      case Inr2: (Inr u2)
      let ?as = "[upgradeIfNeeded L m, withPreservedPlatformRelease (release_step F),
        kustomize_action F [(ODH_Component E componentName, labels_True E), (PartOf E, componentName)],
        renderAIGridOperator E m, annotateResource E m]"
      let ?bs = "[deploy_step F, deployments_action F, reportSubModuleStatus E m, overWriteCondition E m,
        reportStatus E b m, gc_action F (apps_ns m) (maasAwareGCPredicate E m)]"
      have "run_actions (reconcile_actions E L b F m) rr = run_actions (?as @ migrateSelector E m # ?bs) rr1"
        using init Inr rbac Inr2 by (simp add: reconcile_actions_def render_actions_def apply_actions_def and_then_def)
      moreover have "safe_without_client (panics_outside E F) a" if "a \<in> set ?as" for a
        using that safe_upgrade safe_wrapper [OF safe_framework(1)] safe_render safe_annotate
          safe_framework(2) assms(1) by auto
      ultimately show ?thesis
        using safe_until_migrate [of ?as _ rr1 E m ?bs] 1(2) by simp
    qed
  qed
qed

section \<open>Witnesses\<close>

text \<open>
  Framework actions after their documentation: the releases action replaces the list by the metadata
  of the module, kustomize renders the manifests selected, the others succeed.
\<close>

definition rendered_maas :: unstructured where
  "rendered_maas =
     \<lparr>us_gvk = apps_gvk, us_namespace = ''apps'', us_name = ''maas-controller'', us_labels = None,
      us_annotations = None, us_object = Obj []\<rparr>"

definition plain_framework :: "(mem, conds) framework" where
  "plain_framework =
     \<lparr>ComponentMetadataFilename = ''component_metadata.yaml'',
      releases_action = (\<lambda>path rr. (Inr (), update_instance (\<lambda>obj. SetReleaseStatus obj
        [\<lparr>cr_name = ''maas'', cr_version = ''0.1.0'', cr_repo_url = ''''\<rparr>]) rr)),
      kustomize_action = (\<lambda>labels. modify (\<lambda>rr. rr\<lparr>rr_resources := rr_resources rr @ [rendered_maas]\<rparr>)),
      deploy_action = (\<lambda>opts. ok ()),
      deployments_action = mark_true mem_lib ConditionDeploymentsAvailable [],
      gc_action = (\<lambda>ns p. ok ())\<rparr>"

lemma plain_framework_simps [simp]:
  "release_step plain_framework rr = (Inr (), update_instance (\<lambda>obj. SetReleaseStatus obj
     [\<lparr>cr_name = ''maas'', cr_version = ''0.1.0'', cr_repo_url = ''''\<rparr>]) rr)"
  "deploy_step plain_framework = ok ()"
  "deployments_action plain_framework = mark_true mem_lib ConditionDeploymentsAvailable []"
  "kustomize_action plain_framework labels = modify (\<lambda>rr. rr\<lparr>rr_resources := rr_resources rr @ [rendered_maas]\<rparr>)"
  by (simp_all add: plain_framework_def release_step_def deploy_step_def)

lemma plain_framework_frame: "framework_frame plain_framework"
  by (auto simp: framework_frame_def update_instance_def set_instance_def intro!: frame)

definition stamped_gateway :: "string \<Rightarrow> string \<Rightarrow> aigateway" where
  "stamped_gateway maas v =
     gateway_with '''' maas '''' [\<lparr>cr_name = ''platform'', cr_version = v, cr_repo_url = ''''\<rparr>]"

lemma stamped_version: "platform_version (stamped_gateway maas v) = v"
  by (simp add: stamped_gateway_def platform_version_def getPlatformRelease_def platformReleaseName_def)

lemma keeps_client_wrapper [frame]:
  assumes "keeps rr_client inner"
  shows "keeps rr_client (withPreservedPlatformRelease inner)"
proof (rule keepsI)
  fix rr :: "('a, 'b) request"
  obtain r rr1 where run: "inner rr = (r, rr1)" by fastforce
  have "rr_client (update_instance f rr1) = rr_client rr1" for f
    by (simp add: update_instance_def set_instance_def split: instance_value.split)
  then show "rr_client (snd (withPreservedPlatformRelease inner rr)) = rr_client rr"
    using keepsD [OF assms run] run
    by (auto simp: withPreservedPlatformRelease_def Let_def with_aigateway_def
        split: instance_value.split sum.split go_error.split)
qed

lemma keeps_client_status [frame]:
  "keeps rr_client (reportSubModuleStatus E m)"
  "keeps rr_client (overWriteCondition E m)"
  unfolding action_defs by (intro frame; simp)+

lemma keeps_client_prefix:
  assumes "framework_client F"
  shows "keeps rr_client (run_actions (render_actions E L F m @ apply_actions E F m))"
  using assms
  by (intro keeps_run_actions)
    (auto simp: framework_client_def render_actions_def apply_actions_def intro!: frame)

lemma plain_framework_client: "framework_client plain_framework"
proof -
  have "keeps rr_client (release_step plain_framework)"
    by (rule keepsI) (simp add: update_instance_def set_instance_def split: instance_value.split)
  then show ?thesis
    by (auto simp: framework_client_def intro!: frame)
qed

theorem nil_client_never_panics_witness:
  "\<exists>e rr'. run_actions (reconcile_actions mem_lib decimal_lib default_build plain_framework (module_for ''opendatahub''))
     (request_for None empty_mem [] (stamped_gateway ''Managed'' ''3.1.0'')) = (Inl e, rr') \<and> \<not> is_panic e"
proof -
  have "\<not> panics_outside mem_lib plain_framework p" for p
    by (auto simp: panics_outside_def mem_apply_params_def modify_run mem_lib_def ok_run split: option.splits)
  then show ?thesis
    using nil_client_never_panics [OF plain_framework_client, where E = mem_lib and L = decimal_lib
        and b = default_build and m = "module_for ''opendatahub''"
        and rr = "request_for None empty_mem [] (stamped_gateway ''Managed'' ''3.1.0'')"]
    by (auto elim: is_panic.elims)
qed

theorem failed_reconcile_keeps_platform_version_witness:
  "\<exists>e rr' obj'. run_actions (reconcile_actions mem_lib decimal_lib default_build plain_framework (module_for ''apps''))
      (request_for (Some (mem_client\<lparr>get_deployment := (\<lambda>k w. (Inl conflict_error, w))\<rparr>)) empty_mem []
        (stamped_gateway ''Managed'' ''3.1.0'')) = (Inl e, rr') \<and>
    rr_instance rr' = IsAIGateway obj' \<and> platform_version obj' = ''3.1.0''"
proof -
  let ?rr = "request_for (Some (mem_client\<lparr>get_deployment := (\<lambda>k w. (Inl conflict_error, w))\<rparr>)) empty_mem
    ([] :: conds) (stamped_gateway ''Managed'' ''3.1.0'')"
  let ?pre = "run_actions (render_actions mem_lib decimal_lib plain_framework (module_for ''apps'') @
    apply_actions mem_lib plain_framework (module_for ''apps''))"
  have "isl (fst (?pre ?rr))"
    by code_simp
  then obtain e rr' where fails: "?pre ?rr = (Inl e, rr')"
    by (metis isl_def prod.collapse)
  have "run_actions (reconcile_actions mem_lib decimal_lib default_build plain_framework (module_for ''apps'')) ?rr =
      (Inl e, rr') \<and>
    (\<exists>obj'. rr_instance rr' = IsAIGateway obj' \<and>
      platform_version obj' = platform_version (stamped_gateway ''Managed'' ''3.1.0''))"
    by (rule failed_reconcile_keeps_platform_version [OF plain_framework_frame _ _ fails])
      (simp_all add: stamped_version)
  then show ?thesis
    by (auto simp: stamped_version)
qed

theorem gc_failure_keeps_advanced_version_witness:
  "\<exists>rr' obj'. run_actions (reconcile_actions mem_lib decimal_lib default_build
      (plain_framework\<lparr>gc_action := (\<lambda>ns p rr. (Inl (External ''gc''), rr))\<rparr>) (module_for ''apps''))
      (request_for (Some (mem_client\<lparr>get_config_map := (\<lambda>k w. (Inr \<lparr>cm_data = Some [''platformVersion'' \<mapsto> ''3.2.0'']\<rparr>, w))\<rparr>))
        empty_mem [] (stamped_gateway '''' ''3.1.0'')) = (Inl (External ''gc''), rr') \<and>
    rr_instance rr' = IsAIGateway obj' \<and> platform_version obj' = ''3.2.0''"
proof -
  let ?F = "plain_framework\<lparr>gc_action := (\<lambda>ns p rr. (Inl (External ''gc''), rr))\<rparr>"
  let ?c = "mem_client\<lparr>get_config_map := (\<lambda>k w. (Inr \<lparr>cm_data = Some [''platformVersion'' \<mapsto> ''3.2.0'']\<rparr>, w))\<rparr>"
  let ?rr = "request_for (Some ?c) empty_mem ([] :: conds) (stamped_gateway '''' ''3.1.0'')"
  let ?m = "module_for ''apps''"
  let ?as = "\<lambda>F. render_actions mem_lib decimal_lib F ?m @ apply_actions mem_lib F ?m"
  have same: "?as ?F = ?as plain_framework"
    by (simp add: render_actions_def apply_actions_def plain_framework_def release_step_def deploy_step_def)
  have "fst (run_actions (?as plain_framework) ?rr) = Inr ()"
    by code_simp
  then obtain rr1 where run: "run_actions (?as plain_framework) ?rr = (Inr (), rr1)"
    by (metis prod.collapse)
  have client: "rr_client rr1 = Some ?c"
    using keepsD [OF keeps_client_prefix [OF plain_framework_client] run] by simp
  obtain obj1 where obj1: "rr_instance rr1 = IsAIGateway obj1"
    using preserves_prefix [OF plain_framework_frame plain_framework_frame, of mem_lib decimal_lib ?m] run
    unfolding preserves_when_def by (fastforce simp: stamped_version dest!: spec [of _ ?rr])
  have read: "get_config_map ?c (nsname_of (apps_ns ?m) platformConfigName) (rr_world rr1) =
      (Inr \<lparr>cm_data = Some [''platformVersion'' \<mapsto> ''3.2.0'']\<rparr>, rr_world rr1)"
    by simp
  have run': "run_actions (?as ?F) ?rr = (Inr (), rr1)"
    unfolding same by (rule run)
  show ?thesis
    by (rule gc_failure_keeps_advanced_version [OF run' obj1 client read])
      (simp_all add: map_index_def platformVersionKey_def)
qed

theorem deploy_sees_teardown_request_witness:
  "\<exists>rr'. run_actions (take 8 (reconcile_actions mem_lib decimal_lib default_build plain_framework (module_for ''apps'')))
       (request_for (Some mem_client) (with_deployments []) [] (stamped_gateway ''Removed'' ''3.1.0'')) = (Inr (), rr') \<and>
     (\<exists>u \<in> set (rr_resources rr'). map_index (us_annotations u) ''maas.opendatahub.io/teardown-requested'' = ''true'')"
proof -
  let ?rr = "request_for (Some mem_client) (with_deployments []) ([] :: conds) (stamped_gateway ''Removed'' ''3.1.0'')"
  let ?m = "module_for ''apps''"
  let ?run = "run_actions (take 8 (reconcile_actions mem_lib decimal_lib default_build plain_framework ?m)) ?rr"
  have "fst ?run = Inr () \<and> length (rr_resources (snd ?run)) = 1 \<and>
      list_all (is_maas_controller mem_lib ?m) (rr_resources (snd ?run)) \<and>
      (case rr_instance (snd ?run) of IsAIGateway obj \<Rightarrow> maas_state obj = removedState | OtherInstance \<Rightarrow> False)"
    by code_simp
  then obtain rr' obj u where run: "?run = (Inr (), rr')" and obj: "rr_instance rr' = IsAIGateway obj"
      "maas_state obj = removedState" and u: "u \<in> set (rr_resources rr')" "is_maas_controller mem_lib ?m u"
    by (cases ?run) (auto simp: length_Suc_conv split: instance_value.splits)
  have "map_index (us_annotations u) maasTeardownRequestedKey = ''true''"
    by (rule deploy_sees_teardown_request [OF run obj u])
  then show ?thesis
    using run u by (auto simp: maasTeardownRequestedKey_def)
qed

end
