(* ===== verification/Reconciler_Setup.thy ===== *)
theory Reconciler_Setup
  imports Pipeline
begin

text \<open>
  What \<^verbatim>\<open>NewReconciler\<close> hands to the framework's builder: the kinds the AIGateway owns,
  the watches with their predicates and event mappers, the actions and the conditions. The builder
  itself is a parameter.
\<close>

section \<open>Kinds, events and watches\<close>

datatype kind =
    ConfigMapKind | ClusterRoleBindingKind | ClusterRoleKind | RoleBindingKind | RoleKind
  | ServiceAccountKind | ServiceKind | CustomResourceDefinitionKind
  | ValidatingWebhookConfigurationKind | NetworkPolicyKind | DeploymentKind
  | GVK gvk

text \<open>The part of an object the predicates look at, and the events of an informer.\<close>

record watched_object =
  wo_namespace :: string
  wo_name :: string
  wo_resource_version :: string

datatype event =
    Create watched_object
  | Update watched_object watched_object
  | Delete watched_object
  | Generic watched_object

text \<open>The object \<^verbatim>\<open>predicate.NewPredicateFuncs\<close> shows its function.\<close>

fun event_object :: "event \<Rightarrow> watched_object" where
  "event_object (Create x) = x"
| "event_object (Update old new) = new"
| "event_object (Delete x) = x"
| "event_object (Generic x) = x"

definition funcs_predicate :: "(watched_object \<Rightarrow> bool) \<Rightarrow> event \<Rightarrow> bool" where
  "funcs_predicate f ev = f (event_object ev)"

fun resource_version_changed :: "event \<Rightarrow> bool" where
  "resource_version_changed (Update old new) \<longleftrightarrow> wo_resource_version new \<noteq> wo_resource_version old"
| "resource_version_changed ev \<longleftrightarrow> True"

text \<open>
  A watch, and an owned kind, whose events wake the owner of the object. A dynamic one waits for a
  CRD (\<^verbatim>\<open>reconciler.Dynamic(reconciler.CrdExists(gvk))\<close>).
\<close>

record watch =
  w_kind :: kind
  w_dynamic :: "gvk option"
  w_predicates :: "(event \<Rightarrow> bool) list"
  w_mapper :: "watched_object \<Rightarrow> nsname list"

record owned =
  o_kind :: kind
  o_dynamic :: "gvk option"
  o_predicates :: "(event \<Rightarrow> bool) list"

definition owns :: "kind \<Rightarrow> owned" where
  "owns k = \<lparr>o_kind = k, o_dynamic = None, o_predicates = []\<rparr>"

definition AIGatewayInstanceName :: string where
  "AIGatewayInstanceName = ''default-aigateway''"

definition to_instance :: "watched_object \<Rightarrow> nsname list" where
  "to_instance ob = [nsname_of '''' AIGatewayInstanceName]"

definition reconciler_watches :: "config \<Rightarrow> watch list" where
  "reconciler_watches cf =
     [\<lparr>w_kind = ConfigMapKind, w_dynamic = None,
       w_predicates = [funcs_predicate (\<lambda>x. platformConfigMapPredicate (ApplicationsNamespace cf)
          (wo_name x) (wo_namespace x)), resource_version_changed],
       w_mapper = to_instance\<rparr>,
      \<lparr>w_kind = CustomResourceDefinitionKind, w_dynamic = None,
       w_predicates = [funcs_predicate (\<lambda>x. aiGridCRDPredicate (wo_name x)), resource_version_changed],
       w_mapper = to_instance\<rparr>,
      \<lparr>w_kind = GVK maasConfigGVK, w_dynamic = Some maasConfigGVK,
       w_predicates = [resource_version_changed],
       w_mapper = to_instance\<rparr>]"

text \<open>
  What a watch puts into the queue: the mapped requests of the object if every predicate lets the
  event pass.
\<close>

definition enqueues :: "watch \<Rightarrow> event \<Rightarrow> nsname list" where
  "enqueues wt ev = (if list_all (\<lambda>p. p ev) (w_predicates wt) then w_mapper wt (event_object ev) else [])"

section \<open>The reconciler\<close>

record ('w, 'c) reconciler_spec =
  rs_owns :: "owned list"
  rs_watches :: "watch list"
  rs_actions :: "('w, 'c, unit) action list"
  rs_conditions :: "string list"

text \<open>
  What \<^verbatim>\<open>odhmanager.New\<close> adds to the manager it wraps: the directory of the manifests,
  which \<^verbatim>\<open>ReconcilerFor\<close> reads and puts into every request.
\<close>

record odh_manager =
  ManifestsBasePath :: string

text \<open>
  The builder, and the names of the framework that the set-up passes to it: the GroupVersionKind
  of ServiceMonitor and the predicate for Deployments.
\<close>

record ('w, 'c, 'v, 'r) builder =
  CoreosServiceMonitor :: gvk
  DefaultDeploymentPredicate :: "event \<Rightarrow> bool"
  Build :: "odh_manager \<Rightarrow> ('w, 'c) reconciler_spec \<Rightarrow> ('w, 'r) comp"
  set_release :: "'v release \<Rightarrow> 'r \<Rightarrow> 'r"

definition owned_kinds :: "('w, 'c, 'v, 'r) builder \<Rightarrow> owned list" where
  "owned_kinds B =
     [owns ConfigMapKind, owns ClusterRoleBindingKind, owns ClusterRoleKind, owns RoleBindingKind,
      owns RoleKind, owns ServiceAccountKind, owns ServiceKind, owns CustomResourceDefinitionKind,
      owns ValidatingWebhookConfigurationKind, owns NetworkPolicyKind,
      (owns (GVK (CoreosServiceMonitor B)))\<lparr>o_dynamic := Some (CoreosServiceMonitor B)\<rparr>,
      (owns DeploymentKind)\<lparr>o_predicates := [DefaultDeploymentPredicate B]\<rparr>]"

definition reconciler_spec_for ::
  "('w, 'c) lib \<Rightarrow> 'v semver_lib \<Rightarrow> build_info \<Rightarrow> ('w, 'c) framework \<Rightarrow> ('w, 'c, 's, 'r) builder \<Rightarrow>
    config \<Rightarrow> module \<Rightarrow> ('w, 'c) reconciler_spec" where
  "reconciler_spec_for E L b F B cf m =
     \<lparr>rs_owns = owned_kinds B, rs_watches = reconciler_watches cf,
      rs_actions = reconcile_actions E L b F m, rs_conditions = [ConditionDeploymentsAvailable]\<rparr>"

definition NewReconciler ::
  "('w, 'c) lib \<Rightarrow> 'v semver_lib \<Rightarrow> build_info \<Rightarrow> ('w, 'c) framework \<Rightarrow> ('w, 'c, 'v, 'r) builder \<Rightarrow>
    odh_manager \<Rightarrow> config \<Rightarrow> 'v release \<Rightarrow> ('w, 'r) comp" where
  "NewReconciler E L b F B mgr cf rel =
     and_then (NewModule E L b cf) (\<lambda>m.
     and_then (Build B mgr (reconciler_spec_for E L b F B cf m)) (\<lambda>r.
     ok (set_release B rel r)))"

section \<open>Properties\<close>

text \<open>What an event on an object of a kind puts into the queue of a reconciler, by its watches.\<close>

definition woken :: "('w, 'c) reconciler_spec \<Rightarrow> kind \<Rightarrow> event \<Rightarrow> nsname list" where
  "woken rs k ev = concat (map (\<lambda>wt. enqueues wt ev) (filter (\<lambda>wt. w_kind wt = k) (rs_watches rs)))"

text \<open>
  C29. What wakes the reconciler outside of what it owns. An event puts exactly one request, for the
  singleton AIGateway, into the queue if it is on the platform's ConfigMap in the applications
  namespace, on a CRD with the suffix of the AI Grid (every CRD whose readiness AIGridReady reports
  has it), or on a MaaS Config, and is no update to the same resource version; every other event, a
  resync for one, puts none. Only the watch on MaaS Configs waits for its CRD.
\<close>

theorem watches_wake_singleton:
  assumes "rs = reconciler_spec_for E L b F B cf m" and "ob = event_object ev"
  shows "woken rs k ev =
      (if (k = ConfigMapKind \<and> wo_name ob = platformConfigName \<and> wo_namespace ob = ApplicationsNamespace cf \<or>
           k = CustomResourceDefinitionKind \<and> has_suffix (wo_name ob) aiGridCRDSuffix \<or>
           k = GVK maasConfigGVK) \<and>
          (\<forall>old new. ev = Update old new \<longrightarrow> wo_resource_version new \<noteq> wo_resource_version old)
       then [nsname_of '''' ''default-aigateway''] else []) \<and>
    (\<forall>n \<in> set aiGridCRDNames. has_suffix n aiGridCRDSuffix) \<and>
    (\<forall>wt \<in> set (rs_watches rs). w_dynamic wt = (if w_kind wt = GVK maasConfigGVK then Some maasConfigGVK else None))"
proof (intro conjI)
  have "resource_version_changed ev \<longleftrightarrow>
      (\<forall>old new. ev = Update old new \<longrightarrow> wo_resource_version new \<noteq> wo_resource_version old)"
    by (cases ev) auto
  then show "woken rs k ev =
      (if (k = ConfigMapKind \<and> wo_name ob = platformConfigName \<and> wo_namespace ob = ApplicationsNamespace cf \<or>
           k = CustomResourceDefinitionKind \<and> has_suffix (wo_name ob) aiGridCRDSuffix \<or>
           k = GVK maasConfigGVK) \<and>
          (\<forall>old new. ev = Update old new \<longrightarrow> wo_resource_version new \<noteq> wo_resource_version old)
       then [nsname_of '''' ''default-aigateway''] else [])"
    by (auto simp: assms woken_def reconciler_spec_for_def reconciler_watches_def enqueues_def to_instance_def
        funcs_predicate_def platformConfigMapPredicate_def aiGridCRDPredicate_def AIGatewayInstanceName_def)
  show "\<forall>n \<in> set aiGridCRDNames. has_suffix n aiGridCRDSuffix"
    using aiGridCRDNames_match by (simp add: aiGridCRDPredicate_def)
  show "\<forall>wt \<in> set (rs_watches rs).
      w_dynamic wt = (if w_kind wt = GVK maasConfigGVK then Some maasConfigGVK else None)"
    by (auto simp: assms(1) reconciler_spec_for_def reconciler_watches_def)
qed

text \<open>A grid CRD that becomes established is an update to another resource version.\<close>

theorem watches_wake_singleton_witness:
  "\<forall>B :: (mem, conds, unit, unit) builder.
     woken (reconciler_spec_for mem_lib decimal_lib default_build plain_framework B
         (cfg (module_for ''apps'')) (module_for ''apps'')) CustomResourceDefinitionKind
       (Update \<lparr>wo_namespace = '''', wo_name = ''gridsites.grid.praxis.fast'', wo_resource_version = ''7''\<rparr>
         \<lparr>wo_namespace = '''', wo_name = ''gridsites.grid.praxis.fast'', wo_resource_version = ''8''\<rparr>) =
     [nsname_of '''' ''default-aigateway'']"
proof
  fix B :: "(mem, conds, unit, unit) builder"
  let ?o = "\<lambda>v. \<lparr>wo_namespace = '''', wo_name = ''gridsites.grid.praxis.fast'', wo_resource_version = v\<rparr>"
  have suffix: "has_suffix ''gridsites.grid.praxis.fast'' aiGridCRDSuffix" by code_simp
  show "woken (reconciler_spec_for mem_lib decimal_lib default_build plain_framework B
      (cfg (module_for ''apps'')) (module_for ''apps'')) CustomResourceDefinitionKind (Update (?o ''7'') (?o ''8'')) =
    [nsname_of '''' ''default-aigateway'']"
    using watches_wake_singleton [OF refl refl, where E = mem_lib and L = decimal_lib and b = default_build
        and F = plain_framework and B = B and cf = "cfg (module_for ''apps'')" and m = "module_for ''apps''"
        and k = CustomResourceDefinitionKind and ev = "Update (?o ''7'') (?o ''8'')"] suffix
    by simp
qed

end
