(* ===== verification/Tls_Profile.thy ===== *)
theory Tls_Profile
  imports Cluster "HOL-Library.Word"
begin

text \<open>
  \<^verbatim>\<open>internal/tls/profile.go\<close>: resolving the TLS profile of the cluster into options for the
  metrics server, with fall back to the Intermediate profile, and the watcher that restarts the
  operator when the profile changes. The OpenShift libraries and the cipher suites of the Go run-time
  are the parameter record \<open>tls_lib\<close>. Log messages are not modelled.
\<close>

section \<open>Data\<close>

record tls_profile =
  Ciphers :: "string list"
  MinTLSVersion :: string

record tls_config =
  MinVersion :: "16 word"
  CipherSuites :: "16 word list"
  NextProtos :: "string list"

definition zero_tls_config :: tls_config where
  "zero_tls_config = \<lparr>MinVersion = 0, CipherSuites = [], NextProtos = []\<rparr>"

text \<open>
  The library's watcher. A callback is given the old and the new value and acts on the world; the
  one for the adherence policy may be nil.
\<close>

record 'w watcher =
  InitialTLSProfileSpec :: tls_profile
  InitialTLSAdherencePolicy :: string
  OnProfileChange :: "tls_profile \<Rightarrow> tls_profile \<Rightarrow> 'w \<Rightarrow> 'w"
  OnAdherencePolicyChange :: "(string \<Rightarrow> string \<Rightarrow> 'w \<Rightarrow> 'w) option"

record tls_result =
  Profile :: tls_profile
  ProfileFetched :: bool
  Adherence :: string
  AdherenceFetched :: bool
  TLSOpts :: "(tls_config \<Rightarrow> tls_config) list"

text \<open>
  \<open>FetchAdherence\<close> returns a policy along with its error, as the Go function does.
\<close>

record 'w tls_lib =
  FetchProfile :: "('w, tls_profile) api_call"
  FetchAdherence :: "'w \<Rightarrow> (string \<times> api_error option) \<times> 'w"
  Intermediate :: tls_profile
  NoOpinion :: string
  LegacyAdheringComponentsOnly :: string
  NewTLSConfigFromProfile :: "tls_profile \<Rightarrow> tls_config \<Rightarrow> tls_config"
  SetHTTP2NextProtos :: "tls_config \<Rightarrow> tls_config"
  RuntimeSuites :: "(16 word \<times> string) list"
  InsecureSuites :: "(16 word \<times> string) list"
  SetupWithManager :: "'w watcher \<Rightarrow> ('w, unit) comp"

section \<open>The code\<close>

definition VersionTLS10 :: "16 word" where "VersionTLS10 = 0x0301"
definition VersionTLS11 :: "16 word" where "VersionTLS11 = 0x0302"
definition VersionTLS12 :: "16 word" where "VersionTLS12 = 0x0303"
definition VersionTLS13 :: "16 word" where "VersionTLS13 = 0x0304"

definition tlsVersion :: "string \<Rightarrow> go_error + 16 word" where
  "tlsVersion version =
     (if version = '''' \<or> version = ''VersionTLS12'' then Inr VersionTLS12
      else if version = ''VersionTLS10'' then Inr VersionTLS10
      else if version = ''VersionTLS11'' then Inr VersionTLS11
      else if version = ''VersionTLS13'' then Inr VersionTLS13
      else Inl (Errorf ''unknown TLS minimum version %q'' [version] None))"

fun str_contains :: "string \<Rightarrow> string \<Rightarrow> bool" where
  "str_contains [] p \<longleftrightarrow> p = []"
| "str_contains (c # s) p \<longleftrightarrow> has_prefix (c # s) p \<or> str_contains s p"

definition runtimeCipherSuites :: "'w tls_lib \<Rightarrow> 16 word list" where
  "runtimeCipherSuites T =
     map fst (RuntimeSuites T) @ map fst (filter (\<lambda>(i, n). \<not> str_contains n ''RC4'') (InsecureSuites T))"

definition transient_profile_error :: "api_error \<Rightarrow> bool" where
  "transient_profile_error e \<longleftrightarrow>
     is_service_unavailable e \<or> is_timeout e \<or> is_server_timeout e \<or> is_too_many_requests e \<or>
     is_deadline_exceeded e"

definition transient_adherence_error :: "api_error \<Rightarrow> bool" where
  "transient_adherence_error e \<longleftrightarrow>
     is_service_unavailable e \<or> is_timeout e \<or> is_server_timeout e \<or> is_too_many_requests e \<or>
     is_internal_error e \<or> is_deadline_exceeded e"

text \<open>The first switch: the profile and whether it counts as fetched.\<close>

definition resolve_profile :: "'w tls_lib \<Rightarrow> ('w, tls_profile \<times> bool) comp" where
  "resolve_profile T =
     calling (FetchProfile T)
       (\<lambda>e. if is_no_match e then ok (Intermediate T, False)
            else if is_not_found e then ok (Intermediate T, False)
            else if transient_profile_error e then ok (Intermediate T, True)
            else fail (wrapf ''reading APIServer TLS profile: %w'' [] (Api e)))
       (\<lambda>p. ok (p, True))"

text \<open>The second switch: the adherence policy and whether it counts as fetched.\<close>

definition resolve_adherence :: "'w tls_lib \<Rightarrow> ('w, string \<times> bool) comp" where
  "resolve_adherence T w =
     (case FetchAdherence T w of
        ((a, None), w') \<Rightarrow> (Inr (a, True), w')
      | ((a, Some e), w') \<Rightarrow>
          (if is_no_match e then Inr (a, False)
           else if is_not_found e then Inr (a, False)
           else if transient_adherence_error e then Inr (NoOpinion T, True)
           else Inl (wrapf ''reading APIServer TLS adherence policy: %w'' [] (Api e)), w'))"

definition supported_suites :: "'w tls_lib \<Rightarrow> 16 word list \<Rightarrow> 16 word list" where
  "supported_suites T = filter (\<lambda>s. s \<in> set (runtimeCipherSuites T) \<and> (s < 0x1300 \<or> s > 0x13ff))"

text \<open>From the profile in force to the options.\<close>

definition tls_options :: "'w tls_lib \<Rightarrow> tls_profile \<Rightarrow> go_error + (tls_config \<Rightarrow> tls_config) list" where
  "tls_options T profile =
     (case tlsVersion (MinTLSVersion profile) of
        Inl e \<Rightarrow> Inl e
      | Inr minVersion \<Rightarrow>
          let profile =
                (if MinTLSVersion profile = '''' then profile\<lparr>MinTLSVersion := ''VersionTLS12''\<rparr> else profile);
              tlsConfigFn = NewTLSConfigFromProfile T profile in
          if minVersion < VersionTLS13 then
            if Ciphers profile = [] then
              Inl (Errorf ''TLS profile has no cipher suites for minimum version %s'' [MinTLSVersion profile] None)
            else
              let cipherSuites = supported_suites T (CipherSuites (tlsConfigFn zero_tls_config)) in
              if cipherSuites = [] then
                Inl (Errorf ''TLS profile has no supported cipher suites for minimum version %s''
                  [MinTLSVersion profile] None)
              else
                Inr [\<lambda>c. (tlsConfigFn c)\<lparr>CipherSuites := cipherSuites\<rparr>, SetHTTP2NextProtos T]
          else Inr [tlsConfigFn, SetHTTP2NextProtos T])"

definition profile_in_force :: "'w tls_lib \<Rightarrow> tls_profile \<Rightarrow> string \<Rightarrow> tls_profile" where
  "profile_in_force T profile adherence =
     (if adherence = NoOpinion T \<or> adherence = LegacyAdheringComponentsOnly T then Intermediate T
      else profile)"

definition Resolve :: "'w tls_lib \<Rightarrow> ('w, tls_result) comp" where
  "Resolve T =
     and_then (resolve_profile T) (\<lambda>(profile, profileFetched).
     and_then (resolve_adherence T) (\<lambda>(adherence, adherenceFetched).
     and_then (returned (tls_options T (profile_in_force T profile adherence))) (\<lambda>opts.
     ok \<lparr>Profile = profile, ProfileFetched = profileFetched, Adherence = adherence,
         AdherenceFetched = adherenceFetched, TLSOpts = opts\<rparr>)))"

text \<open>\<open>cancel\<close> ends the context the manager runs in; both callbacks are that.\<close>

definition tls_watcher :: "tls_result \<Rightarrow> ('w \<Rightarrow> 'w) \<Rightarrow> 'w watcher" where
  "tls_watcher result cancel =
     (let wt = \<lparr>InitialTLSProfileSpec = Profile result, InitialTLSAdherencePolicy = '''',
            OnProfileChange = (\<lambda>_ _. cancel), OnAdherencePolicyChange = None\<rparr>
      in if AdherenceFetched result
         then wt\<lparr>InitialTLSAdherencePolicy := Adherence result,
                OnAdherencePolicyChange := Some (\<lambda>_ _. cancel)\<rparr>
         else wt)"

definition SetupWatcher :: "'w tls_lib \<Rightarrow> tls_result \<Rightarrow> ('w \<Rightarrow> 'w) \<Rightarrow> ('w, unit) comp" where
  "SetupWatcher T result cancel =
     (if \<not> ProfileFetched result then ok ()
      else wrapping ''setting up TLS profile watcher: %w'' [] (SetupWithManager T (tls_watcher result cancel)))"

section \<open>Properties\<close>

definition apply_opts :: "(tls_config \<Rightarrow> tls_config) list \<Rightarrow> tls_config \<Rightarrow> tls_config" where
  "apply_opts opts c = fold (\<lambda>f c. f c) opts c"

lemma Resolve_Inr:
  assumes "Resolve T w = (Inr r, w')"
  shows "tls_options T (profile_in_force T (Profile r) (Adherence r)) = Inr (TLSOpts r)"
    and "\<exists>w\<^sub>1. resolve_profile T w = (Inr (Profile r, ProfileFetched r), w\<^sub>1) \<and>
      resolve_adherence T w\<^sub>1 = (Inr (Adherence r, AdherenceFetched r), w')"
  using assms
  by (auto simp: Resolve_def and_then_Inr_iff returned_run ok_run)

text \<open>
  C21. When resolving succeeds and the profile in force has a minimum version below TLS 1.3, the
  metrics server is left with at least one cipher suite, and every one is named by the profile, can be
  negotiated by this Go build, is not an RC4 suite and is not one of the TLS 1.3 suites, whatever
  configuration the options are applied to.
\<close>

theorem applied_cipher_suites:
  assumes "Resolve T w = (Inr r, w')"
    and "\<And>c. CipherSuites (SetHTTP2NextProtos T c) = CipherSuites c"
    and "p = profile_in_force T (Profile r) (Adherence r)"
    and "tlsVersion (MinTLSVersion p) = Inr v" "v < VersionTLS13"
  shows "CipherSuites (apply_opts (TLSOpts r) c) \<noteq> [] \<and>
    (\<forall>s \<in> set (CipherSuites (apply_opts (TLSOpts r) c)).
       s \<in> set (CipherSuites (NewTLSConfigFromProfile T
         (if MinTLSVersion p = '''' then p\<lparr>MinTLSVersion := ''VersionTLS12''\<rparr> else p) zero_tls_config)) \<and>
       (\<exists>n. (s, n) \<in> set (RuntimeSuites T) \<or> (s, n) \<in> set (InsecureSuites T) \<and> \<not> str_contains n ''RC4'') \<and>
       (s < 0x1300 \<or> s > 0x13ff))"
proof -
  let ?p = "if MinTLSVersion p = '''' then p\<lparr>MinTLSVersion := ''VersionTLS12''\<rparr> else p"
  let ?suites = "supported_suites T (CipherSuites (NewTLSConfigFromProfile T ?p zero_tls_config))"
  have "tls_options T p = Inr (TLSOpts r)"
    using Resolve_Inr(1) [OF assms(1)] assms(3) by simp
  then have opts: "?suites \<noteq> []"
      "TLSOpts r = [\<lambda>c. (NewTLSConfigFromProfile T ?p c)\<lparr>CipherSuites := ?suites\<rparr>, SetHTTP2NextProtos T]"
    using assms(4,5) by (auto simp: tls_options_def Let_def split: if_splits)
  have final: "CipherSuites (apply_opts (TLSOpts r) c) = ?suites"
    unfolding opts(2) apply_opts_def by (simp add: assms(2))
  show ?thesis
    unfolding final using opts(1) by (auto simp: supported_suites_def runtimeCipherSuites_def)
qed

lemma Resolve_run:
  assumes "resolve_profile T w = (Inr (p, pf), w\<^sub>1)" "resolve_adherence T w\<^sub>1 = (Inr (a, af), w\<^sub>2)"
  shows "Resolve T w =
    (map_sum id (\<lambda>opts. \<lparr>Profile = p, ProfileFetched = pf, Adherence = a, AdherenceFetched = af, TLSOpts = opts\<rparr>)
      (tls_options T (profile_in_force T p a)), w\<^sub>2)"
  using assms
  by (cases "tls_options T (profile_in_force T p a)") (simp_all add: Resolve_def comp_simps returned_run)

text \<open>
  C31. The fall back, for whatever the two reads answer. Errors that fall back are NoMatch, NotFound
  and the transient ones, to which an internal error counts on the adherence policy only; any other
  error of a read is returned under its own message. Otherwise resolving fails only if the profile
  in force cannot be turned into options. That profile is the one read, or Intermediate if the read
  fell back or if the policy gives no opinion or asks legacy components only; a transient error on
  the policy counts as no opinion. Each of the two counts as fetched, so that the watcher compares
  it, unless its read answered NoMatch or NotFound.
\<close>

theorem tls_fallback:
  assumes "FetchProfile T w = (read, w\<^sub>1)" and "FetchAdherence T w\<^sub>1 = ((a, err), w\<^sub>2)"
    and "missing = (\<lambda>e. is_no_match e \<or> is_not_found e)"
    and "falls_back = (\<lambda>e. missing e \<or> is_service_unavailable e \<or> is_timeout e \<or> is_server_timeout e \<or>
      is_too_many_requests e \<or> is_deadline_exceeded e)"
    and "p = (case read of Inl e \<Rightarrow> Intermediate T | Inr q \<Rightarrow> q)"
    and "policy = (case err of Some e \<Rightarrow> if missing e then a else NoOpinion T | None \<Rightarrow> a)"
    and "in_force = (if policy \<in> {NoOpinion T, LegacyAdheringComponentsOnly T} then Intermediate T else p)"
  shows "(\<forall>e. read = Inl e \<and> \<not> falls_back e \<longrightarrow>
      Resolve T w = (Inl (wrapf ''reading APIServer TLS profile: %w'' [] (Api e)), w\<^sub>1)) \<and>
    (\<forall>e. (\<forall>e'. read = Inl e' \<longrightarrow> falls_back e') \<and> err = Some e \<and> \<not> falls_back e \<and> \<not> is_internal_error e \<longrightarrow>
      Resolve T w = (Inl (wrapf ''reading APIServer TLS adherence policy: %w'' [] (Api e)), w\<^sub>2)) \<and>
    ((\<forall>e. read = Inl e \<longrightarrow> falls_back e) \<and> (\<forall>e. err = Some e \<longrightarrow> falls_back e \<or> is_internal_error e) \<longrightarrow>
      Resolve T w =
        (map_sum id (\<lambda>opts. \<lparr>Profile = p, ProfileFetched = (\<forall>e. read = Inl e \<longrightarrow> \<not> missing e),
           Adherence = policy, AdherenceFetched = (\<forall>e. err = Some e \<longrightarrow> \<not> missing e), TLSOpts = opts\<rparr>)
          (tls_options T in_force), w\<^sub>2))"
proof (intro conjI allI impI)
  fix e assume "read = Inl e \<and> \<not> falls_back e"
  then have "resolve_profile T w = (Inl (wrapf ''reading APIServer TLS profile: %w'' [] (Api e)), w\<^sub>1)"
    using assms(1,3,4) by (simp add: resolve_profile_def comp_simps transient_profile_error_def)
  then show "Resolve T w = (Inl (wrapf ''reading APIServer TLS profile: %w'' [] (Api e)), w\<^sub>1)"
    by (simp add: Resolve_def and_then_def)
next
  have profile: "resolve_profile T w = (Inr (p, \<forall>e. read = Inl e \<longrightarrow> \<not> missing e), w\<^sub>1)"
    if "\<forall>e. read = Inl e \<longrightarrow> falls_back e"
    using that assms(1,3-5)
    by (cases read) (auto simp: resolve_profile_def comp_simps transient_profile_error_def)
  show "Resolve T w = (Inl (wrapf ''reading APIServer TLS adherence policy: %w'' [] (Api e)), w\<^sub>2)"
    if "(\<forall>e'. read = Inl e' \<longrightarrow> falls_back e') \<and> err = Some e \<and> \<not> falls_back e \<and> \<not> is_internal_error e" for e
    using that profile assms(2-4)
    by (simp add: Resolve_def resolve_adherence_def and_then_def transient_adherence_error_def)
  show "Resolve T w =
      (map_sum id (\<lambda>opts. \<lparr>Profile = p, ProfileFetched = (\<forall>e. read = Inl e \<longrightarrow> \<not> missing e),
         Adherence = policy, AdherenceFetched = (\<forall>e. err = Some e \<longrightarrow> \<not> missing e), TLSOpts = opts\<rparr>)
        (tls_options T in_force), w\<^sub>2)"
    if ok: "(\<forall>e. read = Inl e \<longrightarrow> falls_back e) \<and> (\<forall>e. err = Some e \<longrightarrow> falls_back e \<or> is_internal_error e)"
  proof -
    have "resolve_adherence T w\<^sub>1 = (Inr (policy, \<forall>e. err = Some e \<longrightarrow> \<not> missing e), w\<^sub>2)"
      using ok assms(2-4,6)
      by (cases err) (auto simp: resolve_adherence_def transient_adherence_error_def)
    moreover have "in_force = profile_in_force T p policy"
      using assms(7) by (simp add: profile_in_force_def)
    ultimately show ?thesis
      using Resolve_run [OF profile] ok by simp
  qed
qed

section \<open>Witnesses\<close>

definition plain_api_error :: api_error where
  "plain_api_error =
     \<lparr>err_text = ''timeout'', is_not_found = False, is_conflict = False, is_no_match = False,
      is_service_unavailable = False, is_timeout = True, is_server_timeout = False,
      is_too_many_requests = False, is_internal_error = False, is_deadline_exceeded = False\<rparr>"

text \<open>
  A cluster with the given answer to the read of the profile and a strict adherence policy; the
  ciphers of a profile are written as the letters of their suites: a is ECDHE-RSA-AES128-GCM-SHA256,
  r is RC4, t is a TLS 1.3 suite.
\<close>

definition suite_of :: "string \<Rightarrow> 16 word" where
  "suite_of n = (if n = ''a'' then 0xC02F else if n = ''r'' then 0x0005 else 0x1301)"

definition tls_cluster :: "api_error + tls_profile \<Rightarrow> 'w tls_lib" where
  "tls_cluster answer =
     \<lparr>FetchProfile = (\<lambda>w. (answer, w)),
      FetchAdherence = (\<lambda>w. ((''StrictAllComponents'', None), w)),
      Intermediate = \<lparr>Ciphers = [''a''], MinTLSVersion = ''VersionTLS12''\<rparr>,
      NoOpinion = '''',
      LegacyAdheringComponentsOnly = ''LegacyAdheringComponentsOnly'',
      NewTLSConfigFromProfile = (\<lambda>p c. c\<lparr>MinVersion := 0x0303, CipherSuites := map suite_of (Ciphers p)\<rparr>),
      SetHTTP2NextProtos = (\<lambda>c. c\<lparr>NextProtos := [''h2'']\<rparr>),
      RuntimeSuites = [(0xC02F, ''TLS_ECDHE_RSA_WITH_AES_128_GCM_SHA256''), (0x1301, ''TLS_AES_128_GCM_SHA256'')],
      InsecureSuites = [(0x0005, ''TLS_RSA_WITH_RC4_128_SHA'')],
      SetupWithManager = (\<lambda>_. ok ())\<rparr>"

definition mixed_profile :: tls_profile where
  "mixed_profile = \<lparr>Ciphers = [''r'', ''t'', ''a''], MinTLSVersion = ''VersionTLS12''\<rparr>"

lemma tls_cluster_run:
  "Resolve (tls_cluster (Inr mixed_profile) :: 'w tls_lib) w =
    (Inr \<lparr>Profile = mixed_profile, ProfileFetched = True, Adherence = ''StrictAllComponents'',
       AdherenceFetched = True,
       TLSOpts = [\<lambda>c. (NewTLSConfigFromProfile (tls_cluster (Inr mixed_profile) :: 'w tls_lib) mixed_profile c)
                       \<lparr>CipherSuites := [0xC02F]\<rparr>,
                  SetHTTP2NextProtos (tls_cluster (Inr mixed_profile) :: 'w tls_lib)]\<rparr>, w)"
  by (simp add: Resolve_def resolve_profile_def resolve_adherence_def tls_cluster_def comp_simps
      profile_in_force_def tls_options_def tlsVersion_def mixed_profile_def VersionTLS12_def VersionTLS13_def
      supported_suites_def runtimeCipherSuites_def suite_of_def zero_tls_config_def has_prefix_def)

theorem applied_cipher_suites_witness:
  "\<exists>r. fst (Resolve (tls_cluster (Inr mixed_profile) :: unit tls_lib) ()) = Inr r \<and>
     CipherSuites (apply_opts (TLSOpts r) zero_tls_config) \<noteq> [] \<and>
     (\<forall>s \<in> set (CipherSuites (apply_opts (TLSOpts r) zero_tls_config)). s < 0x1300 \<or> s > 0x13ff)"
proof -
  let ?T = "tls_cluster (Inr mixed_profile) :: unit tls_lib"
  obtain r where r: "Resolve ?T () = (Inr r, ())" "Profile r = mixed_profile" "Adherence r = ''StrictAllComponents''"
    using that tls_cluster_run [where w = "()"] by simp
  have force: "profile_in_force ?T mixed_profile ''StrictAllComponents'' = mixed_profile"
    by (simp add: profile_in_force_def tls_cluster_def)
  have lowest: "tlsVersion (MinTLSVersion mixed_profile) = Inr VersionTLS12"
    and below: "VersionTLS12 < VersionTLS13"
    by (simp_all add: mixed_profile_def tlsVersion_def VersionTLS12_def VersionTLS13_def)
  have protos: "CipherSuites (SetHTTP2NextProtos ?T c) = CipherSuites c" for c
    by (simp add: tls_cluster_def)
  have "CipherSuites (apply_opts (TLSOpts r) zero_tls_config) \<noteq> [] \<and>
    (\<forall>s \<in> set (CipherSuites (apply_opts (TLSOpts r) zero_tls_config)).
       s \<in> set (CipherSuites (NewTLSConfigFromProfile ?T
         (if MinTLSVersion mixed_profile = '''' then mixed_profile\<lparr>MinTLSVersion := ''VersionTLS12''\<rparr>
          else mixed_profile) zero_tls_config)) \<and>
       (\<exists>n. (s, n) \<in> set (RuntimeSuites ?T) \<or> (s, n) \<in> set (InsecureSuites ?T) \<and> \<not> str_contains n ''RC4'') \<and>
       (s < 0x1300 \<or> s > 0x13ff))"
    by (rule applied_cipher_suites [OF r(1) protos, where v = VersionTLS12])
      (simp_all add: r force lowest below)
  then show ?thesis
    using r(1) by auto
qed

text \<open>The read of the profile times out, and that of the policy fails inside the API server.\<close>

theorem tls_fallback_witness:
  "let T = (tls_cluster (Inl plain_api_error) :: unit tls_lib)
     \<lparr>FetchAdherence := (\<lambda>w. (('''', Some (plain_api_error\<lparr>is_timeout := False, is_internal_error := True\<rparr>)), w))\<rparr>
   in \<exists>r. Resolve T () = (Inr r, ()) \<and> Profile r = Intermediate T \<and> ProfileFetched r \<and>
        Adherence r = NoOpinion T \<and> AdherenceFetched r"
proof -
  let ?e = "plain_api_error\<lparr>is_timeout := False, is_internal_error := True\<rparr>"
  let ?T = "(tls_cluster (Inl plain_api_error) :: unit tls_lib)\<lparr>FetchAdherence := (\<lambda>w. (('''', Some ?e), w))\<rparr>"
  have reads: "FetchProfile ?T () = (Inl plain_api_error, ())" "FetchAdherence ?T () = (('''', Some ?e), ())"
    by (simp_all add: tls_cluster_def)
  obtain opts where "tls_options ?T (Intermediate ?T) = Inr opts"
    by (simp add: tls_cluster_def tls_options_def tlsVersion_def VersionTLS12_def VersionTLS13_def
        supported_suites_def runtimeCipherSuites_def suite_of_def Let_def)
  with tls_fallback [OF reads refl refl refl refl refl, THEN conjunct2, THEN conjunct2]
  show ?thesis
    by (auto simp: Let_def plain_api_error_def)
qed

end
