(* ===== verification/Config_Loading.thy ===== *)
theory Config_Loading
  imports Config
begin

text \<open>
  Loading of the configuration, \<^verbatim>\<open>pkg/config/config.go\<close>: defaults, then the files of the
  mounted directory, then the environment. The library \<^verbatim>\<open>viper\<close> is a parameter; the
  contract \<open>viper_contract\<close> states its documented layers.
\<close>

section \<open>Keys and defaults\<close>

definition KeyMetricsAddr :: string where "KeyMetricsAddr = ''metrics-bind-address''"
definition KeyMetricsSecure :: string where "KeyMetricsSecure = ''metrics-secure''"
definition KeyMetricsCertPath :: string where "KeyMetricsCertPath = ''metrics-cert-path''"
definition KeyHealthProbeAddr :: string where "KeyHealthProbeAddr = ''health-probe-bind-address''"
definition KeyPprofAddr :: string where "KeyPprofAddr = ''pprof-addr''"
definition KeyLeaderElect :: string where "KeyLeaderElect = ''leader-elect''"
definition KeyLeaderElectionID :: string where "KeyLeaderElectionID = ''leader-election-id''"
definition KeyManifestsPath :: string where "KeyManifestsPath = ''manifests-path''"
definition KeyApplicationsNS :: string where "KeyApplicationsNS = ''applications-namespace''"
definition KeyPlatformType :: string where "KeyPlatformType = ''platform-type''"
definition KeyPlatformVersion :: string where "KeyPlatformVersion = ''platform-version''"

lemmas key_defs =
  KeyMetricsAddr_def KeyMetricsSecure_def KeyMetricsCertPath_def KeyHealthProbeAddr_def
  KeyPprofAddr_def KeyLeaderElect_def KeyLeaderElectionID_def KeyManifestsPath_def
  KeyApplicationsNS_def KeyPlatformType_def KeyPlatformVersion_def

definition ConfigPathEnvVar :: string where
  "ConfigPathEnvVar = ''ODH_MODULE_OPERATOR_CONFIGURATION_PATH''"

definition EnvPrefix :: string where
  "EnvPrefix = ''ODH_MODULE_OPERATOR''"

definition structuredExtensions :: "string list" where
  "structuredExtensions = [''yaml'', ''yml'', ''json'']"

definition DefaultMetricsAddr :: string where "DefaultMetricsAddr = '':8080''"
definition DefaultMetricsSecure :: bool where "DefaultMetricsSecure \<longleftrightarrow> False"
definition DefaultMetricsCertPath :: string where "DefaultMetricsCertPath = ''''"
definition DefaultHealthProbeAddr :: string where "DefaultHealthProbeAddr = '':8081''"
definition DefaultLeaderElect :: bool where "DefaultLeaderElect \<longleftrightarrow> True"
definition DefaultLeaderElectionID :: string where "DefaultLeaderElectionID = ''ai-gateway-lock''"
definition DefaultApplicationsNS :: string where "DefaultApplicationsNS = ''opendatahub''"
definition DefaultPlatformType :: string where "DefaultPlatformType = ''unknown''"
definition DefaultPlatformVersion :: string where "DefaultPlatformVersion = ''unknown''"

lemmas default_defs =
  DefaultMetricsAddr_def DefaultMetricsSecure_def DefaultMetricsCertPath_def DefaultHealthProbeAddr_def
  DefaultLeaderElect_def DefaultLeaderElectionID_def DefaultApplicationsNS_def DefaultPlatformType_def
  DefaultPlatformVersion_def

text \<open>The defaults, in the order \<^verbatim>\<open>setDefaults\<close> registers them.\<close>

definition default_settings :: "(string \<times> any) list" where
  "default_settings =
     [(KeyMetricsAddr, Str DefaultMetricsAddr), (KeyMetricsSecure, Bool DefaultMetricsSecure),
      (KeyMetricsCertPath, Str DefaultMetricsCertPath), (KeyHealthProbeAddr, Str DefaultHealthProbeAddr),
      (KeyLeaderElect, Bool DefaultLeaderElect), (KeyLeaderElectionID, Str DefaultLeaderElectionID),
      (KeyApplicationsNS, Str DefaultApplicationsNS), (KeyManifestsPath, Str ''''),
      (KeyPlatformType, Str DefaultPlatformType), (KeyPlatformVersion, Str DefaultPlatformVersion)]"

lemmas default_values = default_settings_def default_defs

section \<open>Strings and files\<close>

text \<open>\<^verbatim>\<open>strings.TrimSpace\<close>: the encodings of the characters Unicode calls white space.\<close>

definition white_space :: "string list" where
  "white_space =
     [[CHR 0x09], [CHR 0x0A], [CHR 0x0B], [CHR 0x0C], [CHR 0x0D], [CHR 0x20]] @
     [[CHR 0xC2, CHR 0x85], [CHR 0xC2, CHR 0xA0], [CHR 0xE1, CHR 0x9A, CHR 0x80]] @
     map (\<lambda>c. [CHR 0xE2, CHR 0x80, c])
      [CHR 0x80, CHR 0x81, CHR 0x82, CHR 0x83, CHR 0x84, CHR 0x85,
       CHR 0x86, CHR 0x87, CHR 0x88, CHR 0x89, CHR 0x8A, CHR 0xA8, CHR 0xA9, CHR 0xAF] @
     [[CHR 0xE2, CHR 0x81, CHR 0x9F], [CHR 0xE3, CHR 0x80, CHR 0x80]]"

function trim_left :: "string list \<Rightarrow> string \<Rightarrow> string" where
  "trim_left ws s =
     (case find (\<lambda>p. p \<noteq> [] \<and> has_prefix s p) ws of
        None \<Rightarrow> s
      | Some p \<Rightarrow> trim_left ws (drop (length p) s))"
  by pat_completeness auto
termination
  by (relation "measure (\<lambda>(ws, s). length s)")
    (auto simp: find_Some_iff has_prefix_def, metis diff_less length_greater_0_conv order.strict_trans2)

declare trim_left.simps [simp del]

definition trim_space :: "string \<Rightarrow> string" where
  "trim_space s = rev (trim_left (map rev white_space) (rev (trim_left white_space s)))"

text \<open>\<^verbatim>\<open>strings.TrimPrefix(filepath.Ext(name), ".")\<close> for a name without slashes.\<close>

definition file_ext :: "string \<Rightarrow> string" where
  "file_ext name =
     (if CHR ''.'' \<in> set name then rev (takeWhile (\<lambda>c. c \<noteq> CHR ''.'') (rev name)) else '''')"

text \<open>A directory entry; \<open>fe_data\<close> is None where reading the file fails.\<close>

record fs_entry =
  fe_name :: string
  fe_is_dir :: bool
  fe_data :: "string option"

section \<open>Loading\<close>

text \<open>
  The library \<^verbatim>\<open>viper\<close> and the decoder it unmarshals with. The replacer of environment
  keys is a map of bytes; the environment gives the empty string for an unset variable.
\<close>

type_synonym env = "string \<Rightarrow> string"

record 'v viper_lib =
  viper_New :: 'v
  SetDefault :: "string \<Rightarrow> any \<Rightarrow> 'v \<Rightarrow> 'v"
  SetEnvPrefix :: "string \<Rightarrow> 'v \<Rightarrow> 'v"
  SetEnvKeyReplacer :: "(char \<Rightarrow> char) \<Rightarrow> 'v \<Rightarrow> 'v"
  AutomaticEnv :: "'v \<Rightarrow> 'v"
  AllKeys :: "'v \<Rightarrow> string list"
  BindEnv :: "string \<Rightarrow> 'v \<Rightarrow> go_error + 'v"
  SetConfigType :: "string \<Rightarrow> 'v \<Rightarrow> 'v"
  ReadConfig :: "string \<Rightarrow> 'v \<Rightarrow> go_error + 'v"
  AllSettings :: "env \<Rightarrow> 'v \<Rightarrow> (string \<times> any) list"
  MergeConfigMap :: "(string \<times> any) list \<Rightarrow> 'v \<Rightarrow> go_error + 'v"
  decode_string :: "any \<Rightarrow> go_error + string"
  decode_bool :: "any \<Rightarrow> go_error + bool"

definition setDefaults :: "'v viper_lib \<Rightarrow> 'v \<Rightarrow> 'v" where
  "setDefaults V v = fold (\<lambda>(k, a). SetDefault V k a) default_settings v"

fun bind_all :: "'v viper_lib \<Rightarrow> string list \<Rightarrow> 'v \<Rightarrow> go_error + 'v" where
  "bind_all V [] v = Inr v"
| "bind_all V (k # ks) v =
     (case BindEnv V k v of
        Inl e \<Rightarrow> Inl (wrapf ''binding env for key %s: %w'' [k] e)
      | Inr v' \<Rightarrow> bind_all V ks v')"

definition dash_to_underscore :: "char \<Rightarrow> char" where
  "dash_to_underscore c = (if c = CHR ''-'' then CHR ''_'' else c)"

definition bindEnv :: "'v viper_lib \<Rightarrow> 'v \<Rightarrow> go_error + 'v" where
  "bindEnv V v =
     (let v' = AutomaticEnv V (SetEnvKeyReplacer V dash_to_underscore (SetEnvPrefix V EnvPrefix v)) in
      bind_all V (AllKeys V v') v')"

definition mergeKeyValue :: "'v viper_lib \<Rightarrow> string \<Rightarrow> string \<Rightarrow> 'v \<Rightarrow> go_error + 'v" where
  "mergeKeyValue V name data v =
     (case MergeConfigMap V [(name, Str (trim_space data))] v of
        Inl e \<Rightarrow> Inl (wrapf ''merging key %s: %w'' [name] e)
      | Inr v' \<Rightarrow> Inr v')"

definition mergeStructuredFile ::
  "'v viper_lib \<Rightarrow> env \<Rightarrow> string \<Rightarrow> string \<Rightarrow> string \<Rightarrow> 'v \<Rightarrow> go_error + 'v" where
  "mergeStructuredFile V env name ext data v =
     (case ReadConfig V data (SetConfigType V ext (viper_New V)) of
        Inl e \<Rightarrow> Inl (wrapf ''parsing config file %s: %w'' [name] e)
      | Inr fv \<Rightarrow>
          (case MergeConfigMap V (AllSettings V env fv) v of
             Inl e \<Rightarrow> Inl (wrapf ''merging config from %s: %w'' [name] e)
           | Inr v' \<Rightarrow> Inr v'))"

fun load_entries :: "'v viper_lib \<Rightarrow> env \<Rightarrow> fs_entry list \<Rightarrow> 'v \<Rightarrow> go_error + 'v" where
  "load_entries V env [] v = Inr v"
| "load_entries V env (entry # es) v =
     (if fe_is_dir entry \<or> has_prefix (fe_name entry) ''.'' then load_entries V env es v
      else
        (case fe_data entry of
           None \<Rightarrow> load_entries V env es v
         | Some data \<Rightarrow>
             (let ext = file_ext (fe_name entry) in
              case (if ext \<in> set structuredExtensions
                    then mergeStructuredFile V env (fe_name entry) ext data v
                    else mergeKeyValue V (fe_name entry) data v) of
                Inl e \<Rightarrow> Inl e
              | Inr v' \<Rightarrow> load_entries V env es v')))"

text \<open>The argument is the answer of \<^verbatim>\<open>fs.ReadDir\<close> on the file system.\<close>

definition loadFromFS :: "'v viper_lib \<Rightarrow> env \<Rightarrow> go_error + fs_entry list \<Rightarrow> 'v \<Rightarrow> go_error + 'v" where
  "loadFromFS V env dir v =
     (case dir of
        Inl e \<Rightarrow> Inl (wrapf ''reading config directory: %w'' [] e)
      | Inr es \<Rightarrow> load_entries V env es v)"

text \<open>
  \<^verbatim>\<open>v.Unmarshal(cfg)\<close> decodes the settings by the tags of the fields; a field without a
  setting keeps its zero value, an undecodable one is an error.
\<close>

definition string_field :: "'v viper_lib \<Rightarrow> (string \<times> any) list \<Rightarrow> string \<Rightarrow> go_error + string" where
  "string_field V st k = (case map_of st k of None \<Rightarrow> Inr '''' | Some a \<Rightarrow> decode_string V a)"

definition bool_field :: "'v viper_lib \<Rightarrow> (string \<times> any) list \<Rightarrow> string \<Rightarrow> go_error + bool" where
  "bool_field V st k = (case map_of st k of None \<Rightarrow> Inr False | Some a \<Rightarrow> decode_bool V a)"

definition sum_bind :: "'e + 'a \<Rightarrow> ('a \<Rightarrow> 'e + 'b) \<Rightarrow> 'e + 'b" where
  "sum_bind r f = (case r of Inl e \<Rightarrow> Inl e | Inr a \<Rightarrow> f a)"

definition unmarshal_config :: "'v viper_lib \<Rightarrow> env \<Rightarrow> 'v \<Rightarrow> go_error + config" where
  "unmarshal_config V env v =
     (let st = AllSettings V env v in
      sum_bind (string_field V st ''metrics-bind-address'') (\<lambda>metrics.
      sum_bind (bool_field V st ''metrics-secure'') (\<lambda>secure.
      sum_bind (string_field V st ''metrics-cert-path'') (\<lambda>cert.
      sum_bind (string_field V st ''health-probe-bind-address'') (\<lambda>probe.
      sum_bind (string_field V st ''pprof-addr'') (\<lambda>pprof.
      sum_bind (bool_field V st ''leader-elect'') (\<lambda>elect.
      sum_bind (string_field V st ''leader-election-id'') (\<lambda>lock.
      sum_bind (string_field V st ''manifests-path'') (\<lambda>manifests.
      sum_bind (string_field V st ''applications-namespace'') (\<lambda>ns.
      sum_bind (string_field V st ''platform-type'') (\<lambda>ptype.
      sum_bind (string_field V st ''platform-version'') (\<lambda>pversion.
      Inr \<lparr>MetricsAddr = metrics, MetricsSecure = secure, MetricsCertPath = cert,
           HealthProbeAddr = probe, PprofAddr = pprof, LeaderElect = elect, LeaderElectionID = lock,
           ManifestsPath = manifests, ApplicationsNamespace = ns, PlatformType = ptype,
           PlatformVersion = pversion\<rparr>))))))))))))"

definition LoadFromFS ::
  "'v viper_lib \<Rightarrow> env \<Rightarrow> (go_error + fs_entry list) option \<Rightarrow> go_error + config" where
  "LoadFromFS V env fsys =
     (let v = setDefaults V (viper_New V) in
      case (case fsys of None \<Rightarrow> Inr v | Some dir \<Rightarrow> loadFromFS V env dir v) of
        Inl e \<Rightarrow> Inl (wrapf ''loading config from filesystem: %w'' [] e)
      | Inr v \<Rightarrow>
          (case bindEnv V v of
             Inl e \<Rightarrow> Inl (wrapf ''binding env vars: %w'' [] e)
           | Inr v \<Rightarrow>
               (case unmarshal_config V env v of
                  Inl e \<Rightarrow> Inl (wrapf ''unmarshaling config: %w'' [] e)
                | Inr c \<Rightarrow> Inr c)))"

text \<open>\<open>dirs\<close> is \<^verbatim>\<open>os.DirFS\<close> followed by reading the directory.\<close>

definition Load ::
  "'v viper_lib \<Rightarrow> env \<Rightarrow> (string \<Rightarrow> go_error + fs_entry list) \<Rightarrow> go_error + config" where
  "Load V env dirs =
     (let configPath = env ConfigPathEnvVar in
      LoadFromFS V env (if configPath \<noteq> '''' then Some (dirs configPath) else None))"

section \<open>The contract of viper\<close>

definition ascii_upper :: "char \<Rightarrow> char" where
  "ascii_upper c = (if 97 \<le> (of_char c :: nat) \<and> (of_char c :: nat) \<le> 122
     then char_of ((of_char c :: nat) - 32) else c)"

text \<open>
  The layers of a viper instance: the defaults, the merged files, the names of the environment
  variables bound to each key, and the settings of the environment. Keys are not case sensitive:
  they are stored in lower case. The contract is about plain keys: a key with a dot addresses a
  nested setting, and the case of other alphabets is left out.
\<close>

record layers =
  l_defaults :: "string \<rightharpoonup> any"
  l_config :: "string \<rightharpoonup> any"
  l_bound :: "string \<rightharpoonup> string list"
  l_automatic :: bool
  l_prefix :: string
  l_replacer :: "char \<Rightarrow> char"

definition no_layers :: layers where
  "no_layers = \<lparr>l_defaults = Map.empty, l_config = Map.empty, l_bound = Map.empty,
     l_automatic = False, l_prefix = '''', l_replacer = id\<rparr>"

definition lower :: "string \<Rightarrow> string" where
  "lower = map ascii_lower"

definition plain_key :: "string \<Rightarrow> bool" where
  "plain_key k \<longleftrightarrow> CHR ''.'' \<notin> set k \<and> (\<forall>c \<in> set k. (of_char c :: nat) < 128)"

definition known_keys :: "layers \<Rightarrow> string set" where
  "known_keys l = dom (l_defaults l) \<union> dom (l_config l) \<union> dom (l_bound l)"

definition env_name :: "layers \<Rightarrow> string \<Rightarrow> string" where
  "env_name l k = map ascii_upper ((if l_prefix l = '''' then '''' else l_prefix l @ ''_'') @ k)"

definition bound_names :: "layers \<Rightarrow> string \<Rightarrow> string list" where
  "bound_names l k = (case l_bound l k of None \<Rightarrow> [] | Some ns \<Rightarrow> ns)"

text \<open>The first non-empty variable: the automatic one, then the bound ones.\<close>

definition read_env :: "env \<Rightarrow> layers \<Rightarrow> string \<Rightarrow> string option" where
  "read_env env l k =
     find (\<lambda>s. s \<noteq> '''') (map (\<lambda>n. env (map (l_replacer l) n))
       ((if l_automatic l then [env_name l k] else []) @ bound_names l k))"

definition effective :: "env \<Rightarrow> layers \<Rightarrow> string \<Rightarrow> any option" where
  "effective env l k =
     (if l_defaults l k = None \<and> l_config l k = None \<and> l_bound l k = None then None
      else
        (case read_env env l k of
           Some s \<Rightarrow> Some (Str s)
         | None \<Rightarrow> (case l_config l k of Some a \<Rightarrow> Some a | None \<Rightarrow> l_defaults l k)))"

definition only_strings :: "(string \<rightharpoonup> any) \<Rightarrow> bool" where
  "only_strings m \<longleftrightarrow> (\<forall>k a. m k = Some a \<longrightarrow> (\<exists>s. a = Str s))"

text \<open>
  \<open>parsed\<close>: what a structured file of a given type says. A merge is documented for a flat map of
  strings whose keys differ in more than their case.
\<close>

locale viper_contract =
  fixes V :: "'v viper_lib" and layers_of :: "'v \<Rightarrow> layers" and parsed :: "string \<Rightarrow> string \<Rightarrow> (string \<rightharpoonup> any)"
  assumes new_layers: "layers_of (viper_New V) = no_layers"
    and default_layers: "plain_key k \<Longrightarrow>
      layers_of (SetDefault V k a v) =
        (layers_of v)\<lparr>l_defaults := (l_defaults (layers_of v))(lower k \<mapsto> a)\<rparr>"
    and prefix_layers: "layers_of (SetEnvPrefix V p v) = (layers_of v)\<lparr>l_prefix := p\<rparr>"
    and replacer_layers: "layers_of (SetEnvKeyReplacer V r v) = (layers_of v)\<lparr>l_replacer := r\<rparr>"
    and automatic_layers: "layers_of (AutomaticEnv V v) = (layers_of v)\<lparr>l_automatic := True\<rparr>"
    and all_keys: "\<forall>k \<in> known_keys (layers_of v). plain_key k \<Longrightarrow>
      set (AllKeys V v) = known_keys (layers_of v)"
    and bind_layers: "BindEnv V k v = Inr v' \<Longrightarrow> plain_key k \<Longrightarrow>
      layers_of v' = (layers_of v)\<lparr>l_bound := (l_bound (layers_of v))
        (lower k \<mapsto> bound_names (layers_of v) (lower k) @ [env_name (layers_of v) k])\<rparr>"
    and merge_layers: "MergeConfigMap V kvs v = Inr v' \<Longrightarrow> \<forall>k \<in> fst ` set kvs. plain_key k \<Longrightarrow>
      inj_on lower (fst ` set kvs) \<Longrightarrow> only_strings (map_of kvs) \<Longrightarrow> only_strings (l_config (layers_of v)) \<Longrightarrow>
      layers_of v' = (layers_of v)\<lparr>l_config := l_config (layers_of v) ++
        map_of (map (\<lambda>(k, a). (lower k, a)) kvs)\<rparr>"
    and read_layers: "ReadConfig V data (SetConfigType V ext (viper_New V)) = Inr fv \<Longrightarrow>
      layers_of fv = no_layers\<lparr>l_config := parsed ext data\<rparr>"
    and settings: "\<forall>k \<in> known_keys (layers_of v). plain_key k \<Longrightarrow>
      map_of (AllSettings V env v) k = effective env (layers_of v) k"
    and decode_Str: "decode_string V (Str s) = Inr s"

section \<open>Precedence\<close>

definition ignored_entry :: "fs_entry \<Rightarrow> bool" where
  "ignored_entry e \<longleftrightarrow> fe_is_dir e \<or> has_prefix (fe_name e) ''.'' \<or> fe_data e = None"

text \<open>
  What the files of a directory say, the later of two with the same key winning: a plain file gives
  its content to the key of its name, a structured one its settings.
\<close>

definition structured :: "fs_entry \<Rightarrow> bool" where
  "structured e \<longleftrightarrow> file_ext (fe_name e) \<in> {''yaml'', ''yml'', ''json''}"

definition entry_parsed :: "(string \<Rightarrow> string \<Rightarrow> (string \<rightharpoonup> any)) \<Rightarrow> fs_entry \<Rightarrow> (string \<rightharpoonup> any)" where
  "entry_parsed parsed e = parsed (file_ext (fe_name e)) (the (fe_data e))"

definition strings_of :: "(string \<rightharpoonup> any) \<Rightarrow> (string \<rightharpoonup> string)" where
  "strings_of m k = (case m k of Some (Str s) \<Rightarrow> Some s | _ \<Rightarrow> None)"

definition put_entry ::
  "(string \<Rightarrow> string \<Rightarrow> (string \<rightharpoonup> any)) \<Rightarrow> fs_entry \<Rightarrow> (string \<rightharpoonup> string) \<Rightarrow> (string \<rightharpoonup> string)" where
  "put_entry parsed e m =
     (if structured e then m ++ strings_of (entry_parsed parsed e)
      else m(lower (fe_name e) \<mapsto> trim_space (the (fe_data e))))"

definition file_settings ::
  "(string \<Rightarrow> string \<Rightarrow> (string \<rightharpoonup> any)) \<Rightarrow> fs_entry list \<Rightarrow> (string \<rightharpoonup> string)" where
  "file_settings parsed es = fold (put_entry parsed) (filter (\<lambda>e. \<not> ignored_entry e) es) Map.empty"

text \<open>Entries the contract speaks of: plain names, and structured files that are flat maps of strings.\<close>

definition simple_entry :: "(string \<Rightarrow> string \<Rightarrow> (string \<rightharpoonup> any)) \<Rightarrow> fs_entry \<Rightarrow> bool" where
  "simple_entry parsed e \<longleftrightarrow>
     ignored_entry e \<or>
     (if structured e
      then only_strings (entry_parsed parsed e) \<and> (\<forall>k \<in> dom (entry_parsed parsed e). plain_key k \<and> lower k = k)
      else plain_key (fe_name e))"

definition str_map :: "(string \<rightharpoonup> string) \<Rightarrow> (string \<rightharpoonup> any)" where
  "str_map m k = map_option Str (m k)"

lemma only_strings_str_map: "only_strings (str_map m)"
  by (auto simp: only_strings_def str_map_def)

lemma str_map_upd: "(str_map m)(k \<mapsto> Str s) = str_map (m(k \<mapsto> s))"
  by (rule ext) (simp add: str_map_def)

lemma str_map_add: "only_strings n \<Longrightarrow> str_map m ++ n = str_map (m ++ strings_of n)"
  by (rule ext) (force simp: str_map_def strings_of_def only_strings_def map_add_def split: option.split any.split)

lemma load_entries_ignored:
  "load_entries V env (filter (\<lambda>e. \<not> ignored_entry e) es) v = load_entries V env es v"
proof (induction es arbitrary: v)
  case Nil
  then show ?case by simp
next
  case (Cons e es)
  then show ?case
    by (cases "fe_data e") (auto simp: ignored_entry_def Let_def split: sum.split)
qed

lemma distinct_defaults: "distinct (map fst default_settings)"
  by (simp add: default_values key_defs)

lemma default_keys_plain: "(k, a) \<in> set default_settings \<Longrightarrow> plain_key k \<and> lower k = k"
  by (auto simp: default_values key_defs plain_key_def lower_def ascii_lower_def)

lemma of_char_ascii_lower:
  "(of_char (ascii_lower c) :: nat) =
   (if 65 \<le> (of_char c :: nat) \<and> (of_char c :: nat) \<le> 90 then of_char c + 32 else of_char c)"
  by (simp add: ascii_lower_def)

lemma ascii_lower_idem: "ascii_lower (ascii_lower c) = ascii_lower c"
proof -
  have "\<not> (65 \<le> (of_char (ascii_lower c) :: nat) \<and> (of_char (ascii_lower c) :: nat) \<le> 90)"
    by (simp add: of_char_ascii_lower)
  then show ?thesis
    by (subst ascii_lower_def) (rule if_not_P)
qed

lemma plain_key_lower: "plain_key k \<Longrightarrow> plain_key (lower k)"
proof -
  assume plain: "plain_key k"
  have "c = CHR ''.''" if "ascii_lower c = CHR ''.''" for c
  proof -
    have "(of_char (ascii_lower c) :: nat) = 46" using that by simp
    then have "(of_char c :: nat) = of_char (CHR ''.'')"
      by (simp add: of_char_ascii_lower split: if_splits)
    then show ?thesis by (simp only: of_char_eq_iff)
  qed
  then have "CHR ''.'' \<in> set (lower k) \<longrightarrow> CHR ''.'' \<in> set k"
    unfolding lower_def set_map by (metis imageE)
  with plain show ?thesis
    by (auto simp: plain_key_def lower_def of_char_ascii_lower)
qed

lemma effective_known:
  "effective env l k =
     (if k \<notin> known_keys l then None
      else
        (case read_env env l k of
           Some s \<Rightarrow> Some (Str s)
         | None \<Rightarrow> (case l_config l k of Some a \<Rightarrow> Some a | None \<Rightarrow> l_defaults l k)))"
  by (simp add: effective_def known_keys_def domIff)

definition well_keyed :: "layers \<Rightarrow> bool" where
  "well_keyed l \<longleftrightarrow> (\<forall>k \<in> known_keys l. plain_key k)"

context viper_contract
begin

lemma setDefaults_layers:
  "layers_of (setDefaults V (viper_New V)) = no_layers\<lparr>l_defaults := map_of default_settings\<rparr>"
proof -
  have step: "layers_of (fold (\<lambda>(k, a). SetDefault V k a) kvs v) =
      (layers_of v)\<lparr>l_defaults := l_defaults (layers_of v) ++ map_of (rev kvs)\<rparr>"
    if "\<forall>(k, a) \<in> set kvs. plain_key k \<and> lower k = k" for kvs v
    using that
  proof (induction kvs arbitrary: v)
    case Nil
    then show ?case by simp
  next
    case (Cons kv kvs)
    then show ?case by (cases kv) (simp add: default_layers)
  qed
  have "\<forall>(k, a) \<in> set default_settings. plain_key k \<and> lower k = k"
    using default_keys_plain by blast
  moreover have "map_of (rev default_settings) = map_of default_settings"
    using distinct_defaults by (intro map_of_inject_set [THEN iffD2]) (simp_all add: rev_map [symmetric])
  ultimately show ?thesis
    by (simp add: setDefaults_def step new_layers no_layers_def)
qed

lemma bind_all_layers:
  assumes "bind_all V ks v = Inr v'" "\<forall>k \<in> set ks. plain_key k"
  shows "\<exists>bound. layers_of v' = (layers_of v)\<lparr>l_bound := bound\<rparr> \<and>
    dom bound = dom (l_bound (layers_of v)) \<union> lower ` set ks \<and>
    (\<forall>k. set (case bound k of None \<Rightarrow> [] | Some ns \<Rightarrow> ns) \<subseteq>
       set (bound_names (layers_of v) k) \<union> {env_name (layers_of v) k' | k'. k' \<in> set ks \<and> lower k' = k})"
  using assms
proof (induction ks arbitrary: v)
  case Nil
  then show ?case
    by (intro exI [of _ "l_bound (layers_of v)"]) (auto simp: bound_names_def)
next
  case (Cons k ks)
  then obtain v1 where v1: "BindEnv V k v = Inr v1" "bind_all V ks v1 = Inr v'"
    by (auto split: sum.splits)
  note l1 = bind_layers [OF v1(1)]
  obtain bound where bound: "layers_of v' = (layers_of v1)\<lparr>l_bound := bound\<rparr>"
    "dom bound = dom (l_bound (layers_of v1)) \<union> lower ` set ks"
    "\<And>k. set (case bound k of None \<Rightarrow> [] | Some ns \<Rightarrow> ns) \<subseteq>
       set (bound_names (layers_of v1) k) \<union> {env_name (layers_of v1) k' | k'. k' \<in> set ks \<and> lower k' = k}"
    using Cons.IH [OF v1(2)] Cons.prems(2) by auto
  have name: "env_name (layers_of v1) = env_name (layers_of v)"
    using l1 Cons.prems(2) by (auto simp: env_name_def fun_eq_iff)
  have names: "bound_names (layers_of v1) k' = (if k' = lower k
      then bound_names (layers_of v) k' @ [env_name (layers_of v) k] else bound_names (layers_of v) k')" for k'
    using l1 Cons.prems(2) by (simp add: bound_names_def)
  show ?case
  proof (intro exI [of _ bound] conjI allI)
    show "layers_of v' = (layers_of v)\<lparr>l_bound := bound\<rparr>"
      using bound(1) l1 Cons.prems(2) by simp
    show "dom bound = dom (l_bound (layers_of v)) \<union> lower ` set (k # ks)"
      using bound(2) l1 Cons.prems(2) by auto
    show "set (case bound k' of None \<Rightarrow> [] | Some ns \<Rightarrow> ns) \<subseteq> set (bound_names (layers_of v) k') \<union>
        {env_name (layers_of v) k'' | k''. k'' \<in> set (k # ks) \<and> lower k'' = k'}" for k'
      using bound(3) [of k'] by (auto simp: name names split: if_splits)
  qed
qed

lemma structured_merge:
  assumes "mergeStructuredFile V env name ext data v = Inr v'"
    and flat: "only_strings (parsed ext data)" "\<forall>k \<in> dom (parsed ext data). plain_key k \<and> lower k = k"
    and "only_strings (l_config (layers_of v))"
  shows "layers_of v' = (layers_of v)\<lparr>l_config := l_config (layers_of v) ++ parsed ext data\<rparr>"
proof -
  obtain fv where fv: "ReadConfig V data (SetConfigType V ext (viper_New V)) = Inr fv"
    and merge: "MergeConfigMap V (AllSettings V env fv) v = Inr v'"
    using assms(1) by (auto simp: mergeStructuredFile_def split: sum.splits)
  let ?kvs = "AllSettings V env fv"
  have known: "known_keys (layers_of fv) = dom (parsed ext data)"
    by (simp add: read_layers [OF fv] known_keys_def no_layers_def)
  have map: "map_of ?kvs = parsed ext data"
  proof
    fix k
    have "map_of ?kvs k = effective env (layers_of fv) k"
      by (rule settings) (use flat(2) known in blast)
    also have "\<dots> = parsed ext data k"
      by (auto simp: read_layers [OF fv] effective_def no_layers_def read_env_def bound_names_def
          split: option.split)
    finally show "map_of ?kvs k = parsed ext data k" .
  qed
  then have keys: "fst ` set ?kvs = dom (parsed ext data)"
    by (simp add: dom_map_of_conv_image_fst flip: map)
  have same: "map (\<lambda>(k, a). (lower k, a)) ?kvs = ?kvs"
    using keys flat(2) by (intro map_idI) force
  have "inj_on lower (fst ` set ?kvs)"
    unfolding keys by (rule inj_onI) (use flat(2) in metis)
  then have "layers_of v' = (layers_of v)\<lparr>l_config := l_config (layers_of v) ++
      map_of (map (\<lambda>(k, a). (lower k, a)) ?kvs)\<rparr>"
    using flat assms(4) by (intro merge_layers [OF merge]) (simp_all add: keys map)
  then show ?thesis by (simp add: same map)
qed

lemma load_entries_layers:
  assumes "load_entries V env es v = Inr v'" "\<forall>e \<in> set es. \<not> ignored_entry e \<and> simple_entry parsed e"
    and "l_config (layers_of v) = str_map m"
  shows "layers_of v' = (layers_of v)\<lparr>l_config := str_map (fold (put_entry parsed) es m)\<rparr>"
  using assms
proof (induction es arbitrary: v m)
  case Nil
  then show ?case by simp
next
  case (Cons e es)
  obtain data where data: "fe_data e = Some data" "\<not> fe_is_dir e" "\<not> has_prefix (fe_name e) ''.''"
    using Cons.prems(2) by (auto simp: ignored_entry_def)
  have entry: "simple_entry parsed e" "\<not> ignored_entry e"
    using Cons.prems(2) by simp_all
  have ext: "file_ext (fe_name e) \<in> set structuredExtensions \<longleftrightarrow> structured e"
    by (simp add: structured_def structuredExtensions_def)
  obtain v1 where v1: "(if structured e
      then mergeStructuredFile V env (fe_name e) (file_ext (fe_name e)) data v
      else mergeKeyValue V (fe_name e) data v) = Inr v1" "load_entries V env es v1 = Inr v'"
    using Cons.prems(1) data ext by (auto simp: Let_def split: sum.splits if_splits)
  have strings: "only_strings (l_config (layers_of v))"
    by (simp add: Cons.prems(3) only_strings_str_map)
  have "layers_of v1 = (layers_of v)\<lparr>l_config := str_map (put_entry parsed e m)\<rparr>"
  proof (cases "structured e")
    case True
    then have flat: "only_strings (parsed (file_ext (fe_name e)) data)"
        "\<forall>k \<in> dom (parsed (file_ext (fe_name e)) data). plain_key k \<and> lower k = k"
      using entry data by (auto simp: simple_entry_def entry_parsed_def)
    show ?thesis
      using structured_merge [OF _ flat strings, of env "fe_name e" v1] v1(1) True data(1)
      by (simp add: put_entry_def entry_parsed_def Cons.prems(3) str_map_add [OF flat(1)])
  next
    case False
    then have "MergeConfigMap V [(fe_name e, Str (trim_space data))] v = Inr v1"
      using v1(1) by (auto simp: mergeKeyValue_def split: sum.splits)
    from merge_layers [OF this] have "layers_of v1 = (layers_of v)\<lparr>l_config :=
        (str_map m)(lower (fe_name e) \<mapsto> Str (trim_space data))\<rparr>"
      using entry strings False by (simp add: only_strings_def simple_entry_def Cons.prems(3))
    then show ?thesis
      using False data(1) by (simp add: put_entry_def str_map_upd)
  qed
  then show ?case
    using Cons.IH [OF v1(2), of "put_entry parsed e m"] Cons.prems(2) by simp
qed

end

text \<open>After \<open>bindEnv\<close> every key is read from the environment under one name.\<close>

definition variable :: "string \<Rightarrow> string" where
  "variable k = map dash_to_underscore (map ascii_upper (EnvPrefix @ ''_'' @ k))"

lemma upper_lower [simp]: "map ascii_upper (lower k) = map ascii_upper k"
proof -
  have "ascii_upper (ascii_lower c) = ascii_upper c" for c
    by (simp add: ascii_upper_def of_char_ascii_lower) (simp add: ascii_lower_def)
  then show ?thesis by (simp add: lower_def)
qed

lemma find_const:
  "\<forall>x \<in> set xs. x = y \<Longrightarrow> find P (y # xs) = (if P y then Some y else None)"
  by (auto simp: find_None_iff)

context viper_contract
begin

lemma bindEnv_bound:
  assumes "bindEnv V v = Inr v'" "well_keyed (layers_of v)" "l_bound (layers_of v) = Map.empty"
  obtains bound where "layers_of v' = (layers_of v)\<lparr>l_automatic := True, l_prefix := EnvPrefix,
      l_replacer := dash_to_underscore, l_bound := bound\<rparr>"
    "dom bound = lower ` known_keys (layers_of v)"
    "\<And>k n. n \<in> set (case bound k of None \<Rightarrow> [] | Some ns \<Rightarrow> ns) \<Longrightarrow>
       \<exists>k'. lower k' = k \<and> n = map ascii_upper (EnvPrefix @ ''_'' @ k')"
proof -
  let ?v = "AutomaticEnv V (SetEnvKeyReplacer V dash_to_underscore (SetEnvPrefix V EnvPrefix v))"
  have l: "layers_of ?v = (layers_of v)\<lparr>l_automatic := True, l_prefix := EnvPrefix,
      l_replacer := dash_to_underscore\<rparr>"
    by (simp add: automatic_layers replacer_layers prefix_layers)
  then have known: "known_keys (layers_of ?v) = known_keys (layers_of v)"
    by (simp add: known_keys_def)
  have keys: "set (AllKeys V ?v) = known_keys (layers_of v)"
    using all_keys [of ?v] assms(2) by (simp add: known well_keyed_def)
  have name: "env_name (layers_of ?v) k' = map ascii_upper (EnvPrefix @ ''_'' @ k')" for k'
    unfolding env_name_def l by (simp add: EnvPrefix_def)
  obtain bound where bound: "layers_of v' = (layers_of ?v)\<lparr>l_bound := bound\<rparr>"
    "dom bound = dom (l_bound (layers_of ?v)) \<union> lower ` set (AllKeys V ?v)"
    "\<And>k. set (case bound k of None \<Rightarrow> [] | Some ns \<Rightarrow> ns) \<subseteq> set (bound_names (layers_of ?v) k) \<union>
       {env_name (layers_of ?v) k' | k'. k' \<in> set (AllKeys V ?v) \<and> lower k' = k}"
    using bind_all_layers [of "AllKeys V ?v" ?v v'] assms(1,2) keys
    by (auto simp: bindEnv_def Let_def well_keyed_def)
  have none: "bound_names (layers_of ?v) k = []" for k
    using assms(3) by (simp add: l bound_names_def)
  show thesis
  proof (rule that [of bound])
    show "\<exists>k'. lower k' = k \<and> n = map ascii_upper (EnvPrefix @ ''_'' @ k')"
      if "n \<in> set (case bound k of None \<Rightarrow> [] | Some ns \<Rightarrow> ns)" for k n
    proof -
      have "n \<in> {env_name (layers_of ?v) k' | k'. k' \<in> set (AllKeys V ?v) \<and> lower k' = k}"
        using that bound(3) [of k] by (auto simp: none)
      then show ?thesis unfolding name by blast
    qed
  qed (use bound(1,2) assms(3) in \<open>simp_all add: l keys\<close>)
qed

lemma bindEnv_layers:
  assumes "bindEnv V v = Inr v'" "well_keyed (layers_of v)" "l_bound (layers_of v) = Map.empty"
  shows "known_keys (layers_of v') = known_keys (layers_of v) \<union> lower ` known_keys (layers_of v)"
    and "l_config (layers_of v') = l_config (layers_of v)"
    and "l_defaults (layers_of v') = l_defaults (layers_of v)"
    and "read_env env (layers_of v') k = (if env (variable k) \<noteq> '''' then Some (env (variable k)) else None)"
proof -
  obtain bound where bound: "layers_of v' = (layers_of v)\<lparr>l_automatic := True, l_prefix := EnvPrefix,
      l_replacer := dash_to_underscore, l_bound := bound\<rparr>"
    and dom: "dom bound = lower ` known_keys (layers_of v)"
    and names: "\<And>k n. n \<in> set (case bound k of None \<Rightarrow> [] | Some ns \<Rightarrow> ns) \<Longrightarrow>
       \<exists>k'. lower k' = k \<and> n = map ascii_upper (EnvPrefix @ ''_'' @ k')"
    using bindEnv_bound [OF assms] by blast
  show "known_keys (layers_of v') = known_keys (layers_of v) \<union> lower ` known_keys (layers_of v)"
    using dom assms(3) by (auto simp: bound known_keys_def)
  show "l_config (layers_of v') = l_config (layers_of v)" "l_defaults (layers_of v') = l_defaults (layers_of v)"
    by (simp_all add: bound)
  have one: "map dash_to_underscore n = variable k" if "n \<in> set (bound_names (layers_of v') k)" for n
  proof -
    have "n \<in> set (case bound k of None \<Rightarrow> [] | Some ns \<Rightarrow> ns)"
      using that by (simp add: bound bound_names_def)
    from names [OF this] obtain k' where "lower k' = k" "n = map ascii_upper (EnvPrefix @ ''_'' @ k')"
      by blast
    then show ?thesis
      using upper_lower [of k'] by (auto simp: variable_def)
  qed
  have auto_name: "map dash_to_underscore (env_name (layers_of v') k) = variable k"
    by (simp add: bound env_name_def variable_def EnvPrefix_def)
  have "read_env env (layers_of v') k =
      find (\<lambda>s. s \<noteq> '''') (env (variable k) # map (\<lambda>n. env (map dash_to_underscore n)) (bound_names (layers_of v') k))"
    using auto_name unfolding read_env_def by (simp add: bound)
  also have "\<dots> = (if env (variable k) \<noteq> '''' then Some (env (variable k)) else None)"
    using one by (intro find_const) auto
  finally show "read_env env (layers_of v') k =
      (if env (variable k) \<noteq> '''' then Some (env (variable k)) else None)" .
qed

end

text \<open>The configuration keys whose values are strings, with the fields they are decoded into.\<close>

definition string_fields :: "(string \<times> (config \<Rightarrow> string)) list" where
  "string_fields =
     [(KeyMetricsAddr, MetricsAddr), (KeyMetricsCertPath, MetricsCertPath),
      (KeyHealthProbeAddr, HealthProbeAddr), (KeyPprofAddr, PprofAddr),
      (KeyLeaderElectionID, LeaderElectionID), (KeyManifestsPath, ManifestsPath),
      (KeyApplicationsNS, ApplicationsNamespace), (KeyPlatformType, PlatformType),
      (KeyPlatformVersion, PlatformVersion)]"

definition default_string :: "string \<Rightarrow> string" where
  "default_string k = (case map_of default_settings k of Some (Str s) \<Rightarrow> s | _ \<Rightarrow> '''')"

lemma unmarshal_field:
  assumes "unmarshal_config V env v = Inr c" "(k, f) \<in> set string_fields"
  shows "string_field V (AllSettings V env v) k = Inr (f c)"
proof -
  have bind: "sum_bind r g = Inr c \<longleftrightarrow> (\<exists>a. r = Inr a \<and> g a = Inr c)" for r :: "go_error + 'x" and g
    by (auto simp: sum_bind_def split: sum.split)
  show ?thesis
    using assms by (auto simp: unmarshal_config_def Let_def bind string_fields_def key_defs)
qed


lemma string_fields_default:
  "(k, f) \<in> set string_fields \<Longrightarrow>
   map_of default_settings k = (if k = KeyPprofAddr then None else Some (Str (default_string k)))"
  by (auto simp: string_fields_def default_values default_string_def key_defs)

lemma file_settings_keys:
  assumes "\<forall>e \<in> set es. simple_entry parsed e" "k \<in> dom (file_settings parsed es)"
  shows "plain_key k \<and> lower k = k"
proof -
  have lower_lower: "lower (lower k) = lower k" for k
    by (simp add: lower_def ascii_lower_idem)
  have strings: "k \<in> dom m" if "k \<in> dom (strings_of m)" for k m
    using that by (auto simp: strings_of_def split: option.splits)
  have put: "\<forall>k \<in> dom (put_entry parsed e m). plain_key k \<and> lower k = k"
    if e: "simple_entry parsed e" "\<not> ignored_entry e" "\<forall>k \<in> dom m. plain_key k \<and> lower k = k" for e m
  proof (cases "structured e")
    case True
    then have "\<forall>k \<in> dom (entry_parsed parsed e). plain_key k \<and> lower k = k"
      using e(1,2) by (auto simp: simple_entry_def)
    then show ?thesis
      using e(3) True strings [of _ "entry_parsed parsed e"]
      unfolding put_entry_def by (simp add: dom_map_add) blast
  next
    case False
    then show ?thesis
      using e plain_key_lower lower_lower by (auto simp: put_entry_def simple_entry_def)
  qed
  have keys: "\<forall>k \<in> dom (fold (put_entry parsed) es m). plain_key k \<and> lower k = k"
    if "\<forall>e \<in> set es. simple_entry parsed e \<and> \<not> ignored_entry e" "\<forall>k \<in> dom m. plain_key k \<and> lower k = k" for es m
    using that
  proof (induction es arbitrary: m)
    case (Cons e es)
    have "simple_entry parsed e" "\<not> ignored_entry e"
      using Cons.prems(1) by simp_all
    then have "\<forall>k \<in> dom (put_entry parsed e m). plain_key k \<and> lower k = k"
      using Cons.prems(2) by (rule put)
    moreover have "\<forall>e \<in> set es. simple_entry parsed e \<and> \<not> ignored_entry e"
      using Cons.prems(1) by simp
    ultimately show ?case
      unfolding fold_Cons comp_def by (rule Cons.IH [rotated])
  qed simp
  have "\<forall>e \<in> set (filter (\<lambda>e. \<not> ignored_entry e) es). simple_entry parsed e \<and> \<not> ignored_entry e"
    using assms(1) unfolding set_filter by blast
  then have "\<forall>k \<in> dom (file_settings parsed es). plain_key k \<and> lower k = k"
    unfolding file_settings_def by (rule keys) simp
  with assms(2) show ?thesis by blast
qed

lemma settings_after_load:
  assumes "viper_contract V ly parsed"
    and v1: "(case fsys of None \<Rightarrow> Inr (setDefaults V (viper_New V))
       | Some dir \<Rightarrow> loadFromFS V env dir (setDefaults V (viper_New V))) = Inr v1"
    and v2: "bindEnv V v1 = Inr v2"
    and "es = (case fsys of Some (Inr es) \<Rightarrow> es | _ \<Rightarrow> [])"
    and "\<forall>e \<in> set es. simple_entry parsed e"
  shows "map_of (AllSettings V env v2) k =
      (if k \<notin> dom (map_of default_settings) \<union> dom (file_settings parsed es) then None
       else if env (variable k) \<noteq> '''' then Some (Str (env (variable k)))
       else (case file_settings parsed es k of Some s \<Rightarrow> Some (Str s) | None \<Rightarrow> map_of default_settings k))"
proof -
  let ?v0 = "setDefaults V (viper_New V)"
  note l0 = viper_contract.setDefaults_layers [OF assms(1)]
  have "load_entries V env (filter (\<lambda>e. \<not> ignored_entry e) es) ?v0 = Inr v1"
    using v1 assms(4) by (auto simp: load_entries_ignored loadFromFS_def split: option.splits sum.splits)
  then have l1: "ly v1 = (ly ?v0)\<lparr>l_config := str_map (file_settings parsed es)\<rparr>"
    unfolding file_settings_def
    by (rule viper_contract.load_entries_layers [OF assms(1)])
      (use assms(5) in \<open>auto simp: l0 no_layers_def str_map_def\<close>)
  let ?keys = "dom (map_of default_settings) \<union> dom (file_settings parsed es)"
  have keys: "known_keys (ly v1) = ?keys"
    by (auto simp: l1 l0 known_keys_def no_layers_def str_map_def)
  have good: "plain_key k \<and> lower k = k" if "k \<in> ?keys" for k
    using that default_keys_plain file_settings_keys [OF assms(5)] by (blast dest: map_of_SomeD)
  have wk: "well_keyed (ly v1)"
    using good by (auto simp: well_keyed_def keys)
  have nb: "l_bound (ly v1) = Map.empty"
    by (simp add: l1 l0 no_layers_def)
  note l2 = viper_contract.bindEnv_layers [OF assms(1) v2 wk nb]
  have known: "known_keys (ly v2) = ?keys"
    unfolding l2(1) keys using good by (auto simp: image_iff)
  have "map_of (AllSettings V env v2) k = effective env (ly v2) k"
    by (rule viper_contract.settings [OF assms(1)]) (use good known in blast)
  moreover have "l_config (ly v2) = str_map (file_settings parsed es)" "l_defaults (ly v2) = map_of default_settings"
    by (simp_all only: l2(2,3)) (simp_all add: l1 l0 no_layers_def)
  ultimately show ?thesis
    by (simp add: effective_known known l2(4) str_map_def split: option.split)
qed

text \<open>
  C30. Where the strings of the configuration come from, over every viper with the contract, when
  the mounted directory holds plain files, named without a dot, and structured files (YAML, JSON)
  that are flat maps of strings: a non-empty environment variable of the operator's prefix wins over
  the files, the plain file of that name or the setting of a structured file, the later file in the
  directory winning, and these win over the default; the content of a plain file is trimmed. Except
  that the pprof address has no default, and its environment variable is read only when a file sets
  it too.
\<close>

theorem config_precedence:
  assumes "viper_contract V ly parsed" and "LoadFromFS V env fsys = Inr c"
    and "es = (case fsys of Some (Inr es) \<Rightarrow> es | _ \<Rightarrow> [])"
    and "\<forall>e \<in> set es. simple_entry parsed e"
    and "(k, field) \<in> set string_fields"
  shows "field c =
    (if env (variable k) \<noteq> '''' \<and> (k \<noteq> KeyPprofAddr \<or> k \<in> dom (file_settings parsed es)) then env (variable k)
     else (case file_settings parsed es k of Some s \<Rightarrow> s | None \<Rightarrow> default_string k))"
proof -
  let ?v0 = "setDefaults V (viper_New V)"
  obtain v1 v where v1: "(case fsys of None \<Rightarrow> Inr ?v0 | Some dir \<Rightarrow> loadFromFS V env dir ?v0) = Inr v1"
    and v: "bindEnv V v1 = Inr v" and c: "unmarshal_config V env v = Inr c"
    using assms(2) by (auto simp: LoadFromFS_def Let_def split: sum.splits)
  note eff = settings_after_load [OF assms(1) v1 v assms(3,4)]
  have dflt: "map_of default_settings k = (if k = KeyPprofAddr then None else Some (Str (default_string k)))"
    using assms(5) by (rule string_fields_default)
  have known: "k \<in> dom (map_of default_settings) \<union> dom (file_settings parsed es) \<longleftrightarrow>
      k \<noteq> KeyPprofAddr \<or> k \<in> dom (file_settings parsed es)"
    using dflt by auto
  have pprof: "default_string KeyPprofAddr = ''''"
    by (simp add: default_string_def default_values key_defs)
  have "string_field V (AllSettings V env v) k = Inr (field c)"
    by (rule unmarshal_field [OF c assms(5)])
  then show ?thesis
    unfolding string_field_def eff known dflt
    by (cases "file_settings parsed es k")
      (auto simp: pprof domIff viper_contract.decode_Str [OF assms(1)] split: if_splits)
qed

text \<open>
  Directories, hidden entries (the bookkeeping of a mounted ConfigMap) and unreadable files have
  no influence on the configuration, and neither do they fail it.
\<close>

theorem config_ignores_entries:
  "LoadFromFS V env (Some (Inr (filter (\<lambda>e. \<not> ignored_entry e) es))) = LoadFromFS V env (Some (Inr es))"
  by (simp add: LoadFromFS_def loadFromFS_def load_entries_ignored)

section \<open>A layered viper\<close>

text \<open>
  The contract has a model: layers kept as association lists, with a parser of structured files
  as a parameter.
\<close>

record layered =
  lv_defaults :: "(string \<times> any) list"
  lv_config :: "(string \<times> any) list"
  lv_bound :: "(string \<times> string list) list"
  lv_automatic :: bool
  lv_prefix :: string
  lv_replacer :: "char \<Rightarrow> char"

definition layers_of_layered :: "layered \<Rightarrow> layers" where
  "layers_of_layered v = \<lparr>l_defaults = map_of (lv_defaults v), l_config = map_of (lv_config v),
     l_bound = map_of (lv_bound v), l_automatic = lv_automatic v, l_prefix = lv_prefix v,
     l_replacer = lv_replacer v\<rparr>"

definition layered_keys :: "layered \<Rightarrow> string list" where
  "layered_keys v = remdups (map fst (lv_defaults v) @ map fst (lv_config v) @ map fst (lv_bound v))"

fun layered_decode_string :: "any \<Rightarrow> go_error + string" where
  "layered_decode_string (Str s) = Inr s"
| "layered_decode_string (Bool b) = Inr (if b then ''1'' else ''0'')"
| "layered_decode_string _ = Inl (External ''expected type string'')"

fun layered_decode_bool :: "any \<Rightarrow> go_error + bool" where
  "layered_decode_bool (Bool b) = Inr b"
| "layered_decode_bool (Str s) =
     (if s \<in> set [''1'', ''t'', ''T'', ''true'', ''TRUE'', ''True''] then Inr True
      else if s \<in> set ['''', ''0'', ''f'', ''F'', ''false'', ''FALSE'', ''False''] then Inr False
      else Inl (External ''cannot parse value as bool''))"
| "layered_decode_bool _ = Inl (External ''expected type bool'')"

definition layered_viper :: "(string \<Rightarrow> go_error + (string \<times> any) list) \<Rightarrow> layered viper_lib" where
  "layered_viper parse =
     \<lparr>viper_New = \<lparr>lv_defaults = [], lv_config = [], lv_bound = [], lv_automatic = False,
        lv_prefix = '''', lv_replacer = id\<rparr>,
      SetDefault = (\<lambda>k a v. v\<lparr>lv_defaults := (lower k, a) # lv_defaults v\<rparr>),
      SetEnvPrefix = (\<lambda>p v. v\<lparr>lv_prefix := p\<rparr>),
      SetEnvKeyReplacer = (\<lambda>r v. v\<lparr>lv_replacer := r\<rparr>),
      AutomaticEnv = (\<lambda>v. v\<lparr>lv_automatic := True\<rparr>),
      AllKeys = layered_keys,
      BindEnv = (\<lambda>k v. Inr (v\<lparr>lv_bound := (lower k, bound_names (layers_of_layered v) (lower k) @
        [env_name (layers_of_layered v) k]) # lv_bound v\<rparr>)),
      SetConfigType = (\<lambda>ext v. v),
      ReadConfig = (\<lambda>data v. case parse data of Inl e \<Rightarrow> Inl e
        | Inr kvs \<Rightarrow> Inr (v\<lparr>lv_config := map (\<lambda>(k, a). (lower k, a)) kvs @ lv_config v\<rparr>)),
      AllSettings = (\<lambda>env v. map (\<lambda>k. (k, the (effective env (layers_of_layered v) k)))
        (filter (\<lambda>k. effective env (layers_of_layered v) k \<noteq> None) (layered_keys v))),
      MergeConfigMap = (\<lambda>kvs v. Inr (v\<lparr>lv_config := map (\<lambda>(k, a). (lower k, a)) kvs @ lv_config v\<rparr>)),
      decode_string = layered_decode_string,
      decode_bool = layered_decode_bool\<rparr>"

definition layered_parsed ::
  "(string \<Rightarrow> go_error + (string \<times> any) list) \<Rightarrow> string \<Rightarrow> string \<Rightarrow> (string \<rightharpoonup> any)" where
  "layered_parsed parse ext data =
     (case parse data of Inl e \<Rightarrow> Map.empty | Inr kvs \<Rightarrow> map_of (map (\<lambda>(k, a). (lower k, a)) kvs))"

lemma known_keys_layered: "known_keys (layers_of_layered v) = set (layered_keys v)"
  by (auto simp: known_keys_def layers_of_layered_def layered_keys_def dom_map_of_conv_image_fst)

lemma map_of_keyed: "map_of (map (\<lambda>k. (k, f k)) ks) k = (if k \<in> set ks then Some (f k) else None)"
  by (induction ks) auto

interpretation layered: viper_contract "layered_viper parse" layers_of_layered "layered_parsed parse" for parse
proof unfold_locales
  show "map_of (AllSettings (layered_viper parse) env v) k = effective env (layers_of_layered v) k" for env v k
    using known_keys_layered [of v]
    by (auto simp: layered_viper_def map_of_keyed effective_known)
  show "ReadConfig (layered_viper parse) data (SetConfigType (layered_viper parse) ext (viper_New (layered_viper parse))) =
      Inr fv \<Longrightarrow> layers_of_layered fv = no_layers\<lparr>l_config := layered_parsed parse ext data\<rparr>" for data ext fv
    by (auto simp: layered_viper_def layers_of_layered_def no_layers_def layered_parsed_def split: sum.splits)
qed (auto simp: layered_viper_def layers_of_layered_def no_layers_def known_keys_layered
       [unfolded layers_of_layered_def])

definition sample_env :: env where
  "sample_env n =
     (if n = ''ODH_MODULE_OPERATOR_PLATFORM_TYPE'' then ''OpenDataHub''
      else if n = ''ODH_MODULE_OPERATOR_PPROF_ADDR'' then '':6060'' else '''')"

definition sample_dir :: "fs_entry list" where
  "sample_dir =
     [\<lparr>fe_name = ''..data'', fe_is_dir = True, fe_data = None\<rparr>,
      \<lparr>fe_name = ''applications-namespace'', fe_is_dir = False, fe_data = Some '' grid ''\<rparr>,
      \<lparr>fe_name = ''platform-type'', fe_is_dir = False, fe_data = Some ''file''\<rparr>]"

lemma layered_load_entries:
  "(\<And>data. \<exists>kvs. parse data = Inr kvs) \<Longrightarrow> \<exists>v'. load_entries (layered_viper parse) env es v = Inr v'"
proof (induction es arbitrary: v)
  case Nil
  then show ?case by simp
next
  case (Cons e es)
  have merged: "\<exists>v'. mergeKeyValue (layered_viper parse) n d v = Inr v'"
    "\<exists>v'. mergeStructuredFile (layered_viper parse) env n x d v = Inr v'" for n d x
    using Cons.prems [of d] by (auto simp: mergeKeyValue_def mergeStructuredFile_def layered_viper_def)
  show ?case
  proof (cases "ignored_entry e")
    case True
    then have "load_entries (layered_viper parse) env (e # es) v = load_entries (layered_viper parse) env es v"
      by (cases "fe_data e") (auto simp: ignored_entry_def)
    then show ?thesis using Cons by simp
  next
    case False
    then obtain d where d: "fe_data e = Some d" "\<not> fe_is_dir e" "\<not> has_prefix (fe_name e) ''.''"
      by (auto simp: ignored_entry_def)
    have "\<exists>v1. (if file_ext (fe_name e) \<in> set structuredExtensions
        then mergeStructuredFile (layered_viper parse) env (fe_name e) (file_ext (fe_name e)) d v
        else mergeKeyValue (layered_viper parse) (fe_name e) d v) = Inr v1"
      by (simp add: merged)
    then obtain v1 where "(if file_ext (fe_name e) \<in> set structuredExtensions
        then mergeStructuredFile (layered_viper parse) env (fe_name e) (file_ext (fe_name e)) d v
        else mergeKeyValue (layered_viper parse) (fe_name e) d v) = Inr v1"
      by blast
    then show ?thesis
      using d Cons by (simp add: Let_def)
  qed
qed

lemma layered_bind_all: "\<exists>v'. bind_all (layered_viper parse) ks v = Inr v'"
  by (induction ks arbitrary: v) (auto simp: layered_viper_def)

text \<open>Such files without the two flags always load.\<close>

lemma layered_load_returns:
  assumes "\<forall>e \<in> set es. simple_entry (layered_parsed parse) e" "\<And>data. \<exists>kvs. parse data = Inr kvs"
    and "\<forall>k \<in> {KeyMetricsSecure, KeyLeaderElect}. env (variable k) = '''' \<and>
      file_settings (layered_parsed parse) es k = None"
  shows "\<exists>c. LoadFromFS (layered_viper parse) env (Some (Inr es)) = Inr c"
proof -
  let ?V = "layered_viper parse"
  let ?v0 = "setDefaults ?V (viper_New ?V)"
  obtain v1 where v1: "load_entries ?V env es ?v0 = Inr v1"
    using layered_load_entries [of parse env es ?v0] assms(2) by blast
  obtain v2 where v2: "bindEnv ?V v1 = Inr v2"
    unfolding bindEnv_def Let_def using layered_bind_all by blast
  have eff: "map_of (AllSettings ?V env v2) k =
      (if k \<notin> dom (map_of default_settings) \<union> dom (file_settings (layered_parsed parse) es) then None
       else if env (variable k) \<noteq> '''' then Some (Str (env (variable k)))
       else (case file_settings (layered_parsed parse) es k of Some s \<Rightarrow> Some (Str s) | None \<Rightarrow> map_of default_settings k))" for k
    by (rule settings_after_load [where fsys = "Some (Inr es)"])
      (use v1 v2 assms(1) layered.viper_contract_axioms in \<open>simp_all add: loadFromFS_def\<close>)
  have str: "\<exists>s. string_field ?V (AllSettings ?V env v2) k = Inr s" if "(k, f) \<in> set string_fields" for k f
    using string_fields_default [OF that]
    by (auto simp: string_field_def eff layered.decode_Str split: option.split)
  have dec: "decode_bool ?V (Bool b) = Inr b" for b
    by (simp add: layered_viper_def)
  have "map_of default_settings KeyMetricsSecure = Some (Bool False)"
    "map_of default_settings KeyLeaderElect = Some (Bool True)"
    by (simp_all add: default_values key_defs)
  then have "map_of (AllSettings ?V env v2) KeyMetricsSecure = Some (Bool False)"
    "map_of (AllSettings ?V env v2) KeyLeaderElect = Some (Bool True)"
    using assms(3) by (simp_all add: eff domIff)
  then have bool: "bool_field ?V (AllSettings ?V env v2) KeyMetricsSecure = Inr False"
    "bool_field ?V (AllSettings ?V env v2) KeyLeaderElect = Inr True"
    by (simp_all add: bool_field_def dec)
  have "\<exists>c. unmarshal_config ?V env v2 = Inr c"
    using str [of KeyMetricsAddr] str [of KeyMetricsCertPath] str [of KeyHealthProbeAddr] str [of KeyPprofAddr]
      str [of KeyLeaderElectionID] str [of KeyManifestsPath] str [of KeyApplicationsNS]
      str [of KeyPlatformType] str [of KeyPlatformVersion] bool
    by (simp add: string_fields_def key_defs unmarshal_config_def Let_def sum_bind_def) auto
  then show ?thesis
    using v1 v2 by (auto simp: LoadFromFS_def loadFromFS_def Let_def)
qed

lemma lower_keys:
  "lower ''applications-namespace'' = ''applications-namespace''" "lower ''platform-type'' = ''platform-type''"
  "lower ''leader-election-id'' = ''leader-election-id''"
  by code_simp+

lemma trimmed: "trim_space '' grid '' = ''grid''" "trim_space ''file'' = ''file''"
  by (simp_all add: trim_space_def white_space_def trim_left.simps has_prefix_def)

lemma sample_dir_simple: "\<forall>e \<in> set sample_dir. simple_entry parsed e"
  by (simp add: sample_dir_def simple_entry_def ignored_entry_def plain_key_def structured_def file_ext_def)

lemma sample_dir_settings: "file_settings parsed sample_dir =
    [''applications-namespace'' \<mapsto> ''grid'', ''platform-type'' \<mapsto> ''file'']"
  by (simp add: file_settings_def sample_dir_def ignored_entry_def put_entry_def trimmed lower_keys has_prefix_def
      structured_def file_ext_def)

text \<open>
  The witness: a file sets the application namespace, a structured file behind it the platform type
  and the lock; a variable wins over both files of the platform type, and the variable of the pprof
  address is not read.
\<close>

definition yaml_settings :: "(string \<times> any) list" where
  "yaml_settings = [(''platform-type'', Str ''yaml''), (''leader-election-id'', Str ''lock'')]"

definition yaml_dir :: "fs_entry list" where
  "yaml_dir = sample_dir @ [\<lparr>fe_name = ''settings.yaml'', fe_is_dir = False, fe_data = Some ''''\<rparr>]"

lemma yaml_parsed: "layered_parsed (\<lambda>_. Inr yaml_settings) ext data =
    [''leader-election-id'' \<mapsto> Str ''lock'', ''platform-type'' \<mapsto> Str ''yaml'']"
  by (simp add: layered_parsed_def yaml_settings_def lower_keys)

lemma yaml_dir_simple: "\<forall>e \<in> set yaml_dir. simple_entry (layered_parsed (\<lambda>_. Inr yaml_settings)) e"
proof -
  have "structured \<lparr>fe_name = ''settings.yaml'', fe_is_dir = False, fe_data = Some ''''\<rparr>"
    by (simp add: structured_def file_ext_def)
  then show ?thesis
    using sample_dir_simple
    by (auto simp: yaml_dir_def simple_entry_def entry_parsed_def yaml_parsed only_strings_def lower_keys
        plain_key_def split: if_splits)
qed

lemma yaml_dir_settings: "file_settings (layered_parsed (\<lambda>_. Inr yaml_settings)) yaml_dir =
    [''applications-namespace'' \<mapsto> ''grid'', ''platform-type'' \<mapsto> ''yaml'', ''leader-election-id'' \<mapsto> ''lock'']"
proof -
  have e: "structured \<lparr>fe_name = ''settings.yaml'', fe_is_dir = False, fe_data = Some ''''\<rparr>"
    "\<not> ignored_entry \<lparr>fe_name = ''settings.yaml'', fe_is_dir = False, fe_data = Some ''''\<rparr>"
    by (simp_all add: structured_def file_ext_def ignored_entry_def has_prefix_def)
  have "file_settings (layered_parsed (\<lambda>_. Inr yaml_settings)) yaml_dir =
      file_settings (layered_parsed (\<lambda>_. Inr yaml_settings)) sample_dir ++
        strings_of [''leader-election-id'' \<mapsto> Str ''lock'', ''platform-type'' \<mapsto> Str ''yaml'']"
    by (simp add: file_settings_def yaml_dir_def e put_entry_def entry_parsed_def yaml_parsed)
      (rule arg_cong [where f = "\<lambda>m. _ ++ strings_of m"], rule ext, simp)
  then show ?thesis
    by (auto simp: sample_dir_settings strings_of_def map_add_def fun_eq_iff)
qed

lemma config_precedence_witness:
  "\<exists>c. LoadFromFS (layered_viper (\<lambda>_. Inr yaml_settings)) sample_env (Some (Inr yaml_dir)) = Inr c \<and>
    ApplicationsNamespace c = ''grid'' \<and> PlatformType c = ''OpenDataHub'' \<and> PprofAddr c = '''' \<and>
    LeaderElectionID c = ''lock''"
proof -
  let ?V = "layered_viper (\<lambda>_. Inr yaml_settings)"
  have vars: "sample_env (variable KeyApplicationsNS) = ''''" "sample_env (variable KeyPlatformType) = ''OpenDataHub''"
    "sample_env (variable KeyPprofAddr) = '':6060''" "sample_env (variable KeyLeaderElectionID) = ''''"
    "sample_env (variable KeyMetricsSecure) = ''''" "sample_env (variable KeyLeaderElect) = ''''"
    by code_simp+
  have "\<exists>c. LoadFromFS ?V sample_env (Some (Inr yaml_dir)) = Inr c"
    by (rule layered_load_returns [OF yaml_dir_simple]) (use vars in \<open>auto simp: yaml_dir_settings key_defs\<close>)
  then obtain c where c: "LoadFromFS ?V sample_env (Some (Inr yaml_dir)) = Inr c"
    by blast
  note prec = config_precedence [OF layered.viper_contract_axioms c refl, unfolded option.case sum.case,
      OF yaml_dir_simple, unfolded yaml_dir_settings]
  have "ApplicationsNamespace c = ''grid''"
    using prec [of KeyApplicationsNS ApplicationsNamespace]
    by (simp add: string_fields_def vars) (simp add: key_defs)
  moreover have "PlatformType c = ''OpenDataHub''"
    using prec [of KeyPlatformType PlatformType]
    by (simp add: string_fields_def vars) (simp add: key_defs)
  moreover have "PprofAddr c = ''''"
    using prec [of KeyPprofAddr PprofAddr]
    by (simp add: string_fields_def vars) (simp add: key_defs default_string_def default_values)
  moreover have "LeaderElectionID c = ''lock''"
    using prec [of KeyLeaderElectionID LeaderElectionID]
    by (simp add: string_fields_def vars) (simp add: key_defs)
  ultimately show ?thesis using c by blast
qed

end
