(* ===== verification/Operator_Start.thy ===== *)
theory Operator_Start
  imports Reconciler_Setup Tls_Profile Config_Loading
begin

text \<open>
  The start of the operator process: \<^verbatim>\<open>cmd/operator/operator.go\<close>, the options of the
  metrics server (\<^verbatim>\<open>cmd/operator/metrics.go\<close>) and the transform of the cache
  (\<^verbatim>\<open>pkg/cache/transform.go\<close>). The manager of controller-runtime is a parameter; the
  set-up of logging and the scheme are not modelled.
\<close>

section \<open>The cache transform\<close>

text \<open>
  A cached value: \<^verbatim>\<open>meta.Accessor\<close> succeeds on Kubernetes objects and fails on anything
  else, such as the tombstone of a deleted object.
\<close>

record accessor =
  acc_managed_fields :: "string list"
  acc_annotations :: strmap
  acc_rest :: string

datatype cached_value = Accessible accessor | Opaque string

definition AnnotationLastAppliedConfiguration :: string where
  "AnnotationLastAppliedConfiguration = ''kubectl.kubernetes.io/last-applied-configuration''"

definition StripUnusedFields :: "cached_value \<Rightarrow> go_error + cached_value" where
  "StripUnusedFields v =
     (case v of
        Opaque x \<Rightarrow> Inr (Opaque x)
      | Accessible a \<Rightarrow>
          (let a = a\<lparr>acc_managed_fields := []\<rparr>;
               a = (case acc_annotations a of
                      None \<Rightarrow> a
                    | Some annotations \<Rightarrow>
                        a\<lparr>acc_annotations := Some (annotations(AnnotationLastAppliedConfiguration := None))\<rparr>)
           in Inr (Accessible a)))"

section \<open>Options\<close>

record metrics_options =
  BindAddress :: string
  SecureServing :: bool
  MetricsTLSOpts :: "(tls_config \<Rightarrow> tls_config) list"
  FilterProvider :: bool
  CertDir :: string

text \<open>\<open>FilterProvider\<close>: whether requests are authenticated and authorised.\<close>

definition metricsServerOptions :: "config \<Rightarrow> (tls_config \<Rightarrow> tls_config) list \<Rightarrow> metrics_options" where
  "metricsServerOptions cf tlsOpts =
     (let opts = \<lparr>BindAddress = MetricsAddr cf, SecureServing = MetricsSecure cf,
            MetricsTLSOpts = tlsOpts, FilterProvider = False, CertDir = ''''\<rparr>;
          opts = (if MetricsSecure cf then opts\<lparr>FilterProvider := True\<rparr> else opts)
      in if MetricsCertPath cf \<noteq> '''' then opts\<lparr>CertDir := MetricsCertPath cf\<rparr> else opts)"

record manager_options =
  mo_metrics :: metrics_options
  HealthProbeBindAddress :: string
  PprofBindAddress :: string
  LeaderElection :: bool
  mo_LeaderElectionID :: string
  LeaderElectionReleaseOnCancel :: bool
  DefaultTransform :: "cached_value \<Rightarrow> go_error + cached_value"
  DefaultNamespaces :: "string list"
  CacheUnstructured :: bool
  DisableFor :: "string list"

text \<open>\<^verbatim>\<open>cache.AllNamespaces\<close> is the empty string.\<close>

definition manager_options_for :: "config \<Rightarrow> tls_result \<Rightarrow> manager_options" where
  "manager_options_for cf tls =
     \<lparr>mo_metrics = metricsServerOptions cf (TLSOpts tls), HealthProbeBindAddress = HealthProbeAddr cf,
      PprofBindAddress = PprofAddr cf, LeaderElection = LeaderElect cf,
      mo_LeaderElectionID = LeaderElectionID cf, LeaderElectionReleaseOnCancel = True,
      DefaultTransform = StripUnusedFields, DefaultNamespaces = [ApplicationsNamespace cf, ''''],
      CacheUnstructured = True, DisableFor = [''ConfigMap'', ''Secret'']\<rparr>"

section \<open>run\<close>

text \<open>
  The calls of \<^verbatim>\<open>run\<close> into libraries. \<open>ViperSet\<close> and
  \<open>SetRHAIApplicationNamespace\<close> are global settings the framework reads; \<open>Cancel\<close> is the
  cancel function of the context the manager runs in; \<open>NewClient\<close> makes the bootstrap client, on which the TLS library
  works. \<^verbatim>\<open>GetConfigOrDie\<close> ends the process when there is no configuration and is taken
  to return.
\<close>

record 'w manager_lib =
  ViperSet :: "string \<Rightarrow> string \<Rightarrow> 'w \<Rightarrow> 'w"
  SetRHAIApplicationNamespace :: "string \<Rightarrow> 'w \<Rightarrow> 'w"
  NewClient :: "('w, unit) comp"
  NewManager :: "manager_options \<Rightarrow> ('w, unit) comp"
  AddHealthzCheck :: "string \<Rightarrow> ('w, unit) comp"
  AddReadyzCheck :: "string \<Rightarrow> ('w, unit) comp"
  Cancel :: "'w \<Rightarrow> 'w"
  Start :: "('w, unit) comp"

definition healthCheckName :: string where
  "healthCheckName = ''healthz''"

definition readyCheckName :: string where
  "readyCheckName = ''readyz''"

text \<open>\<^verbatim>\<open>defer f()\<close>: \<open>f\<close> runs when the rest has ended, with an error or without.\<close>

definition deferring :: "('w \<Rightarrow> 'w) \<Rightarrow> ('w, 'a) comp \<Rightarrow> ('w, 'a) comp" where
  "deferring f m w = (case m w of (r, w') \<Rightarrow> (r, f w'))"

text \<open>From a loaded configuration on; \<open>new_reconciler\<close> is \<^verbatim>\<open>aigateway.NewReconciler\<close>.\<close>

definition start_with ::
  "'w manager_lib \<Rightarrow> 'w tls_lib \<Rightarrow> (odh_manager \<Rightarrow> config \<Rightarrow> ('w, 'r) comp) \<Rightarrow> config \<Rightarrow>
    ('w, unit) comp" where
  "start_with M T new_reconciler cf =
     and_then (modify (ViperSet M ''rhai-applications-namespace'' (ApplicationsNamespace cf))) (\<lambda>_.
     and_then (modify (SetRHAIApplicationNamespace M (ApplicationsNamespace cf))) (\<lambda>_.
     and_then (wrapping ''creating bootstrap client: %w'' [] (NewClient M)) (\<lambda>_.
     and_then (wrapping ''resolving cluster TLS profile: %w'' [] (Resolve T)) (\<lambda>tlsResult.
     and_then (wrapping ''creating manager: %w'' [] (NewManager M (manager_options_for cf tlsResult))) (\<lambda>_.
     and_then (wrapping ''creating aigateway reconciler: %w'' []
       (new_reconciler \<lparr>ManifestsBasePath = ManifestsPath cf\<rparr> cf)) (\<lambda>_.
     and_then (wrapping ''setting up health check: %w'' [] (AddHealthzCheck M healthCheckName)) (\<lambda>_.
     and_then (wrapping ''setting up ready check: %w'' [] (AddReadyzCheck M readyCheckName)) (\<lambda>_.
     deferring (Cancel M)
       (and_then (wrapping ''setting up TLS profile watcher: %w'' [] (SetupWatcher T tlsResult (Cancel M))) (\<lambda>_.
        Start M))))))))))"

definition run_operator ::
  "'v viper_lib \<Rightarrow> env \<Rightarrow> (string \<Rightarrow> go_error + fs_entry list) \<Rightarrow> 'w manager_lib \<Rightarrow> 'w tls_lib \<Rightarrow>
    ('w, 'c) lib \<Rightarrow> 's semver_lib \<Rightarrow> 's \<Rightarrow> build_info \<Rightarrow> ('w, 'c) framework \<Rightarrow> ('w, 'c, 's, 'r) builder \<Rightarrow>
    ('w, unit) comp" where
  "run_operator V env dirs M T E L zero b F B =
     and_then (wrapping ''loading operator config: %w'' [] (returned (Load V env dirs)))
       (start_with M T (\<lambda>mgr cf. NewReconciler E L b F B mgr cf (config_Release L zero cf)))"

section \<open>Properties\<close>

text \<open>
  The transform never fails, is idempotent, and takes away exactly the managed fields and the one
  annotation; a value that is no Kubernetes object passes unchanged.
\<close>

lemma StripUnusedFields_spec:
  "\<exists>v'. StripUnusedFields v = Inr v' \<and> StripUnusedFields v' = Inr v' \<and>
    (case v of
       Opaque x \<Rightarrow> v' = v
     | Accessible a \<Rightarrow>
         (\<exists>a'. v' = Accessible a' \<and> acc_managed_fields a' = [] \<and> acc_rest a' = acc_rest a \<and>
           (acc_annotations a' = None \<longleftrightarrow> acc_annotations a = None) \<and>
           (\<forall>k. entries (acc_annotations a') k =
              (if k = AnnotationLastAppliedConfiguration then None else entries (acc_annotations a) k))))"
  by (cases v) (auto simp: StripUnusedFields_def Let_def entries_def split: option.splits)

text \<open>
  The start as a plan: steps with the message of their error, run in their order until one fails.
\<close>

type_synonym 'w named_step = "string \<times> ('w, unit) comp"

fun run_plan :: "'w named_step list \<Rightarrow> 'w \<Rightarrow> (string \<times> go_error) option \<times> 'w" where
  "run_plan [] w = (None, w)"
| "run_plan ((n, m) # steps) w =
     (case m w of
        (Inl e, w') \<Rightarrow> (Some (n, e), w')
      | (Inr _, w') \<Rightarrow> run_plan steps w')"

definition ignoring :: "('w, 'a) comp \<Rightarrow> ('w, unit) comp" where
  "ignoring m = and_then m (\<lambda>_. ok ())"

definition watcher_message :: string where
  "watcher_message = ''setting up TLS profile watcher: %w''"

text \<open>\<open>tls\<close> is what resolving returns.\<close>

definition start_plan ::
  "'w manager_lib \<Rightarrow> 'w tls_lib \<Rightarrow> (odh_manager \<Rightarrow> config \<Rightarrow> ('w, 'r) comp) \<Rightarrow> config \<Rightarrow> tls_result \<Rightarrow>
    'w named_step list" where
  "start_plan M T new_reconciler cf tls =
     [(''creating bootstrap client: %w'', NewClient M),
      (''resolving cluster TLS profile: %w'', ignoring (Resolve T)),
      (''creating manager: %w'', NewManager M (manager_options_for cf tls)),
      (''creating aigateway reconciler: %w'',
         ignoring (new_reconciler \<lparr>ManifestsBasePath = ManifestsPath cf\<rparr> cf)),
      (''setting up health check: %w'', AddHealthzCheck M ''healthz''),
      (''setting up ready check: %w'', AddReadyzCheck M ''readyz''),
      (watcher_message, SetupWatcher T tls (Cancel M))]"

definition resolves_to :: "'w manager_lib \<Rightarrow> 'w tls_lib \<Rightarrow> 'w \<Rightarrow> tls_result \<Rightarrow> bool" where
  "resolves_to M T w tls \<longleftrightarrow>
     (\<forall>w\<^sub>1 w\<^sub>2 r. NewClient M w = (Inr (), w\<^sub>1) \<longrightarrow> Resolve T w\<^sub>1 = (Inr r, w\<^sub>2) \<longrightarrow> r = tls)"

lemma resolves_to_exists: "\<exists>tls. resolves_to M T w tls"
proof (cases "fst (Resolve T (snd (NewClient M w)))")
  case (Inl e)
  then show ?thesis by (auto simp: resolves_to_def)
next
  case (Inr r)
  then show ?thesis by (intro exI [of _ r]) (auto simp: resolves_to_def)
qed

text \<open>
  The world the steps start in: the two global settings, from the application namespace of the
  configuration, are made first.
\<close>

definition settings_made :: "'w manager_lib \<Rightarrow> config \<Rightarrow> 'w \<Rightarrow> 'w" where
  "settings_made M cf w =
     SetRHAIApplicationNamespace M (ApplicationsNamespace cf)
       (ViperSet M ''rhai-applications-namespace'' (ApplicationsNamespace cf) w)"

lemma start_with_plan:
  assumes "resolves_to M T (settings_made M cf w) tls"
  shows "start_with (M\<lparr>Start := s\<rparr>) T new_reconciler cf w =
    (case run_plan (start_plan M T new_reconciler cf tls) (settings_made M cf w) of
       (Some (n, e), w') \<Rightarrow> (Inl (wrapf n [] e), if n = watcher_message then Cancel M w' else w')
     | (None, w') \<Rightarrow> deferring (Cancel M) s w')"
proof -
  let ?w = "settings_made M cf w"
  have start: "start_with (M\<lparr>Start := s\<rparr>) T new_reconciler cf w =
      and_then (wrapping ''creating bootstrap client: %w'' [] (NewClient M)) (\<lambda>_.
      and_then (wrapping ''resolving cluster TLS profile: %w'' [] (Resolve T)) (\<lambda>tls.
      and_then (wrapping ''creating manager: %w'' [] (NewManager M (manager_options_for cf tls))) (\<lambda>_.
      and_then (wrapping ''creating aigateway reconciler: %w'' []
        (new_reconciler \<lparr>ManifestsBasePath = ManifestsPath cf\<rparr> cf)) (\<lambda>_.
      and_then (wrapping ''setting up health check: %w'' [] (AddHealthzCheck M healthCheckName)) (\<lambda>_.
      and_then (wrapping ''setting up ready check: %w'' [] (AddReadyzCheck M readyCheckName)) (\<lambda>_.
      deferring (Cancel M)
        (and_then (wrapping watcher_message [] (SetupWatcher T tls (Cancel M))) (\<lambda>_. s)))))))) ?w"
    by (simp add: start_with_def and_then_def [of "modify _"] modify_run settings_made_def watcher_message_def)
  have step: "and_then (wrapping n [] m) k v =
      (case m v of (Inl e, w') \<Rightarrow> (Inl (wrapf n [] e), w') | (Inr a, w') \<Rightarrow> k a w')" for n m k v
    by (simp add: and_then_def wrapping_def split: prod.split sum.split)
  show ?thesis
    unfolding start start_plan_def step
    using assms
    by (auto simp: ignoring_def and_then_def ok_run deferring_def step resolves_to_def watcher_message_def
        healthCheckName_def readyCheckName_def split: prod.splits sum.splits)
qed

lemma run_operator_loaded:
  "Load V env dirs = Inr cf \<Longrightarrow> run_operator V env dirs M T E L zero b F B w =
     start_with M T (\<lambda>mgr cf. NewReconciler E L b F B mgr cf (config_Release L zero cf)) cf w"
  by (simp add: run_operator_def and_then_def wrapping_def returned_run)

text \<open>
  C25. The start follows the plan. If the configuration does not load, its error is returned under
  the name of that step and nothing else happens. Otherwise the settings are made, and bootstrap
  client, TLS profile, manager (with the options of the configuration and of the resolved TLS
  result), reconciler, health check, ready check and watcher follow in this order: the first step
  that fails ends the start with its error under its own message, in the world it leaves, and the
  manager is never started, whatever starting it would do; if none fails, the result is that of the
  manager, started in the world the last step leaves. The context is cancelled when the manager
  returns or the watcher cannot be set up, and in no other case.
\<close>

theorem run_starts_or_reports:
  assumes "\<And>cf. Load V env dirs = Inr cf \<Longrightarrow> resolves_to M T (settings_made M cf w) tls"
  shows "run_operator V env dirs (M\<lparr>Start := s\<rparr>) T E L zero b F B w =
    (case Load V env dirs of
       Inl e \<Rightarrow> (Inl (wrapf ''loading operator config: %w'' [] e), w)
     | Inr cf \<Rightarrow>
         (case run_plan (start_plan M T
             (\<lambda>mgr cf. NewReconciler E L b F B mgr cf (config_Release L zero cf)) cf tls)
             (settings_made M cf w) of
            (Some (n, e), w') \<Rightarrow> (Inl (wrapf n [] e), if n = watcher_message then Cancel M w' else w')
          | (None, w') \<Rightarrow> deferring (Cancel M) s w'))"
proof (cases "Load V env dirs")
  case (Inl e)
  then show ?thesis
    by (simp add: run_operator_def and_then_def wrapping_def returned_run)
next
  case (Inr cf)
  then show ?thesis
    using start_with_plan [OF assms [OF Inr]] by (simp add: run_operator_loaded)
qed

end
