(* ===== verification/Process_Entry.thy ===== *)
theory Process_Entry
  imports Operator_Start
begin

text \<open>
  The process around \<^verbatim>\<open>run\<close>: the registration of the API types before
  \<^verbatim>\<open>main\<close> (\<^verbatim>\<open>init\<close> of \<^verbatim>\<open>cmd/operator/operator.go\<close>), the command line
  (\<^verbatim>\<open>NewCommand\<close>, \<^verbatim>\<open>main\<close> of \<^verbatim>\<open>cmd/main.go\<close>) and the exit status.
  The scheme functions of the libraries and cobra are parameters.
\<close>

section \<open>Registration\<close>

text \<open>\<^verbatim>\<open>utilruntime.Must(err)\<close> panics on an error.\<close>

definition Must :: "('w, unit) comp \<Rightarrow> ('w, unit) comp" where
  "Must m w = (case m w of (Inl e, w') \<Rightarrow> (Inl (Panic ''utilruntime.Must''), w') | (Inr u, w') \<Rightarrow> (Inr u, w'))"

record 'w scheme_lib =
  ClientGo_AddToScheme :: "('w, unit) comp"
  ApiExtensions_AddToScheme :: "('w, unit) comp"
  ConfigV1_Install :: "('w, unit) comp"
  Components_AddToScheme :: "('w, unit) comp"
  DSCI_AddToScheme :: "('w, unit) comp"

definition operator_init :: "'w scheme_lib \<Rightarrow> ('w, unit) comp" where
  "operator_init S =
     and_then (Must (ClientGo_AddToScheme S)) (\<lambda>_.
     and_then (Must (ApiExtensions_AddToScheme S)) (\<lambda>_.
     and_then (Must (ConfigV1_Install S)) (\<lambda>_.
     and_then (Must (Components_AddToScheme S)) (\<lambda>_.
     Must (DSCI_AddToScheme S)))))"

section \<open>The command line\<close>

record 'w cobra_command =
  Use :: string
  Short :: string
  SilenceUsage :: bool
  RunE :: "('w, unit) comp option"

definition NewCommand :: "('w, unit) comp \<Rightarrow> 'w cobra_command" where
  "NewCommand run =
     \<lparr>Use = ''operator'', Short = ''Start the module operator'', SilenceUsage = False, RunE = Some run\<rparr>"

definition operatorName :: string where
  "operatorName = ''ai-gateway-operator''"

text \<open>
  \<^verbatim>\<open>Execute\<close> takes the root command, its sub-commands and the arguments of the process.
\<close>

type_synonym 'w cobra_lib =
  "'w cobra_command \<Rightarrow> 'w cobra_command list \<Rightarrow> string list \<Rightarrow> ('w, unit) comp"

text \<open>
  How a process ends: status 2 is Go's for a panic, 1 is that of \<^verbatim>\<open>os.Exit(1)\<close>, and 0 that
  of a return from \<^verbatim>\<open>main\<close>.
\<close>

definition main :: "'w cobra_lib \<Rightarrow> ('w, unit) comp \<Rightarrow> string list \<Rightarrow> 'w \<Rightarrow> nat \<times> 'w" where
  "main C run args w =
     (let root = \<lparr>Use = operatorName, Short = '''', SilenceUsage = True, RunE = None\<rparr>;
          subs = [NewCommand run]
      in case C root subs args w of
           (Inl e, w') \<Rightarrow> (if is_panic e then 2 else 1, w')
         | (Inr _, w') \<Rightarrow> (0, w'))"

definition process :: "'w scheme_lib \<Rightarrow> 'w cobra_lib \<Rightarrow> ('w, unit) comp \<Rightarrow> string list \<Rightarrow> 'w \<Rightarrow> nat \<times> 'w" where
  "process S C run args w =
     (case operator_init S w of
        (Inl e, w') \<Rightarrow> (2, w')
      | (Inr _, w') \<Rightarrow> main C run args w')"

text \<open>
  What is documented of cobra: the first argument selects the sub-command of that name, whose
  \<^verbatim>\<open>RunE\<close> gives the result; a first argument that names none is an error, and nothing runs.
\<close>

definition cobra_contract :: "'w cobra_lib \<Rightarrow> bool" where
  "cobra_contract C \<longleftrightarrow>
     (\<forall>root c r w. RunE c = Some r \<longrightarrow> C root [c] [Use c] w = r w) \<and>
     (\<forall>root c a w. RunE root = None \<longrightarrow> a \<noteq> Use c \<longrightarrow> hd a \<noteq> CHR ''-'' \<longrightarrow> a \<noteq> '''' \<longrightarrow>
        a \<noteq> ''help'' \<longrightarrow> a \<noteq> ''completion'' \<longrightarrow>
        (\<exists>e. \<not> is_panic e \<and> C root [c] [a] w = (Inl e, w)))"

section \<open>Properties\<close>

lemma Must_Inr_iff: "Must m w = (Inr u, w') \<longleftrightarrow> m w = (Inr u, w')"
  by (auto simp: Must_def split: prod.splits sum.splits)

lemma operator_init_ok_iff:
  "operator_init S w = (Inr (), w') \<longleftrightarrow>
     (\<exists>w\<^sub>1 w\<^sub>2 w\<^sub>3 w\<^sub>4. ClientGo_AddToScheme S w = (Inr (), w\<^sub>1) \<and> ApiExtensions_AddToScheme S w\<^sub>1 = (Inr (), w\<^sub>2) \<and>
        ConfigV1_Install S w\<^sub>2 = (Inr (), w\<^sub>3) \<and> Components_AddToScheme S w\<^sub>3 = (Inr (), w\<^sub>4) \<and>
        DSCI_AddToScheme S w\<^sub>4 = (Inr (), w'))"
  by (simp add: operator_init_def comp_result_iffs Must_Inr_iff)

lemma NewCommand_simps [simp]: "Use (NewCommand run) = ''operator''" "RunE (NewCommand run) = Some run"
  by (simp_all add: NewCommand_def)

lemma process_operator:
  assumes "cobra_contract C"
  shows "process S C run [''operator''] w =
    (case operator_init S w of
       (Inl _, w') \<Rightarrow> (2, w')
     | (Inr _, w') \<Rightarrow>
         (case run w' of
            (Inl e, w'') \<Rightarrow> (if is_panic e then 2 else 1, w'')
          | (Inr _, w'') \<Rightarrow> (0, w'')))"
proof -
  have "C root [NewCommand run] [Use (NewCommand run)] v = run v" for root v
    using assms unfolding cobra_contract_def by (blast intro: NewCommand_simps)
  then have "C root [NewCommand run] [''operator''] v = run v" for root v by simp
  then show ?thesis
    by (auto simp: process_def main_def Let_def split: prod.split sum.split)
qed

text \<open>The outcome does not depend on the start of the manager unless the start gets there.\<close>

lemma run_operator_cases:
  "(\<exists>w'. \<forall>s. run_operator V env dirs (M\<lparr>Start := s\<rparr>) T E L zero b F B w = deferring (Cancel M) s w') \<or>
   (\<exists>e w'. \<forall>s. run_operator V env dirs (M\<lparr>Start := s\<rparr>) T E L zero b F B w = (Inl e, w'))"
proof (cases "Load V env dirs")
  case (Inl e)
  then show ?thesis
    by (simp add: run_operator_def and_then_def wrapping_def returned_run)
next
  case (Inr cf)
  obtain tls where tls: "resolves_to M T (settings_made M cf w) tls"
    using resolves_to_exists [of M T "settings_made M cf w"] by (rule exE)
  obtain e w' where "run_plan (start_plan M T
      (\<lambda>mgr cf. NewReconciler E L b F B mgr cf (config_Release L zero cf)) cf tls) (settings_made M cf w) = (e, w')"
    by (rule prod.exhaust)
  then show ?thesis
    unfolding run_operator_loaded [OF Inr] start_with_plan [OF tls]
    by (cases e) (auto split: prod.split)
qed

text \<open>A start that succeeds has reached the manager.\<close>

lemma run_operator_Inr_iff:
  "run_operator V env dirs M T E L zero b F B w = (Inr (), w\<^sub>2) \<longleftrightarrow>
   (\<exists>w' w\<^sub>3. (\<forall>s. run_operator V env dirs (M\<lparr>Start := s\<rparr>) T E L zero b F B w = deferring (Cancel M) s w') \<and>
      Start M w' = (Inr (), w\<^sub>3) \<and> w\<^sub>2 = Cancel M w\<^sub>3)"
  (is "?run M = _ \<longleftrightarrow> ?started")
proof
  assume ok: "?run M = (Inr (), w\<^sub>2)"
  have M: "?run (M\<lparr>Start := Start M\<rparr>) = ?run M" by simp
  have "\<not> (\<exists>e w'. \<forall>s. ?run (M\<lparr>Start := s\<rparr>) = (Inl e, w'))"
  proof
    assume "\<exists>e w'. \<forall>s. ?run (M\<lparr>Start := s\<rparr>) = (Inl e, w')"
    then obtain e w' where "?run (M\<lparr>Start := Start M\<rparr>) = (Inl e, w')" by blast
    then show False using ok M by simp
  qed
  then obtain w' where w': "\<forall>s. ?run (M\<lparr>Start := s\<rparr>) = deferring (Cancel M) s w'"
    using run_operator_cases [of V env dirs M T E L zero b F B w] by blast
  then have "deferring (Cancel M) (Start M) w' = (Inr (), w\<^sub>2)"
    using ok M by metis
  then obtain w\<^sub>3 where "Start M w' = (Inr (), w\<^sub>3)" "w\<^sub>2 = Cancel M w\<^sub>3"
    by (auto simp: deferring_def split: prod.splits)
  with w' show ?started by blast
next
  assume ?started
  then obtain w' where "?run (M\<lparr>Start := Start M\<rparr>) = deferring (Cancel M) (Start M) w'"
      "deferring (Cancel M) (Start M) w' = (Inr (), w\<^sub>2)"
    by (fastforce simp: deferring_def)
  then show "?run M = (Inr (), w\<^sub>2)" by simp
qed

text \<open>
  C26. The exit status of \<^verbatim>\<open>ai-gateway-operator operator\<close> tells how the process ended.
  It is 0 exactly when the types were registered, every step before the manager succeeded, so that
  the result is that of the manager, and the manager returned without an error; 1 exactly when the
  registration succeeded and \<^verbatim>\<open>run\<close> returned an error; and 2 for a panic. A sub-command
  that does not exist gives status 1 with nothing run after the registration.
\<close>

theorem exit_status:
  assumes "cobra_contract C"
  shows "(fst (process S C (run_operator V env dirs M T E L zero b F B) [''operator''] w) = 0 \<longleftrightarrow>
      (\<exists>w\<^sub>1 w\<^sub>2 w\<^sub>3. operator_init S w = (Inr (), w\<^sub>1) \<and>
        (\<forall>s. run_operator V env dirs (M\<lparr>Start := s\<rparr>) T E L zero b F B w\<^sub>1 = deferring (Cancel M) s w\<^sub>2) \<and>
        Start M w\<^sub>2 = (Inr (), w\<^sub>3))) \<and>
    (fst (process S C (run_operator V env dirs M T E L zero b F B) [''operator''] w) = 1 \<longleftrightarrow>
      (\<exists>w\<^sub>1 e w\<^sub>2. operator_init S w = (Inr (), w\<^sub>1) \<and> \<not> is_panic e \<and>
        run_operator V env dirs M T E L zero b F B w\<^sub>1 = (Inl e, w\<^sub>2))) \<and>
    fst (process S C (run_operator V env dirs M T E L zero b F B) [''operator''] w) \<le> 2 \<and>
    (\<forall>w\<^sub>1 run. operator_init S w = (Inr (), w\<^sub>1) \<longrightarrow> process S C run [''operators''] w = (1, w\<^sub>1))"
proof (intro conjI allI impI)
  let ?run = "run_operator V env dirs M T E L zero b F B"
  note po = process_operator [OF assms, of S ?run w]
  have "fst (process S C ?run [''operator''] w) = 0 \<longleftrightarrow>
      (\<exists>w\<^sub>1 w\<^sub>3. operator_init S w = (Inr (), w\<^sub>1) \<and> ?run w\<^sub>1 = (Inr (), w\<^sub>3))"
    by (auto simp: po split: prod.splits sum.splits)
  then show "fst (process S C ?run [''operator''] w) = 0 \<longleftrightarrow>
      (\<exists>w\<^sub>1 w\<^sub>2 w\<^sub>3. operator_init S w = (Inr (), w\<^sub>1) \<and>
        (\<forall>s. run_operator V env dirs (M\<lparr>Start := s\<rparr>) T E L zero b F B w\<^sub>1 = deferring (Cancel M) s w\<^sub>2) \<and>
        Start M w\<^sub>2 = (Inr (), w\<^sub>3))"
    unfolding run_operator_Inr_iff by blast
  show "fst (process S C ?run [''operator''] w) = 1 \<longleftrightarrow>
      (\<exists>w\<^sub>1 e w\<^sub>2. operator_init S w = (Inr (), w\<^sub>1) \<and> \<not> is_panic e \<and> ?run w\<^sub>1 = (Inl e, w\<^sub>2))"
    by (auto simp: po split: prod.splits sum.splits)
  show "fst (process S C ?run [''operator''] w) \<le> 2"
    by (auto simp: po split: prod.splits sum.splits)
  fix w\<^sub>1 run assume "operator_init S w = (Inr (), w\<^sub>1)"
  moreover have "\<exists>e. \<not> is_panic e \<and> C \<lparr>Use = operatorName, Short = '''', SilenceUsage = True, RunE = None\<rparr>
      [NewCommand run] [''operators''] w\<^sub>1 = (Inl e, w\<^sub>1)"
    using assms by (simp add: cobra_contract_def)
  ultimately show "process S C run [''operators''] w = (1, w\<^sub>1)"
    by (auto simp: process_def main_def Let_def)
qed

section \<open>A start that succeeds\<close>

definition plain_cobra :: "'w cobra_lib" where
  "plain_cobra root subs args w =
     (case args of
        [a] \<Rightarrow>
          (case filter (\<lambda>c. Use c = a) subs of
             c # _ \<Rightarrow> (case RunE c of Some r \<Rightarrow> r w | None \<Rightarrow> (Inr (), w))
           | [] \<Rightarrow> (Inl (External ''unknown command''), w))
      | _ \<Rightarrow> (Inr (), w))"

lemma plain_cobra_contract: "cobra_contract plain_cobra"
  by (simp add: cobra_contract_def plain_cobra_def)

definition plain_scheme :: "'w scheme_lib" where
  "plain_scheme = \<lparr>ClientGo_AddToScheme = ok (), ApiExtensions_AddToScheme = ok (), ConfigV1_Install = ok (),
     Components_AddToScheme = ok (), DSCI_AddToScheme = ok ()\<rparr>"

definition plain_manager :: "(mem, unit) comp \<Rightarrow> mem manager_lib" where
  "plain_manager start = \<lparr>ViperSet = (\<lambda>k v w. w),
     SetRHAIApplicationNamespace = (\<lambda>ns w. w), NewClient = ok (), NewManager = (\<lambda>opts. ok ()),
     AddHealthzCheck = (\<lambda>n. ok ()), AddReadyzCheck = (\<lambda>n. ok ()), Cancel = (\<lambda>w. w), Start = start\<rparr>"

definition plain_builder :: "(mem, conds, 's, unit) builder" where
  "plain_builder = \<lparr>CoreosServiceMonitor = \<lparr>gvk_group = ''monitoring.coreos.com'', gvk_version = ''v1'',
       gvk_kind = ''ServiceMonitor''\<rparr>, DefaultDeploymentPredicate = (\<lambda>ev. True),
     Build = (\<lambda>mgr spec. ok ()), set_release = (\<lambda>rel r. r)\<rparr>"

definition mounted_env :: env where
  "mounted_env n = (if n = ConfigPathEnvVar then ''/etc/config'' else sample_env n)"

lemma mounted_load:
  "\<exists>cf. Load (layered_viper (\<lambda>_. Inr [])) mounted_env (\<lambda>_. Inr sample_dir) = Inr cf"
proof -
  have "\<exists>c. LoadFromFS (layered_viper (\<lambda>_. Inr [])) mounted_env (Some (Inr sample_dir)) = Inr c"
  proof (rule layered_load_returns [OF sample_dir_simple])
    have "mounted_env (variable KeyMetricsSecure) = ''''" "mounted_env (variable KeyLeaderElect) = ''''"
      by code_simp+
    then show "\<forall>k \<in> {KeyMetricsSecure, KeyLeaderElect}. mounted_env (variable k) = '''' \<and>
        file_settings (layered_parsed (\<lambda>_. Inr [])) sample_dir k = None"
      by (simp add: sample_dir_settings key_defs)
  qed simp
  then show ?thesis
    by (simp add: Load_def mounted_env_def)
qed

lemma NewModule_mem_ok:
  assumes "NewSemVer decimal_lib (Version b) = Inr v"
  shows "\<exists>m w'. NewModule mem_lib decimal_lib b cf w = (Inr m, w')"
proof -
  have "\<exists>w'. update_images mem_lib mi images extra w = (Inr (), w')" for mi images extra w
    by (simp add: update_images_def wrapping_def apply_params_def mem_apply_params_def split: option.split)
  then obtain f where "update_images mem_lib mi images extra w = (Inr (), f mi images extra w)" for mi images extra w
    by metis
  then show ?thesis
    by (simp add: NewModule_def Let_def comp_simps returned_run assms)
qed

definition plain_run :: "(mem, unit) comp \<Rightarrow> (mem, unit) comp" where
  "plain_run start = run_operator (layered_viper (\<lambda>_. Inr [])) mounted_env (\<lambda>_. Inr sample_dir)
     (plain_manager start) (tls_cluster (Inr mixed_profile)) mem_lib decimal_lib
     (0, 0, 0) (default_build\<lparr>Version := ''v0.7''\<rparr>) plain_framework plain_builder"

lemma plain_run_starts: "\<exists>w'. \<forall>start. plain_run start w = start w'"
proof -
  obtain cf where cf: "Load (layered_viper (\<lambda>_. Inr [])) mounted_env (\<lambda>_. Inr sample_dir) = Inr cf"
    using mounted_load by blast
  have "NewSemVer decimal_lib (Version (default_build\<lparr>Version := ''v0.7''\<rparr>)) = Inr ''0.7.0''"
    by code_simp
  then obtain m w' where m: "NewModule mem_lib decimal_lib (default_build\<lparr>Version := ''v0.7''\<rparr>) cf w = (Inr m, w')"
    using NewModule_mem_ok by blast
  have "SetupWatcher (tls_cluster (Inr mixed_profile)) r f v = (Inr (), v)" for r f and v :: mem
    by (simp add: SetupWatcher_def tls_cluster_def comp_simps)
  then have "plain_run start w = start w'" for start
    by (simp add: plain_run_def run_operator_def start_with_def plain_manager_def cf comp_simps returned_run
        tls_cluster_run NewReconciler_def m plain_builder_def deferring_def split: prod.split)
  then show ?thesis by blast
qed

text \<open>The ready check cannot be added: the start ends with that error under its own message.\<close>

definition unready :: "mem manager_lib" where
  "unready = (plain_manager (ok ()))\<lparr>AddReadyzCheck := (\<lambda>n. fail (External ''started''))\<rparr>"

theorem run_starts_or_reports_witness:
  "\<exists>w'. run_operator (layered_viper (\<lambda>_. Inr [])) mounted_env (\<lambda>_. Inr sample_dir) unready
     (tls_cluster (Inr mixed_profile)) mem_lib decimal_lib (0, 0, 0) (default_build\<lparr>Version := ''v0.7''\<rparr>)
     plain_framework plain_builder empty_mem =
       (Inl (wrapf ''setting up ready check: %w'' [] (External ''started'')), w')"
proof -
  let ?T = "tls_cluster (Inr mixed_profile) :: mem tls_lib"
  obtain cf where cf: "Load (layered_viper (\<lambda>_. Inr [])) mounted_env (\<lambda>_. Inr sample_dir) = Inr cf"
    using mounted_load by blast
  have "NewSemVer decimal_lib (Version (default_build\<lparr>Version := ''v0.7''\<rparr>)) = Inr ''0.7.0''"
    by code_simp
  then obtain m w' where m: "NewModule mem_lib decimal_lib (default_build\<lparr>Version := ''v0.7''\<rparr>) cf empty_mem =
      (Inr m, w')"
    using NewModule_mem_ok by blast
  have resolves: "resolves_to unready ?T w r" if "Resolve ?T w = (Inr r, w)" for w r
    using that by (simp add: resolves_to_def unready_def plain_manager_def ok_run)
  have settings: "settings_made unready cf empty_mem = empty_mem" for cf
    by (simp add: settings_made_def unready_def plain_manager_def)
  have start: "unready\<lparr>Start := ok ()\<rparr> = unready"
    by (simp add: unready_def plain_manager_def)
  note plan = run_starts_or_reports [where M = unready and T = ?T and w = empty_mem and s = "ok ()",
      OF resolves, unfolded start settings, OF tls_cluster_run]
  show ?thesis
    unfolding plan
    by (simp add: cf start_plan_def ignoring_def comp_simps tls_cluster_run NewReconciler_def m settings
        unready_def plain_manager_def plain_builder_def watcher_message_def)
qed

text \<open>The manager returns without an error; or it returns an error, and the status is 1.\<close>

theorem exit_status_witness:
  "fst (process plain_scheme plain_cobra (plain_run (ok ())) [''operator''] empty_mem) = 0 \<and>
   fst (process plain_scheme plain_cobra (plain_run (fail (External ''leader election lost''))) [''operator'']
     empty_mem) = 1"
proof -
  have init: "operator_init plain_scheme empty_mem = (Inr (), empty_mem)"
    by (simp add: operator_init_def Must_def plain_scheme_def comp_simps)
  obtain w' where run: "\<And>start. plain_run start empty_mem = start w'"
    using plain_run_starts by blast
  have set: "plain_manager s\<lparr>Start := t\<rparr> = plain_manager t" for s t
    by (simp add: plain_manager_def)
  have st: "Start (plain_manager s) = s" for s
    by (simp add: plain_manager_def)
  have cancels: "deferring (Cancel (plain_manager t)) s w = s w" for s t w
    by (simp add: plain_manager_def deferring_def split: prod.split)
  note E = exit_status [OF plain_cobra_contract, of plain_scheme "layered_viper (\<lambda>_. Inr [])" mounted_env
      "\<lambda>_. Inr sample_dir" "plain_manager _" "tls_cluster (Inr mixed_profile)" mem_lib decimal_lib
      "(0, 0, 0)" "default_build\<lparr>Version := ''v0.7''\<rparr>" plain_framework plain_builder empty_mem,
      unfolded set st cancels, folded plain_run_def]
  show ?thesis
    using E [of "ok ()"] E [of "fail (External ''leader election lost'')"]
    by (auto simp: init run ok_run fail_run)
qed

end
