(* ===== verification/Store.thy ===== *)
theory Store
  imports Prelude
begin

text \<open>
  An explicit store for the parts of the program where aliasing matters: arrays are cells addressed
  by their position, allocation appends a cell, a pointer is an element of a cell and a slice a window
  of one. The locale \<open>deep_copier\<close> is the contract of the \<^verbatim>\<open>DeepCopyInto\<close>
  methods: the copy shows the same value and shares no cell with anything that existed before.
\<close>

section \<open>Cells, pointers and slices\<close>

text \<open>
  A cell holds an array of one element type; a \<open>kind\<close> injects arrays of one type into the
  cells and reads them back. A single variable is an array of one element.
\<close>

record ('a, 'c) kind =
  into :: "'a list \<Rightarrow> 'c"
  from_cell :: "'c \<Rightarrow> 'a list"

definition kind_ok :: "('a, 'c) kind \<Rightarrow> bool" where
  "kind_ok K \<longleftrightarrow> (\<forall>xs. from_cell K (into K xs) = xs)"

type_synonym pointer = "nat \<times> nat"

text \<open>A slice header: array, offset, length and capacity. The nil slice is \<open>None\<close>.\<close>

record slice =
  s_array :: nat
  s_offset :: nat
  s_len :: nat
  s_cap :: nat

definition read_array :: "('a, 'c) kind \<Rightarrow> 'c list \<Rightarrow> nat \<Rightarrow> 'a list" where
  "read_array K st a = from_cell K (st ! a)"

definition load :: "('a, 'c) kind \<Rightarrow> 'c list \<Rightarrow> pointer \<Rightarrow> 'a" where
  "load K st p = read_array K st (fst p) ! snd p"

definition write_elem :: "('a, 'c) kind \<Rightarrow> pointer \<Rightarrow> 'a \<Rightarrow> 'c list \<Rightarrow> 'c list" where
  "write_elem K p v st = st[fst p := into K ((read_array K st (fst p))[snd p := v])]"

definition slice_items :: "('a, 'c) kind \<Rightarrow> 'c list \<Rightarrow> slice \<Rightarrow> 'a list" where
  "slice_items K st s = take (s_len s) (drop (s_offset s) (read_array K st (s_array s)))"

text \<open>What Go's type system and its bounds checks guarantee of every slice and pointer.\<close>

definition slice_ok :: "('a, 'c) kind \<Rightarrow> 'c list \<Rightarrow> slice \<Rightarrow> bool" where
  "slice_ok K st s \<longleftrightarrow> s_array s < length st \<and> s_len s \<le> s_cap s \<and>
     s_offset s + s_cap s \<le> length (read_array K st (s_array s))"

definition pointer_ok :: "('a, 'c) kind \<Rightarrow> 'c list \<Rightarrow> pointer \<Rightarrow> bool" where
  "pointer_ok K st p \<longleftrightarrow> fst p < length st \<and> snd p < length (read_array K st (fst p))"

text \<open>\<^verbatim>\<open>make([]T, n)\<close>, \<^verbatim>\<open>new(T)\<close> and the built-in \<^verbatim>\<open>copy(dst, src)\<close>\<close>

definition make_slice :: "('a, 'c) kind \<Rightarrow> 'a \<Rightarrow> nat \<Rightarrow> 'c list \<Rightarrow> slice \<times> 'c list" where
  "make_slice K zero n st =
     (\<lparr>s_array = length st, s_offset = 0, s_len = n, s_cap = n\<rparr>, st @ [into K (replicate n zero)])"

definition new_elem :: "('a, 'c) kind \<Rightarrow> 'a \<Rightarrow> 'c list \<Rightarrow> pointer \<times> 'c list" where
  "new_elem K zero st = ((length st, 0), st @ [into K [zero]])"

definition copy_slice :: "('a, 'c) kind \<Rightarrow> slice \<Rightarrow> slice \<Rightarrow> 'c list \<Rightarrow> 'c list" where
  "copy_slice K dst src st =
     (let n = min (s_len dst) (s_len src); old = read_array K st (s_array dst)
      in st[s_array dst := into K (take (s_offset dst) old @ take n (slice_items K st src) @
             drop (s_offset dst + n) old)])"

section \<open>The contract of a deep copy\<close>

definition unchanged_on :: "nat set \<Rightarrow> 'c list \<Rightarrow> 'c list \<Rightarrow> bool" where
  "unchanged_on A st st' \<longleftrightarrow> length st \<le> length st' \<and> (\<forall>a\<in>A. st' ! a = st ! a)"

lemma unchanged_on_prefix: "prefix st st' \<Longrightarrow> A \<subseteq> {..<length st} \<Longrightarrow> unchanged_on A st st'"
  by (auto simp: unchanged_on_def prefix_def nth_append)

lemma unchanged_on_mono: "unchanged_on A st st' \<Longrightarrow> B \<subseteq> A \<Longrightarrow> unchanged_on B st st'"
  by (auto simp: unchanged_on_def)

lemma unchanged_on_trans:
  "unchanged_on A st st' \<Longrightarrow> unchanged_on A st' st'' \<Longrightarrow> unchanged_on A st st''"
  by (auto simp: unchanged_on_def)

lemma unchanged_on_update: "a \<notin> A \<Longrightarrow> unchanged_on A st (st[a := c])"
  unfolding unchanged_on_def by (metis length_list_update nth_list_update_neq order_refl)

lemma prefix_update: "prefix st st' \<Longrightarrow> length st \<le> a \<Longrightarrow> prefix st (st'[a := c])"
  by (auto simp: prefix_def list_update_append)

text \<open>
  A value has a footprint (\<open>refs\<close>: the cells it reaches) and a \<open>view\<close>, what reading all
  of it shows.
\<close>

locale deep_copier =
  fixes copy_into :: "'a \<Rightarrow> 'c list \<Rightarrow> 'a \<times> 'c list"
    and valid :: "'c list \<Rightarrow> 'a \<Rightarrow> bool"
    and refs :: "'c list \<Rightarrow> 'a \<Rightarrow> nat set"
    and view :: "'c list \<Rightarrow> 'a \<Rightarrow> 'v"
  assumes refs_bound: "valid st x \<Longrightarrow> refs st x \<subseteq> {..<length st}"
    and framed: "valid st x \<Longrightarrow> unchanged_on (refs st x) st st' \<Longrightarrow>
      valid st' x \<and> refs st' x = refs st x \<and> view st' x = view st x"
    and copies: "valid st x \<Longrightarrow> copy_into x st = (y, st') \<Longrightarrow>
      prefix st st' \<and> valid st' y \<and> refs st' y \<inter> {..<length st} = {} \<and> view st' y = view st x"
begin

lemma extended:
  "valid st x \<Longrightarrow> prefix st st' \<Longrightarrow> valid st' x \<and> refs st' x = refs st x \<and> view st' x = view st x"
  by (rule framed) (auto intro: unchanged_on_prefix dest: refs_bound)

lemma copy_shares_nothing:
  assumes "valid st x" "copy_into x st = (y, st')"
  shows "refs st' x \<inter> refs st' y = {}"
  using refs_bound [OF assms(1)] copies [OF assms] extended [OF assms(1)] by blast

text \<open>Writes that reach only what the copy reaches, and new cells, do not show in the original.\<close>

lemma writes_to_copy_invisible:
  assumes x: "valid st x" and c: "copy_into x st = (y, st')"
    and w: "unchanged_on (- refs st' y) st' st''"
  shows "view st'' x = view st x"
proof -
  have "prefix st st'" using copies [OF x c] by blast
  note ext = extended [OF x this]
  have "unchanged_on (refs st' x) st' st''"
    using w by (rule unchanged_on_mono) (use copy_shares_nothing [OF x c] in blast)
  then show ?thesis
    using framed [of st' x st''] ext by simp
qed

text \<open>Writes to cells that existed before the copy do not show in the copy.\<close>

lemma writes_to_original_invisible:
  assumes x: "valid st x" and c: "copy_into x st = (y, st')"
    and w: "unchanged_on (- {..<length st}) st' st''"
  shows "view st'' y = view st x"
proof -
  have "unchanged_on (refs st' y) st' st''"
    using w by (rule unchanged_on_mono) (use copies [OF x c] in blast)
  then show ?thesis
    using framed [of st' y st''] copies [OF x c] by simp
qed

end

text \<open>What a copy \<open>y\<close> in \<open>st'\<close> of \<open>x\<close> in \<open>st\<close> is for its callers.\<close>

definition independent_copy ::
  "('c list \<Rightarrow> 'a \<Rightarrow> nat set) \<Rightarrow> ('c list \<Rightarrow> 'a \<Rightarrow> 'v) \<Rightarrow> 'c list \<Rightarrow> 'a \<Rightarrow> 'c list \<Rightarrow> 'a \<Rightarrow> bool" where
  "independent_copy refs view st x st' y \<longleftrightarrow>
     view st' x = view st x \<and> view st' y = view st x \<and> refs st' x \<inter> refs st' y = {} \<and>
     (\<forall>st''. unchanged_on (- refs st' y) st' st'' \<longrightarrow> view st'' x = view st x) \<and>
     (\<forall>st''. unchanged_on (- {..<length st}) st' st'' \<longrightarrow> view st'' y = view st x)"

lemma independent_copy_view: "independent_copy refs view st x st' y \<Longrightarrow> view st' y = view st x"
  by (simp add: independent_copy_def)

context deep_copier
begin

lemma copy_is_independent:
  assumes "valid st x" "copy_into x st = (y, st')"
  shows "independent_copy refs view st x st' y"
  unfolding independent_copy_def
  using copies [OF assms] extended [OF assms(1), of st'] copy_shares_nothing [OF assms]
    writes_to_copy_invisible [OF assms] writes_to_original_invisible [OF assms]
  by (intro conjI) blast+

end

section \<open>Copiers of composed values\<close>

text \<open>A type without pointers is copied by assignment.\<close>

definition assign_copy :: "'a \<Rightarrow> 'c list \<Rightarrow> 'a \<times> 'c list" where
  "assign_copy x st = (x, st)"

lemma deep_copier_assign: "deep_copier assign_copy (\<lambda>st x. True) (\<lambda>st x. {}) (\<lambda>st x. x)"
  by unfold_locales (auto simp: assign_copy_def)

text \<open>One value after the other.\<close>

definition copy_both ::
  "('a \<Rightarrow> 'c list \<Rightarrow> 'a \<times> 'c list) \<Rightarrow> ('b \<Rightarrow> 'c list \<Rightarrow> 'b \<times> 'c list) \<Rightarrow>
   'a \<times> 'b \<Rightarrow> 'c list \<Rightarrow> ('a \<times> 'b) \<times> 'c list" where
  "copy_both c d p st = (let (x, st) = c (fst p) st; (y, st) = d (snd p) st in ((x, y), st))"

lemma deep_copier_both:
  assumes c: "deep_copier c vc rc wc" and d: "deep_copier d vd rd wd"
  shows "deep_copier (copy_both c d) (\<lambda>st p. vc st (fst p) \<and> vd st (snd p))
    (\<lambda>st p. rc st (fst p) \<union> rd st (snd p)) (\<lambda>st p. (wc st (fst p), wd st (snd p)))"
proof unfold_locales
  fix st p assume "vc st (fst p) \<and> vd st (snd p)"
  then show "rc st (fst p) \<union> rd st (snd p) \<subseteq> {..<length st}"
    using deep_copier.refs_bound [OF c] deep_copier.refs_bound [OF d] by blast
next
  fix st p and st' :: "'b list"
  assume "vc st (fst p) \<and> vd st (snd p)" "unchanged_on (rc st (fst p) \<union> rd st (snd p)) st st'"
  then show "(vc st' (fst p) \<and> vd st' (snd p)) \<and>
      rc st' (fst p) \<union> rd st' (snd p) = rc st (fst p) \<union> rd st (snd p) \<and>
      (wc st' (fst p), wd st' (snd p)) = (wc st (fst p), wd st (snd p))"
    using deep_copier.framed [OF c, of st "fst p" st'] deep_copier.framed [OF d, of st "snd p" st']
    by (simp add: unchanged_on_mono)
next
  fix st p q st'
  assume v: "vc st (fst p) \<and> vd st (snd p)" and "copy_both c d p st = (q, st')"
  then obtain x y st1 where 1: "c (fst p) st = (x, st1)" and 2: "d (snd p) st1 = (y, st')"
    and q: "q = (x, y)"
    by (auto simp: copy_both_def split: prod.splits)
  note C = deep_copier.copies [OF c _ 1]
  then have ext: "vd st1 (snd p) \<and> rd st1 (snd p) = rd st (snd p) \<and> wd st1 (snd p) = wd st (snd p)"
    using v deep_copier.extended [OF d] by blast
  note D = deep_copier.copies [OF d _ 2]
  then have "vc st' x \<and> rc st' x = rc st1 x \<and> wc st' x = wc st1 x"
    using v C ext deep_copier.extended [OF c, of st1 x st'] by blast
  then show "prefix st st' \<and> (vc st' (fst q) \<and> vd st' (snd q)) \<and>
      (rc st' (fst q) \<union> rd st' (snd q)) \<inter> {..<length st} = {} \<and>
      (wc st' (fst q), wd st' (snd q)) = (wc st (fst p), wd st (snd p))"
    using v C D ext q prefix_length_le [of st st1] by (fastforce intro: prefix_order.trans)
qed

text \<open>A structure whose pointers are reached through one part of it.\<close>

lemma deep_copier_part:
  assumes c: "deep_copier c v r w"
    and copy: "\<And>x st. copy x st = (case c (part x) st of (y, st') \<Rightarrow> (put y x, st'))"
    and put: "\<And>y x. part (put y x) = y" "\<And>y x. rest (put y x) = rest x"
    and valid: "\<And>st x. valid st x = v st (part x)"
    and refs: "\<And>st x. refs st x = r st (part x)"
    and view: "\<And>st x. view st x = join (w st (part x)) (rest x)"
  shows "deep_copier copy valid refs view"
proof unfold_locales
  fix st x assume "valid st x"
  then show "refs st x \<subseteq> {..<length st}"
    using deep_copier.refs_bound [OF c] by (simp add: valid refs)
next
  fix st x and st' :: "'b list"
  assume "valid st x" "unchanged_on (refs st x) st st'"
  then show "valid st' x \<and> refs st' x = refs st x \<and> view st' x = view st x"
    using deep_copier.framed [OF c] unfolding valid refs view by metis
next
  fix st x y st' assume v: "valid st x" and "copy x st = (y, st')"
  then obtain z where 1: "c (part x) st = (z, st')" and y: "y = put z x"
    by (auto simp: copy split: prod.splits)
  then show "prefix st st' \<and> valid st' y \<and> refs st' y \<inter> {..<length st} = {} \<and> view st' y = view st x"
    using deep_copier.copies [OF c _ 1] v by (simp add: put valid refs view)
qed

section \<open>Copiers of slices and pointers\<close>

text \<open>
  The two loops controller-gen writes for a slice: one \<^verbatim>\<open>DeepCopyInto\<close> per element, or
  \<^verbatim>\<open>copy\<close> when the elements have no pointers. A nil slice stays nil.
\<close>

definition copy_elem ::
  "('a, 'c) kind \<Rightarrow> ('a \<Rightarrow> 'c list \<Rightarrow> 'a \<times> 'c list) \<Rightarrow> slice \<Rightarrow> slice \<Rightarrow> nat \<Rightarrow> 'c list \<Rightarrow> 'c list" where
  "copy_elem K c src dst i st =
     (let (y, st) = c (slice_items K st src ! i) st
      in write_elem K (s_array dst, s_offset dst + i) y st)"

definition copy_items ::
  "('a, 'c) kind \<Rightarrow> 'a \<Rightarrow> ('a \<Rightarrow> 'c list \<Rightarrow> 'a \<times> 'c list) \<Rightarrow> slice option \<Rightarrow> 'c list \<Rightarrow> slice option \<times> 'c list" where
  "copy_items K zero c s st =
     (case s of
        None \<Rightarrow> (None, st)
      | Some src \<Rightarrow>
          (let (dst, st) = make_slice K zero (s_len src) st
           in (Some dst, fold (copy_elem K c src dst) [0..<s_len src] st)))"

definition copy_flat_items ::
  "('a, 'c) kind \<Rightarrow> 'a \<Rightarrow> slice option \<Rightarrow> 'c list \<Rightarrow> slice option \<times> 'c list" where
  "copy_flat_items K zero s st =
     (case s of
        None \<Rightarrow> (None, st)
      | Some src \<Rightarrow>
          (let (dst, st) = make_slice K zero (s_len src) st
           in (Some dst, copy_slice K dst src st)))"

definition slice_valid ::
  "('a, 'c) kind \<Rightarrow> ('c list \<Rightarrow> 'a \<Rightarrow> bool) \<Rightarrow> 'c list \<Rightarrow> slice option \<Rightarrow> bool" where
  "slice_valid K v st so \<longleftrightarrow>
     (case so of None \<Rightarrow> True | Some s \<Rightarrow> slice_ok K st s \<and> (\<forall>x\<in>set (slice_items K st s). v st x))"

definition slice_refs ::
  "('a, 'c) kind \<Rightarrow> ('c list \<Rightarrow> 'a \<Rightarrow> nat set) \<Rightarrow> 'c list \<Rightarrow> slice option \<Rightarrow> nat set" where
  "slice_refs K r st so =
     (case so of None \<Rightarrow> {} | Some s \<Rightarrow> insert (s_array s) (\<Union>x\<in>set (slice_items K st s). r st x))"

definition slice_view ::
  "('a, 'c) kind \<Rightarrow> ('c list \<Rightarrow> 'a \<Rightarrow> 'v) \<Rightarrow> 'c list \<Rightarrow> slice option \<Rightarrow> 'v list option" where
  "slice_view K w st so = map_option (\<lambda>s. map (w st) (slice_items K st s)) so"

lemmas slice_defs = slice_valid_def slice_refs_def slice_view_def

lemma slice_items_same:
  "st' ! s_array s = st ! s_array s \<Longrightarrow> slice_items K st' s = slice_items K st s"
  by (simp add: slice_items_def read_array_def)

lemma slice_ok_same:
  "slice_ok K st s \<Longrightarrow> unchanged_on A st st' \<Longrightarrow> s_array s \<in> A \<Longrightarrow> slice_ok K st' s"
  by (auto simp: slice_ok_def unchanged_on_def read_array_def)

lemma length_slice_items: "slice_ok K st s \<Longrightarrow> length (slice_items K st s) = s_len s"
  by (auto simp: slice_ok_def slice_items_def)

text \<open>Validity, footprint and view of a slice depend on its footprint only, whatever copies it.\<close>

lemma slice_framed:
  assumes c: "deep_copier c v r w" and so: "slice_valid K v st so" "unchanged_on (slice_refs K r st so) st st'"
  shows "slice_valid K v st' so \<and> slice_refs K r st' so = slice_refs K r st so \<and>
    slice_view K w st' so = slice_view K w st so"
proof (cases so)
  case None
  then show ?thesis by (simp add: slice_defs)
next
  case (Some s)
  have items: "slice_items K st' s = slice_items K st s"
    using so(2) by (auto simp: Some slice_refs_def unchanged_on_def intro: slice_items_same)
  have "v st' x \<and> r st' x = r st x \<and> w st' x = w st x" if "x \<in> set (slice_items K st s)" for x
    using that so by (intro deep_copier.framed [OF c])
      (auto simp: Some slice_defs elim!: unchanged_on_mono)
  then show ?thesis
    using so slice_ok_same [OF _ so(2)] by (auto simp: Some slice_defs items)
qed

lemma slice_refs_bound:
  assumes "deep_copier c v r w" "slice_valid K v st so"
  shows "slice_refs K r st so \<subseteq> {..<length st}"
  using assms(2) deep_copier.refs_bound [OF assms(1)]
  by (fastforce simp: slice_defs slice_ok_def split: option.splits)

text \<open>A slice that \<open>make_slice\<close> has returned, over an array filled since.\<close>

definition whole :: "nat \<Rightarrow> nat \<Rightarrow> slice" where
  "whole a n = \<lparr>s_array = a, s_offset = 0, s_len = n, s_cap = n\<rparr>"

lemma whole_array [simp]: "s_array (whole a n) = a"
  by (simp add: whole_def)

lemma whole_slice:
  assumes "kind_ok K" "a < length st" "st ! a = into K ys"
  shows "slice_ok K st (whole a (length ys))" "slice_items K st (whole a (length ys)) = ys"
  using assms by (simp_all add: whole_def slice_ok_def slice_items_def read_array_def kind_ok_def)

lemma copy_flat_items_Some:
  assumes K: "kind_ok K" and ok: "slice_ok K st s"
  shows "copy_flat_items K zero (Some s) st =
    (Some (whole (length st) (s_len s)), st @ [into K (slice_items K st s)])"
proof -
  have "slice_items K (st @ [x]) s = slice_items K st s" for x
    using ok by (intro slice_items_same) (simp add: slice_ok_def nth_append)
  then show ?thesis
    using K length_slice_items [OF ok]
    by (simp add: copy_flat_items_def make_slice_def copy_slice_def whole_def Let_def kind_ok_def
        read_array_def)
qed

lemma deep_copier_flat_items:
  assumes K: "kind_ok K"
  shows "deep_copier (copy_flat_items K zero) (slice_valid K (\<lambda>st x. True)) (slice_refs K (\<lambda>st x. {}))
    (slice_view K (\<lambda>st x. x))"
proof unfold_locales
  fix st so so' st'
  assume v: "slice_valid K (\<lambda>st x. True) st so" and c: "copy_flat_items K zero so st = (so', st')"
  show "prefix st st' \<and> slice_valid K (\<lambda>st x. True) st' so' \<and>
      slice_refs K (\<lambda>st x. {}) st' so' \<inter> {..<length st} = {} \<and>
      slice_view K (\<lambda>st x. x) st' so' = slice_view K (\<lambda>st x. x) st so"
  proof (cases so)
    case None
    then show ?thesis using c by (simp add: copy_flat_items_def slice_defs)
  next
    case (Some s)
    then have ok: "slice_ok K st s" using v by (simp add: slice_defs)
    then show ?thesis
      using c copy_flat_items_Some [OF K ok] length_slice_items [OF ok]
        whole_slice [OF K, of "length st" "st @ [into K (slice_items K st s)]" "slice_items K st s"]
      by (auto simp: Some slice_defs)
  qed
qed (rule slice_refs_bound [OF deep_copier_assign] slice_framed [OF deep_copier_assign], assumption+)+

text \<open>
  The loop over the elements, after \<open>k\<close> of them: the old cells are as they were, the first
  \<open>k\<close> elements of the new array show what the old ones show, and reach only cells newer than
  the array itself.
\<close>

definition copied ::
  "('a, 'c) kind \<Rightarrow> ('c list \<Rightarrow> 'a \<Rightarrow> bool) \<Rightarrow> ('c list \<Rightarrow> 'a \<Rightarrow> nat set) \<Rightarrow> ('c list \<Rightarrow> 'a \<Rightarrow> 'v) \<Rightarrow>
   'c list \<Rightarrow> 'a list \<Rightarrow> nat \<Rightarrow> 'c list \<Rightarrow> bool" where
  "copied K v r w st xs k st' \<longleftrightarrow> prefix st st' \<and> length st < length st' \<and>
     (\<exists>ys. st' ! length st = into K ys \<and> length ys = length xs \<and>
       (\<forall>i<k. v st' (ys ! i) \<and> r st' (ys ! i) \<subseteq> {length st<..} \<and> w st' (ys ! i) = w st (xs ! i)))"

lemma copied_step:
  assumes c: "deep_copier c v r w" and K: "kind_ok K" and ok: "slice_ok K st s"
    and xs: "\<forall>x\<in>set (slice_items K st s). v st x"
    and k: "k < s_len s" and inv: "copied K v r w st (slice_items K st s) k st1"
  shows "copied K v r w st (slice_items K st s) (Suc k)
    (copy_elem K c s (whole (length st) (s_len s)) k st1)"
proof -
  let ?xs = "slice_items K st s" and ?a = "length st"
  obtain ys where p: "prefix st st1" "?a < length st1" and ys: "st1 ! ?a = into K ys" "length ys = length ?xs"
    and old: "\<And>i. i < k \<Longrightarrow> v st1 (ys ! i) \<and> r st1 (ys ! i) \<subseteq> {?a<..} \<and> w st1 (ys ! i) = w st (?xs ! i)"
    using inv by (auto simp: copied_def)
  have kx: "k < length ?xs" using k length_slice_items [OF ok] by simp
  have items: "slice_items K st1 s = ?xs"
    using ok p(1) by (intro slice_items_same) (auto simp: slice_ok_def prefix_def nth_append)
  have x: "v st1 (?xs ! k) \<and> w st1 (?xs ! k) = w st (?xs ! k)"
    using deep_copier.extended [OF c _ p(1)] xs kx by auto
  obtain y st2 where 2: "c (?xs ! k) st1 = (y, st2)" by fastforce
  note y = deep_copier.copies [OF c conjunct1 [OF x] 2]
  have a: "st2 ! ?a = into K ys" "?a < length st2"
    using y p(2) ys(1) by (auto simp: prefix_def nth_append)
  let ?st3 = "st2[?a := into K (ys[k := y])]"
  have step: "copy_elem K c s (whole ?a (s_len s)) k st1 = ?st3"
    using K 2 a by (simp add: copy_elem_def items write_elem_def read_array_def whole_def kind_ok_def)
  have keep: "v ?st3 z \<and> r ?st3 z \<subseteq> {?a<..} \<and> w ?st3 z = w st2 z"
    if "v st2 z" "r st2 z \<subseteq> {?a<..}" for z
    using that deep_copier.framed [OF c that(1), of ?st3] by (auto intro!: unchanged_on_update)
  have new: "v ?st3 y \<and> r ?st3 y \<subseteq> {?a<..} \<and> w ?st3 y = w st (?xs ! k)"
    using keep [of y] y x p(2) by fastforce
  have olds: "v ?st3 (ys ! i) \<and> r ?st3 (ys ! i) \<subseteq> {?a<..} \<and> w ?st3 (ys ! i) = w st (?xs ! i)" if "i < k" for i
    using keep [of "ys ! i"] old [OF that] deep_copier.extended [OF c _ conjunct1 [OF y], of "ys ! i"] by auto
  have "v ?st3 (ys[k := y] ! i) \<and> r ?st3 (ys[k := y] ! i) \<subseteq> {?a<..} \<and> w ?st3 (ys[k := y] ! i) = w st (?xs ! i)"
    if "i < Suc k" for i
    using that new olds [of i] ys(2) kx by (cases "i = k") simp_all
  moreover have "prefix st ?st3"
    using p(1) y by (auto intro: prefix_update prefix_order.trans)
  ultimately show ?thesis
    unfolding copied_def step using a ys(2) by (intro conjI exI [of _ "ys[k := y]"]) simp_all
qed

lemma copied_loop:
  assumes c: "deep_copier c v r w" and K: "kind_ok K" and ok: "slice_ok K st s"
    and xs: "\<forall>x\<in>set (slice_items K st s). v st x"
  shows "k \<le> s_len s \<Longrightarrow> copied K v r w st (slice_items K st s) k
    (fold (copy_elem K c s (whole (length st) (s_len s))) [0..<k] (st @ [into K (replicate (s_len s) zero)]))"
proof (induction k)
  case 0
  then show ?case
    using length_slice_items [OF ok] by (auto simp: copied_def intro!: exI [of _ "replicate (s_len s) zero"])
next
  case (Suc k)
  then show ?case
    using copied_step [OF c K ok xs] by simp
qed

lemma deep_copier_items:
  assumes c: "deep_copier c v r w" and K: "kind_ok K"
  shows "deep_copier (copy_items K zero c) (slice_valid K v) (slice_refs K r) (slice_view K w)"
proof unfold_locales
  fix st so so' st'
  assume v: "slice_valid K v st so" and cp: "copy_items K zero c so st = (so', st')"
  show "prefix st st' \<and> slice_valid K v st' so' \<and> slice_refs K r st' so' \<inter> {..<length st} = {} \<and>
      slice_view K w st' so' = slice_view K w st so"
  proof (cases so)
    case None
    then show ?thesis using cp by (simp add: copy_items_def slice_defs)
  next
    case (Some s)
    then have ok: "slice_ok K st s" and xs: "\<forall>x\<in>set (slice_items K st s). v st x"
      using v by (simp_all add: slice_defs)
    let ?a = "length st"
    have so': "so' = Some (whole ?a (s_len s))"
      and st': "st' = fold (copy_elem K c s (whole ?a (s_len s))) [0..<s_len s]
        (st @ [into K (replicate (s_len s) zero)])"
      using cp by (simp_all add: Some copy_items_def make_slice_def whole_def)
    have "copied K v r w st (slice_items K st s) (s_len s) st'"
      unfolding st' by (rule copied_loop [OF c K ok xs]) simp
    then obtain ys where p: "prefix st st'" "?a < length st'"
      and ys: "st' ! ?a = into K ys" "length ys = s_len s"
      and el: "\<forall>i<s_len s. v st' (ys ! i) \<and> r st' (ys ! i) \<subseteq> {?a<..} \<and>
        w st' (ys ! i) = w st (slice_items K st s ! i)"
      using length_slice_items [OF ok] by (auto simp: copied_def)
    note wh = whole_slice [OF K p(2) ys(1), unfolded ys(2)]
    have el': "v st' y \<and> r st' y \<subseteq> {?a<..}" if "y \<in> set ys" for y
      using that el ys(2) by (auto simp: in_set_conv_nth)
    have "map (w st') ys = map (w st) (slice_items K st s)"
      using el ys(2) length_slice_items [OF ok] by (intro nth_equalityI) simp_all
    moreover have "slice_refs K r st' so' \<inter> {..<?a} = {}"
      using el' wh(2) by (fastforce simp: so' slice_refs_def)
    ultimately show ?thesis
      using p(1) wh el' by (simp add: so' Some slice_valid_def slice_view_def)
  qed
qed (rule slice_refs_bound [OF c] slice_framed [OF c], assumption+)+

text \<open>
  \<^verbatim>\<open>DeepCopy\<close>: nil for nil, otherwise a new variable that \<^verbatim>\<open>DeepCopyInto\<close>
  fills. It writes the structure field by field; nothing reads it in between.
\<close>

definition copy_pointer ::
  "('a, 'c) kind \<Rightarrow> 'a \<Rightarrow> ('a \<Rightarrow> 'c list \<Rightarrow> 'a \<times> 'c list) \<Rightarrow> pointer option \<Rightarrow> 'c list \<Rightarrow> pointer option \<times> 'c list" where
  "copy_pointer K zero c p st =
     (case p of
        None \<Rightarrow> (None, st)
      | Some src \<Rightarrow>
          (let (out, st) = new_elem K zero st; (y, st) = c (load K st src) st
           in (Some out, write_elem K out y st)))"

text \<open>It is the copy of a slice of one element.\<close>

definition window :: "pointer \<Rightarrow> slice" where
  "window p = \<lparr>s_array = fst p, s_offset = snd p, s_len = 1, s_cap = 1\<rparr>"

lemma window_simps:
  assumes "pointer_ok K st p"
  shows "slice_ok K st (window p)" "slice_items K st (window p) = [load K st p]"
proof -
  have "take 1 (drop (snd p) (read_array K st (fst p))) = [load K st p]"
    using assms by (simp add: pointer_ok_def load_def take_Suc_conv_app_nth hd_drop_conv_nth take_Suc)
  then show "slice_items K st (window p) = [load K st p]"
    by (simp add: window_def slice_items_def)
qed (use assms in \<open>simp add: pointer_ok_def slice_ok_def window_def\<close>)

definition pointer_valid ::
  "('a, 'c) kind \<Rightarrow> ('c list \<Rightarrow> 'a \<Rightarrow> bool) \<Rightarrow> 'c list \<Rightarrow> pointer option \<Rightarrow> bool" where
  "pointer_valid K v st po \<longleftrightarrow>
     (case po of None \<Rightarrow> True | Some p \<Rightarrow> pointer_ok K st p \<and> v st (load K st p))"

definition pointer_refs ::
  "('a, 'c) kind \<Rightarrow> ('c list \<Rightarrow> 'a \<Rightarrow> nat set) \<Rightarrow> 'c list \<Rightarrow> pointer option \<Rightarrow> nat set" where
  "pointer_refs K r st po = (case po of None \<Rightarrow> {} | Some p \<Rightarrow> insert (fst p) (r st (load K st p)))"

definition pointer_view ::
  "('a, 'c) kind \<Rightarrow> ('c list \<Rightarrow> 'a \<Rightarrow> 'v) \<Rightarrow> 'c list \<Rightarrow> pointer option \<Rightarrow> 'v option" where
  "pointer_view K w st po = map_option (\<lambda>p. w st (load K st p)) po"

lemmas pointer_defs = pointer_valid_def pointer_refs_def pointer_view_def

lemma pointer_as_slice:
  assumes "pointer_ok K st p"
  shows "slice_valid K v st (Some (window p)) = pointer_valid K v st (Some p)"
    "slice_refs K r st (Some (window p)) = pointer_refs K r st (Some p)"
    "slice_view K w st (Some (window p)) = map_option (\<lambda>x. [x]) (pointer_view K w st (Some p))"
  using assms by (simp_all add: slice_defs pointer_defs window_simps) (simp add: window_def)

lemma window_ok: "slice_ok K st (window p) \<longleftrightarrow> pointer_ok K st p"
  by (auto simp: slice_ok_def window_def pointer_ok_def)

lemma copy_pointer_as_slice:
  assumes "pointer_ok K st p"
  shows "copy_items K zero c (Some (window p)) st =
    (case copy_pointer K zero c (Some p) st of (q, st') \<Rightarrow> (map_option window q, st'))"
proof -
  have "pointer_ok K (st @ [x]) p" for x
    using assms by (simp add: pointer_ok_def read_array_def nth_append)
  note items = window_simps(2) [OF this]
  show ?thesis
    using items [of "into K [zero]"]
    by (simp add: copy_items_def copy_pointer_def make_slice_def new_elem_def copy_elem_def window_def
        split: prod.splits)
qed

lemma pointer_framed:
  assumes c: "deep_copier c v r w" and po: "pointer_valid K v st po" "unchanged_on (pointer_refs K r st po) st st'"
  shows "pointer_valid K v st' po \<and> pointer_refs K r st' po = pointer_refs K r st po \<and>
    pointer_view K w st' po = pointer_view K w st po"
proof (cases po)
  case None
  then show ?thesis by (simp add: pointer_defs)
next
  case (Some p)
  have same: "st' ! fst p = st ! fst p"
    using po(2) by (simp add: Some pointer_refs_def unchanged_on_def)
  then have "load K st' p = load K st p" "pointer_ok K st' p"
    using po by (auto simp: Some pointer_defs load_def read_array_def pointer_ok_def unchanged_on_def)
  then show ?thesis
    using po deep_copier.framed [OF c, of st "load K st p" st'] unchanged_on_mono [OF po(2)]
    by (simp add: Some pointer_defs subset_insertI)
qed

lemma deep_copier_pointer:
  assumes c: "deep_copier c v r w" and K: "kind_ok K"
  shows "deep_copier (copy_pointer K zero c) (pointer_valid K v) (pointer_refs K r) (pointer_view K w)"
proof unfold_locales
  fix st po assume "pointer_valid K v st po"
  then show "pointer_refs K r st po \<subseteq> {..<length st}"
    using deep_copier.refs_bound [OF c] by (fastforce simp: pointer_defs pointer_ok_def split: option.splits)
next
  fix st po q st'
  assume v: "pointer_valid K v st po" and cp: "copy_pointer K zero c po st = (q, st')"
  show "prefix st st' \<and> pointer_valid K v st' q \<and> pointer_refs K r st' q \<inter> {..<length st} = {} \<and>
      pointer_view K w st' q = pointer_view K w st po"
  proof (cases po)
    case None
    then show ?thesis using cp by (simp add: copy_pointer_def pointer_defs)
  next
    case (Some p)
    then have p: "pointer_ok K st p" using v by (simp add: pointer_valid_def)
    obtain q' where q: "q = Some q'"
      using cp by (auto simp: Some copy_pointer_def split: prod.splits)
    have "prefix st st' \<and> slice_valid K v st' (Some (window q')) \<and>
        slice_refs K r st' (Some (window q')) \<inter> {..<length st} = {} \<and>
        slice_view K w st' (Some (window q')) = slice_view K w st (Some (window p))"
      using v copy_pointer_as_slice [OF p] cp
      by (intro deep_copier.copies [OF deep_copier_items [OF c K, of zero]])
        (simp_all add: Some q pointer_as_slice [OF p])
    moreover from this have "pointer_ok K st' q'"
      by (simp add: slice_valid_def window_ok)
    ultimately show ?thesis
      using p by (simp add: Some q pointer_as_slice) (simp add: pointer_view_def)
  qed
qed (rule pointer_framed [OF c])

end
