(* ===== verification/Deep_Copy.thy ===== *)
theory Deep_Copy
  imports Api_Types Store
begin

text \<open>
  The generated deep copies of \<^verbatim>\<open>api/components/v1alpha1/zz_generated.deepcopy.go\<close> over an
  explicit store. The structures appear here as Go lays them out, with slice headers where
  \<^verbatim>\<open>Api_Types\<close> has lists, because the assignment \<^verbatim>\<open>*out = *in\<close> copies the
  header and shares the array. The deep copies of the embedded library types (object and list
  metadata, the common status, the release status) are parameters with the contract
  \<open>deep_copier\<close>; \<^verbatim>\<open>metav1.TypeMeta\<close>, which is assigned, is a value without
  pointers.
\<close>

section \<open>Structures and cells\<close>

text \<open>
  The type parameter \<open>'src\<close> is a slice header in the store and a list of sources in a view;
  likewise for the library types and the items of a list.
\<close>

record 'src module_struct =
  md_version :: SemVer
  md_build_source :: string
  md_platform :: PlatformName
  md_sources :: 'src

record ('st, 'rel, 'src) status_struct =
  sd_status :: 'st
  sd_releases :: 'rel
  sd_module :: "'src module_struct"

record ('tm, 'om, 'st, 'rel, 'src) gateway_struct =
  gd_type :: 'tm
  gd_meta :: 'om
  gd_spec :: aigateway_spec
  gd_status :: "('st, 'rel, 'src) status_struct"

record ('tm, 'lm, 'items) gateway_list_struct =
  ld_type :: 'tm
  ld_meta :: 'lm
  ld_items :: 'items

type_synonym module_cell = "slice option module_struct"
type_synonym ('st, 'rel) status_cell = "('st, 'rel, slice option) status_struct"
type_synonym ('tm, 'om, 'st, 'rel) gateway_cell = "('tm, 'om, 'st, 'rel, slice option) gateway_struct"
type_synonym ('tm, 'lm) gateway_list_cell = "('tm, 'lm, slice option) gateway_list_struct"

text \<open>\<open>Foreign\<close>: whatever cells the library types reach.\<close>

datatype ('tm, 'om, 'lm, 'st, 'rel, 'x) cell =
    Gateways "('tm, 'om, 'st, 'rel) gateway_cell list"
  | GatewayLists "('tm, 'lm) gateway_list_cell list"
  | Specs "aigateway_spec list"
  | Statuses "('st, 'rel) status_cell list"
  | AIGrids "ai_grid_component list"
  | BatchGateways "batch_gateway_component list"
  | MaasComponents "models_as_a_service_component list"
  | Modules "module_cell list"
  | Sources "source_status list"
  | Foreign 'x

definition gateway_kind :: "(('tm, 'om, 'st, 'rel) gateway_cell, ('tm, 'om, 'lm, 'st, 'rel, 'x) cell) kind" where
  "gateway_kind = \<lparr>into = Gateways, from_cell = (\<lambda>c. case c of Gateways xs \<Rightarrow> xs | _ \<Rightarrow> [])\<rparr>"

definition gateway_list_kind :: "(('tm, 'lm) gateway_list_cell, ('tm, 'om, 'lm, 'st, 'rel, 'x) cell) kind" where
  "gateway_list_kind = \<lparr>into = GatewayLists, from_cell = (\<lambda>c. case c of GatewayLists xs \<Rightarrow> xs | _ \<Rightarrow> [])\<rparr>"

definition spec_kind :: "(aigateway_spec, ('tm, 'om, 'lm, 'st, 'rel, 'x) cell) kind" where
  "spec_kind = \<lparr>into = Specs, from_cell = (\<lambda>c. case c of Specs xs \<Rightarrow> xs | _ \<Rightarrow> [])\<rparr>"

definition status_kind :: "(('st, 'rel) status_cell, ('tm, 'om, 'lm, 'st, 'rel, 'x) cell) kind" where
  "status_kind = \<lparr>into = Statuses, from_cell = (\<lambda>c. case c of Statuses xs \<Rightarrow> xs | _ \<Rightarrow> [])\<rparr>"

definition ai_grid_kind :: "(ai_grid_component, ('tm, 'om, 'lm, 'st, 'rel, 'x) cell) kind" where
  "ai_grid_kind = \<lparr>into = AIGrids, from_cell = (\<lambda>c. case c of AIGrids xs \<Rightarrow> xs | _ \<Rightarrow> [])\<rparr>"

definition batch_gateway_kind :: "(batch_gateway_component, ('tm, 'om, 'lm, 'st, 'rel, 'x) cell) kind" where
  "batch_gateway_kind = \<lparr>into = BatchGateways, from_cell = (\<lambda>c. case c of BatchGateways xs \<Rightarrow> xs | _ \<Rightarrow> [])\<rparr>"

definition maas_kind :: "(models_as_a_service_component, ('tm, 'om, 'lm, 'st, 'rel, 'x) cell) kind" where
  "maas_kind = \<lparr>into = MaasComponents, from_cell = (\<lambda>c. case c of MaasComponents xs \<Rightarrow> xs | _ \<Rightarrow> [])\<rparr>"

definition module_kind :: "(module_cell, ('tm, 'om, 'lm, 'st, 'rel, 'x) cell) kind" where
  "module_kind = \<lparr>into = Modules, from_cell = (\<lambda>c. case c of Modules xs \<Rightarrow> xs | _ \<Rightarrow> [])\<rparr>"

definition source_kind :: "(source_status, ('tm, 'om, 'lm, 'st, 'rel, 'x) cell) kind" where
  "source_kind = \<lparr>into = Sources, from_cell = (\<lambda>c. case c of Sources xs \<Rightarrow> xs | _ \<Rightarrow> [])\<rparr>"

lemmas kind_defs = gateway_kind_def gateway_list_kind_def spec_kind_def status_kind_def ai_grid_kind_def
  batch_gateway_kind_def maas_kind_def module_kind_def source_kind_def

lemma kinds_ok [simp]:
  "kind_ok gateway_kind" "kind_ok gateway_list_kind" "kind_ok spec_kind" "kind_ok status_kind"
  "kind_ok ai_grid_kind" "kind_ok batch_gateway_kind" "kind_ok maas_kind" "kind_ok module_kind"
  "kind_ok source_kind"
  by (simp_all add: kind_ok_def kind_defs)

section \<open>The deep copies\<close>

text \<open>The library types: zero values and deep copies.\<close>

record ('tm, 'om, 'lm, 'st, 'rel, 'c) meta_lib =
  zero_TypeMeta :: 'tm
  zero_ObjectMeta :: 'om
  zero_ListMeta :: 'lm
  zero_Status :: 'st
  zero_ReleaseStatus :: 'rel
  ObjectMeta_DeepCopyInto :: "'om \<Rightarrow> 'c list \<Rightarrow> 'om \<times> 'c list"
  ListMeta_DeepCopyInto :: "'lm \<Rightarrow> 'c list \<Rightarrow> 'lm \<times> 'c list"
  Status_DeepCopyInto :: "'st \<Rightarrow> 'c list \<Rightarrow> 'st \<times> 'c list"
  ReleaseStatus_DeepCopyInto :: "'rel \<Rightarrow> 'c list \<Rightarrow> 'rel \<times> 'c list"

type_synonym ('tm, 'om, 'lm, 'st, 'rel, 'x) library =
  "('tm, 'om, 'lm, 'st, 'rel, ('tm, 'om, 'lm, 'st, 'rel, 'x) cell) meta_lib"

type_synonym ('a, 'c) copier = "'a \<Rightarrow> 'c list \<Rightarrow> 'a \<times> 'c list"

text \<open>
  \<^verbatim>\<open>DeepCopyInto\<close> maps the structure the receiver points to to the one it writes through
  \<^verbatim>\<open>out\<close>; only the store holds what is shared.
\<close>

definition SourceStatus_DeepCopyInto :: "(source_status, 'c) copier" where
  "SourceStatus_DeepCopyInto inp st = (let out = inp in (out, st))"

definition AIGridComponent_DeepCopyInto :: "(ai_grid_component, 'c) copier" where
  "AIGridComponent_DeepCopyInto inp st = (let out = inp in (out, st))"

definition BatchGatewayComponent_DeepCopyInto :: "(batch_gateway_component, 'c) copier" where
  "BatchGatewayComponent_DeepCopyInto inp st = (let out = inp in (out, st))"

definition ModelsAsAServiceComponent_DeepCopyInto :: "(models_as_a_service_component, 'c) copier" where
  "ModelsAsAServiceComponent_DeepCopyInto inp st = (let out = inp in (out, st))"

definition AIGatewaySpec_DeepCopyInto :: "(aigateway_spec, 'c) copier" where
  "AIGatewaySpec_DeepCopyInto inp st =
     (let out = inp;
          out = out\<lparr>spec_batch_gateway := spec_batch_gateway inp\<rparr>;
          out = out\<lparr>spec_models_as_a_service := spec_models_as_a_service inp\<rparr>;
          out = out\<lparr>spec_ai_grid := spec_ai_grid inp\<rparr>
      in (out, st))"

definition ModuleStatus_DeepCopyInto :: "(module_cell, ('tm, 'om, 'lm, 'st, 'rel, 'x) cell) copier" where
  "ModuleStatus_DeepCopyInto inp st =
     (let out = inp
      in case md_sources inp of
           None \<Rightarrow> (out, st)
         | Some src \<Rightarrow>
             (let (dst, st) = make_slice source_kind (SourceStatus '''' '''') (s_len src) st;
                  out = out\<lparr>md_sources := Some dst\<rparr>;
                  st = copy_slice source_kind dst src st
              in (out, st)))"

definition AIGatewayStatus_DeepCopyInto ::
  "('tm, 'om, 'lm, 'st, 'rel, 'x) library \<Rightarrow> (('st, 'rel) status_cell, ('tm, 'om, 'lm, 'st, 'rel, 'x) cell) copier" where
  "AIGatewayStatus_DeepCopyInto E inp st =
     (let out = inp;
          (c, st) = Status_DeepCopyInto E (sd_status inp) st;
          out = out\<lparr>sd_status := c\<rparr>;
          (r, st) = ReleaseStatus_DeepCopyInto E (sd_releases inp) st;
          out = out\<lparr>sd_releases := r\<rparr>;
          (m, st) = ModuleStatus_DeepCopyInto (sd_module inp) st;
          out = out\<lparr>sd_module := m\<rparr>
      in (out, st))"

definition AIGateway_DeepCopyInto ::
  "('tm, 'om, 'lm, 'st, 'rel, 'x) library \<Rightarrow>
    (('tm, 'om, 'st, 'rel) gateway_cell, ('tm, 'om, 'lm, 'st, 'rel, 'x) cell) copier" where
  "AIGateway_DeepCopyInto E inp st =
     (let out = inp;
          out = out\<lparr>gd_type := gd_type inp\<rparr>;
          (m, st) = ObjectMeta_DeepCopyInto E (gd_meta inp) st;
          out = out\<lparr>gd_meta := m\<rparr>;
          out = out\<lparr>gd_spec := gd_spec inp\<rparr>;
          (s, st) = AIGatewayStatus_DeepCopyInto E (gd_status inp) st;
          out = out\<lparr>gd_status := s\<rparr>
      in (out, st))"

definition zero_spec :: aigateway_spec where
  "zero_spec = \<lparr>spec_batch_gateway = \<lparr>bg_management_state = ''''\<rparr>,
     spec_models_as_a_service = \<lparr>maas_management_state = ''''\<rparr>,
     spec_ai_grid = \<lparr>grid_management_state = ''''\<rparr>\<rparr>"

definition zero_module :: module_cell where
  "zero_module = \<lparr>md_version = '''', md_build_source = '''', md_platform = '''', md_sources = None\<rparr>"

definition zero_status :: "('tm, 'om, 'lm, 'st, 'rel, 'x) library \<Rightarrow> ('st, 'rel) status_cell" where
  "zero_status E = \<lparr>sd_status = zero_Status E, sd_releases = zero_ReleaseStatus E, sd_module = zero_module\<rparr>"

definition zero_gateway :: "('tm, 'om, 'lm, 'st, 'rel, 'x) library \<Rightarrow> ('tm, 'om, 'st, 'rel) gateway_cell" where
  "zero_gateway E = \<lparr>gd_type = zero_TypeMeta E, gd_meta = zero_ObjectMeta E, gd_spec = zero_spec,
     gd_status = zero_status E\<rparr>"

definition zero_gateway_list :: "('tm, 'om, 'lm, 'st, 'rel, 'x) library \<Rightarrow> ('tm, 'lm) gateway_list_cell" where
  "zero_gateway_list E = \<lparr>ld_type = zero_TypeMeta E, ld_meta = zero_ListMeta E, ld_items = None\<rparr>"

definition AIGatewayList_DeepCopyInto ::
  "('tm, 'om, 'lm, 'st, 'rel, 'x) library \<Rightarrow>
    (('tm, 'lm) gateway_list_cell, ('tm, 'om, 'lm, 'st, 'rel, 'x) cell) copier" where
  "AIGatewayList_DeepCopyInto E inp st =
     (let out = inp;
          out = out\<lparr>ld_type := ld_type inp\<rparr>;
          (m, st) = ListMeta_DeepCopyInto E (ld_meta inp) st;
          out = out\<lparr>ld_meta := m\<rparr>;
          (items, st) = copy_items gateway_kind (zero_gateway E) (AIGateway_DeepCopyInto E) (ld_items inp) st;
          out = out\<lparr>ld_items := items\<rparr>
      in (out, st))"

text \<open>The \<^verbatim>\<open>DeepCopy\<close> methods: a nil receiver gives nil.\<close>

type_synonym ('tm, 'om, 'lm, 'st, 'rel, 'x) pointer_copier =
  "pointer option \<Rightarrow> ('tm, 'om, 'lm, 'st, 'rel, 'x) cell list \<Rightarrow>
   pointer option \<times> ('tm, 'om, 'lm, 'st, 'rel, 'x) cell list"

definition SourceStatus_DeepCopy :: "('tm, 'om, 'lm, 'st, 'rel, 'x) pointer_copier" where
  "SourceStatus_DeepCopy = copy_pointer source_kind (SourceStatus '''' '''') SourceStatus_DeepCopyInto"

definition AIGridComponent_DeepCopy :: "('tm, 'om, 'lm, 'st, 'rel, 'x) pointer_copier" where
  "AIGridComponent_DeepCopy =
     copy_pointer ai_grid_kind \<lparr>grid_management_state = ''''\<rparr> AIGridComponent_DeepCopyInto"

definition BatchGatewayComponent_DeepCopy :: "('tm, 'om, 'lm, 'st, 'rel, 'x) pointer_copier" where
  "BatchGatewayComponent_DeepCopy =
     copy_pointer batch_gateway_kind \<lparr>bg_management_state = ''''\<rparr> BatchGatewayComponent_DeepCopyInto"

definition ModelsAsAServiceComponent_DeepCopy :: "('tm, 'om, 'lm, 'st, 'rel, 'x) pointer_copier" where
  "ModelsAsAServiceComponent_DeepCopy =
     copy_pointer maas_kind \<lparr>maas_management_state = ''''\<rparr> ModelsAsAServiceComponent_DeepCopyInto"

definition AIGatewaySpec_DeepCopy :: "('tm, 'om, 'lm, 'st, 'rel, 'x) pointer_copier" where
  "AIGatewaySpec_DeepCopy = copy_pointer spec_kind zero_spec AIGatewaySpec_DeepCopyInto"

definition ModuleStatus_DeepCopy :: "('tm, 'om, 'lm, 'st, 'rel, 'x) pointer_copier" where
  "ModuleStatus_DeepCopy = copy_pointer module_kind zero_module ModuleStatus_DeepCopyInto"

definition AIGatewayStatus_DeepCopy ::
  "('tm, 'om, 'lm, 'st, 'rel, 'x) library \<Rightarrow> ('tm, 'om, 'lm, 'st, 'rel, 'x) pointer_copier" where
  "AIGatewayStatus_DeepCopy E = copy_pointer status_kind (zero_status E) (AIGatewayStatus_DeepCopyInto E)"

definition AIGateway_DeepCopy ::
  "('tm, 'om, 'lm, 'st, 'rel, 'x) library \<Rightarrow> ('tm, 'om, 'lm, 'st, 'rel, 'x) pointer_copier" where
  "AIGateway_DeepCopy E = copy_pointer gateway_kind (zero_gateway E) (AIGateway_DeepCopyInto E)"

definition AIGatewayList_DeepCopy ::
  "('tm, 'om, 'lm, 'st, 'rel, 'x) library \<Rightarrow> ('tm, 'om, 'lm, 'st, 'rel, 'x) pointer_copier" where
  "AIGatewayList_DeepCopy E =
     copy_pointer gateway_list_kind (zero_gateway_list E) (AIGatewayList_DeepCopyInto E)"

text \<open>
  \<^verbatim>\<open>runtime.Object\<close> is an interface: its nil differs from an interface that holds a nil
  pointer, which no \<^verbatim>\<open>== nil\<close> test recognises.
\<close>

datatype runtime_object = NilObject | GatewayObject "pointer option" | GatewayListObject "pointer option"

definition AIGateway_DeepCopyObject ::
  "('tm, 'om, 'lm, 'st, 'rel, 'x) library \<Rightarrow> pointer option \<Rightarrow> ('tm, 'om, 'lm, 'st, 'rel, 'x) cell list \<Rightarrow>
    runtime_object \<times> ('tm, 'om, 'lm, 'st, 'rel, 'x) cell list" where
  "AIGateway_DeepCopyObject E inp st =
     (let (c, st) = AIGateway_DeepCopy E inp st
      in if c \<noteq> None then (GatewayObject c, st) else (NilObject, st))"

definition AIGatewayList_DeepCopyObject ::
  "('tm, 'om, 'lm, 'st, 'rel, 'x) library \<Rightarrow> pointer option \<Rightarrow> ('tm, 'om, 'lm, 'st, 'rel, 'x) cell list \<Rightarrow>
    runtime_object \<times> ('tm, 'om, 'lm, 'st, 'rel, 'x) cell list" where
  "AIGatewayList_DeepCopyObject E inp st =
     (let (c, st) = AIGatewayList_DeepCopy E inp st
      in if c \<noteq> None then (GatewayListObject c, st) else (NilObject, st))"

section \<open>What the structures reach and show\<close>

record ('a, 'c, 'v) reading =
  rd_valid :: "'c list \<Rightarrow> 'a \<Rightarrow> bool"
  rd_refs :: "'c list \<Rightarrow> 'a \<Rightarrow> nat set"
  rd_view :: "'c list \<Rightarrow> 'a \<Rightarrow> 'v"

abbreviation copies_deeply :: "('a, 'c) copier \<Rightarrow> ('a, 'c, 'v) reading \<Rightarrow> bool" where
  "copies_deeply c R \<equiv> deep_copier c (rd_valid R) (rd_refs R) (rd_view R)"

text \<open>How the library types are read, and what the code relies on of their deep copies.\<close>

record ('om, 'lm, 'st, 'rel, 'c, 'omv, 'lmv, 'stv, 'relv) library_reading =
  lr_meta :: "('om, 'c, 'omv) reading"
  lr_list_meta :: "('lm, 'c, 'lmv) reading"
  lr_status :: "('st, 'c, 'stv) reading"
  lr_releases :: "('rel, 'c, 'relv) reading"

type_synonym ('tm, 'om, 'lm, 'st, 'rel, 'x, 'omv, 'lmv, 'stv, 'relv) readings =
  "('om, 'lm, 'st, 'rel, ('tm, 'om, 'lm, 'st, 'rel, 'x) cell, 'omv, 'lmv, 'stv, 'relv) library_reading"

definition library_contract ::
  "('tm, 'om, 'lm, 'st, 'rel, 'x) library \<Rightarrow>
    ('tm, 'om, 'lm, 'st, 'rel, 'x, 'omv, 'lmv, 'stv, 'relv) readings \<Rightarrow> bool" where
  "library_contract E G \<longleftrightarrow>
     copies_deeply (ObjectMeta_DeepCopyInto E) (lr_meta G) \<and>
     copies_deeply (ListMeta_DeepCopyInto E) (lr_list_meta G) \<and>
     copies_deeply (Status_DeepCopyInto E) (lr_status G) \<and>
     copies_deeply (ReleaseStatus_DeepCopyInto E) (lr_releases G)"

definition module_reading ::
  "(module_cell, ('tm, 'om, 'lm, 'st, 'rel, 'x) cell, source_status list option module_struct) reading" where
  "module_reading =
     \<lparr>rd_valid = (\<lambda>st x. slice_valid source_kind (\<lambda>_ _. True) st (md_sources x)),
      rd_refs = (\<lambda>st x. slice_refs source_kind (\<lambda>_ _. {}) st (md_sources x)),
      rd_view = (\<lambda>st x. \<lparr>md_version = md_version x, md_build_source = md_build_source x,
        md_platform = md_platform x,
        md_sources = slice_view source_kind (\<lambda>_ y. y) st (md_sources x)\<rparr>)\<rparr>"

definition status_reading ::
  "('tm, 'om, 'lm, 'st, 'rel, 'x, 'omv, 'lmv, 'stv, 'relv) readings \<Rightarrow>
    (('st, 'rel) status_cell, ('tm, 'om, 'lm, 'st, 'rel, 'x) cell,
     ('stv, 'relv, source_status list option) status_struct) reading" where
  "status_reading G =
     \<lparr>rd_valid = (\<lambda>st x. rd_valid (lr_status G) st (sd_status x) \<and>
        rd_valid (lr_releases G) st (sd_releases x) \<and> rd_valid module_reading st (sd_module x)),
      rd_refs = (\<lambda>st x. rd_refs (lr_status G) st (sd_status x) \<union>
        (rd_refs (lr_releases G) st (sd_releases x) \<union> rd_refs module_reading st (sd_module x))),
      rd_view = (\<lambda>st x. \<lparr>sd_status = rd_view (lr_status G) st (sd_status x),
        sd_releases = rd_view (lr_releases G) st (sd_releases x),
        sd_module = rd_view module_reading st (sd_module x)\<rparr>)\<rparr>"

definition gateway_reading ::
  "('tm, 'om, 'lm, 'st, 'rel, 'x, 'omv, 'lmv, 'stv, 'relv) readings \<Rightarrow>
    (('tm, 'om, 'st, 'rel) gateway_cell, ('tm, 'om, 'lm, 'st, 'rel, 'x) cell,
     ('tm, 'omv, 'stv, 'relv, source_status list option) gateway_struct) reading" where
  "gateway_reading G =
     \<lparr>rd_valid = (\<lambda>st x. rd_valid (lr_meta G) st (gd_meta x) \<and> rd_valid (status_reading G) st (gd_status x)),
      rd_refs = (\<lambda>st x. rd_refs (lr_meta G) st (gd_meta x) \<union> rd_refs (status_reading G) st (gd_status x)),
      rd_view = (\<lambda>st x. \<lparr>gd_type = gd_type x, gd_meta = rd_view (lr_meta G) st (gd_meta x),
        gd_spec = gd_spec x, gd_status = rd_view (status_reading G) st (gd_status x)\<rparr>)\<rparr>"

definition gateway_list_reading ::
  "('tm, 'om, 'lm, 'st, 'rel, 'x, 'omv, 'lmv, 'stv, 'relv) readings \<Rightarrow>
    (('tm, 'lm) gateway_list_cell, ('tm, 'om, 'lm, 'st, 'rel, 'x) cell,
     ('tm, 'lmv, ('tm, 'omv, 'stv, 'relv, source_status list option) gateway_struct list option)
       gateway_list_struct) reading" where
  "gateway_list_reading G =
     \<lparr>rd_valid = (\<lambda>st x. rd_valid (lr_list_meta G) st (ld_meta x) \<and>
        slice_valid gateway_kind (rd_valid (gateway_reading G)) st (ld_items x)),
      rd_refs = (\<lambda>st x. rd_refs (lr_list_meta G) st (ld_meta x) \<union>
        slice_refs gateway_kind (rd_refs (gateway_reading G)) st (ld_items x)),
      rd_view = (\<lambda>st x. \<lparr>ld_type = ld_type x, ld_meta = rd_view (lr_list_meta G) st (ld_meta x),
        ld_items = slice_view gateway_kind (rd_view (gateway_reading G)) st (ld_items x)\<rparr>)\<rparr>"

definition pointed :: "('a, 'c) kind \<Rightarrow> ('a, 'c, 'v) reading \<Rightarrow> (pointer option, 'c, 'v option) reading" where
  "pointed K R = \<lparr>rd_valid = pointer_valid K (rd_valid R), rd_refs = pointer_refs K (rd_refs R),
     rd_view = pointer_view K (rd_view R)\<rparr>"

section \<open>Every structure is copied deeply\<close>

lemma ModuleStatus_copies: "copies_deeply ModuleStatus_DeepCopyInto module_reading"
  by (rule deep_copier_part [OF deep_copier_flat_items [OF kinds_ok(9), of "SourceStatus '''' ''''"],
        where part = md_sources and put = "\<lambda>s x. x\<lparr>md_sources := s\<rparr>"
          and rest = "\<lambda>x. (md_version x, md_build_source x, md_platform x)"
          and join = "\<lambda>s (v, b, p). \<lparr>md_version = v, md_build_source = b, md_platform = p, md_sources = s\<rparr>"])
    (auto simp: ModuleStatus_DeepCopyInto_def copy_flat_items_def module_reading_def make_slice_def
      split: option.split)

lemma AIGatewayStatus_copies:
  assumes "library_contract E G"
  shows "copies_deeply (AIGatewayStatus_DeepCopyInto E) (status_reading G)"
proof -
  note st = assms [unfolded library_contract_def, THEN conjunct2, THEN conjunct2]
  show ?thesis
    by (rule deep_copier_part [OF deep_copier_both [OF conjunct1 [OF st]
            deep_copier_both [OF conjunct2 [OF st] ModuleStatus_copies]],
          where part = "\<lambda>x. (sd_status x, sd_releases x, sd_module x)"
            and put = "\<lambda>(s, r, m) x. x\<lparr>sd_status := s, sd_releases := r, sd_module := m\<rparr>"
            and rest = "\<lambda>x. ()"
            and join = "\<lambda>(s, r, m) _. \<lparr>sd_status = s, sd_releases = r, sd_module = m\<rparr>"])
      (auto simp: status_reading_def copy_both_def AIGatewayStatus_DeepCopyInto_def Let_def split: prod.splits)
qed

lemma AIGateway_copies:
  assumes "library_contract E G"
  shows "copies_deeply (AIGateway_DeepCopyInto E) (gateway_reading G)"
  by (rule deep_copier_part [OF deep_copier_both
        [OF conjunct1 [OF assms [unfolded library_contract_def]] AIGatewayStatus_copies [OF assms]],
        where part = "\<lambda>x. (gd_meta x, gd_status x)"
          and put = "\<lambda>(m, s) x. x\<lparr>gd_meta := m, gd_status := s\<rparr>"
          and rest = "\<lambda>x. (gd_type x, gd_spec x)"
          and join = "\<lambda>(m, s) (t, sp). \<lparr>gd_type = t, gd_meta = m, gd_spec = sp, gd_status = s\<rparr>"])
    (auto simp: gateway_reading_def copy_both_def AIGateway_DeepCopyInto_def Let_def split: prod.splits)

lemma AIGatewayList_copies:
  assumes "library_contract E G"
  shows "copies_deeply (AIGatewayList_DeepCopyInto E) (gateway_list_reading G)"
  by (rule deep_copier_part [OF deep_copier_both
        [OF conjunct1 [OF conjunct2 [OF assms [unfolded library_contract_def]]]
          deep_copier_items [OF AIGateway_copies [OF assms] kinds_ok(1), of "zero_gateway E"]],
        where part = "\<lambda>x. (ld_meta x, ld_items x)"
          and put = "\<lambda>(m, i) x. x\<lparr>ld_meta := m, ld_items := i\<rparr>"
          and rest = ld_type
          and join = "\<lambda>(m, i) t. \<lparr>ld_type = t, ld_meta = m, ld_items = i\<rparr>"])
    (auto simp: gateway_list_reading_def copy_both_def AIGatewayList_DeepCopyInto_def Let_def split: prod.splits)

text \<open>The structures without library parts meet the contract by themselves.\<close>

interpretation source_copy: deep_copier SourceStatus_DeepCopyInto "\<lambda>st x. True" "\<lambda>st x. {}" "\<lambda>st x. x"
  by unfold_locales (auto simp: SourceStatus_DeepCopyInto_def)

interpretation spec_copy: deep_copier AIGatewaySpec_DeepCopyInto "\<lambda>st x. True" "\<lambda>st x. {}" "\<lambda>st x. x"
  by unfold_locales (auto simp: AIGatewaySpec_DeepCopyInto_def)

interpretation module_copy: deep_copier ModuleStatus_DeepCopyInto
  "rd_valid module_reading" "rd_refs module_reading" "rd_view module_reading"
  by (rule ModuleStatus_copies)

lemma pointed_copies:
  "copies_deeply c R \<Longrightarrow> kind_ok K \<Longrightarrow> copies_deeply (copy_pointer K zero c) (pointed K R)"
  by (simp add: pointed_def deep_copier_pointer)

lemma copy_pointer_nil [simp]: "copy_pointer K zero c None st = (None, st)"
  by (simp add: copy_pointer_def)

lemma copy_pointer_Some: "\<exists>q st'. copy_pointer K zero c (Some p) st = (Some q, st')"
  by (simp add: copy_pointer_def split: prod.split)

lemma copy_pointer_independent:
  assumes "copies_deeply c R" "kind_ok K" "rd_valid (pointed K R) st (Some p)"
  shows "\<exists>q st'. copy_pointer K zero c (Some p) st = (Some q, st') \<and> prefix st st' \<and>
    independent_copy (rd_refs (pointed K R)) (rd_view (pointed K R)) st (Some p) st' (Some q)"
proof -
  obtain q st' where c: "copy_pointer K zero c (Some p) st = (Some q, st')"
    using copy_pointer_Some [of K zero c p st] by blast
  note R = pointed_copies [OF assms(1,2), of zero]
  show ?thesis
    using c deep_copier.copies [OF R assms(3) c] deep_copier.copy_is_independent [OF R assms(3) c] by blast
qed

section \<open>Properties\<close>

text \<open>
  C32. A deep copy of an AIGateway as a runtime object is a new gateway that shows the same and
  shares no cell with the original: no write through one of them, to the sources of the module
  status and to the metadata, conditions and releases included, shows in the other. Nothing that
  existed before is changed. The copy of nil is the nil interface, not an interface that holds a
  nil pointer.
\<close>

theorem AIGateway_DeepCopyObject_independent:
  assumes "library_contract E G" "rd_valid (pointed gateway_kind (gateway_reading G)) st (Some p)"
  shows "(\<exists>q st'. AIGateway_DeepCopyObject E (Some p) st = (GatewayObject (Some q), st') \<and> prefix st st' \<and>
      independent_copy (rd_refs (pointed gateway_kind (gateway_reading G)))
        (rd_view (pointed gateway_kind (gateway_reading G))) st (Some p) st' (Some q)) \<and>
    AIGateway_DeepCopyObject E None st = (NilObject, st)"
  using copy_pointer_independent [OF AIGateway_copies [OF assms(1)] kinds_ok(1) assms(2), of "zero_gateway E"]
  by (auto simp: AIGateway_DeepCopyObject_def AIGateway_DeepCopy_def)

text \<open>
  C33. The same of a list of AIGateways: the array of items is new and every item is copied deeply,
  however long the list; a nil slice of items stays nil.
\<close>

theorem AIGatewayList_DeepCopyObject_independent:
  assumes "library_contract E G" "rd_valid (pointed gateway_list_kind (gateway_list_reading G)) st (Some p)"
  shows "(\<exists>q st'. AIGatewayList_DeepCopyObject E (Some p) st = (GatewayListObject (Some q), st') \<and>
      prefix st st' \<and>
      independent_copy (rd_refs (pointed gateway_list_kind (gateway_list_reading G)))
        (rd_view (pointed gateway_list_kind (gateway_list_reading G))) st (Some p) st' (Some q)) \<and>
    AIGatewayList_DeepCopyObject E None st = (NilObject, st)"
  using copy_pointer_independent [OF AIGatewayList_copies [OF assms(1)] kinds_ok(2) assms(2),
      of "zero_gateway_list E"]
  by (auto simp: AIGatewayList_DeepCopyObject_def AIGatewayList_DeepCopy_def)

section \<open>Instances of the contract\<close>

text \<open>Library types that are slices of strings, as the finalizers of an object are.\<close>

definition strings_kind :: "(string, ('tm, 'om, 'lm, 'st, 'rel, string list) cell) kind" where
  "strings_kind = \<lparr>into = Foreign, from_cell = (\<lambda>c. case c of Foreign xs \<Rightarrow> xs | _ \<Rightarrow> [])\<rparr>"

definition slice_library ::
  "(string, slice option, slice option, slice option, slice option, string list) library" where
  "slice_library = \<lparr>zero_TypeMeta = '''', zero_ObjectMeta = None, zero_ListMeta = None, zero_Status = None,
     zero_ReleaseStatus = None,
     ObjectMeta_DeepCopyInto = copy_flat_items strings_kind '''',
     ListMeta_DeepCopyInto = copy_flat_items strings_kind '''',
     Status_DeepCopyInto = copy_flat_items strings_kind '''',
     ReleaseStatus_DeepCopyInto = copy_flat_items strings_kind ''''\<rparr>"

type_synonym slice_cell =
  "(string, slice option, slice option, slice option, slice option, string list) cell"

definition strings_reading :: "(slice option, slice_cell, string list option) reading" where
  "strings_reading = \<lparr>rd_valid = slice_valid strings_kind (\<lambda>_ _. True),
     rd_refs = slice_refs strings_kind (\<lambda>_ _. {}), rd_view = slice_view strings_kind (\<lambda>_ y. y)\<rparr>"

definition slice_readings ::
  "(slice option, slice option, slice option, slice option, slice_cell,
    string list option, string list option, string list option, string list option) library_reading" where
  "slice_readings = \<lparr>lr_meta = strings_reading, lr_list_meta = strings_reading,
     lr_status = strings_reading, lr_releases = strings_reading\<rparr>"

lemma slice_library_contract: "library_contract slice_library slice_readings"
  by (simp add: library_contract_def slice_library_def slice_readings_def strings_reading_def
      deep_copier_flat_items kind_ok_def strings_kind_def)

definition example_gateway ::
  "(string, slice option, slice option, slice option) gateway_cell" where
  "example_gateway = \<lparr>gd_type = ''AIGateway'',
     gd_meta = Some \<lparr>s_array = 1, s_offset = 0, s_len = 1, s_cap = 2\<rparr>, gd_spec = zero_spec,
     gd_status = \<lparr>sd_status = None, sd_releases = None,
       sd_module = \<lparr>md_version = ''1.0.0'', md_build_source = '''', md_platform = '''',
         md_sources = Some \<lparr>s_array = 0, s_offset = 1, s_len = 1, s_cap = 1\<rparr>\<rparr>\<rparr>\<rparr>"

definition example_store :: "slice_cell list" where
  "example_store = [Sources [SourceStatus ''a'' ''helm'', SourceStatus ''b'' ''kustomize''],
     Foreign [''finalizer'', ''spare''], Gateways [example_gateway],
     GatewayLists [\<lparr>ld_type = ''AIGatewayList'', ld_meta = None,
       ld_items = Some \<lparr>s_array = 2, s_offset = 0, s_len = 1, s_cap = 1\<rparr>\<rparr>]]"

lemmas example_simps = example_store_def example_gateway_def pointed_def pointer_valid_def pointer_ok_def
  load_def read_array_def kind_defs gateway_reading_def gateway_list_reading_def status_reading_def
  module_reading_def slice_readings_def strings_reading_def slice_valid_def slice_ok_def strings_kind_def
  slice_items_def

theorem AIGateway_DeepCopyObject_independent_witness:
  "\<exists>q st'. AIGateway_DeepCopyObject slice_library (Some (2, 0)) example_store = (GatewayObject (Some q), st') \<and>
    prefix example_store st' \<and>
    independent_copy (rd_refs (pointed gateway_kind (gateway_reading slice_readings)))
      (rd_view (pointed gateway_kind (gateway_reading slice_readings))) example_store (Some (2, 0)) st' (Some q) \<and>
    map_option (\<lambda>g. md_sources (sd_module (gd_status g)))
      (rd_view (pointed gateway_kind (gateway_reading slice_readings)) st' (Some q)) =
      Some (Some [SourceStatus ''b'' ''kustomize''])"
proof -
  let ?R = "pointed gateway_kind (gateway_reading slice_readings)"
  have "rd_valid ?R example_store (Some (2, 0))"
    by (simp add: example_simps)
  then obtain q st' where c: "AIGateway_DeepCopyObject slice_library (Some (2, 0)) example_store = (GatewayObject (Some q), st')"
    "prefix example_store st'"
    and i: "independent_copy (rd_refs ?R) (rd_view ?R) example_store (Some (2, 0)) st' (Some q)"
    using AIGateway_DeepCopyObject_independent [OF slice_library_contract] by blast
  have v: "map_option (\<lambda>g. md_sources (sd_module (gd_status g))) (rd_view ?R example_store (Some (2, 0))) =
      Some (Some [SourceStatus ''b'' ''kustomize''])"
    by (simp add: example_simps pointer_view_def slice_view_def)
  show ?thesis
    using c i v [folded independent_copy_view [OF i]] by (intro exI conjI)
qed

theorem AIGatewayList_DeepCopyObject_independent_witness:
  "\<exists>q st'. AIGatewayList_DeepCopyObject slice_library (Some (3, 0)) example_store =
      (GatewayListObject (Some q), st') \<and> prefix example_store st' \<and>
    independent_copy (rd_refs (pointed gateway_list_kind (gateway_list_reading slice_readings)))
      (rd_view (pointed gateway_list_kind (gateway_list_reading slice_readings)))
      example_store (Some (3, 0)) st' (Some q) \<and>
    map_option (\<lambda>l. map_option (map (\<lambda>g. md_sources (sd_module (gd_status g)))) (ld_items l))
      (rd_view (pointed gateway_list_kind (gateway_list_reading slice_readings)) st' (Some q)) =
      Some (Some [Some [SourceStatus ''b'' ''kustomize'']])"
proof -
  let ?R = "pointed gateway_list_kind (gateway_list_reading slice_readings)"
  have "rd_valid ?R example_store (Some (3, 0))"
    by (simp add: example_simps)
  then obtain q st' where c: "AIGatewayList_DeepCopyObject slice_library (Some (3, 0)) example_store = (GatewayListObject (Some q), st')"
    "prefix example_store st'"
    and i: "independent_copy (rd_refs ?R) (rd_view ?R) example_store (Some (3, 0)) st' (Some q)"
    using AIGatewayList_DeepCopyObject_independent [OF slice_library_contract] by blast
  have v: "map_option (\<lambda>l. map_option (map (\<lambda>g. md_sources (sd_module (gd_status g)))) (ld_items l))
      (rd_view ?R example_store (Some (3, 0))) = Some (Some [Some [SourceStatus ''b'' ''kustomize'']])"
    by (simp add: example_simps pointer_view_def slice_view_def)
  show ?thesis
    using c i v [folded independent_copy_view [OF i]] by (intro exI conjI)
qed

end
