(* ===== verification/Api_Group.thy ===== *)
theory Api_Group
  imports Process_Entry Deep_Copy
begin

text \<open>
  The API group: the scheme builder of \<^verbatim>\<open>groupversion_info.go\<close>, the registration of the
  two types by \<^verbatim>\<open>init\<close> of \<^verbatim>\<open>aigateway_types.go\<close>, and the accessors by which an
  AIGateway implements \<^verbatim>\<open>common.PlatformObject\<close>. The builder of controller-runtime and
  the methods of \<^verbatim>\<open>common.Status\<close> are parameters.
\<close>

section \<open>The code\<close>

record group_version =
  gv_group :: string
  gv_version :: string

definition SchemeGroupVersion :: group_version where
  "SchemeGroupVersion = \<lparr>gv_group = ''components.platform.opendatahub.io'', gv_version = ''v1alpha1''\<rparr>"

definition GroupVersion :: group_version where
  "GroupVersion = SchemeGroupVersion"

definition AIGatewayKind :: string where
  "AIGatewayKind = ''AIGateway''"

text \<open>
  Go types that a scheme knows; the scheme names a kind by the name of the type, found by
  reflection.
\<close>

datatype go_type =
    AIGateway_type
  | AIGatewayList_type
  | Other_type string

fun type_name :: "go_type \<Rightarrow> string" where
  "type_name AIGateway_type = ''AIGateway''"
| "type_name AIGatewayList_type = ''AIGatewayList''"
| "type_name (Other_type name) = name"

record ('b, 'w) builder_lib =
  New_Builder :: "group_version \<Rightarrow> 'b"
  Register :: "'b \<Rightarrow> go_type list \<Rightarrow> 'b"
  Builder_AddToScheme :: "'b \<Rightarrow> ('w, unit) comp"

text \<open>
  The state of the package: the builder, which \<^verbatim>\<open>SchemeBuilder\<close> points to. The variables
  are initialised before \<^verbatim>\<open>init\<close> registers the types. \<^verbatim>\<open>AddToScheme\<close> is a method
  value taken at that time, but what it is bound to is the pointer: it sees the builder as it is
  when it is called.
\<close>

record 'b api_package =
  SchemeBuilder :: 'b

definition package_vars :: "('b, 'w) builder_lib \<Rightarrow> 'b api_package" where
  "package_vars B = \<lparr>SchemeBuilder = New_Builder B SchemeGroupVersion\<rparr>"

definition AddToScheme :: "('b, 'w) builder_lib \<Rightarrow> 'b api_package \<Rightarrow> ('w, unit) comp" where
  "AddToScheme B pk = Builder_AddToScheme B (SchemeBuilder pk)"

definition register_types :: "('b, 'w) builder_lib \<Rightarrow> 'b api_package \<Rightarrow> 'b api_package" where
  "register_types B pk = pk\<lparr>SchemeBuilder := Register B (SchemeBuilder pk) [AIGateway_type, AIGatewayList_type]\<rparr>"

definition package_init :: "('b, 'w) builder_lib \<Rightarrow> 'b api_package" where
  "package_init B = register_types B (package_vars B)"

section \<open>The contract of a scheme builder\<close>

text \<open>
  Registering collects types; adding to a scheme makes each of them known under the version of the
  builder and the name of the type, and what a scheme knows it does not forget.
\<close>

definition remembers :: "('w \<Rightarrow> 'k \<Rightarrow> 't option) \<Rightarrow> ('w, 'a) comp \<Rightarrow> bool" where
  "remembers known m \<longleftrightarrow> (\<forall>w k t. known w k = Some t \<longrightarrow> known (snd (m w)) k = Some t)"

locale scheme_builder =
  fixes B :: "('b, 'w) builder_lib"
    and version_at :: "'b \<Rightarrow> group_version"
    and types_at :: "'b \<Rightarrow> go_type list"
    and known :: "'w \<Rightarrow> group_version \<times> string \<Rightarrow> go_type option"
  assumes version_new: "version_at (New_Builder B gv) = gv"
    and version_register: "version_at (Register B b ts) = version_at b"
    and types_register: "set (types_at (Register B b ts)) = set (types_at b) \<union> set ts"
    and added: "Builder_AddToScheme B b w = (Inr (), w') \<Longrightarrow> t \<in> set (types_at b) \<Longrightarrow>
      known w' (version_at b, type_name t) = Some t"
    and kept: "remembers known (Builder_AddToScheme B b)"
begin

lemma package_adds:
  assumes "AddToScheme B (package_init B) w = (Inr (), w')" "t \<in> {AIGateway_type, AIGatewayList_type}"
  shows "known w' (SchemeGroupVersion, type_name t) = Some t"
  using added [of "SchemeBuilder (package_init B)" w w' t] assms
  by (auto simp: AddToScheme_def package_init_def register_types_def package_vars_def
      version_new version_register types_register)

end

section \<open>Properties\<close>

text \<open>
  C39. When the registration at the start of the process succeeds, the scheme of the manager knows
  both types of the API group: the AIGateway under \<^verbatim>\<open>AIGatewayKind\<close> and its list, in
  components.platform.opendatahub.io/v1alpha1, although \<^verbatim>\<open>AddToScheme\<close> was bound before
  they were registered, and whatever the other packages add, as long as the one after it forgets
  nothing.
\<close>

theorem api_types_registered:
  assumes "scheme_builder B version_at types_at known"
    and "Components_AddToScheme S = AddToScheme B (package_init B)" "remembers known (DSCI_AddToScheme S)"
    and "operator_init S w = (Inr (), w')"
  shows "known w' (\<lparr>gv_group = ''components.platform.opendatahub.io'', gv_version = ''v1alpha1''\<rparr>, AIGatewayKind) =
      Some AIGateway_type \<and>
    known w' (GroupVersion, ''AIGatewayList'') = Some AIGatewayList_type"
proof -
  obtain v v' where "AddToScheme B (package_init B) v = (Inr (), v')" and d: "DSCI_AddToScheme S v' = (Inr (), w')"
    using assms(2,4) by (auto simp: operator_init_ok_iff)
  from scheme_builder.package_adds [OF assms(1) this(1)]
  have "known v' (SchemeGroupVersion, type_name t) = Some t" if "t \<in> {AIGateway_type, AIGatewayList_type}" for t
    using that .
  then have "known w' (SchemeGroupVersion, type_name t) = Some t" if "t \<in> {AIGateway_type, AIGatewayList_type}" for t
    using assms(3) d that unfolding remembers_def by (metis snd_conv)
  from this [of AIGateway_type] this [of AIGatewayList_type] show ?thesis
    by (simp add: GroupVersion_def SchemeGroupVersion_def AIGatewayKind_def)
qed

section \<open>A builder\<close>

text \<open>
  The builder as a list of types, the scheme as a map. Registering another type of the same name
  panics, as in \<^verbatim>\<open>runtime.Scheme\<close>.
\<close>

type_synonym scheme_map = "group_version \<times> string \<Rightarrow> go_type option"

fun add_known :: "group_version \<Rightarrow> go_type list \<Rightarrow> (scheme_map, unit) comp" where
  "add_known gv [] s = (Inr (), s)"
| "add_known gv (t # ts) s =
     (if s (gv, type_name t) = None \<or> s (gv, type_name t) = Some t
      then add_known gv ts (s((gv, type_name t) \<mapsto> t))
      else (Inl (Panic ''Double registration''), s))"

definition list_builder :: "(group_version \<times> go_type list, scheme_map) builder_lib" where
  "list_builder = \<lparr>New_Builder = (\<lambda>gv. (gv, [])), Register = (\<lambda>(gv, ts) us. (gv, ts @ us)),
     Builder_AddToScheme = (\<lambda>(gv, ts). add_known gv ts)\<rparr>"

lemma add_known_keeps: "s k = Some t \<Longrightarrow> snd (add_known gv ts s) k = Some t"
proof (induction gv ts s rule: add_known.induct)
  case (2 gv u ts s)
  show ?case
  proof (cases "s (gv, type_name u) = None \<or> s (gv, type_name u) = Some u")
    case True
    then have "(s((gv, type_name u) \<mapsto> u)) k = Some t"
      using 2(2) by auto
    from 2(1) [OF True this] show ?thesis
      using True by (simp del: fun_upd_apply)
  qed (use 2(2) in auto)
qed simp

lemma add_known_adds:
  "add_known gv ts s = (Inr (), s') \<Longrightarrow> t \<in> set ts \<Longrightarrow> s' (gv, type_name t) = Some t"
proof (induction gv ts s rule: add_known.induct)
  case (2 gv u ts s)
  then have cond: "s (gv, type_name u) = None \<or> s (gv, type_name u) = Some u"
    and run: "add_known gv ts (s((gv, type_name u) \<mapsto> u)) = (Inr (), s')"
    by (simp_all split: if_split_asm)
  show ?case
  proof (cases "t \<in> set ts")
    case True
    then show ?thesis by (rule 2(1) [OF cond run])
  next
    case False
    then show ?thesis
      using add_known_keeps [of "s((gv, type_name u) \<mapsto> u)" "(gv, type_name u)" u gv ts] run 2(3) by simp
  qed
qed simp

interpretation listed: scheme_builder list_builder fst snd "\<lambda>s. s"
  by unfold_locales
    (auto simp: list_builder_def remembers_def add_known_keeps add_known_adds split: prod.splits)

definition group_scheme :: "scheme_map scheme_lib" where
  "group_scheme = plain_scheme\<lparr>Components_AddToScheme := AddToScheme list_builder (package_init list_builder)\<rparr>"

theorem api_types_registered_witness:
  "fst (operator_init group_scheme Map.empty) = Inr () \<and>
   snd (operator_init group_scheme Map.empty) (SchemeGroupVersion, ''AIGateway'') = Some AIGateway_type \<and>
   AddToScheme list_builder (package_vars list_builder) Map.empty = (Inr (), Map.empty)"
proof -
  have "fst (operator_init group_scheme Map.empty) = Inr ()"
    by code_simp
  then obtain w' where run: "operator_init group_scheme Map.empty = (Inr (), w')"
    by (metis prod.collapse)
  have "remembers (\<lambda>s. s) (DSCI_AddToScheme group_scheme)"
    by (simp add: remembers_def group_scheme_def plain_scheme_def ok_run)
  moreover have "Components_AddToScheme group_scheme = AddToScheme list_builder (package_init list_builder)"
    by (simp add: group_scheme_def)
  ultimately have "w' (SchemeGroupVersion, ''AIGateway'') = Some AIGateway_type"
    using api_types_registered [OF listed.scheme_builder_axioms _ _ run]
    by (simp add: SchemeGroupVersion_def AIGatewayKind_def)
  moreover have "AddToScheme list_builder (package_vars list_builder) Map.empty = (Inr (), Map.empty)"
    by (simp add: AddToScheme_def package_vars_def list_builder_def)
  ultimately show ?thesis
    by (simp add: run)
qed

section \<open>The accessors of a platform object\<close>

text \<open>
  \<^verbatim>\<open>GetStatus\<close> returns a pointer to a field of the object: a place to read from and to write
  to. The methods of \<^verbatim>\<open>common.Status\<close> that \<^verbatim>\<open>AIGatewayStatus\<close> gets by embedding are
  the library's.
\<close>

record ('o, 'a) field_pointer =
  load :: "'o \<Rightarrow> 'a"
  store :: "'a \<Rightarrow> 'o \<Rightarrow> 'o"

record ('st, 'cond) conditions_lib =
  Status_GetConditions :: "'st \<Rightarrow> 'cond list"
  Status_SetConditions :: "'cond list \<Rightarrow> 'st \<Rightarrow> 'st"

definition AIGateway_GetStatus :: "(('tm, 'om, 'st, 'rel, 'src) gateway_struct, 'st) field_pointer" where
  "AIGateway_GetStatus =
     \<lparr>load = (\<lambda>c. sd_status (gd_status c)), store = (\<lambda>s c. c\<lparr>gd_status := (gd_status c)\<lparr>sd_status := s\<rparr>\<rparr>)\<rparr>"

definition AIGateway_GetConditions ::
  "('st, 'cond) conditions_lib \<Rightarrow> ('tm, 'om, 'st, 'rel, 'src) gateway_struct \<Rightarrow> 'cond list" where
  "AIGateway_GetConditions M c = Status_GetConditions M (sd_status (gd_status c))"

definition AIGateway_SetConditions ::
  "('st, 'cond) conditions_lib \<Rightarrow> 'cond list \<Rightarrow> ('tm, 'om, 'st, 'rel, 'src) gateway_struct \<Rightarrow>
    ('tm, 'om, 'st, 'rel, 'src) gateway_struct" where
  "AIGateway_SetConditions M cs c =
     c\<lparr>gd_status := (gd_status c)\<lparr>sd_status := Status_SetConditions M cs (sd_status (gd_status c))\<rparr>\<rparr>"

text \<open>
  What the framework relies on of a platform object: the conditions set are the conditions read,
  also through the pointer to the status, and writing them or the status leaves the rest alone.
\<close>

locale platform_object =
  fixes status_at :: "('o, 'st) field_pointer"
    and conditions :: "'o \<Rightarrow> 'cond list"
    and set_conditions :: "'cond list \<Rightarrow> 'o \<Rightarrow> 'o"
    and rest :: "'o \<Rightarrow> 'rest"
    and status_conditions :: "'st \<Rightarrow> 'cond list"
  assumes conditions_set: "conditions (set_conditions cs c) = cs"
    and conditions_status: "conditions c = status_conditions (load status_at c)"
    and status_store: "load status_at (store status_at s c) = s"
    and rest_set: "rest (set_conditions cs c) = rest c" "rest (store status_at s c) = rest c"
begin

lemma conditions_stored: "conditions (store status_at s c) = status_conditions s"
  by (simp add: conditions_status status_store)

lemma status_after_set: "status_conditions (load status_at (set_conditions cs c)) = cs"
  by (simp add: conditions_status [symmetric] conditions_set)

end

lemma AIGateway_platform_object:
  assumes "\<And>cs s. Status_GetConditions M (Status_SetConditions M cs s) = cs"
  shows "platform_object AIGateway_GetStatus (AIGateway_GetConditions M) (AIGateway_SetConditions M)
    (\<lambda>c. (gd_type c, gd_meta c, gd_spec c, sd_releases (gd_status c), sd_module (gd_status c)))
    (Status_GetConditions M)"
  using assms
  by unfold_locales
    (simp_all add: AIGateway_GetStatus_def AIGateway_GetConditions_def AIGateway_SetConditions_def)

text \<open>With the status as the list of its conditions.\<close>

interpretation listed_conditions: platform_object AIGateway_GetStatus
  "AIGateway_GetConditions \<lparr>Status_GetConditions = (\<lambda>s. s), Status_SetConditions = (\<lambda>cs s. cs)\<rparr>"
  "AIGateway_SetConditions \<lparr>Status_GetConditions = (\<lambda>s. s), Status_SetConditions = (\<lambda>cs s. cs)\<rparr>"
  "\<lambda>c. (gd_type c, gd_meta c, gd_spec c, sd_releases (gd_status c), sd_module (gd_status c))" "\<lambda>s. s"
  using AIGateway_platform_object [of "\<lparr>Status_GetConditions = (\<lambda>s. s), Status_SetConditions = (\<lambda>cs s. cs)\<rparr>"]
  by simp

end
