(* ===== verification/Removal_Protocol.thy ===== *)
theory Removal_Protocol
  imports Pipeline
begin

text \<open>
  The removal of MaaS as a state machine over the cluster and the AIGateway: passes of the operator
  (the part up to the deploy action and the collector), maas-controller, which answers the teardown
  request on its own Deployment, edits of the spec and other writers, in any interleaving. The
  operator's steps are the code of the other theories.
\<close>

section \<open>The steps\<close>

datatype protocol_event =
  Edited | Elsewhere | Requested | Applied | Aborted | Completed | Collected | Dropped

definition requested_on :: "deployment \<Rightarrow> bool" where
  "requested_on d \<longleftrightarrow> map_index (dep_annotations d) maasTeardownRequestedKey = ''true''"

text \<open>
  What the deploy action does with a rendered Deployment: the rendered annotations are there, the
  completion belongs to maas-controller and is left alone, a request comes from the rendered object
  or was there before; the selector is immutable on an existing object, and one that is created has
  the selector the module stamps.
\<close>

definition applies :: "('w, 'c) lib \<Rightarrow> unstructured \<Rightarrow> deployment option \<Rightarrow> deployment \<Rightarrow> bool" where
  "applies E u live d \<longleftrightarrow>
     entries (us_annotations u) \<subseteq>\<^sub>m entries (dep_annotations d) \<and>
     (teardown_completed_on d \<longleftrightarrow> (case live of None \<Rightarrow> False | Some l \<Rightarrow> teardown_completed_on l)) \<and>
     (requested_on d \<longrightarrow> map_index (us_annotations u) maasTeardownRequestedKey = ''true'' \<or>
        (case live of None \<Rightarrow> False | Some l \<Rightarrow> requested_on l)) \<and>
     (case live of None \<Rightarrow> selector_current E d | Some l \<Rightarrow> dep_selector d = dep_selector l)"

text \<open>A manifest as it is rendered carries no request of its own.\<close>

definition unannotated :: "unstructured \<Rightarrow> bool" where
  "unannotated u \<longleftrightarrow> map_index (us_annotations u) maasTeardownRequestedKey \<noteq> ''true''"

definition works_on :: "'w client \<Rightarrow> 'w \<Rightarrow> aigateway \<Rightarrow> ('w, 'c) request \<Rightarrow> bool" where
  "works_on c w obj rr \<longleftrightarrow> rr_client rr = Some c \<and> rr_instance rr = IsAIGateway obj \<and> rr_world rr = w"

definition complete_teardown :: "deployment \<Rightarrow> deployment" where
  "complete_teardown d = d\<lparr>dep_annotations := map_put (dep_annotations d) maasTeardownCompletedKey ''true''\<rparr>"

text \<open>
  What other writers keep of the Deployment: whether it exists, its selector, and the state of the
  two annotations, which belong to the operator and to maas-controller.
\<close>

definition same_teardown :: "deployment option \<Rightarrow> deployment option \<Rightarrow> bool" where
  "same_teardown live live' \<longleftrightarrow>
     (case (live, live') of
        (None, None) \<Rightarrow> True
      | (Some d, Some d') \<Rightarrow>
          dep_selector d' = dep_selector d \<and> (requested_on d' \<longleftrightarrow> requested_on d) \<and>
          (teardown_completed_on d' \<longleftrightarrow> teardown_completed_on d)
      | _ \<Rightarrow> False)"

text \<open>
  A pass that renders the MaaS bundle decides so at its start, annotates what was rendered, migrates
  the selector and applies; \<open>Aborted\<close> is a pass that ends after the migration. The collector
  deletes what the predicate of the operator gives it: an object the staleness predicate of the
  framework does not select, or one that it selects; the latter only in a pass that did not render the
  bundle, since what a pass has just applied is not stale. \<open>Dropped\<close> is that deletion when MaaS
  is not Removed.
\<close>

inductive protocol_step ::
  "('w, 'c) lib \<Rightarrow> module \<Rightarrow> 'w client \<Rightarrow> ('w \<Rightarrow> nsname \<Rightarrow> deployment option) \<Rightarrow>
    'w \<times> aigateway \<Rightarrow> protocol_event \<Rightarrow> 'w \<times> aigateway \<Rightarrow> bool"
  for E m c view where
  edited: "protocol_step E m c view (w, obj) Edited (w, obj')"
| elsewhere: "same_teardown (view w (maas_controller_key m)) (view w' (maas_controller_key m)) \<Longrightarrow>
    protocol_step E m c view (w, obj) Elsewhere (w', obj)"
| pass: "works_on c w obj rr \<Longrightarrow> list_all unannotated (rr_resources rr) \<Longrightarrow>
    keep_maas_installed m obj rr = (Inr True, rr1) \<Longrightarrow> annotateResource E m rr1 = (Inr (), rr2) \<Longrightarrow>
    migrateSelector E m rr2 = (Inr (), rr3) \<Longrightarrow> u \<in> set (rr_resources rr3) \<Longrightarrow> is_maas_controller E m u \<Longrightarrow>
    applies E u (view (rr_world rr3) (maas_controller_key m)) d \<Longrightarrow>
    view w' (maas_controller_key m) = Some d \<Longrightarrow>
    protocol_step E m c view (w, obj) (if maas_state obj = removedState then Requested else Applied) (w', obj)"
| aborted: "works_on c w obj rr \<Longrightarrow> migrateSelector E m rr = (r, rr1) \<Longrightarrow>
    protocol_step E m c view (w, obj) Aborted (rr_world rr1, obj)"
| completed: "view w (maas_controller_key m) = Some d \<Longrightarrow> requested_on d \<Longrightarrow>
    view w' (maas_controller_key m) = Some (complete_teardown d) \<Longrightarrow>
    protocol_step E m c view (w, obj) Completed (w', obj)"
| collected: "works_on c w obj rr \<Longrightarrow> is_maas_controller E m u \<Longrightarrow>
    DefaultObjectPredicate E rr u = Inr False \<Longrightarrow> maasAwareGCPredicate E m u rr = (Inr True, rr1) \<Longrightarrow>
    view w' (maas_controller_key m) = None \<Longrightarrow>
    protocol_step E m c view (w, obj) Collected (w', obj)"
| swept: "works_on c w obj rr \<Longrightarrow> keep_maas_installed m obj rr = (Inr False, rr1) \<Longrightarrow>
    is_maas_controller E m u \<Longrightarrow> DefaultObjectPredicate E rr u = Inr True \<Longrightarrow>
    maasAwareGCPredicate E m u rr = (Inr True, rr2) \<Longrightarrow> view w' (maas_controller_key m) = None \<Longrightarrow>
    protocol_step E m c view (w, obj) (if maas_state obj = removedState then Collected else Dropped) (w', obj)"

inductive protocol_run ::
  "('w, 'c) lib \<Rightarrow> module \<Rightarrow> 'w client \<Rightarrow> ('w \<Rightarrow> nsname \<Rightarrow> deployment option) \<Rightarrow>
    'w \<times> aigateway \<Rightarrow> protocol_event list \<Rightarrow> 'w \<times> aigateway \<Rightarrow> bool"
  for E m c view s where
  here: "protocol_run E m c view s [] s"
| more: "protocol_run E m c view s evs s' \<Longrightarrow> protocol_step E m c view s' e s'' \<Longrightarrow>
    protocol_run E m c view s (evs @ [e]) s''"

inductive_cases protocol_stepE [consumes 1, case_names edited elsewhere pass aborted completed collected swept]:
  "protocol_step E m c view (w, obj) e (w', obj')"

section \<open>What the operator's steps do to the Deployment\<close>

lemma complete_teardown_simps [simp]:
  "teardown_completed_on (complete_teardown d)"
  "requested_on (complete_teardown d) = requested_on d"
  "dep_selector (complete_teardown d) = dep_selector d"
  by (simp_all add: complete_teardown_def teardown_completed_on_def requested_on_def map_index_put
      maasTeardownCompletedKey_def maasTeardownRequestedKey_def)

lemma selector_current_cong: "dep_selector d = dep_selector d' \<Longrightarrow> selector_current E d = selector_current E d'"
  by (simp add: selector_current_def selectorHasRequiredLabels_def)

lemma same_teardown_simps [simp]:
  "same_teardown live None \<longleftrightarrow> live = None"
  "same_teardown None live' \<longleftrightarrow> live' = None"
  "same_teardown (Some d) (Some d') \<longleftrightarrow>
     dep_selector d' = dep_selector d \<and> (requested_on d' \<longleftrightarrow> requested_on d) \<and>
     (teardown_completed_on d' \<longleftrightarrow> teardown_completed_on d)"
  by (auto simp: same_teardown_def split: option.split)

lemma annotateResource_frame:
  assumes "annotateResource E m rr = (Inr (), rr')" "rr_instance rr = IsAIGateway obj"
  shows "rr' = rr\<lparr>rr_resources := (if maas_state obj = removedState
    then map (request_teardown E m) (rr_resources rr) else rr_resources rr)\<rparr>"
  using assms
  by (auto simp: annotateResource_def annotateMaaSRequestedTeardown_def modify_run ok_run split: if_splits)

lemma migrateSelector_current:
  assumes "quiet_reads (get_deployment c) view" "rr_client rr = Some c"
    and "\<forall>d. view (rr_world rr) (maas_controller_key m) = Some d \<longrightarrow> selector_current E d"
  shows "migrateSelector E m rr = (Inr (), rr)"
proof (cases "view (rr_world rr) (maas_controller_key m)")
  case None
  then obtain e where "get_deployment c (maas_controller_key m) (rr_world rr) = (Inl e, rr_world rr)" "is_not_found e"
    using quiet_reads.read_missing [OF assms(1) None] by blast
  then show ?thesis by (simp add: migrateSelector_run [OF assms(2)])
next
  case (Some d)
  then have "get_deployment c (maas_controller_key m) (rr_world rr) = (Inr d, rr_world rr)"
    by (rule quiet_reads.read_found [OF assms(1)])
  then show ?thesis
    using assms(3) Some by (simp add: migrateSelector_run [OF assms(2)])
qed

text \<open>A pass, over a cluster whose reads are quiet, in terms of the Deployment alone.\<close>

lemma keep_quiet:
  assumes "quiet_reads (get_deployment c) view" "works_on c w obj rr"
    and "keep_maas_installed m obj rr = (Inr True, rr1)"
  shows "rr1 = rr" and "maas_state obj = removedState \<Longrightarrow>
    \<exists>d. view w (maas_controller_key m) = Some d \<and> \<not> teardown_completed_on d"
proof -
  have ne: "removedState \<noteq> managedState"
    by (simp add: removedState_def managedState_def)
  have run: "shouldKeepMaaSInstalled m rr =
      (Inr (phase_of (view w (maas_controller_key m)) = Running), rr)"
    using maasTeardownCompleted_quiet [OF assms(1), of m w] assms(2)
    by (simp add: shouldKeepMaaSInstalled_def works_on_def comp_simps)
  show "rr1 = rr"
    using assms(3) run by (auto simp: keep_maas_installed_def wrapping_def ok_run split: if_splits)
  show "\<exists>d. view w (maas_controller_key m) = Some d \<and> \<not> teardown_completed_on d" if "maas_state obj = removedState"
    using that assms(3) run ne
    by (auto simp: keep_maas_installed_def wrapping_def phase_of_def split: option.splits if_splits)
qed

text \<open>With MaaS Removed the bundle is not rendered only when the teardown is not running.\<close>

lemma removed_not_kept:
  assumes "quiet_reads (get_deployment c) view" "works_on c w obj rr" "maas_state obj = removedState"
  shows "keep_maas_installed m obj rr = (Inr (phase_of (view w (maas_controller_key m)) = Running), rr)"
proof -
  have "removedState \<noteq> managedState"
    by (simp add: removedState_def managedState_def)
  then show ?thesis
    using assms(2,3) maasTeardownCompleted_quiet [OF assms(1), of m w]
    by (simp add: works_on_def keep_maas_installed_def shouldKeepMaaSInstalled_def comp_simps)
qed

section \<open>The order of the protocol\<close>

text \<open>What the history says about the Deployment in the current state.\<close>

definition history_inv :: "('w, 'c) lib \<Rightarrow> deployment option \<Rightarrow> protocol_event list \<Rightarrow> bool" where
  "history_inv E live evs \<longleftrightarrow>
     (case live of
        None \<Rightarrow> subseq [Requested, Completed, Collected] evs \<or> Dropped \<in> set evs
      | Some d \<Rightarrow> selector_current E d \<and> (requested_on d \<longrightarrow> subseq [Requested] evs) \<and>
          (teardown_completed_on d \<longrightarrow> subseq [Requested, Completed] evs))"

lemma subseq_snoc: "subseq xs evs \<Longrightarrow> subseq xs (evs @ [e])"
  by (metis append.right_neutral list_emb_append_mono subseq_order.refl subseq_append_iff list_emb_Nil)

lemma subseq_snoc_last: "subseq xs evs \<Longrightarrow> subseq (xs @ [e]) (evs @ [e])"
  by (rule list_emb_append_mono) simp_all

lemma history_inv_snoc: "history_inv E live evs \<Longrightarrow> history_inv E live (evs @ [e])"
  by (auto simp: history_inv_def subseq_snoc split: option.splits)

lemma history_inv_same:
  assumes "same_teardown live live'" "history_inv E live evs"
  shows "history_inv E live' evs"
proof (cases live)
  case None
  then show ?thesis using assms by (cases live') (simp_all add: history_inv_def)
next
  case (Some d)
  then obtain d' where "live' = Some d'"
    using assms(1) by (cases live') simp_all
  then show ?thesis
    using assms Some selector_current_cong [of d' d E] by (simp add: history_inv_def)
qed

text \<open>A pass over a current selector applies to what was there, and only under Removed a request.\<close>

lemma current_pass:
  assumes quiet: "quiet_reads (get_deployment c) view" and rr: "works_on c w obj rr" "list_all unannotated (rr_resources rr)"
    and run: "keep_maas_installed m obj rr = (Inr True, rr1)" "annotateResource E m rr1 = (Inr (), rr2)"
      "migrateSelector E m rr2 = (Inr (), rr3)"
    and current: "\<forall>d. view w (maas_controller_key m) = Some d \<longrightarrow> selector_current E d"
    and u: "u \<in> set (rr_resources rr3)" "applies E u (view (rr_world rr3) (maas_controller_key m)) d"
  shows "applies E u (view w (maas_controller_key m)) d"
    and "map_index (us_annotations u) maasTeardownRequestedKey = ''true'' \<Longrightarrow> maas_state obj = removedState"
proof -
  have frame: "rr2 = rr\<lparr>rr_resources := (if maas_state obj = removedState
      then map (request_teardown E m) (rr_resources rr) else rr_resources rr)\<rparr>"
    using annotateResource_frame [OF run(2)] rr(1) keep_quiet(1) [OF quiet rr(1) run(1)] by (simp add: works_on_def)
  have "migrateSelector E m rr2 = (Inr (), rr2)"
    by (rule migrateSelector_current [OF quiet]) (use frame rr(1) current in \<open>auto simp: works_on_def\<close>)
  then have rr3: "rr3 = rr2" using run(3) by simp
  show "applies E u (view w (maas_controller_key m)) d"
    using rr(1) u(2) frame rr3 by (simp add: works_on_def)
  show "map_index (us_annotations u) maasTeardownRequestedKey = ''true'' \<Longrightarrow> maas_state obj = removedState"
    using rr(2) u(1) frame rr3 by (auto simp: list_all_iff unannotated_def split: if_splits)
qed

lemma history_step:
  assumes quiet: "quiet_reads (get_deployment c) view"
    and "protocol_step E m c view (w, obj) e (w', obj')"
    and inv: "history_inv E (view w (maas_controller_key m)) evs"
  shows "history_inv E (view w' (maas_controller_key m)) (evs @ [e])"
  using assms(2)
proof (cases rule: protocol_stepE)
  case edited
  then show ?thesis using inv by (simp add: history_inv_snoc)
next
  case elsewhere
  then show ?thesis
    using history_inv_same [OF _ inv] by (simp add: history_inv_snoc)
next
  case (pass rr rr1 rr2 rr3 u d)
  have current: "\<forall>d. view w (maas_controller_key m) = Some d \<longrightarrow> selector_current E d"
    using inv by (auto simp: history_inv_def)
  note live = current_pass(1) [OF quiet pass(3-7) current pass(8,10)]
  have req: "map_index (us_annotations u) maasTeardownRequestedKey = ''true'' \<Longrightarrow> e = Requested"
    using current_pass(2) [OF quiet pass(3-7) current pass(8,10)] pass(1) by simp
  show ?thesis
    using live inv req pass(11) selector_current_cong [of d]
    by (auto simp: applies_def history_inv_def subseq_snoc split: option.splits
        intro: subseq_snoc_last [of "[]", simplified])
next
  case (aborted rr r rr1)
  have "migrateSelector E m rr = (Inr (), rr)"
    by (rule migrateSelector_current [OF quiet])
      (use aborted inv in \<open>auto simp: works_on_def history_inv_def\<close>)
  then show ?thesis
    using aborted inv by (simp add: works_on_def history_inv_snoc)
next
  case (completed d)
  then show ?thesis
    using inv subseq_snoc_last [of "[Requested]" evs Completed] selector_current_cong [of "complete_teardown d" d E]
    by (auto simp: history_inv_def subseq_snoc)
next
  case (collected rr u rr1)
  have "phase_of (view w (maas_controller_key m)) \<noteq> Running"
    using collected maasTeardownCompleted_quiet [OF quiet, of m w]
    by (auto simp: maasAwareGCPredicate_def works_on_def Let_def comp_simps split: if_splits)
  then have "view w (maas_controller_key m) = None \<or> subseq [Requested, Completed] evs"
    using inv by (auto simp: history_inv_def phase_of_def split: option.splits if_splits)
  then show ?thesis
    using inv collected subseq_snoc_last [of "[Requested, Completed]" evs Collected]
    by (auto simp: history_inv_def intro: subseq_snoc)
next
  case (swept rr rr1 u rr2)
  show ?thesis
  proof (cases "maas_state obj = removedState")
    case True
    have "phase_of (view w (maas_controller_key m)) \<noteq> Running"
      using removed_not_kept [OF quiet swept(3) True, of m] swept(4) by simp
    then have "view w (maas_controller_key m) = None \<or> subseq [Requested, Completed] evs"
      using inv by (auto simp: history_inv_def phase_of_def split: option.splits if_splits)
    then show ?thesis
      using inv swept True subseq_snoc_last [of "[Requested, Completed]" evs Collected]
      by (auto simp: history_inv_def intro: subseq_snoc)
  next
    case False
    then show ?thesis using swept by (simp add: history_inv_def)
  qed
qed

lemma history_run:
  assumes "quiet_reads (get_deployment c) view"
    and "protocol_run E m c view s evs s'" "history_inv E (view (fst s) (maas_controller_key m)) []"
  shows "history_inv E (view (fst s') (maas_controller_key m)) evs"
  using assms(2,3)
proof (induction rule: protocol_run.induct)
  case here
  then show ?case .
next
  case (more evs s' e s'')
  then show ?case
    using history_step [OF assms(1), of E m "fst s'" "snd s'" e "fst s''" "snd s''" evs] by simp
qed

text \<open>A Deployment is dropped only while MaaS is neither Managed nor Removed.\<close>

lemma dropped_step:
  assumes "protocol_step E m c view (w, obj) Dropped (w', obj')"
  shows "maas_state obj \<noteq> managedState \<and> maas_state obj \<noteq> removedState"
  using assms
  by (cases rule: protocol_stepE) (auto simp: keep_maas_installed_def ok_run split: if_splits)

lemma dropped_run:
  assumes "protocol_run E m c view s evs s'" "Dropped \<in> set evs"
  shows "\<exists>evs\<^sub>1 evs\<^sub>2 w\<^sub>1 obj\<^sub>1. evs = evs\<^sub>1 @ Dropped # evs\<^sub>2 \<and> protocol_run E m c view s evs\<^sub>1 (w\<^sub>1, obj\<^sub>1) \<and>
    maas_state obj\<^sub>1 \<noteq> managedState \<and> maas_state obj\<^sub>1 \<noteq> removedState"
  using assms
proof (induction rule: protocol_run.induct)
  case (more evs s' e s'')
  show ?case
  proof (cases "e = Dropped")
    case True
    then have "protocol_step E m c view (fst s', snd s') Dropped (fst s'', snd s'')"
      using more.hyps(2) by simp
    from dropped_step [OF this] show ?thesis
      using more.hyps(1) True
      by (intro exI [of _ evs] exI [of _ "[]"] exI [of _ "fst s'"] exI [of _ "snd s'"]) simp
  next
    case False
    then obtain evs1 evs2 w1 obj1 where "evs = evs1 @ Dropped # evs2" "protocol_run E m c view s evs1 (w1, obj1)"
        "maas_state obj1 \<noteq> managedState \<and> maas_state obj1 \<noteq> removedState"
      using more by auto
    then show ?thesis
      by (intro exI [of _ evs1] exI [of _ "evs2 @ [e]"] exI [of _ w1] exI [of _ obj1]) simp
  qed
qed simp

text \<open>
  C5. The order of the removal: starting with a running maas-controller whose selector is current,
  whatever the interleaving of the operator's passes, aborted ones included, of edits of the spec
  and of other writers, who may change anything but the selector, the two annotations and the
  existence of the Deployment, it is gone only when the teardown was requested, then completed by
  maas-controller, and then collected, in this order; or when a pass whose spec has MaaS neither
  Managed nor Removed left the Deployment to the staleness predicate of the framework.
\<close>

theorem removal_order:
  assumes "quiet_reads (get_deployment c) view"
    and "protocol_run E m c view (w\<^sub>0, obj\<^sub>0) evs (w, obj)"
    and "view w\<^sub>0 (maas_controller_key m) = Some d" "selector_current E d"
    and "\<not> requested_on d" "\<not> teardown_completed_on d"
    and "view w (maas_controller_key m) = None"
  shows "subseq [Requested, Completed, Collected] evs \<or>
    (\<exists>evs\<^sub>1 evs\<^sub>2 w\<^sub>1 obj\<^sub>1. evs = evs\<^sub>1 @ Dropped # evs\<^sub>2 \<and>
       protocol_run E m c view (w\<^sub>0, obj\<^sub>0) evs\<^sub>1 (w\<^sub>1, obj\<^sub>1) \<and>
       maas_state obj\<^sub>1 \<noteq> managedState \<and> maas_state obj\<^sub>1 \<noteq> removedState)"
proof -
  have "history_inv E (view (fst (w, obj)) (maas_controller_key m)) evs"
    by (rule history_run [OF assms(1,2)]) (use assms(3-6) in \<open>simp add: history_inv_def\<close>)
  then have "subseq [Requested, Completed, Collected] evs \<or> Dropped \<in> set evs"
    using assms(7) by (simp add: history_inv_def)
  then show ?thesis
    using dropped_run [OF assms(2)] by blast
qed

section \<open>Progress of the removal\<close>

text \<open>How far the removal has come: no request yet, requested, completed, gone.\<close>

fun removal_rank :: "deployment option \<Rightarrow> nat" where
  "removal_rank None = 0"
| "removal_rank (Some d) = (if teardown_completed_on d then 1 else if requested_on d then 2 else 3)"

lemma removal_rank_same: "same_teardown live live' \<Longrightarrow> removal_rank live' = removal_rank live"
  by (cases live; cases live') auto

lemma request_teardown_requests:
  "is_maas_controller E m (request_teardown E m u) \<Longrightarrow>
   entries (us_annotations (request_teardown E m u)) maasTeardownRequestedKey = Some ''true''"
  by (auto simp: is_maas_controller_def request_teardown_def map_put_def entries_def split: if_splits)

text \<open>The event that takes the removal forward.\<close>

definition next_event :: "deployment \<Rightarrow> protocol_event" where
  "next_event d = (if teardown_completed_on d then Collected else if requested_on d then Completed else Requested)"

context settled_deployments
begin

text \<open>The migration leaves the Deployment alone or removes it.\<close>

lemma migrateSelector_leaves:
  assumes "rr_client rr = Some c" "migrateSelector E m rr = (r, rr1)"
  shows "view (rr_world rr1) (maas_controller_key m) = None \<or>
    view (rr_world rr1) (maas_controller_key m) = view (rr_world rr) (maas_controller_key m)"
proof (cases "view (rr_world rr) (maas_controller_key m)")
  case None
  then obtain e where "get_deployment c (maas_controller_key m) (rr_world rr) = (Inl e, rr_world rr)" "is_not_found e"
    using read_missing by blast
  then show ?thesis
    using assms(2) by (auto simp: migrateSelector_run [OF assms(1)])
next
  case (Some d)
  obtain r' w' where del: "delete_deployment c d (read_preconditions d) (rr_world rr) = (r', w')"
    by (rule prod.exhaust)
  then have "rr_world rr1 \<in> {rr_world rr, w'}"
    using assms(2) read_found [OF Some]
    by (auto simp: migrateSelector_run [OF assms(1)] split: sum.splits if_splits)
  then show ?thesis
    using delete_leaves [OF del] by auto
qed

lemma requested_pass:
  assumes "works_on c w obj rr" "maas_state obj = removedState"
    and "keep_maas_installed m obj rr = (Inr True, rr1)" "annotateResource E m rr1 = (Inr (), rr2)"
    and "migrateSelector E m rr2 = (Inr (), rr3)" "u \<in> set (rr_resources rr3)" "is_maas_controller E m u"
    and "applies E u (view (rr_world rr3) (maas_controller_key m)) d"
  shows "removal_rank (Some d) = 2" and "2 \<le> removal_rank (view w (maas_controller_key m))"
proof -
  note keep = keep_quiet [OF quiet_reads_axioms assms(1,3)]
  obtain d0 where d0: "view w (maas_controller_key m) = Some d0" "\<not> teardown_completed_on d0"
    using keep(2) assms(2) by blast
  have rr2: "rr2 = rr\<lparr>rr_resources := map (request_teardown E m) (rr_resources rr)\<rparr>"
    using annotateResource_frame [OF assms(4)] assms(1,2) keep(1) by (simp add: works_on_def)
  have res: "rr_resources rr3 = rr_resources rr2"
    using keepsD [OF keeps_resources_migrateSelector assms(5)] .
  have "entries (us_annotations u) maasTeardownRequestedKey = Some ''true''"
    using assms(6,7) request_teardown_requests unfolding res rr2 by auto
  then have "requested_on d"
    using assms(8) by (force simp: applies_def requested_on_def map_index_def map_le_def dom_def)
  moreover have "view (rr_world rr3) (maas_controller_key m) = None \<or>
      view (rr_world rr3) (maas_controller_key m) = Some d0"
    using migrateSelector_leaves [OF _ assms(5)] assms(1) d0 rr2 by (auto simp: works_on_def)
  then have "\<not> teardown_completed_on d"
    using assms(8) d0 by (auto simp: applies_def)
  ultimately show "removal_rank (Some d) = 2" by simp
  show "2 \<le> removal_rank (view w (maas_controller_key m))"
    using d0 by simp
qed

text \<open>A step under Removed never raises the rank; the next event lowers it.\<close>

lemma rank_step:
  assumes "protocol_step E m c view (w, obj) e (w', obj')" "maas_state obj = removedState"
  shows "removal_rank (view w' (maas_controller_key m)) \<le> removal_rank (view w (maas_controller_key m))"
  using assms(1)
proof (cases rule: protocol_stepE)
  case elsewhere
  then show ?thesis by (simp add: removal_rank_same)
next
  case (pass rr rr1 rr2 rr3 u d)
  then show ?thesis
    using requested_pass [OF pass(3) assms(2) pass(5-10)] by simp
next
  case (aborted rr r rr1)
  then show ?thesis
    using migrateSelector_leaves [of rr E m r rr1] by (auto simp: works_on_def)
qed simp_all

lemma next_event_advances:
  assumes "protocol_step E m c view (w, obj) (next_event d) (w', obj')"
    and "maas_state obj = removedState" "view w (maas_controller_key m) = Some d"
  shows "removal_rank (view w' (maas_controller_key m)) < removal_rank (view w (maas_controller_key m))"
  using assms(1)
proof (cases rule: protocol_stepE)
  case (pass rr rr1 rr2 rr3 u d')
  then show ?thesis
    using requested_pass(1) [OF pass(3) assms(2) pass(5-10)] assms(2,3)
    by (auto simp: next_event_def split: if_splits)
qed (use assms(3) in \<open>auto simp: next_event_def split: if_splits\<close>)

text \<open>The selector stays current: the history invariant, with a history that allows everything else.\<close>

lemma current_step:
  assumes "protocol_step E m c view (w, obj) e (w', obj')"
    and "\<forall>d. view w (maas_controller_key m) = Some d \<longrightarrow> selector_current E d"
  shows "\<forall>d. view w' (maas_controller_key m) = Some d \<longrightarrow> selector_current E d"
proof -
  have "history_inv E (view w (maas_controller_key m)) [Requested, Completed, Collected]"
    using assms(2) by (auto simp: history_inv_def split: option.split)
  from history_step [OF quiet_reads_axioms assms(1) this] show ?thesis
    by (auto simp: history_inv_def)
qed

end

text \<open>
  C24. While MaaS is Removed and the spec is not edited, no step of the operator, aborted passes
  included, of maas-controller, of the collector or of a writer that leaves the teardown annotations
  and the existence of the Deployment alone takes the removal back, on any cluster with quiet reads
  whose deletes remove a Deployment or leave it: it never returns to an earlier stage, and a
  Deployment that is gone is not created again.
\<close>

theorem removal_never_regresses:
  assumes "settled_deployments c view"
    and "protocol_step E m c view (w, obj) e (w', obj')"
    and "maas_state obj = removedState" "e \<noteq> Edited"
  shows "obj' = obj \<and>
    removal_rank (view w' (maas_controller_key m)) \<le> removal_rank (view w (maas_controller_key m))"
proof
  show "obj' = obj"
    using assms(2,4) by (cases rule: protocol_stepE) simp_all
  show "removal_rank (view w' (maas_controller_key m)) \<le> removal_rank (view w (maas_controller_key m))"
    by (rule settled_deployments.rank_step [OF assms(1-3)])
qed

text \<open>The Deployment of maas-controller as it is rendered, and a pass that applies it.\<close>

definition plain_controller :: "('w, 'c) lib \<Rightarrow> module \<Rightarrow> unstructured" where
  "plain_controller E m =
     \<lparr>us_gvk = gvk_Deployment E, us_namespace = apps_ns m, us_name = maasControllerDeploymentName,
      us_labels = None, us_annotations = None, us_object = Obj []\<rparr>"

lemma dep_key_complete [simp]: "dep_key (complete_teardown d) = dep_key d"
  by (simp add: dep_key_def complete_teardown_def)

definition request_on :: "deployment \<Rightarrow> deployment" where
  "request_on d = d\<lparr>dep_annotations := map_put (dep_annotations d) maasTeardownRequestedKey ''true''\<rparr>"

lemma request_on_simps [simp]:
  "teardown_completed_on (request_on d) = teardown_completed_on d" "requested_on (request_on d)"
  "dep_selector (request_on d) = dep_selector d" "dep_key (request_on d) = dep_key d"
  by (simp_all add: request_on_def teardown_completed_on_def requested_on_def map_index_put dep_key_def
      maasTeardownRequestedKey_def maasTeardownCompletedKey_def)

text \<open>A pass whose render holds maas-controller, with neither annotation, requests the teardown.\<close>

lemma request_step:
  fixes E :: "('w, 'c) lib"
  assumes "quiet_reads (get_deployment c) view" "maas_state obj = removedState"
    and "view w (maas_controller_key m) = Some d" "selector_current E d" "\<not> teardown_completed_on d"
    and "view w' (maas_controller_key m) = Some (request_on d)"
  shows "protocol_step E m c view (w, obj) Requested (w', obj)"
proof -
  let ?u = "request_teardown E m (plain_controller E m)"
  define rr :: "('w, 'c) request" where
    "rr = (request_for (Some c) w undefined obj)\<lparr>rr_resources := [plain_controller E m]\<rparr>"
  define rr2 where "rr2 = rr\<lparr>rr_resources := [?u]\<rparr>"
  have works: "works_on c w obj rr"
    by (simp add: works_on_def rr_def)
  have keep: "keep_maas_installed m obj rr = (Inr True, rr)"
    using removed_not_kept [OF assms(1) works assms(2), of m] assms(3,5) by simp
  have annotate: "annotateResource E m rr = (Inr (), rr2)"
    using assms(2) by (simp add: rr2_def rr_def annotateResource_def annotateMaaSRequestedTeardown_def modify_run)
  have migrate: "migrateSelector E m rr2 = (Inr (), rr2)"
    by (rule migrateSelector_current [OF assms(1)]) (use assms(3,4) in \<open>simp_all add: rr2_def rr_def\<close>)
  have "applies E ?u (Some d) (request_on d)"
    by (auto simp: request_on_def applies_def request_teardown_def plain_controller_def map_le_def
        map_put_def entries_def map_index_def teardown_completed_on_def requested_on_def
        maasTeardownRequestedKey_def maasTeardownCompletedKey_def split: option.splits)
  then have applied: "applies E ?u (view (rr_world rr2) (maas_controller_key m)) (request_on d)"
    using assms(3) by (simp add: rr2_def rr_def)
  have "is_maas_controller E m ?u" "?u \<in> set (rr_resources rr2)" "list_all unannotated (rr_resources rr)"
    by (simp_all add: rr2_def rr_def unannotated_def plain_controller_def map_index_def
        entries_def is_maas_controller_def request_teardown_def)
  then have "protocol_step E m c view (w, obj)
      (if maas_state obj = removedState then Requested else Applied) (w', obj)"
    by (intro pass [where rr = rr and ?rr1.0 = rr and ?rr2.0 = rr2 and ?rr3.0 = rr2 and u = ?u and d = "request_on d"])
      (use works keep annotate migrate applied assms(6) in auto)
  then show ?thesis
    using assms(2) by simp
qed

text \<open>
  A teardown that is completed, or a Deployment that is missing, is what the collector waits for,
  whatever the staleness predicate says.
\<close>

lemma collect_step:
  fixes E :: "('w, 'c) lib"
  assumes "quiet_reads (get_deployment c) view" "maas_state obj = removedState"
    and "\<forall>d. view w (maas_controller_key m) = Some d \<longrightarrow> teardown_completed_on d"
    and "\<And>rr. \<exists>stale. DefaultObjectPredicate E rr u = Inr stale"
    and "us_labels u = Some [maasCRDComponentLabelKey \<mapsto> maasCRDComponentLabelValue]"
    and "is_maas_controller E m u" "gvk_Deployment E \<noteq> gvk_CustomResourceDefinition E"
    and "view w' (maas_controller_key m) = None"
  shows "protocol_step E m c view (w, obj) Collected (w', obj)"
proof -
  define rr :: "('w, 'c) request" where "rr = request_for (Some c) w undefined obj"
  have works: "works_on c w obj rr"
    by (simp add: works_on_def rr_def)
  have phase: "phase_of (view w (maas_controller_key m)) \<noteq> Running"
    using assms(3) by (auto simp: phase_of_def split: option.split)
  have keep: "keep_maas_installed m obj rr = (Inr False, rr)"
    using removed_not_kept [OF assms(1) works assms(2), of m] phase by simp
  obtain stale where stale: "DefaultObjectPredicate E rr u = Inr stale"
    using assms(4) by blast
  have deletable: "maasAwareGCPredicate E m u rr = (Inr True, rr)"
    using assms(5-7) maasTeardownCompleted_quiet [OF assms(1), of m w] works phase stale
    by (cases stale) (simp_all add: maasAwareGCPredicate_def is_maas_controller_def map_index_def works_on_def comp_simps)
  show ?thesis
  proof (cases stale)
    case True
    then show ?thesis
      using swept [where m = m and view = view, OF works keep assms(6) _ deletable] stale assms(2,8) by simp
  next
    case False
    then show ?thesis
      using collected [where m = m and view = view, OF works assms(6) _ deletable] stale assms(8) by simp
  qed
qed

text \<open>In each stage the next step of the protocol can be taken.\<close>

lemma removal_next:
  fixes E :: "('w, 'c) lib"
  assumes "free_deployments c view" "maas_state obj = removedState"
    and "view w (maas_controller_key m) = Some d" "selector_current E d"
    and "\<And>rr. \<exists>stale. DefaultObjectPredicate E rr u = Inr stale"
    and "us_labels u = Some [maasCRDComponentLabelKey \<mapsto> maasCRDComponentLabelValue]"
    and "is_maas_controller E m u" "gvk_Deployment E \<noteq> gvk_CustomResourceDefinition E"
  shows "\<exists>w'. protocol_step E m c view (w, obj) (next_event d) (w', obj)"
proof -
  let ?k = "maas_controller_key m"
  note settled = free_deployments.axioms(1) [OF assms(1)]
  note quiet = settled_deployments.axioms(1) [OF settled]
  consider "teardown_completed_on d" | "\<not> teardown_completed_on d" "requested_on d"
    | "\<not> teardown_completed_on d" "\<not> requested_on d" by blast
  then show ?thesis
  proof cases
    case 1
    obtain w' where "view w' ?k = None"
      using free_deployments.removable [OF assms(1)] by blast
    then have "protocol_step E m c view (w, obj) Collected (w', obj)"
      by (intro collect_step [OF quiet assms(2) _ assms(5-8)]) (simp_all add: 1 assms(3))
    then show ?thesis
      using 1 by (auto simp: next_event_def)
  next
    case 2
    obtain w' where "view w' ?k = Some (complete_teardown d)"
      using free_deployments.annotatable [OF assms(1,3)] unfolding complete_teardown_def by blast
    then have "protocol_step E m c view (w, obj) Completed (w', obj)"
      by (rule completed [where view = view, OF assms(3) 2(2)])
    then show ?thesis
      using 2 by (auto simp: next_event_def)
  next
    case 3
    obtain w' where "view w' ?k = Some (request_on d)"
      using free_deployments.annotatable [OF assms(1,3)] unfolding request_on_def by blast
    then have "protocol_step E m c view (w, obj) Requested (w', obj)"
      by (rule request_step [OF quiet assms(2-4) 3(1)])
    then show ?thesis
      using 3 by (auto simp: next_event_def)
  qed
qed

lemma next_event_in: "next_event d \<in> {Requested, Completed, Collected}"
  by (simp add: next_event_def)

lemma run_append:
  "protocol_run E m c view s evs s' \<Longrightarrow> protocol_step E m c view s\<^sub>0 e s \<Longrightarrow>
   protocol_run E m c view s\<^sub>0 (e # evs) s'"
proof (induction rule: protocol_run.induct)
  case here
  then show ?case
    using more [OF protocol_run.here, of E m c view s\<^sub>0 e s] by simp
next
  case (more evs s' e' s'')
  then show ?case
    using protocol_run.more [of E m c view s\<^sub>0 "e # evs" s' e' s''] by simp
qed

text \<open>Hence a run to the end, of a length bounded by the rank.\<close>

lemma removal_run:
  fixes E :: "('w, 'c) lib"
  assumes "free_deployments c view" "maas_state obj = removedState"
    and "\<forall>d. view w (maas_controller_key m) = Some d \<longrightarrow> selector_current E d"
    and "\<And>rr. \<exists>stale. DefaultObjectPredicate E rr u = Inr stale"
    and "us_labels u = Some [maasCRDComponentLabelKey \<mapsto> maasCRDComponentLabelValue]"
    and "is_maas_controller E m u" "gvk_Deployment E \<noteq> gvk_CustomResourceDefinition E"
  shows "\<exists>evs w'. protocol_run E m c view (w, obj) evs (w', obj) \<and>
    set evs \<subseteq> {Requested, Completed, Collected} \<and>
    length evs \<le> removal_rank (view w (maas_controller_key m)) \<and> view w' (maas_controller_key m) = None"
  using assms(3)
proof (induction "removal_rank (view w (maas_controller_key m))" arbitrary: w rule: less_induct)
  case less
  note settled = free_deployments.axioms(1) [OF assms(1)]
  show ?case
  proof (cases "view w (maas_controller_key m)")
    case None
    then show ?thesis
      using protocol_run.here by (intro exI [of _ "[]"] exI [of _ w]) simp
  next
    case (Some d)
    obtain w1 where 1: "protocol_step E m c view (w, obj) (next_event d) (w1, obj)"
      using removal_next [OF assms(1,2) Some _ assms(4-7)] less.prems Some by blast
    note lower = settled_deployments.next_event_advances [OF settled 1 assms(2) Some]
    obtain evs w2 where 2: "protocol_run E m c view (w1, obj) evs (w2, obj)"
        "set evs \<subseteq> {Requested, Completed, Collected}"
        "length evs \<le> removal_rank (view w1 (maas_controller_key m))" "view w2 (maas_controller_key m) = None"
      using less.hyps [OF lower settled_deployments.current_step [OF settled 1 less.prems]] by blast
    show ?thesis
      using run_append [OF 2(1) 1] next_event_in [of d] lower 2(2-4)
      by (intro exI [of _ "next_event d # evs"] exI [of _ w2]) simp
  qed
qed

text \<open>
  The removal can always be completed: while MaaS is Removed, from any state of the cluster in
  which the selector of maas-controller is current, at most three steps, each an operator pass, the
  answer of maas-controller or a collection, lead to the Deployment being gone. The Deployment is
  rendered with the label of the bundle.
\<close>

theorem removal_completes:
  fixes E :: "('w, 'c) lib"
  assumes "free_deployments c view" "maas_state obj = removedState"
    and "\<forall>d. view w (maas_controller_key m) = Some d \<longrightarrow> selector_current E d"
    and "\<And>rr. \<exists>stale. DefaultObjectPredicate E rr u = Inr stale"
    and "us_labels u = Some [maasCRDComponentLabelKey \<mapsto> maasCRDComponentLabelValue]"
    and "is_maas_controller E m u" "gvk_Deployment E \<noteq> gvk_CustomResourceDefinition E"
  shows "\<exists>evs w'. protocol_run E m c view (w, obj) evs (w', obj) \<and>
    set evs \<subseteq> {Requested, Completed, Collected} \<and> length evs \<le> 3 \<and> view w' (maas_controller_key m) = None"
proof -
  have "removal_rank (view w (maas_controller_key m)) \<le> 3"
    by (cases "view w (maas_controller_key m)") simp_all
  then show ?thesis
    using removal_run [OF assms] by (meson order.trans)
qed

section \<open>A management state that is not set\<close>

text \<open>
  C10. MaaS neither Managed nor Removed: the CRD gives the block of MaaS no default, so that a spec
  without it has the empty state. The bundle is then not rendered, its teardown is not requested, and
  every resource of it that the framework counts as stale, maas-controller included, is given to
  the collector without the teardown being looked at, whatever the cluster would answer.
\<close>

theorem unset_state_drops_maas:
  assumes "rr_instance rr = IsAIGateway obj"
    and "maas_state obj \<noteq> managedState" "maas_state obj \<noteq> removedState"
    and "\<not> grid_crd E u" "DefaultObjectPredicate E rr u = Inr True"
  shows "keep_maas_installed m obj rr = (Inr False, rr) \<and> annotateResource E m rr = (Inr (), rr) \<and>
    maasAwareGCPredicate E m u rr = (Inr True, rr)"
  using assms
  by (simp add: keep_maas_installed_def annotateResource_def annotateMaaSRequestedTeardown_def ok_run
      maasAwareGCPredicate_def grid_crd_def)

section \<open>An interrupted migration\<close>

text \<open>
  C7. A pass that ends between the selector migration and the deploy action loses the teardown: with
  MaaS Removed, before the pass a running maas-controller with a stale selector keeps the bundle
  installed; once the migration has deleted it, the next pass no longer renders the bundle, counts
  the teardown as completed, and gives the collector every resource of the bundle, although
  maas-controller was never asked to tear down.
\<close>

theorem interrupted_migration_skips_teardown:
  assumes "quiet_reads (get_deployment c) view" and "works_on c w obj rr" "maas_state obj = removedState"
    and "view w (maas_controller_key m) = Some d" "\<not> teardown_completed_on d"
    and "migrateSelector E m rr = (Inr (), rr1)"
    and "view (rr_world rr1) (maas_controller_key m) = None"
  shows "keep_maas_installed m obj rr = (Inr True, rr) \<and> \<not> selector_current E d \<and>
    keep_maas_installed m obj rr1 = (Inr False, rr1) \<and>
    (\<forall>u. maas_bundle u \<longrightarrow> \<not> grid_crd E u \<longrightarrow> DefaultObjectPredicate E rr1 u = Inr False \<longrightarrow>
       maasAwareGCPredicate E m u rr1 = (Inr True, rr1))"
proof -
  have ne: "removedState \<noteq> managedState"
    by (simp add: removedState_def managedState_def)
  have client: "rr_client rr1 = Some c"
    using keepsD [OF keeps_client(6) assms(6)] assms(2) by (simp add: works_on_def)
  note before = maasTeardownCompleted_quiet [OF assms(1), of m w]
  note after = maasTeardownCompleted_quiet [OF assms(1), of m "rr_world rr1"]
  have "keep_maas_installed m obj rr = (Inr True, rr)"
    using assms(2-5) ne before
    by (simp add: works_on_def keep_maas_installed_def shouldKeepMaaSInstalled_def comp_simps)
  moreover have "keep_maas_installed m obj rr1 = (Inr False, rr1)"
    using assms(3,7) ne after client
    by (simp add: keep_maas_installed_def shouldKeepMaaSInstalled_def comp_simps)
  moreover have "\<not> selector_current E d"
  proof
    assume "selector_current E d"
    then have "migrateSelector E m rr = (Inr (), rr)"
      using assms(2,4) by (intro migrateSelector_current [OF assms(1)]) (auto simp: works_on_def)
    then show False
      using assms(2,4,6,7) by (auto simp: works_on_def)
  qed
  moreover have "maasAwareGCPredicate E m u rr1 = (Inr True, rr1)"
    if "maas_bundle u" "\<not> grid_crd E u" "DefaultObjectPredicate E rr1 u = Inr False" for u
    using that after assms(7) client
    by (auto simp: maasAwareGCPredicate_def grid_crd_def maas_bundle_def Let_def comp_simps)
  ultimately show ?thesis by blast
qed

section \<open>Witnesses\<close>

abbreviation mem_controller :: "module \<Rightarrow> mem \<Rightarrow> deployment option" where
  "mem_controller m w \<equiv> mem_deployment w (maas_controller_key m)"

text \<open>A running maas-controller with the current selector, and its rendered form.\<close>

definition running_controller :: deployment where
  "running_controller =
     (deployment_named ''apps'' ''maas-controller'' 1 None)\<lparr>dep_selector := Some (Some
       [''app.kubernetes.io/part-of'' \<mapsto> ''aigateway'', ''app.opendatahub.io/aigateway'' \<mapsto> ''true''])\<rparr>"

definition controller_object :: unstructured where
  "controller_object = labelled apps_gvk ''maas-controller'' ''models-as-a-service''"

abbreviation removed_gateway :: aigateway where
  "removed_gateway \<equiv> gateway_with '''' ''Removed'' '''' []"

lemma running_controller_facts:
  "selector_current mem_lib running_controller" "\<not> requested_on running_controller"
  "\<not> teardown_completed_on running_controller"
  "mem_controller (module_for ''apps'') (with_deployments [running_controller]) = Some running_controller"
  "maas_state removed_gateway = removedState"
  "is_maas_controller mem_lib (module_for ''apps'') controller_object"
  "us_labels controller_object = Some [maasCRDComponentLabelKey \<mapsto> maasCRDComponentLabelValue]"
  "gvk_Deployment mem_lib \<noteq> gvk_CustomResourceDefinition mem_lib"
proof -
  show "selector_current mem_lib running_controller" by code_simp
  show "\<not> requested_on running_controller" by code_simp
  show "\<not> teardown_completed_on running_controller" by code_simp
  show "mem_controller (module_for ''apps'') (with_deployments [running_controller]) = Some running_controller"
    by (simp add: mem_deployment_with running_controller_def deployment_named_def dep_key_def
        maas_controller_key_def maasControllerDeploymentName_def)
  show "maas_state removed_gateway = removedState" by (simp add: removedState_def)
  show "is_maas_controller mem_lib (module_for ''apps'') controller_object"
    by (simp add: is_maas_controller_def controller_object_def labelled_def maasControllerDeploymentName_def)
  show "us_labels controller_object = Some [maasCRDComponentLabelKey \<mapsto> maasCRDComponentLabelValue]"
    by (simp add: controller_object_def labelled_def maasCRDComponentLabelValue_def)
  show "gvk_Deployment mem_lib \<noteq> gvk_CustomResourceDefinition mem_lib"
    by (simp add: apps_gvk_def crd_gvk_def)
qed

text \<open>The memory cluster, and a library whose staleness predicate answers.\<close>

lemmas mem_settled = mem_free.settled_deployments_axioms

lemma mem_lib_answers: "\<exists>stale. DefaultObjectPredicate mem_lib rr u = Inr stale"
  by (rule exI [of _ False]) simp

lemma running_controller_removed:
  obtains evs w where "protocol_run mem_lib (module_for ''apps'') mem_client mem_deployment
      (with_deployments [running_controller], removed_gateway) evs (w, removed_gateway)"
    "set evs \<subseteq> {Requested, Completed, Collected}" "mem_controller (module_for ''apps'') w = None"
  using removal_run [OF mem_free.free_deployments_axioms running_controller_facts(5) _ mem_lib_answers
      running_controller_facts(7,6,8), of "with_deployments [running_controller]"] running_controller_facts(1,4)
  by (auto simp del: mem_client_simps)

theorem removal_order_witness:
  "\<exists>evs w. protocol_run mem_lib (module_for ''apps'') mem_client mem_deployment
      (with_deployments [running_controller], removed_gateway) evs (w, removed_gateway) \<and>
    subseq [Requested, Completed, Collected] evs"
proof -
  obtain evs w where run: "protocol_run mem_lib (module_for ''apps'') mem_client mem_deployment
      (with_deployments [running_controller], removed_gateway) evs (w, removed_gateway)"
    and evs: "set evs \<subseteq> {Requested, Completed, Collected}"
    and gone: "mem_controller (module_for ''apps'') w = None"
    by (rule running_controller_removed)
  have "Dropped \<notin> set evs" using evs by auto
  then have "subseq [Requested, Completed, Collected] evs"
    using removal_order [OF mem_deps.quiet_reads_axioms run running_controller_facts(4,1,2,3) gone] by auto
  with run show ?thesis by blast
qed

theorem removal_never_regresses_witness:
  "\<exists>e w. protocol_step mem_lib (module_for ''apps'') mem_client mem_deployment
      (with_deployments [running_controller], removed_gateway) e (w, removed_gateway) \<and>
    removal_rank (mem_controller (module_for ''apps'') w) \<le> 3"
proof -
  obtain w where step: "protocol_step mem_lib (module_for ''apps'') mem_client mem_deployment
      (with_deployments [running_controller], removed_gateway) (next_event running_controller) (w, removed_gateway)"
    using removal_next [OF mem_free.free_deployments_axioms running_controller_facts(5,4,1) mem_lib_answers
        running_controller_facts(7,6,8)] by blast
  have "next_event running_controller \<noteq> Edited"
    using next_event_in [of running_controller] by auto
  then have "removal_rank (mem_controller (module_for ''apps'') w) \<le>
      removal_rank (mem_controller (module_for ''apps'') (with_deployments [running_controller]))"
    using removal_never_regresses [OF mem_settled step running_controller_facts(5)] by blast
  then show ?thesis
    using step running_controller_facts(2-4) by auto
qed

theorem removal_completes_witness:
  "\<exists>evs w. protocol_run mem_lib (module_for ''apps'') mem_client mem_deployment
      (with_deployments [running_controller], removed_gateway) evs (w, removed_gateway) \<and>
    length evs \<le> 3 \<and> mem_controller (module_for ''apps'') w = None"
  using removal_completes [OF mem_free.free_deployments_axioms running_controller_facts(5) _ mem_lib_answers
      running_controller_facts(7,6,8), of "with_deployments [running_controller]"] running_controller_facts(1,4)
  by (auto simp del: mem_client_simps)

text \<open>The spec edited to drop the MaaS block: the running maas-controller, never asked, is deletable.\<close>

theorem unset_state_drops_maas_witness:
  "let E = mem_lib\<lparr>DefaultObjectPredicate := (\<lambda>rr u. Inr True)\<rparr>;
       rr = request_for (Some mem_client) (with_deployments [running_controller]) ([] :: conds)
              (gateway_with '''' '''' '''' [])
   in maasAwareGCPredicate E (module_for ''apps'') controller_object rr = (Inr True, rr) \<and>
      maasTeardownCompleted (module_for ''apps'') (Some mem_client) (rr_world rr) = (Inr False, rr_world rr)"
proof -
  let ?E = "mem_lib\<lparr>DefaultObjectPredicate := (\<lambda>rr u. Inr True)\<rparr> :: (mem, conds) lib"
  let ?rr = "request_for (Some mem_client) (with_deployments [running_controller]) ([] :: conds)
    (gateway_with '''' '''' '''' [])"
  have "maasAwareGCPredicate ?E (module_for ''apps'') controller_object ?rr = (Inr True, ?rr)"
    using unset_state_drops_maas [where rr = ?rr and obj = "gateway_with '''' '''' '''' []" and E = ?E
        and u = controller_object and m = "module_for ''apps''"]
    by (simp add: controller_object_def labelled_def grid_crd_def apps_gvk_def crd_gvk_def managedState_def
        removedState_def)
  moreover have "maasTeardownCompleted (module_for ''apps'') (Some mem_client) (rr_world ?rr) =
      (Inr False, rr_world ?rr)"
    using maasTeardownCompleted_quiet [OF mem_deps.quiet_reads_axioms, of "module_for ''apps''"]
      running_controller_facts(3,4) by simp
  ultimately show ?thesis
    by (simp add: Let_def)
qed

theorem interrupted_migration_skips_teardown_witness:
  "\<exists>rr1. migrateSelector mem_lib (module_for ''apps'')
      (request_for (Some mem_client) (with_deployments [stale_controller]) ([] :: conds) removed_gateway) =
      (Inr (), rr1) \<and>
    keep_maas_installed (module_for ''apps'') removed_gateway rr1 = (Inr False, rr1) \<and>
    maasAwareGCPredicate mem_lib (module_for ''apps'')
      (labelled apps_gvk ''maas-api'' ''models-as-a-service'') rr1 = (Inr True, rr1)"
proof -
  let ?m = "module_for ''apps''" and ?w = "with_deployments [stale_controller]"
  let ?rr = "request_for (Some mem_client) ?w ([] :: conds) removed_gateway"
  let ?u = "labelled apps_gvk ''maas-api'' ''models-as-a-service''"
  obtain rr1 where run: "migrateSelector mem_lib ?m ?rr = (Inr (), rr1)"
    using stale_run(2) by (metis prod.collapse)
  then have world: "rr_world rr1 = with_deployments []"
    using stale_run(1) [of removed_gateway] by simp
  have live: "mem_controller ?m ?w = Some stale_controller"
    by (simp add: mem_deployment_with stale_controller_def deployment_named_def dep_key_def
        maas_controller_key_def maasControllerDeploymentName_def)
  have open_teardown: "\<not> teardown_completed_on stale_controller" by code_simp
  have works: "works_on mem_client ?w removed_gateway ?rr" by (simp add: works_on_def)
  have gone: "mem_controller ?m (rr_world rr1) = None"
    by (simp add: world mem_deployment_with)
  have "maas_bundle ?u" "\<not> grid_crd mem_lib ?u"
    by (simp_all add: labelled_def maas_bundle_def grid_crd_def map_index_def apps_gvk_def crd_gvk_def
        maasCRDComponentLabelValue_def)
  then show ?thesis
    using interrupted_migration_skips_teardown [OF mem_deps.quiet_reads_axioms works
        running_controller_facts(5) live open_teardown run gone] run
    by auto
qed

end
