(* ===== verification/Removal_Fairness.thy ===== *)
theory Removal_Fairness
  imports Removal_Protocol
begin

text \<open>
  Infinite runs of the removal of MaaS, on any cluster that meets the contract of
  \<open>free_deployments\<close>. \<open>Removal_Protocol\<close> shows that the removal can always be
  completed; here it is completed, in every run that is weakly fair to the operator's pass, to the
  answer of maas-controller and to the collector, whatever else happens in between.
\<close>

section \<open>Infinite runs\<close>

type_synonym 'w trace = "nat \<Rightarrow> 'w \<times> aigateway"

type_synonym 'w deployments_view = "'w \<Rightarrow> nsname \<Rightarrow> deployment option"

definition infinite_run ::
  "('w, 'c) lib \<Rightarrow> module \<Rightarrow> 'w client \<Rightarrow> 'w deployments_view \<Rightarrow> 'w trace \<Rightarrow> (nat \<Rightarrow> protocol_event) \<Rightarrow> bool" where
  "infinite_run E m c view \<sigma> ev \<longleftrightarrow> (\<forall>i. protocol_step E m c view (\<sigma> i) (ev i) (\<sigma> (Suc i)))"

text \<open>An event can happen in a state; weak fairness: what can happen from some point on, happens.\<close>

definition enabled ::
  "('w, 'c) lib \<Rightarrow> module \<Rightarrow> 'w client \<Rightarrow> 'w deployments_view \<Rightarrow> 'w \<times> aigateway \<Rightarrow> protocol_event \<Rightarrow> bool" where
  "enabled E m c view s e \<longleftrightarrow> (\<exists>s'. protocol_step E m c view s e s')"

definition weakly_fair ::
  "('w, 'c) lib \<Rightarrow> module \<Rightarrow> 'w client \<Rightarrow> 'w deployments_view \<Rightarrow> 'w trace \<Rightarrow> (nat \<Rightarrow> protocol_event) \<Rightarrow>
    protocol_event \<Rightarrow> bool" where
  "weakly_fair E m c view \<sigma> ev e \<longleftrightarrow>
     (\<forall>i. (\<forall>j\<ge>i. enabled E m c view (\<sigma> j) e) \<longrightarrow> (\<exists>j\<ge>i. ev j = e))"

abbreviation controller_at :: "module \<Rightarrow> 'w deployments_view \<Rightarrow> 'w trace \<Rightarrow> nat \<Rightarrow> deployment option" where
  "controller_at m view \<sigma> i \<equiv> view (fst (\<sigma> i)) (maas_controller_key m)"

section \<open>Along a run\<close>

lemma removal_rank_zero [simp]: "removal_rank live = 0 \<longleftrightarrow> live = None"
  by (cases live) auto

lemma infinite_run_step:
  "infinite_run E m c view \<sigma> ev \<Longrightarrow>
   protocol_step E m c view (fst (\<sigma> i), snd (\<sigma> i)) (ev i) (fst (\<sigma> (Suc i)), snd (\<sigma> (Suc i)))"
  by (simp add: infinite_run_def)

context settled_deployments
begin

lemma current_run:
  assumes "infinite_run E m c view \<sigma> ev"
    and "\<forall>d. controller_at m view \<sigma> 0 = Some d \<longrightarrow> selector_current E d"
  shows "\<forall>d. controller_at m view \<sigma> i = Some d \<longrightarrow> selector_current E d"
proof (induction i)
  case (Suc i)
  then show ?case
    by (rule current_step [OF infinite_run_step [OF assms(1)]])
qed (rule assms(2))

lemma rank_run:
  assumes "infinite_run E m c view \<sigma> ev" "\<And>i. maas_state (snd (\<sigma> i)) = removedState" "i \<le> j"
  shows "removal_rank (controller_at m view \<sigma> j) \<le> removal_rank (controller_at m view \<sigma> i)"
  using assms(3)
proof (induction j rule: dec_induct)
  case (step j)
  then show ?case
    using rank_step [OF infinite_run_step [OF assms(1), of j] assms(2)] by simp
qed simp

end

section \<open>Every fair run completes the removal\<close>

text \<open>
  C6. The removal ends. On a cluster whose Deployments answer reads and deletes as they are
  documented to, take an infinite run of the protocol in which the spec keeps MaaS Removed at every
  step, the selector of maas-controller is current at the start, the staleness predicate of the
  framework answers without an error, whatever it answers, and which is weakly fair to the
  operator's passes, to the answer of maas-controller and to the collector. The run reaches a state
  in which the Deployment of maas-controller is gone, and from there on it is never created again,
  whatever aborted passes, other edits of the spec and writers that leave selector, annotations and
  existence of the Deployment alone the run interleaves. The rank of the removal is the measure that
  ends it.
\<close>

theorem fair_removal_ends:
  fixes E :: "('w, 'c) lib"
  assumes free: "free_deployments c view"
    and run: "infinite_run E m c view \<sigma> ev" and removed: "\<And>i. maas_state (snd (\<sigma> i)) = removedState"
    and fair: "\<And>e. e \<in> {Requested, Completed, Collected} \<Longrightarrow> weakly_fair E m c view \<sigma> ev e"
    and current: "\<forall>d. controller_at m view \<sigma> 0 = Some d \<longrightarrow> selector_current E d"
    and "\<And>rr. \<exists>stale. DefaultObjectPredicate E rr u = Inr stale"
    and "us_labels u = Some [maasCRDComponentLabelKey \<mapsto> maasCRDComponentLabelValue]"
    and "is_maas_controller E m u" "gvk_Deployment E \<noteq> gvk_CustomResourceDefinition E"
  shows "\<exists>i. \<forall>j\<ge>i. controller_at m view \<sigma> j = None"
proof -
  let ?rank = "\<lambda>i. removal_rank (controller_at m view \<sigma> i)"
  note settled = free_deployments.axioms(1) [OF free]
  obtain i where least: "\<And>j. ?rank i \<le> ?rank j"
    using ex_has_least_nat [of "\<lambda>_. True" 0 ?rank] by auto
  have const: "?rank j = ?rank i" if "i \<le> j" for j
    using least settled_deployments.rank_run [OF settled run removed that] by (simp add: le_antisym)
  have "controller_at m view \<sigma> i = None"
  proof (rule ccontr)
    assume "controller_at m view \<sigma> i \<noteq> None"
    then obtain d0 where d0: "controller_at m view \<sigma> i = Some d0" by blast
    have next_event: "enabled E m c view (\<sigma> j) (next_event d0) \<and>
        (\<exists>d. controller_at m view \<sigma> j = Some d \<and> next_event d = next_event d0)" if "i \<le> j" for j
    proof -
      have "?rank j \<noteq> 0" using const [OF that] d0 by simp
      then obtain d where d: "controller_at m view \<sigma> j = Some d" by auto
      moreover have same: "next_event d = next_event d0"
        using const [OF that] d d0 by (auto simp: next_event_def split: if_splits)
      moreover have "selector_current E d"
        using settled_deployments.current_run [OF settled run current] d by blast
      ultimately show ?thesis
        using removal_next [OF free removed [of j] d _ assms(6-9)]
        by (auto simp: enabled_def)
    qed
    moreover have "weakly_fair E m c view \<sigma> ev (next_event d0)"
      by (rule fair [OF next_event_in])
    ultimately obtain j where j: "i \<le> j" "ev j = next_event d0"
      unfolding weakly_fair_def by blast
    obtain d where d: "controller_at m view \<sigma> j = Some d" "next_event d = next_event d0"
      using next_event [OF j(1)] by blast
    have "protocol_step E m c view (fst (\<sigma> j), snd (\<sigma> j)) (next_event d)
        (fst (\<sigma> (Suc j)), snd (\<sigma> (Suc j)))"
      using infinite_run_step [OF run, of j] j(2) d(2) by simp
    from settled_deployments.next_event_advances [OF settled this removed d(1)] show False
      using const [of j] least [of "Suc j"] j(1) by simp
  qed
  then have "controller_at m view \<sigma> j = None" if "i \<le> j" for j
    using const [OF that] by simp
  then show ?thesis by blast
qed

section \<open>Witness\<close>

text \<open>The run that requests, completes and collects, and then keeps collecting.\<close>

definition removal_world :: "nat \<Rightarrow> mem" where
  "removal_world i =
     (let w = with_deployments [running_controller]; k = maas_controller_key (module_for ''apps'') in
      if i = 0 then w
      else if i = 1 then put_deployment k (Some (request_on running_controller)) w
      else if i = 2 then put_deployment k (Some (complete_teardown (request_on running_controller))) w
      else put_deployment k None w)"

definition removal_events :: "nat \<Rightarrow> protocol_event" where
  "removal_events i = (if i = 0 then Requested else if i = 1 then Completed else Collected)"

lemma removal_world_at:
  "controller_at (module_for ''apps'') mem_deployment (\<lambda>i. (removal_world i, removed_gateway)) i =
    (if i = 0 then Some running_controller else if i = 1 then Some (request_on running_controller)
     else if i = 2 then Some (complete_teardown (request_on running_controller)) else None)"
proof -
  have "dep_key running_controller = maas_controller_key (module_for ''apps'')"
    by (simp add: running_controller_def deployment_named_def dep_key_def
        maas_controller_key_def maasControllerDeploymentName_def)
  then show ?thesis
    using running_controller_facts(4)
    by (simp add: removal_world_def Let_def mem_deployment_put del: mem_client_simps)
qed

lemma removal_world_run:
  "infinite_run mem_lib (module_for ''apps'') mem_client mem_deployment
     (\<lambda>i. (removal_world i, removed_gateway)) removal_events"
  unfolding infinite_run_def
proof
  fix i
  note at = removal_world_at [simplified]
  have 0: "protocol_step mem_lib (module_for ''apps'') mem_client mem_deployment
      (removal_world 0, removed_gateway) Requested (removal_world 1, removed_gateway)"
    by (rule request_step [OF mem_deps.quiet_reads_axioms running_controller_facts(5) _ running_controller_facts(1,3)])
      (simp_all add: at)
  have 1: "protocol_step mem_lib (module_for ''apps'') mem_client mem_deployment
      (removal_world 1, removed_gateway) Completed (removal_world 2, removed_gateway)"
    by (rule completed [where d = "request_on running_controller"]) (simp_all add: at)
  have 2: "protocol_step mem_lib (module_for ''apps'') mem_client mem_deployment
      (removal_world j, removed_gateway) Collected (removal_world (Suc j), removed_gateway)" if "2 \<le> j" for j
    by (rule collect_step [OF mem_deps.quiet_reads_axioms running_controller_facts(5) _ mem_lib_answers
        running_controller_facts(7,6,8)]) (use that in \<open>simp_all add: at\<close>)
  show "protocol_step mem_lib (module_for ''apps'') mem_client mem_deployment
      (removal_world i, removed_gateway) (removal_events i) (removal_world (Suc i), removed_gateway)"
  proof -
    consider "i = 0" | "i = 1" | "2 \<le> i" by linarith
    then show ?thesis
      using 0 1 2 by cases (simp_all add: removal_events_def numeral_2_eq_2)
  qed
qed

text \<open>With the Deployment gone neither a pass nor an answer is enabled.\<close>

lemma gone_disables:
  assumes "maas_state obj = removedState" "mem_controller m w = None" "e \<in> {Requested, Completed}"
  shows "\<not> enabled E m mem_client mem_deployment (w, obj) e"
proof
  assume "enabled E m mem_client mem_deployment (w, obj) e"
  then obtain w' obj' where "protocol_step E m mem_client mem_deployment (w, obj) e (w', obj')"
    by (auto simp: enabled_def)
  then show False
  proof (cases rule: protocol_stepE)
    case (pass rr rr1 rr2 rr3 u d)
    then show ?thesis
      using mem_free.requested_pass(2) [OF pass(3) assms(1) pass(5-10)] assms(2) by simp
  qed (use assms in \<open>auto split: if_splits\<close>)
qed

theorem fair_removal_ends_witness:
  "infinite_run mem_lib (module_for ''apps'') mem_client mem_deployment
     (\<lambda>i. (removal_world i, removed_gateway)) removal_events \<and>
   (\<exists>i. \<forall>j\<ge>i. controller_at (module_for ''apps'') mem_deployment (\<lambda>i. (removal_world i, removed_gateway)) j = None)"
proof -
  let ?\<sigma> = "\<lambda>i. (removal_world i, removed_gateway)"
  have fair: "weakly_fair mem_lib (module_for ''apps'') mem_client mem_deployment ?\<sigma> removal_events e"
    if "e \<in> {Requested, Completed, Collected}" for e
  proof (cases "e = Collected")
    case True
    then have "removal_events (i + 2) = e" for i
      by (simp add: removal_events_def)
    then show ?thesis
      unfolding weakly_fair_def by (meson le_add1)
  next
    case False
    have "\<not> enabled mem_lib (module_for ''apps'') mem_client mem_deployment (?\<sigma> (i + 3)) e" for i
      using gone_disables [OF running_controller_facts(5), where m = "module_for ''apps''" and w = "removal_world (i + 3)" and e = e and E = mem_lib]
        removal_world_at [of "i + 3"] that False by simp
    then show ?thesis
      unfolding weakly_fair_def by (meson le_add1)
  qed
  show ?thesis
    using fair_removal_ends [OF mem_free.free_deployments_axioms removal_world_run _ fair _ mem_lib_answers
        running_controller_facts(7,6,8)]
      removal_world_run removal_world_at [of 0] running_controller_facts(1,5)
    by simp
qed

end
