(* ===== verification/Handshake_Protocol.thy ===== *)
theory Handshake_Protocol
  imports Pipeline
begin

text \<open>
  The upgrade handshake across reconciles. The platform writes its version into a ConfigMap; passes
  of the operator, complete or not, follow one another; other writers change the cluster and the
  spec in between. The entry platform of \<^verbatim>\<open>status.releases\<close> is shown to implement an
  abstract latch: it holds the version of the last pass that got as far as
  \<^verbatim>\<open>reportStatus\<close>.
\<close>

section \<open>The abstract handshake\<close>

text \<open>
  \<open>Echoed v\<close>: a pass in which every action before \<^verbatim>\<open>reportStatus\<close> succeeded, and which
  then read the version \<open>v\<close>. \<open>Stopped\<close>: a pass that ended in an error before it.
  \<open>Elsewhere\<close>: another writer.
\<close>

datatype handshake_event =
    Echoed string
  | Stopped
  | Elsewhere

fun latch :: "handshake_event \<Rightarrow> string \<Rightarrow> string" where
  "latch (Echoed v) u = v"
| "latch Stopped u = u"
| "latch Elsewhere u = u"

lemma latched: "fold latch es u = v \<Longrightarrow> v = u \<or> Echoed v \<in> set es"
proof (induction es arbitrary: u)
  case (Cons e es)
  then show ?case by (cases e) auto
qed simp

section \<open>Passes and other writers\<close>

definition until_report ::
  "('w, 'c) lib \<Rightarrow> 'v semver_lib \<Rightarrow> ('w, 'c) framework \<Rightarrow> module \<Rightarrow> ('w, 'c, unit) action" where
  "until_report E L F m = run_actions (render_actions E L F m @ apply_actions E F m)"

definition version_read :: "'w client \<Rightarrow> module \<Rightarrow> 'w \<Rightarrow> string" where
  "version_read c m w =
     (case fst (get_config_map c (nsname_of (apps_ns m) platformConfigName) w) of
        Inl e \<Rightarrow> ''''
      | Inr cm \<Rightarrow> map_index (cm_data cm) platformVersionKey)"

definition pass_event ::
  "('w, 'c) lib \<Rightarrow> 'v semver_lib \<Rightarrow> ('w, 'c) framework \<Rightarrow> module \<Rightarrow> 'w client \<Rightarrow> ('w, 'c) request \<Rightarrow>
    handshake_event" where
  "pass_event E L F m c rr =
     (case until_report E L F m rr of
        (Inl e, rr') \<Rightarrow> Stopped
      | (Inr u, rr') \<Rightarrow> Echoed (version_read c m (rr_world rr')))"

text \<open>
  A state is the cluster and the AIGateway in it. A pass starts from a request for both, with any
  conditions, manifests and resources; the status that it leaves is stored whether it failed or not.
\<close>

inductive handshake_step ::
  "('w, 'c) lib \<Rightarrow> 'v semver_lib \<Rightarrow> build_info \<Rightarrow> ('w, 'c) framework \<Rightarrow> module \<Rightarrow> 'w client \<Rightarrow>
    'w \<times> aigateway \<Rightarrow> handshake_event \<Rightarrow> 'w \<times> aigateway \<Rightarrow> bool"
  for E L b F m c where
  pass: "rr_instance rr = IsAIGateway obj \<Longrightarrow> rr_client rr = Some c \<Longrightarrow>
    run_actions (reconcile_actions E L b F m) rr = (r, rr') \<Longrightarrow> rr_instance rr' = IsAIGateway obj' \<Longrightarrow>
    handshake_step E L b F m c (rr_world rr, obj) (pass_event E L F m c rr) (rr_world rr', obj')"
| other: "gw_status obj' = gw_status obj \<Longrightarrow>
    handshake_step E L b F m c (w, obj) Elsewhere (w', obj')"

inductive handshake_run ::
  "('w, 'c) lib \<Rightarrow> 'v semver_lib \<Rightarrow> build_info \<Rightarrow> ('w, 'c) framework \<Rightarrow> module \<Rightarrow> 'w client \<Rightarrow>
    'w \<times> aigateway \<Rightarrow> handshake_event list \<Rightarrow> 'w \<times> aigateway \<Rightarrow> bool"
  for E L b F m c where
  stay: "handshake_run E L b F m c s [] s"
| more: "handshake_step E L b F m c s e s' \<Longrightarrow> handshake_run E L b F m c s' es s'' \<Longrightarrow>
    handshake_run E L b F m c s (e # es) s''"

text \<open>
  What is relied on beyond \<open>framework_frame\<close>: the framework passes its client on, the collector
  does not write the AIGateway, and the releases of the module's own metadata have no entry named
  platform.
\<close>

definition handshake_framework :: "('w, 'c) lib \<Rightarrow> ('w, 'c) framework \<Rightarrow> module \<Rightarrow> bool" where
  "handshake_framework E F m \<longleftrightarrow>
     framework_frame F \<and> framework_client F \<and>
     keeps rr_instance (gc_action F (apps_ns m) (maasAwareGCPredicate E m)) \<and>
     preserves_when (\<lambda>v. v = '''') (release_step F)"

section \<open>The latch is implemented\<close>

lemma wrapper_without_version:
  assumes "preserves_when (\<lambda>v. v = '''') inner"
  shows "preserves_when (\<lambda>v. v = '''') (withPreservedPlatformRelease inner)"
  unfolding preserves_when_def
proof (intro allI impI)
  fix rr :: "('a, 'b) request" and obj
  assume obj: "rr_instance rr = IsAIGateway obj" "platform_version obj = ''''"
  obtain r rr1 where run: "inner rr = (r, rr1)" by fastforce
  have "snd (withPreservedPlatformRelease inner rr) = rr1"
    using obj run
    by (auto simp: withPreservedPlatformRelease_def platform_version_def Let_def split: sum.split go_error.split)
  then show "\<exists>obj'. rr_instance (snd (withPreservedPlatformRelease inner rr)) = IsAIGateway obj' \<and>
      platform_version obj' = platform_version obj"
    using preserves_whenE [OF assms obj] run by (metis snd_conv)
qed

lemma until_report_version:
  assumes "handshake_framework E F m" "rr_instance rr = IsAIGateway obj"
  obtains obj' where "rr_instance (snd (until_report E L F m rr)) = IsAIGateway obj'"
    "platform_version obj' = platform_version obj"
proof (cases "platform_version obj = ''''")
  case True
  have "preserves_when (\<lambda>v. v = '''') (until_report E L F m)"
    using assms(1) unfolding handshake_framework_def until_report_def
    by (intro preserves_prefix_when wrapper_without_version) simp_all
  from preserves_whenE [OF this assms(2) True] show ?thesis
    using that True by metis
next
  case False
  have "preserves_version (until_report E L F m)"
    using assms(1) unfolding handshake_framework_def until_report_def by (intro preserves_prefix) simp_all
  from preserves_whenE [OF this assms(2) False] show ?thesis
    using that by metis
qed

lemma pass_latches:
  assumes F: "handshake_framework E F m" and obj: "rr_instance rr = IsAIGateway obj"
    and c: "rr_client rr = Some c" and run: "run_actions (reconcile_actions E L b F m) rr = (r, rr')"
  shows "\<exists>obj'. rr_instance rr' = IsAIGateway obj' \<and>
    platform_version obj' = latch (pass_event E L F m c rr) (platform_version obj)"
proof -
  obtain r1 rr1 where pre: "until_report E L F m rr = (r1, rr1)" by fastforce
  obtain obj1 where obj1: "rr_instance rr1 = IsAIGateway obj1" "platform_version obj1 = platform_version obj"
    using until_report_version [OF F obj] pre by (metis snd_conv)
  have split: "run_actions (reconcile_actions E L b F m) rr =
      and_then (until_report E L F m) (\<lambda>_. run_actions [reportStatus E b m,
        gc_action F (apps_ns m) (maasAwareGCPredicate E m)]) rr"
    unfolding reconcile_actions_def until_report_def append_assoc [symmetric] by (simp only: run_actions_append)
  show ?thesis
  proof (cases r1)
    case (Inl e)
    then have "rr' = rr1"
      using run pre unfolding split by (simp add: and_then_def)
    then show ?thesis
      using obj1 pre Inl by (auto simp: pass_event_def)
  next
    case (Inr u)
    have client: "rr_client rr1 = Some c"
      using F keepsD [OF keeps_client_prefix pre [unfolded until_report_def]] c
      by (simp add: handshake_framework_def)
    obtain a w where read: "get_config_map c (nsname_of (apps_ns m) platformConfigName) (rr_world rr1) = (a, w)"
      by fastforce
    define v where "v = version_read c m (rr_world rr1)"
    let ?obj = "platform.echo v (SetModuleStatus obj1 (module_status_of E b m rr1))"
    have "and_then (reportStatus E b m) (\<lambda>_. and_then (gc_action F (apps_ns m) (maasAwareGCPredicate E m)) ok) rr1 = (r, rr')"
      using run pre Inr unfolding split by (simp add: and_then_def)
    moreover have "reportStatus E b m rr1 = (Inr (), rr1\<lparr>rr_world := w, rr_instance := IsAIGateway ?obj\<rparr>)"
      using reportStatus_run [OF obj1(1) client read, of v E b] read by (simp add: v_def version_read_def)
    ultimately have "and_then (gc_action F (apps_ns m) (maasAwareGCPredicate E m)) ok
        (rr1\<lparr>rr_world := w, rr_instance := IsAIGateway ?obj\<rparr>) = (r, rr')"
      by (simp add: and_then_def)
    moreover have "keeps rr_instance (and_then (gc_action F (apps_ns m) (maasAwareGCPredicate E m)) ok)"
      using F by (intro frame) (simp add: handshake_framework_def)
    ultimately have "rr_instance rr' = IsAIGateway ?obj"
      using keepsD by fastforce
    then show ?thesis
      using pre Inr by (simp add: pass_event_def v_def platform.echo_version)
  qed
qed

section \<open>Properties\<close>

text \<open>
  C9. The handshake across reconciles: whatever sequence of complete passes, failed passes and other
  writers the AIGateway goes through, the version it reports to the platform is the one of the
  abstract latch, that is, the version read by the last pass that reached \<^verbatim>\<open>reportStatus\<close>.
  A version that differs from the one at the start was therefore read, from the ConfigMap, by a pass
  in which every action up to then had succeeded.
\<close>

theorem handshake_implements_latch:
  assumes "handshake_framework E F m"
    and "handshake_run E L b F m c (w, obj) es (w', obj')"
  shows "platform_version obj' = fold latch es (platform_version obj) \<and>
    (platform_version obj' = platform_version obj \<or> Echoed (platform_version obj') \<in> set es)"
proof -
  have step: "platform_version (snd s') = latch e (platform_version (snd s))"
    if "handshake_step E L b F m c s e s'" for s e s'
    using that
  proof cases
    case (pass rr obj r rr' obj')
    then show ?thesis
      using pass_latches [OF assms(1) pass(4,5,6)] by auto
  next
    case (other obj' obj w w')
    then show ?thesis
      by (simp add: platform_version_def getPlatformRelease_def releases_def)
  qed
  have "platform_version (snd s') = fold latch es (platform_version (snd s))"
    if "handshake_run E L b F m c s es s'" for s s'
    using that by induction (simp_all add: step)
  from this [OF assms(2)] show ?thesis
    using latched by fastforce
qed

section \<open>Witness\<close>

text \<open>
  The platform's ConfigMap says 3.2.0 and reads of Deployments fail once the cluster holds a Role:
  a pass echoes the version, MaaS is then set to Managed and a pass fails.
\<close>

definition upgraded_client :: "mem client" where
  "upgraded_client = mem_client\<lparr>
     get_config_map := (\<lambda>k w. (Inr \<lparr>cm_data = Some [''platformVersion'' \<mapsto> ''3.2.0'']\<rparr>, w)),
     get_deployment := (\<lambda>k w. if mem_roles w = [] then store_get mem_deployments dep_key k w
       else (Inl conflict_error, w))\<rparr>"

abbreviation upgrade_pass :: "mem \<Rightarrow> aigateway \<Rightarrow> (go_error + unit) \<times> (mem, conds) request" where
  "upgrade_pass w obj \<equiv>
     run_actions (reconcile_actions mem_lib decimal_lib default_build plain_framework (module_for ''apps''))
       (request_for (Some upgraded_client) w [] obj)"

definition broken_mem :: mem where
  "broken_mem = empty_mem\<lparr>mem_roles := [(nsname_of ''x'' ''y'', desired_role ''x'')]\<rparr>"

lemma plain_handshake: "handshake_framework mem_lib plain_framework (module_for ''apps'')"
proof -
  have "platform_version (SetReleaseStatus obj [\<lparr>cr_name = ''maas'', cr_version = ''0.1.0'', cr_repo_url = ''''\<rparr>]) = ''''" for obj
    by (simp add: platform_version_def getPlatformRelease_def platformReleaseName_def zero_release_def)
  then have "preserves_when (\<lambda>v. v = '''') (release_step plain_framework)"
    by (simp add: preserves_when_def update_instance_AIGateway)
  moreover have "keeps rr_instance (gc_action plain_framework ns p)" for ns p
    by (simp add: plain_framework_def frame)
  ultimately show ?thesis
    by (simp add: handshake_framework_def plain_framework_frame plain_framework_client)
qed

definition after_pass :: "mem \<Rightarrow> aigateway \<Rightarrow> aigateway" where
  "after_pass w obj =
     (case rr_instance (snd (upgrade_pass w obj)) of IsAIGateway obj' \<Rightarrow> obj' | OtherInstance \<Rightarrow> obj)"

definition set_managed :: "aigateway \<Rightarrow> aigateway" where
  "set_managed obj = (stamped_gateway ''Managed'' '''')\<lparr>gw_status := gw_status obj\<rparr>"

lemma upgrade_pass_step:
  "\<exists>w'. handshake_step mem_lib decimal_lib default_build plain_framework (module_for ''apps'') upgraded_client
     (w, obj) (pass_event mem_lib decimal_lib plain_framework (module_for ''apps'') upgraded_client
       (request_for (Some upgraded_client) w ([] :: conds) obj)) (w', after_pass w obj)"
proof -
  let ?rr = "request_for (Some upgraded_client) w ([] :: conds) obj"
  obtain r rr' where run: "upgrade_pass w obj = (r, rr')" by fastforce
  then obtain obj' where obj': "rr_instance rr' = IsAIGateway obj'"
    using pass_latches [OF plain_handshake _ _ run] by auto
  have "after_pass w obj = obj'"
    using run obj' by (simp add: after_pass_def)
  then show ?thesis
    using pass [of ?rr obj upgraded_client mem_lib decimal_lib default_build plain_framework "module_for ''apps''",
        OF _ _ run obj'] by auto
qed

theorem handshake_implements_latch_witness:
  "\<exists>w' obj'. handshake_run mem_lib decimal_lib default_build plain_framework (module_for ''apps'') upgraded_client
      (empty_mem, stamped_gateway '''' ''3.1.0'')
      [Echoed ''3.2.0'', Elsewhere, Stopped] (w', obj') \<and> platform_version obj' = ''3.2.0''"
proof -
  let ?m = "module_for ''apps''" and ?obj = "stamped_gateway '''' ''3.1.0''"
  let ?obj' = "set_managed (after_pass empty_mem ?obj)"
  let ?step = "handshake_step mem_lib decimal_lib default_build plain_framework ?m upgraded_client"
  let ?event = "\<lambda>w obj. pass_event mem_lib decimal_lib plain_framework ?m upgraded_client
    (request_for (Some upgraded_client) w ([] :: conds) obj)"
  have "?event empty_mem ?obj = Echoed ''3.2.0''"
    by code_simp
  then obtain w where 1: "?step (empty_mem, ?obj) (Echoed ''3.2.0'') (w, after_pass empty_mem ?obj)"
    using upgrade_pass_step [of empty_mem ?obj] by auto
  have 2: "?step (w, after_pass empty_mem ?obj) Elsewhere (broken_mem, ?obj')"
    by (rule other) (simp add: set_managed_def)
  have "?event broken_mem ?obj' = Stopped"
    by code_simp
  then obtain w' where 3: "?step (broken_mem, ?obj') Stopped (w', after_pass broken_mem ?obj')"
    using upgrade_pass_step [of broken_mem ?obj'] by auto
  have run: "handshake_run mem_lib decimal_lib default_build plain_framework ?m upgraded_client
      (empty_mem, ?obj) [Echoed ''3.2.0'', Elsewhere, Stopped] (w', after_pass broken_mem ?obj')"
    by (rule more [OF 1 more [OF 2 more [OF 3 stay]]])
  from handshake_implements_latch [OF plain_handshake run] show ?thesis
    using run by auto
qed

end
