(* ===== verification/Tls_Reload.thy ===== *)
theory Tls_Reload
  imports Tls_Profile
begin

text \<open>
  The reload protocol between the process, the watcher that \<^verbatim>\<open>SetupWatcher\<close> registers and
  the cluster: the process resolves the TLS profile once, at its start, and relies on being ended by
  a callback of the watcher, and started again, whenever what it resolved is not what the cluster
  says.
\<close>

section \<open>The watcher\<close>

text \<open>
  What is documented of the library's watcher: it compares what the cluster says, a profile and an
  adherence policy, with the initial values and calls the callback of each that differs, if it is
  set, in some order. It is a parameter, run here on a state that tells whether the context has been
  cancelled.
\<close>

type_synonym tls_view = "tls_profile \<times> string"

type_synonym reaction = "bool watcher \<Rightarrow> tls_view \<Rightarrow> bool \<Rightarrow> bool"

definition profile_callback :: "bool watcher \<Rightarrow> tls_view \<Rightarrow> bool \<Rightarrow> bool" where
  "profile_callback wt v =
     (if fst v \<noteq> InitialTLSProfileSpec wt then OnProfileChange wt (InitialTLSProfileSpec wt) (fst v) else id)"

definition adherence_callback :: "bool watcher \<Rightarrow> tls_view \<Rightarrow> bool \<Rightarrow> bool" where
  "adherence_callback wt v =
     (case OnAdherencePolicyChange wt of
        None \<Rightarrow> id
      | Some f \<Rightarrow> if snd v \<noteq> InitialTLSAdherencePolicy wt then f (InitialTLSAdherencePolicy wt) (snd v) else id)"

definition watcher_contract :: "reaction \<Rightarrow> bool" where
  "watcher_contract react \<longleftrightarrow>
     (\<forall>wt v. react wt v = adherence_callback wt v \<circ> profile_callback wt v \<or>
             react wt v = profile_callback wt v \<circ> adherence_callback wt v)"

text \<open>
  Whether a process with the given result is ended when the cluster says \<open>v\<close>: its
  \<^verbatim>\<open>SetupWatcher\<close> is run with the library of the process, in which registering a watcher
  lets it react to \<open>v\<close> at once.
\<close>

definition watching :: "'w tls_lib \<Rightarrow> reaction \<Rightarrow> tls_view \<Rightarrow> bool tls_lib" where
  "watching T react v =
     \<lparr>FetchProfile = (\<lambda>b. (Inr (fst v), b)), FetchAdherence = (\<lambda>b. ((snd v, None), b)),
      Intermediate = Intermediate T, NoOpinion = NoOpinion T,
      LegacyAdheringComponentsOnly = LegacyAdheringComponentsOnly T,
      NewTLSConfigFromProfile = NewTLSConfigFromProfile T, SetHTTP2NextProtos = SetHTTP2NextProtos T,
      RuntimeSuites = RuntimeSuites T, InsecureSuites = InsecureSuites T,
      SetupWithManager = (\<lambda>wt cancelled. (Inr (), react wt v cancelled))\<rparr>"

definition ends :: "'w tls_lib \<Rightarrow> reaction \<Rightarrow> tls_result \<Rightarrow> tls_view \<Rightarrow> bool" where
  "ends T react r v \<longleftrightarrow> snd (SetupWatcher (watching T react v) r (\<lambda>_. True) False)"

lemma ends_iff:
  assumes "watcher_contract react"
  shows "ends T react r v \<longleftrightarrow>
    ProfileFetched r \<and> (fst v \<noteq> Profile r \<or> AdherenceFetched r \<and> snd v \<noteq> Adherence r)"
  using assms [unfolded watcher_contract_def, rule_format, of "tls_watcher r (\<lambda>_. True)" v]
  by (auto simp: ends_def SetupWatcher_def watching_def wrapping_def ok_run profile_callback_def
      adherence_callback_def tls_watcher_def Let_def)

section \<open>The protocol\<close>

text \<open>
  A state is the world and the result of the running process, if one runs. \<open>Booted c\<close>: a start
  that resolves, with \<open>c\<close> telling whether both reads succeeded; \<open>Refused\<close>: one that does not
  resolve; \<open>Edited\<close>: anything else happens in the cluster; \<open>Reloaded\<close>: a callback ends
  the process.
\<close>

datatype reload_event = Booted bool | Refused | Edited | Reloaded

type_synonym 'w reload_state = "'w \<times> tls_result option"

definition clean_reads :: "'w tls_lib \<Rightarrow> 'w \<Rightarrow> bool" where
  "clean_reads T w =
     (case FetchProfile T w of
        (Inl e, w') \<Rightarrow> False
      | (Inr p, w') \<Rightarrow> snd (fst (FetchAdherence T w')) = None)"

inductive reload_step ::
  "'w tls_lib \<Rightarrow> ('w \<Rightarrow> tls_view) \<Rightarrow> reaction \<Rightarrow> 'w reload_state \<Rightarrow> reload_event \<Rightarrow> 'w reload_state \<Rightarrow> bool"
  for T :: "'w tls_lib" and view react where
  boot: "Resolve T w = (Inr r, w') \<Longrightarrow> c = clean_reads T w \<Longrightarrow>
    reload_step T view react (w, None) (Booted c) (w', Some r)"
| refuse: "Resolve T w = (Inl e, w') \<Longrightarrow> reload_step T view react (w, None) Refused (w', None)"
| edit: "reload_step T view react (w, p) Edited (w', p)"
| reload: "ends T react r (view w) \<Longrightarrow> reload_step T view react (w, Some r) Reloaded (w, None)"

inductive_cases reload_stepE: "reload_step T view react s ev s'"

inductive reload_run ::
  "'w tls_lib \<Rightarrow> ('w \<Rightarrow> tls_view) \<Rightarrow> reaction \<Rightarrow> 'w reload_state \<Rightarrow> reload_event list \<Rightarrow> 'w reload_state \<Rightarrow> bool"
  for T :: "'w tls_lib" and view react where
  none: "reload_run T view react s [] s"
| more: "reload_run T view react s evs s' \<Longrightarrow> reload_step T view react s' ev s'' \<Longrightarrow>
    reload_run T view react s (evs @ [ev]) s''"

text \<open>Reads answer with what the cluster says, if they answer, and change nothing of it.\<close>

definition honest_reads :: "'w tls_lib \<Rightarrow> ('w \<Rightarrow> tls_view) \<Rightarrow> bool" where
  "honest_reads T view \<longleftrightarrow>
     (\<forall>w r w'. FetchProfile T w = (r, w') \<longrightarrow> view w' = view w \<and> (\<forall>p. r = Inr p \<longrightarrow> p = fst (view w))) \<and>
     (\<forall>w a e w'. FetchAdherence T w = ((a, e), w') \<longrightarrow> view w' = view w \<and> (e = None \<longrightarrow> a = snd (view w)))"

section \<open>Restarts are paid for\<close>

lemma clean_readsE:
  assumes "clean_reads T w"
  obtains p a w\<^sub>1 w\<^sub>2 where "FetchProfile T w = (Inr p, w\<^sub>1)" "FetchAdherence T w\<^sub>1 = ((a, None), w\<^sub>2)"
    "resolve_profile T w = (Inr (p, True), w\<^sub>1)" "resolve_adherence T w\<^sub>1 = (Inr (a, True), w\<^sub>2)"
proof -
  obtain p w1 where p: "FetchProfile T w = (Inr p, w1)"
    using assms by (auto simp: clean_reads_def split: prod.splits sum.splits)
  obtain a w2 where a: "FetchAdherence T w1 = ((a, None), w2)"
    using assms p by (cases "FetchAdherence T w1") (auto simp: clean_reads_def)
  show thesis
    using p a by (rule that) (simp_all add: p a resolve_profile_def resolve_adherence_def comp_simps)
qed

lemma resolve_reads:
  assumes "honest_reads T view" "Resolve T w = (Inr r, w')" "clean_reads T w"
  shows "view w' = view w" "Profile r = fst (view w)" "Adherence r = snd (view w)"
    "ProfileFetched r" "AdherenceFetched r"
proof -
  obtain p a w1 w2 where p: "FetchProfile T w = (Inr p, w1)" and a: "FetchAdherence T w1 = ((a, None), w2)"
    and "resolve_profile T w = (Inr (p, True), w1)" "resolve_adherence T w1 = (Inr (a, True), w2)"
    using assms(3) by (rule clean_readsE)
  then have r: "Profile r = p" "ProfileFetched r" "Adherence r = a" "AdherenceFetched r" "w' = w2"
    using assms(2) by (auto simp: Resolve_def comp_result_iffs ok_run returned_run)
  then show "view w' = view w" "Profile r = fst (view w)" "Adherence r = snd (view w)"
    "ProfileFetched r" "AdherenceFetched r"
    using assms(1) p a unfolding honest_reads_def by metis+
qed

text \<open>A process that the next look of the watcher ends.\<close>

definition doomed :: "'w tls_lib \<Rightarrow> reaction \<Rightarrow> ('w \<Rightarrow> tls_view) \<Rightarrow> 'w reload_state \<Rightarrow> bool" where
  "doomed T react view s = (case snd s of None \<Rightarrow> False | Some r \<Rightarrow> ends T react r (view (fst s)))"

definition restarts :: "reload_event list \<Rightarrow> nat" where
  "restarts evs = length (filter (\<lambda>ev. ev = Reloaded) evs)"

definition causes :: "reload_event list \<Rightarrow> nat" where
  "causes evs = length (filter (\<lambda>ev. ev = Edited \<or> ev = Booted False) evs)"

lemma count_snoc [simp]:
  "restarts (evs @ [ev]) = restarts evs + of_bool (ev = Reloaded)"
  "causes (evs @ [ev]) = causes evs + of_bool (ev = Edited \<or> ev = Booted False)"
  by (simp_all add: restarts_def causes_def)

lemma clean_boot_stays:
  assumes "watcher_contract react" "honest_reads T view" "Resolve T w = (Inr r, w')" "clean_reads T w"
  shows "\<not> ends T react r (view w')"
  using resolve_reads [OF assms(2-4)] by (simp add: ends_iff [OF assms(1)])

lemma restarts_paid:
  assumes "reload_run T view react s evs s'" "watcher_contract react" "honest_reads T view"
  shows "restarts evs + of_bool (doomed T react view s') \<le> causes evs + of_bool (doomed T react view s)"
  using assms(1)
proof (induction rule: reload_run.induct)
  case (none s)
  then show ?case by (simp add: restarts_def causes_def)
next
  case (more s evs s' ev s'')
  have "of_bool (ev = Reloaded) + of_bool (doomed T react view s'') \<le>
      (of_bool (ev = Edited \<or> ev = Booted False) + of_bool (doomed T react view s') :: nat)"
    using more.hyps(2)
  proof (cases rule: reload_step.cases)
    case (boot w r w' c)
    then show ?thesis
      using clean_boot_stays [OF assms(2,3) boot(4)] by (cases c) (simp_all add: doomed_def)
  qed (simp_all add: doomed_def)
  then show ?case
    using more.IH by (simp del: of_bool_eq)
qed

text \<open>The options of a running process are those of the result it holds.\<close>

definition options_of_result :: "'w tls_lib \<Rightarrow> tls_result \<Rightarrow> bool" where
  "options_of_result T r \<longleftrightarrow> tls_options T (profile_in_force T (Profile r) (Adherence r)) = Inr (TLSOpts r)"

lemma run_options:
  assumes "reload_run T view react s evs s'" "snd s = None" "snd s' = Some r"
  shows "options_of_result T r"
  using assms
proof (induction arbitrary: r rule: reload_run.induct)
  case (more s evs s' ev s'')
  from more.hyps(2) show ?case
    using more.IH [OF more.prems(1)] more.prems(2) Resolve_Inr(1)
    by cases (auto simp: options_of_result_def)
qed simp

text \<open>
  C19. Restarts for TLS are paid for: over any run from the start of the process, the watcher that
  SetupWatcher registers ends it at most once for every change in the cluster and once for every
  start whose reads of the profile and of the policy did not both succeed; so a start that resolved
  what a stable cluster says is never restarted. And if both values of a running process count as
  fetched and the watcher leaves it alone, then its metrics server runs with the options of what the
  cluster says now; a process whose profile does not count as fetched (NoMatch or NotFound at its
  start) is left alone whatever the cluster says.
\<close>

theorem tls_restarts_paid:
  assumes "watcher_contract react" and "honest_reads T view"
    and "reload_run T view react (w\<^sub>0, None) evs (w, p)"
  shows "restarts evs \<le> causes evs \<and>
    (case p of
       None \<Rightarrow> True
     | Some r \<Rightarrow>
         (ProfileFetched r \<and> AdherenceFetched r \<and> \<not> ends T react r (view w) \<longrightarrow>
           tls_options T (profile_in_force T (fst (view w)) (snd (view w))) = Inr (TLSOpts r)) \<and>
         (\<not> ProfileFetched r \<longrightarrow> (\<forall>v. \<not> ends T react r v)))"
proof (intro conjI)
  show "restarts evs \<le> causes evs"
    using restarts_paid [OF assms(3,1,2)] by (simp add: doomed_def)
  show "case p of None \<Rightarrow> True | Some r \<Rightarrow>
      (ProfileFetched r \<and> AdherenceFetched r \<and> \<not> ends T react r (view w) \<longrightarrow>
        tls_options T (profile_in_force T (fst (view w)) (snd (view w))) = Inr (TLSOpts r)) \<and>
      (\<not> ProfileFetched r \<longrightarrow> (\<forall>v. \<not> ends T react r v))"
    using run_options [OF assms(3)]
    by (auto simp: ends_iff [OF assms(1)] options_of_result_def split: option.split)
qed

section \<open>The protocol settles\<close>

text \<open>How many more steps a process takes while nothing else happens in the cluster.\<close>

definition steps_left :: "'w tls_lib \<Rightarrow> reaction \<Rightarrow> ('w \<Rightarrow> tls_view) \<Rightarrow> 'w reload_state \<Rightarrow> nat" where
  "steps_left T react view s =
     (case snd s of None \<Rightarrow> 1 | Some r \<Rightarrow> if ends T react r (view (fst s)) then 2 else 0)"

text \<open>What the cluster says is readable at every start and can be turned into options.\<close>

definition readable :: "'w tls_lib \<Rightarrow> ('w \<Rightarrow> tls_view) \<Rightarrow> tls_view \<Rightarrow> bool" where
  "readable T view v \<longleftrightarrow>
     (\<forall>w. view w = v \<longrightarrow> clean_reads T w) \<and>
     (\<exists>opts. tls_options T (profile_in_force T (fst v) (snd v)) = Inr opts)"

text \<open>The process, if one runs, has a watcher with both callbacks.\<close>

definition watched :: "'w reload_state \<Rightarrow> bool" where
  "watched s \<longleftrightarrow> (\<forall>r. snd s = Some r \<longrightarrow> ProfileFetched r \<and> AdherenceFetched r)"

lemma readable_boots:
  assumes "honest_reads T view" "readable T view (view w)"
  shows "\<exists>r w'. Resolve T w = (Inr r, w')"
proof -
  have "clean_reads T w"
    using assms(2) by (simp add: readable_def)
  then obtain p a w1 w2 where p: "FetchProfile T w = (Inr p, w1)" and a: "FetchAdherence T w1 = ((a, None), w2)"
    and reads: "resolve_profile T w = (Inr (p, True), w1)" "resolve_adherence T w1 = (Inr (a, True), w2)"
    by (rule clean_readsE)
  have "p = fst (view w)" "a = snd (view w)"
    using assms(1) p a unfolding honest_reads_def by metis+
  then obtain opts where "tls_options T (profile_in_force T p a) = Inr opts"
    using assms(2) unfolding readable_def by blast
  then show ?thesis
    using reads by (simp add: Resolve_def comp_simps returned_run)
qed

lemma quiet_step:
  assumes "watcher_contract react" "honest_reads T view" "readable T view (view (fst s))" "watched s"
    and "reload_step T view react s ev s'" "ev \<noteq> Edited"
  shows "steps_left T react view s' < steps_left T react view s \<and> view (fst s') = view (fst s) \<and> watched s'"
  using assms(5)
proof (cases rule: reload_step.cases)
  case (boot w r w' c)
  have "clean_reads T w"
    using assms(3) boot(1) by (simp add: readable_def)
  then show ?thesis
    using boot resolve_reads [OF assms(2) boot(4)] clean_boot_stays [OF assms(1,2) boot(4)]
    by (simp add: steps_left_def watched_def)
next
  case (refuse w e w')
  then show ?thesis
    using readable_boots [OF assms(2,3)] by auto
next
  case edit
  then show ?thesis using assms(6) by simp
next
  case (reload r w)
  then show ?thesis by (simp add: steps_left_def watched_def)
qed

lemma quiet_run:
  assumes "reload_run T view react s evs s'" "Edited \<notin> set evs" "readable T view (view (fst s))" "watched s"
    and "watcher_contract react" "honest_reads T view"
  shows "length evs + steps_left T react view s' \<le> steps_left T react view s \<and> view (fst s') = view (fst s) \<and>
    watched s'"
  using assms(1-4)
proof (induction rule: reload_run.induct)
  case (more s evs s' ev s'')
  then show ?case
    using quiet_step [OF assms(5,6) _ _ more.hyps(2)] by auto
qed simp

lemma reload_append:
  "reload_run T view react s' evs' s'' \<Longrightarrow> reload_run T view react s evs s' \<Longrightarrow>
   reload_run T view react s (evs @ evs') s''"
proof (induction rule: reload_run.induct)
  case (more t evs' t' ev t'')
  then show ?case
    using reload_run.more [of T view react s "evs @ evs'" t' ev t''] by simp
qed simp

text \<open>
  C20. The protocol settles. Take a state that a run has reached in which no process runs, or one
  whose profile and policy both count as fetched, so that the watcher SetupWatcher registers compares
  both (a process that was started on NoMatch or NotFound is not covered: it is left alone). While
  what the cluster says stays, can be read at every start and can be turned into options, at most two
  more steps are possible, an end of the process and a start; and when none is left, a process runs
  whose metrics server has the options of what the cluster says.
\<close>

theorem tls_reload_settles:
  assumes "watcher_contract react" and "honest_reads T view" and "readable T view (view w)" and "watched (w, p)"
    and "reload_run T view react (w\<^sub>0, None) evs\<^sub>0 (w, p)"
    and "reload_run T view react (w, p) evs (w', p')" "Edited \<notin> set evs"
  shows "length evs \<le> 2 \<and> view w' = view w \<and>
    ((\<exists>ev s. ev \<noteq> Edited \<and> reload_step T view react (w', p') ev s) \<or>
     (\<exists>r. p' = Some r \<and> tls_options T (profile_in_force T (fst (view w)) (snd (view w))) = Inr (TLSOpts r)))"
proof -
  have quiet: "length evs \<le> 2" "view w' = view w" "watched (w', p')"
    using quiet_run [OF assms(6,7) _ assms(4,1,2)] assms(3)
    by (auto simp: steps_left_def split: option.splits if_splits)
  note run = reload_append [OF assms(6,5)]
  show ?thesis
  proof (cases p')
    case None
    obtain r w'' where "Resolve T w' = (Inr r, w'')"
      using readable_boots [OF assms(2), of w'] assms(3) quiet(2) by auto
    then have "reload_step T view react (w', p') (Booted (clean_reads T w')) (w'', Some r)"
      unfolding None by (intro reload_step.boot) simp_all
    then show ?thesis using quiet by blast
  next
    case (Some r)
    show ?thesis
    proof (cases "ends T react r (view w')")
      case True
      then have "reload_step T view react (w', p') Reloaded (w', None)"
        unfolding Some by (rule reload_step.reload)
      then show ?thesis using quiet by blast
    next
      case False
      have "options_of_result T r" "ProfileFetched r \<and> AdherenceFetched r"
        using run_options [OF run] quiet(3) Some by (simp_all add: watched_def)
      then show ?thesis
        using False Some quiet by (auto simp: ends_iff [OF assms(1)] options_of_result_def)
    qed
  qed
qed

section \<open>Witnesses\<close>

text \<open>
  A cluster that says \<open>view w\<close> and whose reads of the profile time out while it is \<open>down\<close>.
\<close>

definition answering :: "('w \<Rightarrow> bool) \<Rightarrow> ('w \<Rightarrow> tls_view) \<Rightarrow> 'w tls_lib" where
  "answering down view = (tls_cluster (Inr mixed_profile))
     \<lparr>FetchProfile := (\<lambda>w. (if down w then Inl plain_api_error else Inr (fst (view w)), w)),
      FetchAdherence := (\<lambda>w. ((snd (view w), None), w))\<rparr>"

definition in_order :: reaction where
  "in_order wt v = adherence_callback wt v \<circ> profile_callback wt v"

lemma in_order_contract: "watcher_contract in_order"
  by (simp add: watcher_contract_def in_order_def)

lemma answering_honest: "honest_reads (answering down view) view"
  by (auto simp: honest_reads_def answering_def)

lemma answering_clean: "clean_reads (answering down view) w \<longleftrightarrow> \<not> down w"
  by (simp add: clean_reads_def answering_def)

lemma answering_Resolve:
  assumes "view w = (mixed_profile, a)"
  shows "\<exists>opts. Resolve (answering down view) w =
    (Inr \<lparr>Profile = (if down w then Intermediate (answering down view) else mixed_profile), ProfileFetched = True,
       Adherence = a, AdherenceFetched = True, TLSOpts = opts\<rparr>, w)"
  using assms
  by (cases "down w")
    (auto simp: Resolve_def resolve_profile_def resolve_adherence_def answering_def
      tls_cluster_def comp_simps transient_profile_error_def plain_api_error_def profile_in_force_def
      tls_options_def tlsVersion_def mixed_profile_def VersionTLS12_def VersionTLS13_def supported_suites_def
      runtimeCipherSuites_def suite_of_def zero_tls_config_def has_prefix_def)

lemma run_one: "reload_step T view react s ev s' \<Longrightarrow> reload_run T view react s [ev] s'"
  using reload_run.more [OF reload_run.none] by fastforce

lemma run_two:
  "reload_step T view react s ev s' \<Longrightarrow> reload_step T view react s' ev' s'' \<Longrightarrow>
   reload_run T view react s [ev, ev'] s''"
  using reload_append [OF run_one run_one] by fastforce

text \<open>
  A start in a world \<open>w\<close> leaves a watched process; a change of the world to \<open>w'\<close> that it
  does not agree with ends it, and the next start resolves what the cluster says then.
\<close>

lemma reload_cycle:
  assumes "view w = (mixed_profile, a)" "view w' = (mixed_profile, a')" "\<not> down w'" "down w \<or> a \<noteq> a'"
  shows "\<exists>r\<^sub>1 r\<^sub>2. reload_run (answering down view) view in_order (w, None) [Booted (\<not> down w), Edited] (w', Some r\<^sub>1) \<and>
    reload_run (answering down view) view in_order (w', Some r\<^sub>1) [Reloaded, Booted True] (w', Some r\<^sub>2) \<and>
    watched (w', Some r\<^sub>1) \<and> watched (w', Some r\<^sub>2) \<and> \<not> ends (answering down view) in_order r\<^sub>2 (view w')"
proof -
  let ?T = "answering down view"
  obtain o1 where 1: "Resolve ?T w = (Inr \<lparr>Profile = (if down w then Intermediate ?T else mixed_profile),
      ProfileFetched = True, Adherence = a, AdherenceFetched = True, TLSOpts = o1\<rparr>, w)" (is "_ = (Inr ?r1, _)")
    using answering_Resolve [where view = view and w = w and down = down, OF assms(1)] by blast
  obtain o2 where 2: "Resolve ?T w' = (Inr \<lparr>Profile = mixed_profile,
      ProfileFetched = True, Adherence = a', AdherenceFetched = True, TLSOpts = o2\<rparr>, w')" (is "_ = (Inr ?r2, _)")
    using answering_Resolve [where view = view and w = w' and down = down, OF assms(2)] assms(3) by auto
  have "mixed_profile \<noteq> Intermediate ?T"
    by (simp add: mixed_profile_def answering_def tls_cluster_def)
  then have ended: "ends ?T in_order ?r1 (view w')"
    using assms by (auto simp: ends_iff [OF in_order_contract])
  have "reload_run ?T view in_order (w, None) [Booted (\<not> down w), Edited] (w', Some ?r1)"
    by (rule run_two [OF reload_step.boot [OF 1] reload_step.edit]) (simp add: answering_clean)
  moreover have "reload_run ?T view in_order (w', Some ?r1) [Reloaded, Booted True] (w', Some ?r2)"
    by (rule run_two [OF reload_step.reload [where view = view, OF ended] reload_step.boot [OF 2]])
      (simp add: answering_clean assms(3))
  moreover have "\<not> ends ?T in_order ?r2 (view w')"
    using assms(2) by (simp add: ends_iff [OF in_order_contract])
  ultimately show ?thesis
    by (intro exI [of _ ?r1] exI [of _ ?r2]) (simp add: watched_def)
qed

text \<open>A start during an outage costs one restart.\<close>

theorem tls_restarts_paid_witness:
  "\<exists>r. reload_run (answering snd fst) fst in_order (((mixed_profile, ''StrictAllComponents''), True), None)
      [Booted False, Edited, Reloaded, Booted True] (((mixed_profile, ''StrictAllComponents''), False), Some r) \<and>
    restarts [Booted False, Edited, Reloaded, Booted True] \<le> causes [Booted False, Edited, Reloaded, Booted True]"
proof -
  let ?v = "(mixed_profile, ''StrictAllComponents'')"
  let ?T = "answering snd fst :: (tls_view \<times> bool) tls_lib"
  obtain r1 r2
    where "reload_run ?T fst in_order ((?v, True), None) [Booted (\<not> snd (?v, True)), Edited] ((?v, False), Some r1)"
      and "reload_run ?T fst in_order ((?v, False), Some r1) [Reloaded, Booted True] ((?v, False), Some r2)"
    using reload_cycle [of fst "(?v, True)" _ "(?v, False)" _ snd] by auto
  then have run: "reload_run ?T fst in_order ((?v, True), None) [Booted False, Edited, Reloaded, Booted True]
      ((?v, False), Some r2)"
    using reload_append by fastforce
  then show ?thesis
    using tls_restarts_paid [OF in_order_contract answering_honest run] by blast
qed

text \<open>The policy is set on a running cluster: one restart, then the process stays.\<close>

theorem tls_reload_settles_witness:
  "\<exists>r\<^sub>1 r\<^sub>2. reload_run (answering (\<lambda>w. False) id) id in_order ((mixed_profile, ''StrictAllComponents''), Some r\<^sub>1)
      [Reloaded, Booted True] ((mixed_profile, ''StrictAllComponents''), Some r\<^sub>2) \<and>
    tls_options (answering (\<lambda>w. False) id) mixed_profile = Inr (TLSOpts r\<^sub>2)"
proof -
  let ?v = "(mixed_profile, ''StrictAllComponents'')" and ?u = "(mixed_profile, '''')"
  let ?T = "answering (\<lambda>w. False) id :: tls_view tls_lib"
  obtain r1 r2
    where pre: "reload_run ?T id in_order (?u, None) [Booted (\<not> False), Edited] (?v, Some r1)"
      and run: "reload_run ?T id in_order (?v, Some r1) [Reloaded, Booted True] (?v, Some r2)"
      and w: "watched (?v, Some r1)" "watched (?v, Some r2)" and stays: "\<not> ends ?T in_order r2 (id ?v)"
    using reload_cycle [of id ?u "''''" ?v "''StrictAllComponents''" "\<lambda>w. False"] by auto
  have force: "profile_in_force ?T mixed_profile ''StrictAllComponents'' = mixed_profile"
    by (simp add: profile_in_force_def answering_def tls_cluster_def)
  obtain r' where "Resolve ?T ?v = (Inr r', ?v)" "Profile r' = mixed_profile" "Adherence r' = ''StrictAllComponents''"
    using answering_Resolve [of id ?v _ "\<lambda>w. False"] by auto
  then have "tls_options ?T mixed_profile = Inr (TLSOpts r')"
    using Resolve_Inr(1) [of ?T ?v r' ?v] force by simp
  then have "readable ?T id (id ?v)"
    by (auto simp: readable_def answering_clean force)
  note settles = tls_reload_settles [OF in_order_contract answering_honest this w(1) pre run]
  have "\<not> (\<exists>ev s. ev \<noteq> Edited \<and> reload_step ?T id in_order (?v, Some r2) ev s)"
    using stays by (auto elim: reload_stepE)
  then have "tls_options ?T mixed_profile = Inr (TLSOpts r2)"
    using settles force by auto
  then show ?thesis
    using run by blast
qed

end
