(* ===== verification/Rbac_Rules.thy ===== *)
theory Rbac_Rules
  imports Infra_RBAC
begin

text \<open>
  Rules that cover rules, after the Kubernetes documentation of privilege escalation: the API server
  refuses a Role or ClusterRole that grants more than its writer has.
\<close>

section \<open>Rules that cover rules\<close>

text \<open>After the Kubernetes documentation, as \<open>permits\<close>: a request for a URL.\<close>

definition permits_url :: "policy_rule list \<Rightarrow> string \<Rightarrow> string \<Rightarrow> bool" where
  "permits_url rules verb url \<longleftrightarrow> (\<exists>r \<in> set rules. listed verb (pr_verbs r) \<and> listed url (pr_urls r))"

text \<open>A request that names no object, such as a list or a create, is permitted by unnamed rules.\<close>

definition permits_every :: "policy_rule list \<Rightarrow> string \<Rightarrow> string \<Rightarrow> string \<Rightarrow> bool" where
  "permits_every rules verb grp resource \<longleftrightarrow>
     (\<exists>r \<in> set rules. listed verb (pr_verbs r) \<and> listed grp (pr_api_groups r) \<and>
        listed resource (pr_resources r) \<and> pr_resource_names r = [])"

text \<open>
  The documented check: every combination of verb, group, resource and name (or URL) that a rule of
  the written role lists is permitted to the writer, without a name if the rule lists none.
\<close>

definition covers_rule :: "policy_rule list \<Rightarrow> policy_rule \<Rightarrow> bool" where
  "covers_rule own r \<longleftrightarrow>
     list_all (\<lambda>v.
       list_all (permits_url own v) (pr_urls r) \<and>
       list_all (\<lambda>g. list_all (\<lambda>x.
         if pr_resource_names r = [] then permits_every own v g x
         else list_all (permits own v g x) (pr_resource_names r))
       (pr_resources r)) (pr_api_groups r)) (pr_verbs r)"

definition covers :: "policy_rule list \<Rightarrow> policy_rule list \<Rightarrow> bool" where
  "covers own served \<longleftrightarrow> list_all (covers_rule own) served"

text \<open>A rule without wildcards.\<close>

definition literal_rule :: "policy_rule \<Rightarrow> bool" where
  "literal_rule r \<longleftrightarrow> ''*'' \<notin> set (pr_api_groups r) \<union> set (pr_resources r) \<union> set (pr_urls r) \<union> set (pr_verbs r)"

lemma permits_every_permits: "permits_every rules v g x \<Longrightarrow> permits rules v g x n"
  by (auto simp: permits_every_def permits_def)

text \<open>
  The check is sound: whoever holds the written role can do nothing the writer could not do.
\<close>

lemma covers_permits:
  assumes "covers own served" "list_all literal_rule served" "permits served v g x n"
  shows "permits own v g x n"
proof -
  obtain r where r: "r \<in> set served" "listed v (pr_verbs r)" "listed g (pr_api_groups r)"
      "listed x (pr_resources r)" "pr_resource_names r = [] \<or> n \<in> set (pr_resource_names r)"
    using assms(3) by (auto simp: permits_def)
  then have "v \<in> set (pr_verbs r)" "g \<in> set (pr_api_groups r)" "x \<in> set (pr_resources r)"
    using assms(2) by (auto simp: list_all_iff literal_rule_def listed_def)
  then have "if pr_resource_names r = [] then permits_every own v g x
      else list_all (permits own v g x) (pr_resource_names r)"
    using assms(1) r(1) unfolding covers_def covers_rule_def list_all_iff by blast
  then show ?thesis
    using r(5) by (auto simp: list_all_iff permits_every_permits split: if_splits)
qed

lemma covers_permits_url:
  assumes "covers own served" "list_all literal_rule served" "permits_url served v u"
  shows "permits_url own v u"
  using assms by (fastforce simp: permits_url_def covers_def covers_rule_def list_all_iff literal_rule_def listed_def)

lemma covers_append: "covers own (as @ bs) \<longleftrightarrow> covers own as \<and> covers own bs"
  by (simp add: covers_def)

lemma covers_simps:
  "covers own []"
  "covers own (r # rs) \<longleftrightarrow> covers_rule own r \<and> covers own rs"
  by (simp_all add: covers_def)

end
