(* ===== verification/Authorised_Client.thy ===== *)
theory Authorised_Client
  imports Operator_Start Rbac_Rules
begin

text \<open>
  The operator's client under the authorisation of the API server, and the interface between the
  operator's actions and its permissions: with the permissions of the locale
  \<open>enough_permissions\<close> no call of an action is refused, so that an action runs as if there
  were no authorisation.
\<close>

section \<open>A client under authorisation\<close>

text \<open>
  A request that the rules do not permit is answered with an error and does nothing. Reads of kinds
  the manager caches are served from an informer, which lists and watches the kind in all
  namespaces; the others are gets.
\<close>

definition authorised :: "bool \<Rightarrow> api_error \<Rightarrow> ('w, 'a) api_call \<Rightarrow> ('w, 'a) api_call" where
  "authorised b denied call = (if b then call else (\<lambda>w. (Inl denied, w)))"

definition informs :: "policy_rule list \<Rightarrow> string \<Rightarrow> string \<Rightarrow> bool" where
  "informs rules grp resource \<longleftrightarrow>
     permits_every rules ''list'' grp resource \<and> permits_every rules ''watch'' grp resource"

definition cached :: "manager_options \<Rightarrow> string \<Rightarrow> bool \<Rightarrow> bool" where
  "cached mo kind unstructured \<longleftrightarrow>
     kind \<notin> set (DisableFor mo) \<and> (unstructured \<longrightarrow> CacheUnstructured mo)"

definition may_read ::
  "policy_rule list \<Rightarrow> manager_options \<Rightarrow> string \<Rightarrow> bool \<Rightarrow> string \<Rightarrow> string \<Rightarrow> string \<Rightarrow> bool" where
  "may_read rules mo kind unstructured grp resource n \<longleftrightarrow>
     (if cached mo kind unstructured then informs rules grp resource
      else permits rules ''get'' grp resource n)"

definition may_list :: "policy_rule list \<Rightarrow> manager_options \<Rightarrow> string \<Rightarrow> string \<Rightarrow> string \<Rightarrow> bool" where
  "may_list rules mo kind grp resource \<longleftrightarrow>
     (if cached mo kind False then informs rules grp resource
      else permits_every rules ''list'' grp resource)"

definition rbac_group :: string where
  "rbac_group = ''rbac.authorization.k8s.io''"

text \<open>
  The escalation check: a write of a Role must be covered by what the writer is permitted, and a
  write of a RoleBinding by what it is permitted or by a right to bind the role it refers to.
  \<open>held\<close>: the rules of that role, as it is in the cluster when the binding is written.
\<close>

definition may_bind :: "policy_rule list \<Rightarrow> policy_rule list \<Rightarrow> role_ref \<Rightarrow> bool" where
  "may_bind rules held ref \<longleftrightarrow>
     covers rules held \<or>
     permits rules ''bind'' rbac_group (if rr_kind ref = ''ClusterRole'' then ''clusterroles'' else ''roles'') (rr_name ref)"

text \<open>What a cluster says about the rules of a role, by the namespace of the binding.\<close>

type_synonym 'w role_rules_view = "'w \<Rightarrow> string \<Rightarrow> role_ref \<Rightarrow> policy_rule list"

text \<open>
  The client \<open>c'\<close> reaches the cluster of \<open>c\<close> through an API server that authorises: what
  the rules permit it answers as \<open>c\<close> does; of what they do not permit nothing is known.
  \<open>plural\<close> is the RESTMapper: the resource of a kind. A create is authorised without a name.
\<close>

definition authorises ::
  "policy_rule list \<Rightarrow> manager_options \<Rightarrow> (gvk \<Rightarrow> string) \<Rightarrow> 'w role_rules_view \<Rightarrow> 'w client \<Rightarrow> 'w client \<Rightarrow> bool" where
  "authorises rules mo plural bound c c' \<longleftrightarrow>
     (\<forall>k. may_read rules mo ''Deployment'' False ''apps'' ''deployments'' (nn_name k) \<longrightarrow>
        get_deployment c' k = get_deployment c k) \<and>
     (may_list rules mo ''Deployment'' ''apps'' ''deployments'' \<longrightarrow> list_deployments c' = list_deployments c) \<and>
     (\<forall>d. permits rules ''delete'' ''apps'' ''deployments'' (dep_name d) \<longrightarrow>
        delete_deployment c' d = delete_deployment c d) \<and>
     (\<forall>k. may_read rules mo ''Namespace'' False '''' ''namespaces'' (nn_name k) \<longrightarrow>
        get_namespace c' k = get_namespace c k) \<and>
     (permits_every rules ''create'' '''' ''namespaces'' \<longrightarrow> create_namespace c' = create_namespace c) \<and>
     (\<forall>ns. permits rules ''update'' '''' ''namespaces'' (ns_name ns) \<longrightarrow>
        update_namespace c' ns = update_namespace c ns) \<and>
     (\<forall>k. may_read rules mo ''Role'' False rbac_group ''roles'' (nn_name k) \<longrightarrow> get_role c' k = get_role c k) \<and>
     (\<forall>r. permits_every rules ''create'' rbac_group ''roles'' \<and> covers rules (role_rules r) \<longrightarrow>
        create_role c' r = create_role c r) \<and>
     (\<forall>r. permits rules ''update'' rbac_group ''roles'' (role_name r) \<and> covers rules (role_rules r) \<longrightarrow>
        update_role c' r = update_role c r) \<and>
     (\<forall>k. permits rules ''delete'' rbac_group ''roles'' (nn_name k) \<longrightarrow> delete_role c' k = delete_role c k) \<and>
     (\<forall>k. may_read rules mo ''RoleBinding'' False rbac_group ''rolebindings'' (nn_name k) \<longrightarrow>
        get_role_binding c' k = get_role_binding c k) \<and>
     (\<forall>b w. permits_every rules ''create'' rbac_group ''rolebindings'' \<and>
        may_bind rules (bound w (rb_namespace b) (rb_role_ref b)) (rb_role_ref b) \<longrightarrow>
        create_role_binding c' b w = create_role_binding c b w) \<and>
     (\<forall>b w. permits rules ''update'' rbac_group ''rolebindings'' (rb_name b) \<and>
        may_bind rules (bound w (rb_namespace b) (rb_role_ref b)) (rb_role_ref b) \<longrightarrow>
        update_role_binding c' b w = update_role_binding c b w) \<and>
     (\<forall>k. permits rules ''delete'' rbac_group ''rolebindings'' (nn_name k) \<longrightarrow>
        delete_role_binding c' k = delete_role_binding c k) \<and>
     (\<forall>k. may_read rules mo ''ConfigMap'' False '''' ''configmaps'' (nn_name k) \<longrightarrow>
        get_config_map c' k = get_config_map c k) \<and>
     (\<forall>k. may_read rules mo ''CustomResourceDefinition'' False ''apiextensions.k8s.io''
          ''customresourcedefinitions'' (nn_name k) \<longrightarrow> get_crd c' k = get_crd c k) \<and>
     (\<forall>g k. may_read rules mo (gvk_kind g) True (gvk_group g) (plural g) (nn_name k) \<longrightarrow>
        get_unstructured c' g k = get_unstructured c g k) \<and>
     set_owner_reference c' = set_owner_reference c"

text \<open>Such a client: what is not permitted is refused with an error and does nothing.\<close>

definition guarded_client ::
  "policy_rule list \<Rightarrow> manager_options \<Rightarrow> (gvk \<Rightarrow> string) \<Rightarrow> 'w role_rules_view \<Rightarrow> api_error \<Rightarrow> 'w client \<Rightarrow>
    'w client" where
  "guarded_client rules mo plural bound denied c =
     \<lparr>get_deployment = (\<lambda>k. authorised (may_read rules mo ''Deployment'' False ''apps'' ''deployments'' (nn_name k))
        denied (get_deployment c k)),
      list_deployments = (\<lambda>ns ls. authorised (may_list rules mo ''Deployment'' ''apps'' ''deployments'')
        denied (list_deployments c ns ls)),
      delete_deployment = (\<lambda>d p. authorised (permits rules ''delete'' ''apps'' ''deployments'' (dep_name d))
        denied (delete_deployment c d p)),
      get_namespace = (\<lambda>k. authorised (may_read rules mo ''Namespace'' False '''' ''namespaces'' (nn_name k))
        denied (get_namespace c k)),
      create_namespace = (\<lambda>ns. authorised (permits_every rules ''create'' '''' ''namespaces'')
        denied (create_namespace c ns)),
      update_namespace = (\<lambda>ns. authorised (permits rules ''update'' '''' ''namespaces'' (ns_name ns))
        denied (update_namespace c ns)),
      get_role = (\<lambda>k. authorised (may_read rules mo ''Role'' False rbac_group ''roles'' (nn_name k))
        denied (get_role c k)),
      create_role = (\<lambda>r. authorised
        (permits_every rules ''create'' rbac_group ''roles'' \<and> covers rules (role_rules r))
        denied (create_role c r)),
      update_role = (\<lambda>r. authorised
        (permits rules ''update'' rbac_group ''roles'' (role_name r) \<and> covers rules (role_rules r))
        denied (update_role c r)),
      delete_role = (\<lambda>k. authorised (permits rules ''delete'' rbac_group ''roles'' (nn_name k))
        denied (delete_role c k)),
      get_role_binding = (\<lambda>k. authorised
        (may_read rules mo ''RoleBinding'' False rbac_group ''rolebindings'' (nn_name k))
        denied (get_role_binding c k)),
      create_role_binding = (\<lambda>b w. authorised
        (permits_every rules ''create'' rbac_group ''rolebindings'' \<and>
         may_bind rules (bound w (rb_namespace b) (rb_role_ref b)) (rb_role_ref b))
        denied (create_role_binding c b) w),
      update_role_binding = (\<lambda>b w. authorised
        (permits rules ''update'' rbac_group ''rolebindings'' (rb_name b) \<and>
         may_bind rules (bound w (rb_namespace b) (rb_role_ref b)) (rb_role_ref b))
        denied (update_role_binding c b) w),
      delete_role_binding = (\<lambda>k. authorised (permits rules ''delete'' rbac_group ''rolebindings'' (nn_name k))
        denied (delete_role_binding c k)),
      get_config_map = (\<lambda>k. authorised (may_read rules mo ''ConfigMap'' False '''' ''configmaps'' (nn_name k))
        denied (get_config_map c k)),
      get_crd = (\<lambda>k. authorised
        (may_read rules mo ''CustomResourceDefinition'' False ''apiextensions.k8s.io''
          ''customresourcedefinitions'' (nn_name k))
        denied (get_crd c k)),
      get_unstructured = (\<lambda>g k. authorised
        (may_read rules mo (gvk_kind g) True (gvk_group g) (plural g) (nn_name k))
        denied (get_unstructured c g k)),
      set_owner_reference = set_owner_reference c\<rparr>"

lemma authorised_True [simp]: "authorised True denied call = call"
  by (simp add: authorised_def)

lemma guarded_authorises: "authorises rules mo plural bound c (guarded_client rules mo plural bound denied c)"
  by (simp add: authorises_def guarded_client_def)

text \<open>
  The RoleBinding that a run of the RBAC action writes, as it was read or as it is created, and the
  world it is written in; the run meets the escalation check with it.
\<close>

definition binding_written :: "'w client \<Rightarrow> module \<Rightarrow> aigateway \<Rightarrow> 'w \<Rightarrow> (role_binding \<times> 'w) option" where
  "binding_written c m obj w =
     (let infra = deriveInfrastructureNamespace (apps_ns m) in
      case ensureNamespace (Some c) infra w of
        (Inl _, _) \<Rightarrow> None
      | (Inr _, w\<^sub>1) \<Rightarrow>
          (case ensureSecretMigrateRole (Some c) obj infra w\<^sub>1 of
             (Inl _, _) \<Rightarrow> None
           | (Inr _, w\<^sub>2) \<Rightarrow>
               (case get_role_binding c (nsname_of infra secretMigrateRoleName) w\<^sub>2 of
                  (Inl _, w\<^sub>3) \<Rightarrow> Some (desired_role_binding infra (apps_ns m), w\<^sub>3)
                | (Inr existing, w\<^sub>3) \<Rightarrow> Some (existing, w\<^sub>3))))"

definition binding_permitted ::
  "policy_rule list \<Rightarrow> 'w role_rules_view \<Rightarrow> 'w client \<Rightarrow> module \<Rightarrow> aigateway \<Rightarrow> 'w \<Rightarrow> bool" where
  "binding_permitted rules bound c m obj w \<longleftrightarrow>
     (case binding_written c m obj w of
        None \<Rightarrow> True
      | Some (b, w') \<Rightarrow> may_bind rules (bound w' (rb_namespace b) (rb_role_ref b)) (rb_role_ref b))"

section \<open>Actions of the same effect\<close>

text \<open>A request with another client in it, and two actions that do the same but for the client.\<close>

definition substituting :: "'w client \<Rightarrow> 'w client \<Rightarrow> 'w client \<Rightarrow> 'w client" where
  "substituting c c' x = (if x = c then c' else x)"

definition with_guard :: "('w client \<Rightarrow> 'w client) \<Rightarrow> ('w, 'c) request \<Rightarrow> ('w, 'c) request" where
  "with_guard g rr = rr\<lparr>rr_client := map_option g (rr_client rr)\<rparr>"

definition transports ::
  "('w client \<Rightarrow> 'w client) \<Rightarrow> ('w, 'c, 'a) action \<Rightarrow> ('w, 'c, 'a) action \<Rightarrow> bool" where
  "transports g a a' \<longleftrightarrow> (\<forall>rr. a' (with_guard g rr) = apsnd (with_guard g) (a rr))"

named_theorems transport

lemma with_guard_simps [simp]:
  "rr_client (with_guard g rr) = map_option g (rr_client rr)"
  "rr_instance (with_guard g rr) = rr_instance rr"
  "rr_world (with_guard g rr) = rr_world rr"
  "rr_conditions (with_guard g rr) = rr_conditions rr"
  "rr_resources (with_guard g rr) = rr_resources rr"
  "rr_manifests (with_guard g rr) = rr_manifests rr"
  by (simp_all add: with_guard_def)

lemma with_guard_updates:
  "(with_guard g rr)\<lparr>rr_world := w\<rparr> = with_guard g (rr\<lparr>rr_world := w\<rparr>)"
  "(with_guard g rr)\<lparr>rr_conditions := cs\<rparr> = with_guard g (rr\<lparr>rr_conditions := cs\<rparr>)"
  "(with_guard g rr)\<lparr>rr_resources := us\<rparr> = with_guard g (rr\<lparr>rr_resources := us\<rparr>)"
  "(with_guard g rr)\<lparr>rr_manifests := ms\<rparr> = with_guard g (rr\<lparr>rr_manifests := ms\<rparr>)"
  "(with_guard g rr)\<lparr>rr_instance := i\<rparr> = with_guard g (rr\<lparr>rr_instance := i\<rparr>)"
  by (simp_all add: with_guard_def)

lemma transports_ok [transport]: "transports g (ok x) (ok x)"
  by (simp add: transports_def ok_run)

lemma transports_fail [transport]: "transports g (fail e) (fail e)"
  by (simp add: transports_def fail_run)

lemma transports_and_then [transport]:
  "transports g a a' \<Longrightarrow> (\<And>x. transports g (k x) (k' x)) \<Longrightarrow> transports g (and_then a k) (and_then a' k')"
  by (auto simp: transports_def and_then_def split: prod.splits sum.splits)

lemma transports_wrapping [transport]:
  "transports g a a' \<Longrightarrow> transports g (wrapping f as a) (wrapping f as a')"
  by (auto simp: transports_def wrapping_def split: prod.splits sum.splits)

lemma transports_in_world [transport]: "m' = m \<Longrightarrow> transports g (in_world m) (in_world m')"
  by (auto simp: transports_def in_world_def with_guard_updates split: prod.splits)

lemma transports_with_aigateway [transport]:
  "(\<And>obj. transports g (k obj) (k' obj)) \<Longrightarrow> transports g (with_aigateway k) (with_aigateway k')"
  by (simp add: transports_def with_aigateway_def split: instance_value.splits)

lemma transports_client [transport]:
  "(\<And>cli. transports g (k cli) (k' (map_option g cli))) \<Longrightarrow>
   transports g (reading rr_client k) (reading rr_client k')"
  by (simp add: transports_def reading_run)

lemma transports_reads [transport]:
  "(\<And>x. transports g (k x) (k' x)) \<Longrightarrow>
   transports g (reading (\<lambda>rr. Getenv E v (rr_world rr)) k) (reading (\<lambda>rr. Getenv E v (rr_world rr)) k')"
  "(\<And>c. transports g (h c) (h' c)) \<Longrightarrow>
   transports g (reading (\<lambda>rr. GetCondition E t (rr_conditions rr)) h)
     (reading (\<lambda>rr. GetCondition E t (rr_conditions rr)) h')"
  by (simp_all add: transports_def reading_run)

lemma transports_if [transport]:
  "b' = b \<Longrightarrow> transports g x x' \<Longrightarrow> transports g y y' \<Longrightarrow>
   transports g (if b then x else y) (if b' then x' else y')"
  by simp

lemma transports_case_prod [transport]:
  "(\<And>x y. transports g (k x y) (k' x y)) \<Longrightarrow>
   transports g (case p of (x, y) \<Rightarrow> k x y) (case p of (x, y) \<Rightarrow> k' x y)"
  by (cases p) simp

lemma transports_modify:
  "(\<And>rr. f (with_guard g rr) = with_guard g (f rr)) \<Longrightarrow> transports g (modify f) (modify f)"
  by (simp add: transports_def modify_run)

lemma transports_writes [transport]:
  "transports g (mark_true E t opts) (mark_true E t opts)"
  "transports g (mark_false E t opts) (mark_false E t opts)"
  "transports g (append_manifest mi) (append_manifest mi)"
  "transports g (modify (\<lambda>rr. rr\<lparr>rr_resources := f (rr_resources rr)\<rparr>)) (modify (\<lambda>rr. rr\<lparr>rr_resources := f (rr_resources rr)\<rparr>))"
  unfolding mark_true_def mark_false_def append_manifest_def
  by (rule transports_modify, simp add: with_guard_updates)+

lemma transports_with_rr_client [transport]:
  "(\<And>cli. m' (map_option g cli) = m cli) \<Longrightarrow> transports g (with_rr_client m) (with_rr_client m')"
  unfolding with_rr_client_def by (intro transport)

lemma transports_run_actions:
  "(\<And>a. a \<in> set as \<Longrightarrow> transports g a a) \<Longrightarrow> transports g (run_actions as) (run_actions as)"
  by (induction as) (auto intro!: transport)

section \<open>Enough permissions\<close>

text \<open>The actions of the pipeline that are the operator's own code and call the client or not.\<close>

definition own_actions ::
  "('w, 'c) lib \<Rightarrow> 'v semver_lib \<Rightarrow> build_info \<Rightarrow> module \<Rightarrow> ('w, 'c, unit) action list" where
  "own_actions E L b m =
     [initialize_module E m, ensureInfraSecretMigrationRBAC m, upgradeIfNeeded L m,
      renderAIGridOperator E m, annotateResource E m, migrateSelector E m, reportSubModuleStatus E m,
      overWriteCondition E m, reportStatus E b m]"

lemma keeps_client_own:
  assumes "a \<in> set (own_actions E L b m)"
  shows "keeps rr_client a"
proof -
  have "keeps rr_client (reportStatus E b m)"
    unfolding reportStatus_def getPlatformVersion_def
    by (intro frame) (auto simp: update_instance_def set_instance_def split: instance_value.split)
  then show ?thesis
    using assms by (auto simp: own_actions_def intro: frame)
qed

locale enough_permissions =
  fixes rules :: "policy_rule list" and mo :: manager_options
  assumes deployments: "may_read rules mo ''Deployment'' False ''apps'' ''deployments'' n"
      "may_list rules mo ''Deployment'' ''apps'' ''deployments''"
      "permits rules ''delete'' ''apps'' ''deployments'' n"
    and namespaces: "may_read rules mo ''Namespace'' False '''' ''namespaces'' n"
      "permits_every rules ''create'' '''' ''namespaces''"
      "permits rules ''update'' '''' ''namespaces'' n"
    and roles: "may_read rules mo ''Role'' False rbac_group ''roles'' n"
      "permits_every rules ''create'' rbac_group ''roles''"
      "permits rules ''update'' rbac_group ''roles'' n"
      "permits rules ''delete'' rbac_group ''roles'' n"
      "covers rules (role_rules (desired_role ''''))"
    and role_bindings: "may_read rules mo ''RoleBinding'' False rbac_group ''rolebindings'' n"
      "permits_every rules ''create'' rbac_group ''rolebindings''"
      "permits rules ''update'' rbac_group ''rolebindings'' n"
      "permits rules ''delete'' rbac_group ''rolebindings'' n"
    and config_maps: "may_read rules mo ''ConfigMap'' False '''' ''configmaps'' n"
    and crds: "may_read rules mo ''CustomResourceDefinition'' False ''apiextensions.k8s.io''
      ''customresourcedefinitions'' n"
    and maas_configs: "may_read rules mo ''Config'' True ''maas.opendatahub.io'' ''configs'' n"

text \<open>The operator's client under these permissions.\<close>

locale authorising = enough_permissions rules mo for rules :: "policy_rule list" and mo +
  fixes plural :: "gvk \<Rightarrow> string" and bound :: "'w role_rules_view" and c c' :: "'w client"
  assumes answers: "authorises rules mo plural bound c c'"
begin

lemma guarded_calls [simp]:
  "get_deployment (substituting c c' x) = get_deployment x"
  "list_deployments (substituting c c' x) = list_deployments x"
  "delete_deployment (substituting c c' x) = delete_deployment x"
  "get_namespace (substituting c c' x) = get_namespace x"
  "create_namespace (substituting c c' x) = create_namespace x"
  "update_namespace (substituting c c' x) = update_namespace x"
  "get_role (substituting c c' x) = get_role x"
  "delete_role (substituting c c' x) = delete_role x"
  "get_role_binding (substituting c c' x) = get_role_binding x"
  "delete_role_binding (substituting c c' x) = delete_role_binding x"
  "get_config_map (substituting c c' x) = get_config_map x"
  "get_crd (substituting c c' x) = get_crd x"
  "set_owner_reference (substituting c c' x) = set_owner_reference x"
  using answers
  by (simp_all add: substituting_def fun_eq_iff authorises_def deployments namespaces roles role_bindings
      config_maps crds)

lemma guarded_role_writes [simp]:
  "covers rules (role_rules r) \<Longrightarrow> create_role (substituting c c' x) r = create_role x r"
  "covers rules (role_rules r) \<Longrightarrow> update_role (substituting c c' x) r = update_role x r"
  using answers by (simp_all add: substituting_def authorises_def roles)

lemma guarded_binding_writes:
  assumes "may_bind rules (bound w (rb_namespace b) (rb_role_ref b)) (rb_role_ref b)"
  shows "create_role_binding (substituting c c' x) b w = create_role_binding x b w"
    "update_role_binding (substituting c c' x) b w = update_role_binding x b w"
  using answers assms by (simp_all add: substituting_def authorises_def role_bindings)

lemma guarded_maas_config [simp]:
  "plural maasConfigGVK = ''configs'' \<Longrightarrow>
   get_unstructured (substituting c c' x) maasConfigGVK = get_unstructured x maasConfigGVK"
  using maas_configs answers by (simp add: substituting_def authorises_def maasConfigGVK_def fun_eq_iff)

lemma guarded_infra [simp]:
  "ensureNamespace (map_option (substituting c c') cli) ns = ensureNamespace cli ns"
  "ensureInfraRBACDeleted (map_option (substituting c c') cli) ns = ensureInfraRBACDeleted cli ns"
  by (cases cli; simp only: ensureNamespace_def
      ensureInfraRBACDeleted_def owned_by_def Let_def option.map with_client_simps guarded_calls)+

lemma guarded_role [simp]:
  "ensureSecretMigrateRole (map_option (substituting c c') cli) obj ns = ensureSecretMigrateRole cli obj ns"
proof (cases cli)
  case (Some x)
  have "covers rules (role_rules (desired_role ns))"
    and "covers rules (role_rules ((desired_role ns)\<lparr>role_owners := os\<rparr>))"
    and "covers rules (role_rules (existing\<lparr>role_owners := os, role_rules := role_rules (desired_role ns),
      role_labels := role_labels (desired_role ns)\<rparr>))" for os and existing :: role
    using roles(5) desired_simps(4) [of ns] by (simp_all del: desired_simps(4) add: desired_role_def)
  then show ?thesis
    using Some by (simp only: ensureSecretMigrateRole_def owned_by_def Let_def option.map with_client_simps
        guarded_calls guarded_role_writes)
qed simp

lemma guarded_role_binding:
  assumes "case get_role_binding x (nsname_of ns secretMigrateRoleName) w of
      (Inl _, v) \<Rightarrow> may_bind rules (bound v ns (rb_role_ref (desired_role_binding ns a)))
        (rb_role_ref (desired_role_binding ns a))
    | (Inr b, v) \<Rightarrow> may_bind rules (bound v (rb_namespace b) (rb_role_ref b)) (rb_role_ref b)"
  shows "ensureSecretMigrateRoleBinding (Some (substituting c c' x)) obj ns a w =
    ensureSecretMigrateRoleBinding (Some x) obj ns a w"
proof (cases "get_role_binding x (nsname_of ns secretMigrateRoleName) w")
  case (Pair read v)
  show ?thesis
  proof (cases read)
    case (Inl e)
    have "create_role_binding (substituting c c' x) ((desired_role_binding ns a)\<lparr>rb_owners := os\<rparr>) v =
        create_role_binding x ((desired_role_binding ns a)\<lparr>rb_owners := os\<rparr>) v" for os
      using assms Pair Inl by (intro guarded_binding_writes) simp
    then show ?thesis
      using Pair Inl
      by (simp add: ensureSecretMigrateRoleBinding_def Let_def ensure_object_def calling_def owned_by_def api_def
          split: sum.split)
  next
    case (Inr b)
    have "update_role_binding (substituting c c' x) (b\<lparr>rb_owners := os, rb_subjects := ss, rb_labels := ls\<rparr>) v =
        update_role_binding x (b\<lparr>rb_owners := os, rb_subjects := ss, rb_labels := ls\<rparr>) v" for os ss ls
      using assms Pair Inr by (intro guarded_binding_writes) simp
    then show ?thesis
      using Pair Inr
      by (simp add: ensureSecretMigrateRoleBinding_def Let_def ensure_object_def calling_def owned_by_def api_def
          split: sum.split)
  qed
qed

lemma guarded_infra_rbac:
  assumes "binding_permitted rules bound x m obj w" "ns = deriveInfrastructureNamespace (apps_ns m)"
  shows "ensure_infra_rbac m (Some (substituting c c' x)) obj ns w = ensure_infra_rbac m (Some x) obj ns w"
proof -
  note same = guarded_infra(1) [of "Some x", simplified] guarded_role [of "Some x", simplified]
  obtain r1 w1 where 1: "ensureNamespace (Some x) ns w = (r1, w1)" by fastforce
  obtain r2 w2 where 2: "ensureSecretMigrateRole (Some x) obj ns w1 = (r2, w2)" by fastforce
  show ?thesis
  proof (cases "isl r1 \<or> isl r2")
    case True
    then show ?thesis
      using 1 2 by (cases r1; cases r2) (simp_all add: ensure_infra_rbac_def and_then_def wrapping_def same)
  next
    case False
    then have "ensureSecretMigrateRoleBinding (Some (substituting c c' x)) obj ns (apps_ns m) w2 =
        ensureSecretMigrateRoleBinding (Some x) obj ns (apps_ns m) w2"
      using assms 1 2
      by (intro guarded_role_binding)
        (cases r1; cases r2; auto simp: binding_permitted_def binding_written_def Let_def split: prod.splits sum.splits)
    then show ?thesis
      using False 1 2
      by (cases r1; cases r2) (simp_all add: ensure_infra_rbac_def and_then_def wrapping_def same)
  qed
qed

lemma guarded_teardown [simp]:
  "maasTeardownCompleted m (map_option (substituting c c') cli) = maasTeardownCompleted m cli"
  "maasControllerDeploymentExists m (map_option (substituting c c') cli) =
     maasControllerDeploymentExists m cli"
  by (cases cli; simp add: maasTeardownCompleted_def maasControllerDeploymentExists_def)+

lemma guarded_removal [simp]:
  "maasRemovalPending m (map_option (substituting c c') cli) = maasRemovalPending m cli"
  by (simp add: maasRemovalPending_def cong: if_cong)

lemma guarded_crds_loop [simp]:
  "crds_established_loop E (substituting c c' x) names = crds_established_loop E x names"
  by (induction names) (simp_all cong: if_cong)

lemma guarded_status [simp]:
  "crdsEstablished E (map_option (substituting c c') cli) names = crdsEstablished E cli names"
  "plural maasConfigGVK = ''configs'' \<Longrightarrow>
   maasConfigReady E (map_option (substituting c c') cli) = maasConfigReady E cli"
  "plural maasConfigGVK = ''configs'' \<Longrightarrow>
   tenantsHealthFromConfig E (map_option (substituting c c') cli) = tenantsHealthFromConfig E cli"
  by (cases cli; simp add: crdsEstablished_def maasConfigReady_def tenantsHealthFromConfig_def)+

lemma transports_gc_predicate:
  assumes "\<And>rr. DefaultObjectPredicate E (with_guard (substituting c c') rr) u =
      DefaultObjectPredicate E rr u"
  shows "transports (substituting c c') (maasAwareGCPredicate E m u) (maasAwareGCPredicate E m u)"
  using assms transports_in_world [OF refl, where g = "substituting c c'"]
  by (auto simp: transports_def maasAwareGCPredicate_def Let_def split: sum.split bool.split)

lemma transports_initialize [transport]:
  "transports (substituting c c') (initialize_module E m) (initialize_module E m)"
  unfolding initialize_module_def init_batch_gateway_def init_ai_grid_def keep_maas_installed_def
    shouldKeepMaaSInstalled_def init_maas_def Let_def
  by (intro transport) simp_all

lemma infra_rbac_authorised:
  assumes "rr_client rr = Some x"
    and "\<And>obj. rr_instance rr = IsAIGateway obj \<Longrightarrow> maas_state obj = managedState \<Longrightarrow>
      binding_permitted rules bound x m obj (rr_world rr)"
  shows "ensureInfraSecretMigrationRBAC m (with_guard (substituting c c') rr) =
    apsnd (with_guard (substituting c c')) (ensureInfraSecretMigrationRBAC m rr)"
proof (cases "rr_instance rr")
  case (IsAIGateway obj)
  let ?infra = "deriveInfrastructureNamespace (apps_ns m)"
  note same = guarded_infra(2) [of "Some x", simplified] guarded_teardown(1) [of m "Some x", simplified]
  have "ensure_infra_rbac m (Some (substituting c c' x)) obj ?infra (rr_world rr) =
      ensure_infra_rbac m (Some x) obj ?infra (rr_world rr)" if "maas_state obj = managedState"
    by (rule guarded_infra_rbac [OF assms(2) [OF IsAIGateway that] refl])
  then show ?thesis
    using assms(1) IsAIGateway
    by (auto simp: ensureInfraSecretMigrationRBAC_def reading_run in_world_run Let_def ok_run fail_run same
        with_guard_updates cong: if_cong split: prod.split)
next
  case OtherInstance
  then show ?thesis by (simp add: ensureInfraSecretMigrationRBAC_def)
qed

lemma transports_render [transport]:
  "transports g (upgradeIfNeeded L m) (upgradeIfNeeded L m)"
  "transports g (renderAIGridOperator E m) (renderAIGridOperator E m)"
  "transports g (annotateResource E m) (annotateResource E m)"
  unfolding upgradeIfNeeded_def upgrade_def renderAIGridOperator_def annotateResource_def
    annotateMaaSRequestedTeardown_def Let_def
  by (intro transport refl)+

lemma transports_option:
  "(cli' = None \<longleftrightarrow> cli = None) \<Longrightarrow> transports g n n' \<Longrightarrow>
   (\<And>c c'. cli = Some c \<Longrightarrow> cli' = Some c' \<Longrightarrow> transports g (k c) (k' c')) \<Longrightarrow>
   transports g (case cli of None \<Rightarrow> n | Some c \<Rightarrow> k c) (case cli' of None \<Rightarrow> n' | Some c' \<Rightarrow> k' c')"
  by (cases cli; cases cli') auto

lemma transports_migrate [transport]:
  "transports (substituting c c') (migrateSelector E m) (migrateSelector E m)"
  unfolding migrateSelector_def migrateMaasControllerSelector_def
  by (intro transport transports_option) (auto simp del: wrapf_Api cong: if_cong)

lemma transports_deployment_available [transport]:
  "transports (substituting c c') (deploymentAvailable n ns) (deploymentAvailable n ns)"
  unfolding deploymentAvailable_def by (intro transport transports_option) auto

lemma transports_status [transport]:
  assumes "plural maasConfigGVK = ''configs''"
  shows "transports (substituting c c') (reportSubModuleStatus E m) (reportSubModuleStatus E m)"
  unfolding reportSubModuleStatus_def report_maas_def report_tenants_def report_batch_gateway_def
    report_ai_grid_def not_managed_def checking_deployment_def
  by (intro transport) (simp_all add: assms)

lemma transports_overwrite [transport]:
  "transports (substituting c c') (overWriteCondition E m) (overWriteCondition E m)"
  unfolding overWriteCondition_def aiGridOnlyDeploymentsAvailable_def applicationsNamespaceDeployments_def
    checking_deployment_def
  by (intro transport transports_option) auto

lemma transports_report [transport]:
  "transports (substituting c c') (reportStatus E b m) (reportStatus E b m)"
proof -
  have "transports (substituting c c') (getPlatformVersion m) (getPlatformVersion m)"
    unfolding getPlatformVersion_def with_client_def by (intro transport transports_option) auto
  then show ?thesis
    unfolding reportStatus_def
    by (intro transport transports_modify)
      (auto simp: with_guard_def set_instance_def update_instance_def module_status_of_def
        collect_sources_def split: instance_value.split)
qed

lemma transports_own:
  assumes "plural maasConfigGVK = ''configs''"
    and "a \<in> set (own_actions E L b m)" "a \<noteq> ensureInfraSecretMigrationRBAC m"
  shows "transports (substituting c c') a a"
  using assms unfolding own_actions_def by (auto intro!: transport)

lemma own_authorised:
  assumes "plural maasConfigGVK = ''configs''" "a \<in> set (own_actions E L b m)" "rr_client rr = Some c"
    and "\<And>obj. a = ensureInfraSecretMigrationRBAC m \<Longrightarrow> rr_instance rr = IsAIGateway obj \<Longrightarrow>
      maas_state obj = managedState \<Longrightarrow> binding_permitted rules bound c m obj (rr_world rr)"
  shows "a (rr\<lparr>rr_client := Some c'\<rparr>) = apsnd (\<lambda>r. r\<lparr>rr_client := Some c'\<rparr>) (a rr)"
proof -
  have guard: "with_guard (substituting c c') r = r\<lparr>rr_client := Some c'\<rparr>" if "rr_client r = Some c" for r
    using that by (simp add: with_guard_def substituting_def)
  have "a (with_guard (substituting c c') rr) = apsnd (with_guard (substituting c c')) (a rr)"
  proof (cases "a = ensureInfraSecretMigrationRBAC m")
    case True
    then show ?thesis
      using infra_rbac_authorised [OF assms(3), of m] assms(4) by simp
  next
    case False
    then show ?thesis
      using transports_own [OF assms(1,2)] by (simp add: transports_def)
  qed
  moreover have "rr_client (snd (a rr)) = Some c"
    using keeps_client_own [OF assms(2)] assms(3) by (simp add: keeps_def)
  ultimately show ?thesis
    using assms(3) by (cases "a rr") (simp add: guard)
qed

end

end
