(* ===== verification/Permission_Markers.thy ===== *)
theory Permission_Markers
  imports Infra_RBAC
begin

text \<open>
  The permissions of the operator: the \<^verbatim>\<open>+kubebuilder:rbac\<close> markers above
  \<^verbatim>\<open>NewReconciler\<close> in \<^verbatim>\<open>aigateway_controller.go\<close>, one rule per marker, in
  their order and with their fields. \<^verbatim>\<open>make manifests\<close> turns them into the ClusterRole
  manager-role that the operator runs under.
\<close>

section \<open>Rules\<close>

text \<open>
  A marker with \<^verbatim>\<open>groups\<close>, \<^verbatim>\<open>resources\<close>, \<^verbatim>\<open>resourceNames\<close> and
  \<^verbatim>\<open>verbs\<close>, and one with \<^verbatim>\<open>urls\<close> and \<^verbatim>\<open>verbs\<close>.
\<close>

definition allow :: "string list \<Rightarrow> string list \<Rightarrow> string list \<Rightarrow> string list \<Rightarrow> policy_rule" where
  "allow groups resources names verbs =
     \<lparr>pr_api_groups = groups, pr_resources = resources, pr_resource_names = names, pr_urls = [],
      pr_verbs = verbs\<rparr>"

definition allow_url :: "string list \<Rightarrow> string list \<Rightarrow> policy_rule" where
  "allow_url urls verbs =
     \<lparr>pr_api_groups = [], pr_resources = [], pr_resource_names = [], pr_urls = urls, pr_verbs = verbs\<rparr>"

section \<open>The markers\<close>

text \<open>The custom resource of the operator itself.\<close>

definition own_resource_markers :: "policy_rule list" where
  "own_resource_markers =
     [allow [''components.platform.opendatahub.io''] [''aigateways''] []
        [''get'', ''list'', ''watch'', ''create'', ''update'', ''patch'', ''delete''],
      allow [''components.platform.opendatahub.io''] [''aigateways/status''] []
        [''get'', ''update'', ''patch''],
      allow [''components.platform.opendatahub.io''] [''aigateways/finalizers''] [] [''update''],
      allow [''dscinitialization.opendatahub.io''] [''dscinitializations''] []
        [''get'', ''list'', ''watch'']]"

text \<open>To deploy the manifests of the batch gateway operator.\<close>

definition batch_gateway_markers :: "policy_rule list" where
  "batch_gateway_markers =
     [allow [''apps''] [''deployments'', ''statefulsets''] []
        [''get'', ''list'', ''watch'', ''create'', ''update'', ''patch'', ''delete''],
      allow [''''] [''services'', ''serviceaccounts'', ''configmaps''] []
        [''get'', ''list'', ''watch'', ''create'', ''update'', ''patch'', ''delete''],
      allow [''''] [''secrets''] []
        [''create'', ''delete'', ''get'', ''list'', ''patch'', ''watch''],
      allow [''''] [''events''] [] [''create'', ''patch''],
      allow [''events.k8s.io''] [''events''] [] [''create'', ''patch''],
      allow [''rbac.authorization.k8s.io''] [''clusterroles'', ''clusterrolebindings''] []
        [''create'', ''list'', ''watch''],
      allow [''rbac.authorization.k8s.io''] [''clusterroles'']
        [''llm-d-batch-gateway-operator'', ''llm-d-batch-gateway-admin'',
         ''llm-d-batch-gateway-view''] [''get'', ''update'', ''patch'', ''delete''],
      allow [''rbac.authorization.k8s.io''] [''clusterrolebindings'']
        [''llm-d-batch-gateway-operator''] [''get'', ''update'', ''patch'', ''delete''],
      allow [''rbac.authorization.k8s.io''] [''roles'', ''rolebindings''] []
        [''get'', ''list'', ''watch'', ''create'', ''update'', ''patch'', ''delete''],
      allow [''apiextensions.k8s.io''] [''customresourcedefinitions''] []
        [''create'', ''list'', ''watch''],
      allow [''apiextensions.k8s.io''] [''customresourcedefinitions'']
        [''llmbatchgateways.batch.llm-d.ai''] [''get'', ''update'', ''patch'', ''delete'']]"

text \<open>What the batch gateway operator is granted by them.\<close>

definition batch_gateway_escalation_markers :: "policy_rule list" where
  "batch_gateway_escalation_markers =
     [allow [''batch.llm-d.ai''] [''llmbatchgateways''] []
        [''get'', ''list'', ''watch'', ''create'', ''update'', ''patch'', ''delete'',
         ''deletecollection''],
      allow [''batch.llm-d.ai''] [''llmbatchgateways/finalizers''] [] [''update''],
      allow [''batch.llm-d.ai''] [''llmbatchgateways/status''] []
        [''get'', ''patch'', ''update''],
      allow [''cert-manager.io''] [''certificates''] []
        [''get'', ''list'', ''watch'', ''create'', ''update'', ''patch'', ''delete''],
      allow [''gateway.networking.k8s.io''] [''httproutes''] []
        [''get'', ''list'', ''watch'', ''create'', ''update'', ''patch'', ''delete''],
      allow [''gateway.networking.k8s.io''] [''referencegrants''] []
        [''get'', ''list'', ''watch'', ''create'', ''update'', ''patch'', ''delete''],
      allow [''monitoring.coreos.com'']
        [''podmonitors'', ''prometheusrules'', ''servicemonitors''] []
        [''get'', ''list'', ''watch'', ''create'', ''update'', ''patch'', ''delete'']]"

text \<open>To deploy the manifests of maas-controller.\<close>

definition maas_deployment_markers :: "policy_rule list" where
  "maas_deployment_markers =
     [allow [''apiextensions.k8s.io''] [''customresourcedefinitions''] []
        [''create'', ''list'', ''watch''],
      allow [''apiextensions.k8s.io''] [''customresourcedefinitions'']
        [''tenants.maas.opendatahub.io'', ''aitenants.maas.opendatahub.io'',
         ''configs.maas.opendatahub.io'', ''maasmodelrefs.maas.opendatahub.io'',
         ''maasauthpolicies.maas.opendatahub.io'', ''maassubscriptions.maas.opendatahub.io'',
         ''maastenantconfigs.maas.opendatahub.io'', ''externalmodels.maas.opendatahub.io'',
         ''externalmodels.inference.opendatahub.io'',
         ''externalproviders.inference.opendatahub.io'',
         ''modelsasservices.components.platform.opendatahub.io'']
        [''get'', ''update'', ''patch'', ''delete''],
      allow [''rbac.authorization.k8s.io''] [''clusterrolebindings''] []
        [''create'', ''list'', ''watch''],
      allow [''rbac.authorization.k8s.io''] [''clusterrolebindings'']
        [''maas-controller-cluster-config-rolebinding'', ''maas-controller-rolebinding'']
        [''get'', ''update'', ''patch'', ''delete''],
      allow [''rbac.authorization.k8s.io''] [''clusterroles''] []
        [''create'', ''list'', ''watch''],
      allow [''rbac.authorization.k8s.io''] [''clusterroles'']
        [''maas-controller-cluster-config-role'', ''maas-controller-role'',
         ''maas-owner-role'', ''maas-viewer-role''] [''get'', ''update'', ''patch'', ''delete''],
      allow [''admissionregistration.k8s.io''] [''validatingwebhookconfigurations''] []
        [''create'', ''list'', ''watch''],
      allow [''admissionregistration.k8s.io''] [''validatingwebhookconfigurations'']
        [''maas-validating-webhook-configuration''] [''get'', ''update'', ''patch'', ''delete''],
      allow [''''] [''namespaces''] []
        [''create'', ''get'', ''list'', ''patch'', ''update'', ''watch'']]"

text \<open>The AI Grid CRDs, without the right to delete them, and the grid operator with what it is granted.\<close>

definition ai_grid_markers :: "policy_rule list" where
  "ai_grid_markers =
     [allow [''apiextensions.k8s.io''] [''customresourcedefinitions'']
        [''gridnetworks.grid.praxis.fast'', ''gridsites.grid.praxis.fast'',
         ''inferenceproviders.grid.praxis.fast'', ''agenttoolproviders.grid.praxis.fast'',
         ''siteinvites.grid.praxis.fast''] [''get'', ''update'', ''patch''],
      allow [''rbac.authorization.k8s.io''] [''clusterroles'']
        [''grid-operator-crd'', ''grid-operator-resources'', ''grid-operator-metrics-scraper'']
        [''get'', ''update'', ''patch'', ''delete''],
      allow [''rbac.authorization.k8s.io''] [''clusterrolebindings'']
        [''grid-operator-crd'', ''grid-operator-metrics-scraper'']
        [''get'', ''update'', ''patch'', ''delete''],
      allow [''grid.praxis.fast'']
        [''agenttoolproviders'', ''gridnetworks'', ''inferenceproviders''] []
        [''get'', ''list'', ''watch'', ''patch''],
      allow [''grid.praxis.fast''] [''gridnetworks''] [] [''create''],
      allow [''grid.praxis.fast''] [''gridsites''] []
        [''get'', ''list'', ''watch'', ''patch'', ''create'', ''update'', ''delete''],
      allow [''grid.praxis.fast'']
        [''agenttoolproviders/status'', ''gridnetworks/status'', ''gridsites/status'',
         ''inferenceproviders/status''] [] [''get'', ''patch''],
      allow [''''] [''serviceaccounts/token''] [''grid-operator-metrics-scraper''] [''create''],
      allow_url [''/metrics''] [''get'']]"

text \<open>To deploy the manifests of ai-gateway-controller.\<close>

definition ai_gateway_controller_markers :: "policy_rule list" where
  "ai_gateway_controller_markers =
     [allow [''rbac.authorization.k8s.io''] [''clusterroles'', ''clusterrolebindings'']
        [''ai-gateway-controller-role'', ''ai-gateway-controller-rolebinding'',
         ''payload-processing-reader''] [''get'', ''update'', ''patch'', ''delete''],
      allow [''aigateway.opendatahub.io''] [''aiguardrails''] [] [''get'', ''list'', ''watch''],
      allow [''aigateway.opendatahub.io''] [''aiguardrails/status''] [] [''get'', ''patch''],
      allow [''trustyai.opendatahub.io''] [''nemoguardrails''] [] [''get'', ''list'', ''watch''],
      allow [''apiextensions.k8s.io''] [''customresourcedefinitions'']
        [''aiguardrails.aigateway.opendatahub.io''] [''get'', ''update'', ''patch'', ''delete'']]"

text \<open>What maas-controller and ai-gateway-controller are granted.\<close>

definition maas_escalation_markers :: "policy_rule list" where
  "maas_escalation_markers =
     [allow [''''] [''endpoints'', ''pods''] [] [''get'', ''list'', ''watch''],
      allow [''''] [''namespaces''] [] [''patch''],
      allow [''apiextensions.k8s.io''] [''customresourcedefinitions''] [] [''get''],
      allow [''apps''] [''deployments/finalizers''] [] [''update''],
      allow [''authentication.k8s.io''] [''tokenreviews''] [] [''create''],
      allow [''authorization.k8s.io''] [''subjectaccessreviews''] [] [''create''],
      allow [''autoscaling''] [''horizontalpodautoscalers''] []
        [''create'', ''delete'', ''get'', ''list'', ''patch'', ''update'', ''watch''],
      allow [''batch''] [''cronjobs''] []
        [''create'', ''delete'', ''get'', ''list'', ''patch'', ''watch''],
      allow [''batch''] [''jobs''] [] [''create'', ''delete'', ''get''],
      allow [''components.platform.opendatahub.io''] [''modelsasservices''] []
        [''get'', ''list'', ''patch'', ''update'', ''watch''],
      allow [''components.platform.opendatahub.io''] [''modelsasservices/status''] []
        [''get'', ''patch'', ''update''],
      allow [''config.openshift.io''] [''apiservers'', ''authentications''] []
        [''get'', ''list'', ''watch''],
      allow [''coordination.k8s.io''] [''leases''] []
        [''create'', ''delete'', ''get'', ''list'', ''patch'', ''update'', ''watch''],
      allow [''discovery.k8s.io''] [''endpointslices''] []
        [''create'', ''delete'', ''get'', ''list'', ''update'', ''watch''],
      allow [''discovery.k8s.io''] [''endpointslices/restricted''] [] [''create''],
      allow [''''] [''serviceaccounts/token''] [''grid-operator-metrics-scraper''] [''create''],
      allow [''extensions.istio.io''] [''wasmplugins''] [] [''get''],
      allow [''extensions.kuadrant.io''] [''telemetrypolicies''] []
        [''create'', ''delete'', ''get'', ''list'', ''patch'', ''watch''],
      allow [''gateway.networking.k8s.io''] [''gateways''] [] [''get'', ''list'', ''watch''],
      allow [''gateway.networking.k8s.io''] [''httproutes/finalizers''] [] [''update''],
      allow [''inference.opendatahub.io''] [''externalmodels'', ''externalproviders''] []
        [''create'', ''delete'', ''get'', ''list'', ''patch'', ''update'', ''watch''],
      allow [''inference.opendatahub.io'']
        [''externalmodels/status'', ''externalproviders/status''] []
        [''get'', ''patch'', ''update''],
      allow [''inference.opendatahub.io'']
        [''externalmodels/finalizers'', ''externalproviders/finalizers''] [] [''update''],
      allow [''kuadrant.io''] [''authpolicies'', ''tokenratelimitpolicies''] []
        [''create'', ''delete'', ''get'', ''list'', ''patch'', ''update'', ''watch''],
      allow [''kuadrant.io''] [''ratelimitpolicies'', ''telemetrypolicies''] []
        [''create'', ''delete'', ''get'', ''list'', ''patch'', ''watch''],
      allow [''llm-d.ai''] [''inferenceobjectives''] []
        [''create'', ''delete'', ''get'', ''list'', ''patch'', ''update'', ''watch''],
      allow [''maas.opendatahub.io'']
        [''aitenants'', ''configs'', ''externalmodels'', ''maasauthpolicies'',
         ''maasmodelrefs'', ''maassubscriptions'', ''maastenantconfigs'', ''tenants''] []
        [''create'', ''delete'', ''get'', ''list'', ''patch'', ''update'', ''watch''],
      allow [''maas.opendatahub.io'']
        [''aitenants/status'', ''configs/status'', ''externalmodels/status'',
         ''maasauthpolicies/status'', ''maasmodelrefs/status'', ''maassubscriptions/status'',
         ''maastenantconfigs/status'', ''tenants/status''] [] [''get'', ''patch'', ''update''],
      allow [''maas.opendatahub.io'']
        [''aitenants/finalizers'', ''configs/finalizers'', ''externalmodels/finalizers'',
         ''maasauthpolicies/finalizers'', ''maasmodelrefs/finalizers'',
         ''maassubscriptions/finalizers''] [] [''update''],
      allow [''monitoring.coreos.com''] [''podmonitors'', ''servicemonitors''] []
        [''create'', ''delete'', ''get'', ''list'', ''patch'', ''watch''],
      allow [''networking.istio.io''] [''destinationrules''] []
        [''create'', ''delete'', ''get'', ''list'', ''patch'', ''update'', ''watch''],
      allow [''networking.istio.io''] [''envoyfilters''] []
        [''create'', ''delete'', ''get'', ''list'', ''patch'', ''update'', ''watch''],
      allow [''networking.istio.io''] [''serviceentries''] []
        [''create'', ''delete'', ''get'', ''list'', ''patch'', ''update'', ''watch''],
      allow [''networking.k8s.io''] [''networkpolicies''] []
        [''create'', ''delete'', ''get'', ''list'', ''patch'', ''update'', ''watch''],
      allow [''opentelemetry.io''] [''opentelemetrycollectors''] []
        [''create'', ''delete'', ''get'', ''list'', ''patch'', ''watch''],
      allow [''operator.authorino.kuadrant.io''] [''authorinos''] []
        [''get'', ''list'', ''watch''],
      allow [''perses.dev''] [''persesdashboards'', ''persesdatasources''] []
        [''create'', ''delete'', ''get'', ''list'', ''patch'', ''watch''],
      allow [''apps''] [''replicasets''] [] [''get'', ''list''],
      allow [''route.openshift.io''] [''routes''] [] [''get'', ''list'', ''watch''],
      allow [''rbac.authorization.k8s.io''] [''clusterrolebindings'', ''clusterroles''] []
        [''get'', ''list'', ''watch'', ''patch'', ''update'', ''delete''],
      allow [''serving.kserve.io''] [''llminferenceservices''] [] [''get'', ''list'', ''watch''],
      allow [''telemetry.istio.io''] [''telemetries''] []
        [''create'', ''delete'', ''get'', ''list'', ''patch'', ''watch''],
      allow [''rbac.authorization.k8s.io''] [''rolebindings''] []
        [''get'', ''list'', ''watch'', ''create'', ''patch'', ''delete''],
      allow [''loki.grafana.com''] [''application''] [''logs''] [''create'', ''get''],
      allow [''''] [''pods/log''] [] [''get''],
      allow [''security.openshift.io''] [''securitycontextconstraints''] [''nonroot-v2'']
        [''use'']]"

definition operator_markers :: "policy_rule list" where
  "operator_markers =
     own_resource_markers @
     batch_gateway_markers @
     batch_gateway_escalation_markers @
     maas_deployment_markers @
     ai_grid_markers @
     ai_gateway_controller_markers @
     maas_escalation_markers"

end
