(* ===== verification/Vendored_Roles.thy ===== *)
theory Vendored_Roles
  imports Permission_Markers
begin

text \<open>
  The rules of the Roles and ClusterRoles that the operator applies: the manifests under
  \<^verbatim>\<open>config/manifests\<close>, fetched from the sub-modules' repositories, rule by rule. Long
  lists are split.
\<close>

text \<open>The grid operator.\<close>

definition grid_operator_crd :: "policy_rule list" where
  "grid_operator_crd =
     [allow [''grid.praxis.fast'']
        [''agenttoolproviders'', ''gridnetworks'', ''inferenceproviders''] []
        [''get'', ''list'', ''watch'', ''patch''],
      allow [''grid.praxis.fast''] [''gridsites''] []
        [''get'', ''list'', ''watch'', ''patch'', ''create'', ''update'', ''delete''],
      allow [''grid.praxis.fast'']
        [''agenttoolproviders/status'', ''gridnetworks/status'', ''gridsites/status'',
         ''inferenceproviders/status''] [] [''get'', ''patch''],
      allow [''grid.praxis.fast''] [''gridnetworks''] [] [''create'']]"

definition grid_operator_metrics_scraper :: "policy_rule list" where
  "grid_operator_metrics_scraper =
     [allow_url [''/metrics''] [''get'']]"

definition grid_operator_resources :: "policy_rule list" where
  "grid_operator_resources =
     [allow [''''] [''secrets''] [] [''get'', ''create'', ''patch''],
      allow [''''] [''services'']
        [''grid-gateway'', ''grid-operator-swim'', ''grid-operator-signals''] [''get''],
      allow [''apps''] [''deployments''] [''grid-gateway''] [''get'', ''patch''],
      allow [''events.k8s.io''] [''events''] [] [''create'', ''patch''],
      allow [''''] [''configmaps''] [] [''get'', ''create'', ''patch'', ''update'']]"

definition grid_operator_leader_election :: "policy_rule list" where
  "grid_operator_leader_election =
     [allow [''coordination.k8s.io''] [''leases''] [] [''create''],
      allow [''coordination.k8s.io''] [''leases''] [''grid-operator''] [''get'', ''update''],
      allow [''''] [''pods''] [] [''get'', ''list''],
      allow [''''] [''services''] [''grid-operator-signals'', ''grid-operator-swim''] [''get''],
      allow [''discovery.k8s.io''] [''endpointslices''] [] [''create'', ''list'', ''delete''],
      allow [''discovery.k8s.io''] [''endpointslices/restricted''] [] [''create''],
      allow [''discovery.k8s.io''] [''endpointslices'']
        [''grid-operator-signals-holder'', ''grid-operator-swim-holder''] [''get'', ''update'']]"

definition grid_operator_metrics_scraper_token :: "policy_rule list" where
  "grid_operator_metrics_scraper_token =
     [allow [''''] [''serviceaccounts/token''] [''grid-operator-metrics-scraper''] [''create'']]"

definition grid_operator_operator_config :: "policy_rule list" where
  "grid_operator_operator_config =
     [allow [''''] [''configmaps''] [''grid-operator-config''] [''get'', ''list'', ''watch'']]"

text \<open>The batch gateway operator.\<close>

definition batch_gateway_operator_role_1 :: "policy_rule list" where
  "batch_gateway_operator_role_1 =
     [allow [''''] [''configmaps'', ''serviceaccounts'', ''services''] []
        [''create'', ''delete'', ''get'', ''list'', ''patch'', ''update'', ''watch''],
      allow [''''] [''events''] [] [''create'', ''patch''],
      allow [''''] [''pods''] [] [''get'', ''list'', ''watch''],
      allow [''''] [''secrets''] [] [''create'', ''get'', ''list'', ''patch'', ''watch''],
      allow [''apps''] [''deployments'', ''statefulsets''] []
        [''create'', ''delete'', ''get'', ''list'', ''patch'', ''update'', ''watch''],
      allow [''authentication.k8s.io''] [''tokenreviews''] [] [''create''],
      allow [''authorization.k8s.io''] [''subjectaccessreviews''] [] [''create''],
      allow [''batch.llm-d.ai''] [''llmbatchgateways''] []
        [''get'', ''list'', ''patch'', ''update'', ''watch'']]"

definition batch_gateway_operator_role_2 :: "policy_rule list" where
  "batch_gateway_operator_role_2 =
     [allow [''batch.llm-d.ai''] [''llmbatchgateways/finalizers''] [] [''update''],
      allow [''batch.llm-d.ai''] [''llmbatchgateways/status''] []
        [''get'', ''patch'', ''update''],
      allow [''cert-manager.io''] [''certificates''] []
        [''create'', ''delete'', ''get'', ''list'', ''patch'', ''update'', ''watch''],
      allow [''config.openshift.io''] [''apiservers''] [] [''get'', ''list'', ''watch''],
      allow [''gateway.networking.k8s.io''] [''httproutes''] []
        [''create'', ''delete'', ''get'', ''list'', ''patch'', ''update'', ''watch''],
      allow [''gateway.networking.k8s.io''] [''referencegrants''] []
        [''get'', ''list'', ''watch''],
      allow [''monitoring.coreos.com'']
        [''podmonitors'', ''prometheusrules'', ''servicemonitors''] []
        [''create'', ''delete'', ''get'', ''list'', ''patch'', ''update'', ''watch''],
      allow [''rbac.authorization.k8s.io''] [''rolebindings'', ''roles''] []
        [''create'', ''delete'', ''get'', ''list'', ''patch'', ''update'', ''watch'']]"

definition batch_gateway_operator_role :: "policy_rule list" where
  "batch_gateway_operator_role =
     batch_gateway_operator_role_1 @ batch_gateway_operator_role_2"

definition batch_gateway_leader_election :: "policy_rule list" where
  "batch_gateway_leader_election =
     [allow [''coordination.k8s.io''] [''leases''] []
        [''get'', ''list'', ''watch'', ''create'', ''update'', ''patch'', ''delete''],
      allow [''''] [''events''] [] [''create'', ''patch'']]"

definition batch_gateway_aggregates :: "policy_rule list" where
  "batch_gateway_aggregates =
     [allow [''batch.llm-d.ai''] [''llmbatchgateways''] []
        [''get'', ''list'', ''watch'', ''create'', ''update'', ''patch'', ''delete''],
      allow [''batch.llm-d.ai''] [''llmbatchgateways/status''] [] [''get''],
      allow [''batch.llm-d.ai''] [''llmbatchgateways''] [] [''get'', ''list'', ''watch''],
      allow [''batch.llm-d.ai''] [''llmbatchgateways/status''] [] [''get'']]"

text \<open>maas-controller, with the roles of its owners and viewers.\<close>

definition maas_controller_role_1 :: "policy_rule list" where
  "maas_controller_role_1 =
     [allow [''''] [''configmaps'', ''services''] []
        [''create'', ''delete'', ''get'', ''list'', ''patch'', ''update'', ''watch''],
      allow [''''] [''endpoints'', ''pods'', ''secrets''] [] [''get'', ''list'', ''watch''],
      allow [''''] [''namespaces''] [] [''create'', ''get'', ''list'', ''patch'', ''watch''],
      allow [''''] [''pods/log''] [] [''get''],
      allow [''''] [''serviceaccounts''] []
        [''create'', ''delete'', ''get'', ''list'', ''patch'', ''watch''],
      allow ['''', ''events.k8s.io''] [''events''] [] [''create'', ''patch''],
      allow [''aigateway.opendatahub.io''] [''aiguardrails''] [] [''get'', ''list'', ''watch''],
      allow [''apiextensions.k8s.io''] [''customresourcedefinitions''] []
        [''get'', ''list'', ''watch'']]"

definition maas_controller_role_2 :: "policy_rule list" where
  "maas_controller_role_2 =
     [allow [''apps''] [''deployments''] []
        [''create'', ''delete'', ''get'', ''list'', ''patch'', ''update'', ''watch''],
      allow [''apps''] [''deployments/finalizers''] [] [''update''],
      allow [''authentication.k8s.io''] [''tokenreviews''] [] [''create''],
      allow [''authorization.k8s.io''] [''subjectaccessreviews''] [] [''create''],
      allow [''autoscaling''] [''horizontalpodautoscalers''] []
        [''create'', ''delete'', ''get'', ''list'', ''patch'', ''update'', ''watch''],
      allow [''batch''] [''cronjobs''] []
        [''create'', ''delete'', ''get'', ''list'', ''patch'', ''watch''],
      allow [''batch''] [''jobs''] [] [''create'', ''delete'', ''get''],
      allow [''cert-manager.io''] [''certificates''] []
        [''create'', ''delete'', ''get'', ''list'', ''patch'', ''watch'']]"

definition maas_controller_role_3 :: "policy_rule list" where
  "maas_controller_role_3 =
     [allow [''discovery.k8s.io''] [''endpointslices''] [] [''list'', ''watch''],
      allow [''dscinitialization.opendatahub.io''] [''dscinitializations''] []
        [''get'', ''list'', ''watch''],
      allow [''extensions.istio.io''] [''wasmplugins''] [] [''get''],
      allow [''extensions.kuadrant.io''] [''telemetrypolicies''] []
        [''create'', ''delete'', ''get'', ''list'', ''patch'', ''watch''],
      allow [''gateway.networking.k8s.io''] [''gateways''] [] [''get'', ''list'', ''watch''],
      allow [''gateway.networking.k8s.io''] [''httproutes''] []
        [''create'', ''delete'', ''get'', ''list'', ''patch'', ''update'', ''watch''],
      allow [''gateway.networking.k8s.io''] [''httproutes/finalizers''] [] [''update''],
      allow [''inference.opendatahub.io''] [''externalmodels'', ''externalproviders''] []
        [''create'', ''delete'', ''get'', ''list'', ''update'', ''watch'']]"

definition maas_controller_role_4 :: "policy_rule list" where
  "maas_controller_role_4 =
     [allow [''inference.opendatahub.io'']
        [''externalmodels/finalizers'', ''externalproviders/finalizers''] [] [''update''],
      allow [''inference.opendatahub.io'']
        [''externalmodels/status'', ''externalproviders/status''] []
        [''get'', ''patch'', ''update''],
      allow [''kuadrant.io''] [''authpolicies'', ''tokenratelimitpolicies''] []
        [''create'', ''delete'', ''get'', ''list'', ''patch'', ''update'', ''watch''],
      allow [''kuadrant.io''] [''ratelimitpolicies''] []
        [''create'', ''delete'', ''get'', ''list'', ''patch'', ''watch''],
      allow [''llm-d.ai''] [''inferenceobjectives''] []
        [''create'', ''delete'', ''get'', ''list'', ''patch'', ''update'', ''watch''],
      allow [''loki.grafana.com''] [''application''] [''logs''] [''create'', ''get''],
      allow [''maas.opendatahub.io'']
        [''aitenants'', ''maasauthpolicies'', ''maasmodelrefs'', ''maassubscriptions'',
         ''maastenantconfigs''] []
        [''create'', ''delete'', ''get'', ''list'', ''patch'', ''update'', ''watch''],
      allow [''maas.opendatahub.io''] [''aitenants/finalizers'', ''externalmodels/finalizers'',
         ''maasauthpolicies/finalizers'', ''maasmodelrefs/finalizers'',
         ''maassubscriptions/finalizers''] [] [''update'']]"

definition maas_controller_role_5 :: "policy_rule list" where
  "maas_controller_role_5 =
     [allow [''maas.opendatahub.io'']
        [''aitenants/status'', ''configs/status'', ''externalmodels/status'',
         ''maasauthpolicies/status'', ''maasmodelrefs/status'', ''maassubscriptions/status'',
         ''maastenantconfigs/status''] [] [''get'', ''patch'', ''update''],
      allow [''maas.opendatahub.io''] [''configs'', ''externalmodels''] []
        [''get'', ''list'', ''watch''],
      allow [''maas.opendatahub.io''] [''tenants''] []
        [''delete'', ''get'', ''list'', ''patch'', ''update'', ''watch''],
      allow [''monitoring.coreos.com''] [''podmonitors'', ''servicemonitors''] []
        [''create'', ''delete'', ''get'', ''list'', ''patch'', ''watch''],
      allow [''networking.istio.io''] [''destinationrules''] []
        [''create'', ''delete'', ''get'', ''list'', ''patch'', ''update'', ''watch''],
      allow [''networking.istio.io''] [''envoyfilters''] []
        [''create'', ''delete'', ''get'', ''list'', ''patch'', ''watch''],
      allow [''networking.istio.io''] [''serviceentries''] []
        [''create'', ''delete'', ''get'', ''list'', ''update'', ''watch''],
      allow [''networking.k8s.io''] [''networkpolicies''] []
        [''create'', ''delete'', ''get'', ''list'', ''patch'', ''update'', ''watch'']]"

definition maas_controller_role_6 :: "policy_rule list" where
  "maas_controller_role_6 =
     [allow [''opentelemetry.io''] [''opentelemetrycollectors''] []
        [''create'', ''delete'', ''get'', ''list'', ''patch'', ''watch''],
      allow [''operator.authorino.kuadrant.io''] [''authorinos''] []
        [''get'', ''list'', ''watch''],
      allow [''perses.dev''] [''persesdashboards'', ''persesdatasources''] []
        [''create'', ''delete'', ''get'', ''list'', ''patch'', ''watch''],
      allow [''rbac.authorization.k8s.io'']
        [''clusterrolebindings'', ''clusterroles'', ''rolebindings''] []
        [''create'', ''delete'', ''get'', ''list'', ''patch'', ''watch''],
      allow [''rbac.authorization.k8s.io''] [''roles''] []
        [''create'', ''delete'', ''get'', ''list'', ''patch'', ''update'', ''watch''],
      allow [''route.openshift.io''] [''routes''] [] [''get'', ''list'', ''watch''],
      allow [''security.openshift.io''] [''securitycontextconstraints''] [''nonroot-v2'']
        [''use''],
      allow [''serving.kserve.io''] [''llminferenceservices''] [] [''get'', ''list'', ''watch'']]"

definition maas_controller_role_7 :: "policy_rule list" where
  "maas_controller_role_7 =
     [allow [''telemetry.istio.io''] [''telemetries''] []
        [''create'', ''delete'', ''get'', ''list'', ''patch'', ''watch'']]"

definition maas_controller_role :: "policy_rule list" where
  "maas_controller_role =
     maas_controller_role_1 @ maas_controller_role_2 @ maas_controller_role_3 @ maas_controller_role_4 @ maas_controller_role_5 @ maas_controller_role_6 @ maas_controller_role_7"

definition maas_cluster_config_role :: "policy_rule list" where
  "maas_cluster_config_role =
     [allow [''maas.opendatahub.io''] [''configs''] [] [''list'', ''watch''],
      allow [''maas.opendatahub.io''] [''configs''] [''default'']
        [''delete'', ''get'', ''patch'', ''update''],
      allow [''maas.opendatahub.io''] [''configs''] [] [''create''],
      allow [''maas.opendatahub.io''] [''configs/status''] [''default'']
        [''get'', ''patch'', ''update''],
      allow [''maas.opendatahub.io''] [''configs/finalizers''] [''default''] [''update'']]"

definition maas_leader_election :: "policy_rule list" where
  "maas_leader_election =
     [allow [''''] [''configmaps''] []
        [''get'', ''list'', ''watch'', ''create'', ''update'', ''patch'', ''delete''],
      allow [''coordination.k8s.io''] [''leases''] []
        [''get'', ''list'', ''watch'', ''create'', ''update'', ''patch'', ''delete''],
      allow [''''] [''events''] [] [''create'', ''patch'']]"

definition maas_ocp_role :: "policy_rule list" where
  "maas_ocp_role =
     [allow [''config.openshift.io''] [''apiservers'', ''authentications''] []
        [''get'', ''list'', ''watch'']]"

definition maas_owner_role :: "policy_rule list" where
  "maas_owner_role =
     [allow [''maas.opendatahub.io''] [''maasmodelrefs'', ''externalmodels''] []
        [''create'', ''delete'', ''get'', ''list'', ''patch'', ''update'', ''watch''],
      allow [''inference.opendatahub.io''] [''externalproviders'', ''externalmodels''] []
        [''create'', ''delete'', ''get'', ''list'', ''patch'', ''update'', ''watch'']]"

definition maas_viewer_role :: "policy_rule list" where
  "maas_viewer_role =
     [allow [''maas.opendatahub.io''] [''maasmodelrefs'', ''externalmodels''] []
        [''get'', ''list'', ''watch''],
      allow [''inference.opendatahub.io''] [''externalproviders'', ''externalmodels''] []
        [''get'', ''list'', ''watch'']]"

definition maas_secret_migrate_role :: "policy_rule list" where
  "maas_secret_migrate_role =
     [allow [''''] [''secrets''] [] [''create''],
      allow [''''] [''secrets''] [''maas-db-config''] [''get'']]"

text \<open>ai-gateway-controller.\<close>

definition ai_gateway_controller_role_1 :: "policy_rule list" where
  "ai_gateway_controller_role_1 =
     [allow [''maas.opendatahub.io''] [''maastenantconfigs''] []
        [''get'', ''list'', ''watch'', ''update'', ''patch''],
      allow [''maas.opendatahub.io''] [''aitenants''] [] [''get'', ''list'', ''watch''],
      allow [''maas.opendatahub.io''] [''maassubscriptions'', ''maasmodelrefs''] []
        [''get'', ''list'', ''watch''],
      allow [''''] [''services'', ''serviceaccounts'', ''configmaps''] []
        [''get'', ''list'', ''watch'', ''create'', ''update'', ''patch'', ''delete''],
      allow [''apps''] [''deployments''] []
        [''get'', ''list'', ''watch'', ''create'', ''update'', ''patch'', ''delete''],
      allow [''apps''] [''replicasets''] [] [''get'', ''list''],
      allow [''''] [''pods''] [] [''get'', ''list''],
      allow [''''] [''pods/log''] [] [''get'']]"

definition ai_gateway_controller_role_2 :: "policy_rule list" where
  "ai_gateway_controller_role_2 =
     [allow [''discovery.k8s.io''] [''endpointslices''] [] [''get'', ''list''],
      allow [''autoscaling''] [''horizontalpodautoscalers''] []
        [''get'', ''list'', ''watch'', ''create'', ''update'', ''patch'', ''delete''],
      allow [''networking.k8s.io''] [''networkpolicies''] []
        [''get'', ''list'', ''watch'', ''create'', ''update'', ''patch'', ''delete''],
      allow [''networking.istio.io''] [''envoyfilters'', ''destinationrules''] []
        [''get'', ''list'', ''watch'', ''create'', ''update'', ''patch'', ''delete''],
      allow [''rbac.authorization.k8s.io''] [''clusterrolebindings''] []
        [''get'', ''list'', ''watch'', ''create'', ''update'', ''patch'', ''delete''],
      allow [''rbac.authorization.k8s.io''] [''clusterroles''] []
        [''get'', ''list'', ''watch'', ''create'', ''update'', ''patch''],
      allow_url [''/metrics''] [''get''],
      allow [''monitoring.coreos.com''] [''servicemonitors''] []
        [''get'', ''list'', ''watch'', ''create'', ''update'', ''patch'', ''delete'']]"

definition ai_gateway_controller_role_3 :: "policy_rule list" where
  "ai_gateway_controller_role_3 =
     [allow [''rbac.authorization.k8s.io''] [''roles'', ''rolebindings''] []
        [''get'', ''list'', ''create'', ''update'', ''patch'', ''delete''],
      allow [''''] [''secrets''] []
        [''get'', ''list'', ''watch'', ''create'', ''patch'', ''delete''],
      allow [''maas.opendatahub.io''] [''externalmodels''] [] [''get'', ''list'', ''watch''],
      allow [''maas.opendatahub.io''] [''externalmodels/finalizers''] [] [''update''],
      allow [''inference.opendatahub.io''] [''externalproviders'', ''externalmodels''] []
        [''get'', ''list'', ''watch'', ''create'', ''update''],
      allow [''inference.opendatahub.io''] [''externalproviders'', ''externalmodels''] []
        [''patch''],
      allow [''inference.opendatahub.io'']
        [''externalproviders/status'', ''externalmodels/status''] []
        [''get'', ''update'', ''patch''],
      allow [''inference.opendatahub.io'']
        [''externalproviders/finalizers'', ''externalmodels/finalizers''] [] [''update'']]"

definition ai_gateway_controller_role_4 :: "policy_rule list" where
  "ai_gateway_controller_role_4 =
     [allow [''aigateway.opendatahub.io''] [''aiguardrails''] [] [''get'', ''list'', ''watch''],
      allow [''aigateway.opendatahub.io''] [''aiguardrails/status''] [] [''get'', ''patch''],
      allow [''trustyai.opendatahub.io''] [''nemoguardrails''] [] [''get'', ''list'', ''watch''],
      allow [''''] [''namespaces''] [] [''get'', ''list'', ''watch''],
      allow [''dscinitialization.opendatahub.io''] [''dscinitializations''] []
        [''get'', ''list'', ''watch''],
      allow [''gateway.networking.k8s.io''] [''httproutes''] []
        [''get'', ''list'', ''watch'', ''create'', ''update'', ''patch'', ''delete''],
      allow [''gateway.networking.k8s.io''] [''referencegrants''] []
        [''get'', ''list'', ''watch'', ''create'', ''update'', ''patch'', ''delete''],
      allow [''gateway.networking.k8s.io''] [''gateways''] [] [''get'', ''list'', ''watch'']]"

definition ai_gateway_controller_role_5 :: "policy_rule list" where
  "ai_gateway_controller_role_5 =
     [allow [''route.openshift.io''] [''routes''] [] [''get'', ''list''],
      allow [''networking.istio.io''] [''serviceentries''] []
        [''get'', ''list'', ''watch'', ''create'', ''update'', ''patch'', ''delete''],
      allow [''kuadrant.io''] [''authpolicies''] []
        [''get'', ''list'', ''watch'', ''create'', ''update'', ''patch'', ''delete''],
      allow [''authentication.k8s.io''] [''tokenreviews''] [] [''create''],
      allow [''authorization.k8s.io''] [''subjectaccessreviews''] [] [''create''],
      allow [''coordination.k8s.io''] [''leases''] []
        [''get'', ''list'', ''watch'', ''create'', ''update'', ''patch'', ''delete''],
      allow [''''] [''events''] [] [''create'', ''patch''],
      allow [''events.k8s.io''] [''events''] [] [''create'', ''patch'']]"

definition ai_gateway_controller_role :: "policy_rule list" where
  "ai_gateway_controller_role =
     ai_gateway_controller_role_1 @ ai_gateway_controller_role_2 @ ai_gateway_controller_role_3 @ ai_gateway_controller_role_4 @ ai_gateway_controller_role_5"

definition vendored_roles :: "policy_rule list list" where
  "vendored_roles =
     [grid_operator_crd, grid_operator_metrics_scraper, grid_operator_resources,
      grid_operator_leader_election, grid_operator_metrics_scraper_token,
      grid_operator_operator_config, batch_gateway_operator_role,
      batch_gateway_leader_election, batch_gateway_aggregates, maas_controller_role,
      maas_cluster_config_role, maas_leader_election, maas_ocp_role, maas_owner_role,
      maas_viewer_role, maas_secret_migrate_role, ai_gateway_controller_role]"

lemmas vendored_role_defs =
  grid_operator_crd_def grid_operator_metrics_scraper_def grid_operator_resources_def
  grid_operator_leader_election_def grid_operator_metrics_scraper_token_def
  grid_operator_operator_config_def batch_gateway_operator_role_1_def
  batch_gateway_operator_role_2_def batch_gateway_operator_role_def
  batch_gateway_leader_election_def batch_gateway_aggregates_def maas_controller_role_1_def
  maas_controller_role_2_def maas_controller_role_3_def maas_controller_role_4_def
  maas_controller_role_5_def maas_controller_role_6_def maas_controller_role_7_def
  maas_controller_role_def maas_cluster_config_role_def maas_leader_election_def maas_ocp_role_def
  maas_owner_role_def maas_viewer_role_def maas_secret_migrate_role_def
  ai_gateway_controller_role_1_def ai_gateway_controller_role_2_def ai_gateway_controller_role_3_def
  ai_gateway_controller_role_4_def ai_gateway_controller_role_5_def ai_gateway_controller_role_def

end
