(* ===== verification/Escalation.thy ===== *)
theory Escalation
  imports Vendored_Roles Rbac_Rules
begin

text \<open>
  The vendored roles, and the Role of \<^verbatim>\<open>ensureSecretMigrateRole\<close>, are compared with the
  markers of the operator: none grants more than the operator has.
\<close>

section \<open>Evaluation\<close>

text \<open>
  Rules are walked one after the other, and the fields of a rule one after the other; the lists
  themselves are left alone, and strings are compared up to the first difference.
\<close>

lemma listed_simps:
  "listed x [] \<longleftrightarrow> False"
  "listed x (y # ys) \<longleftrightarrow> (if x = y then True else if y = ''*'' then True else listed x ys)"
  by (auto simp: listed_def)

lemma permits_simps:
  "permits [] v g x n \<longleftrightarrow> False"
  "permits (allow gs xs ns vs # rs) v g x n \<longleftrightarrow>
     (if if listed g gs then if listed x xs then if listed v vs then ns = [] \<or> n \<in> set ns
           else False else False else False
      then True else permits rs v g x n)"
  "permits (allow_url us vs # rs) v g x n \<longleftrightarrow> permits rs v g x n"
  "permits (as @ bs) v g x n \<longleftrightarrow> (if permits as v g x n then True else permits bs v g x n)"
  by (auto simp: permits_def listed_simps allow_def allow_url_def)

lemma permits_every_simps:
  "permits_every [] v g x \<longleftrightarrow> False"
  "permits_every (allow gs xs ns vs # rs) v g x \<longleftrightarrow>
     (if if ns = [] then if listed g gs then if listed x xs then listed v vs
           else False else False else False
      then True else permits_every rs v g x)"
  "permits_every (allow_url us vs # rs) v g x \<longleftrightarrow> permits_every rs v g x"
  "permits_every (as @ bs) v g x \<longleftrightarrow> (if permits_every as v g x then True else permits_every bs v g x)"
  by (auto simp: permits_every_def listed_simps allow_def allow_url_def)

lemma permits_url_simps:
  "permits_url [] v u \<longleftrightarrow> False"
  "permits_url (allow gs xs ns vs # rs) v u \<longleftrightarrow> permits_url rs v u"
  "permits_url (allow_url us vs # rs) v u \<longleftrightarrow>
     (if if listed v vs then listed u us else False then True else permits_url rs v u)"
  "permits_url (as @ bs) v u \<longleftrightarrow> (if permits_url as v u then True else permits_url bs v u)"
  by (auto simp: permits_url_def listed_simps allow_def allow_url_def)

text \<open>
  A rule is checked group by group, resource by resource and verb by verb, against fewer and fewer
  rules of the writer.
\<close>

definition in_group :: "policy_rule list \<Rightarrow> string \<Rightarrow> policy_rule list" where
  "in_group rs g = filter (\<lambda>r. listed g (pr_api_groups r)) rs"

definition on_resource :: "policy_rule list \<Rightarrow> string \<Rightarrow> policy_rule list" where
  "on_resource rs x = filter (\<lambda>r. listed x (pr_resources r)) rs"

definition with_verb :: "policy_rule list \<Rightarrow> string \<Rightarrow> policy_rule list" where
  "with_verb rs v = filter (\<lambda>r. listed v (pr_verbs r)) rs"

definition names_covered :: "policy_rule list \<Rightarrow> string list \<Rightarrow> bool" where
  "names_covered rs ns \<longleftrightarrow>
     (if ns = [] then list_ex (\<lambda>r. pr_resource_names r = []) rs
      else list_all (\<lambda>n. list_ex (\<lambda>r. pr_resource_names r = [] \<or> n \<in> set (pr_resource_names r)) rs) ns)"

definition verbs_covered :: "policy_rule list \<Rightarrow> string list \<Rightarrow> string list \<Rightarrow> bool" where
  "verbs_covered rs ns vs \<longleftrightarrow> list_all (\<lambda>v. names_covered (with_verb rs v) ns) vs"

definition resources_covered :: "policy_rule list \<Rightarrow> string list \<Rightarrow> string list \<Rightarrow> string list \<Rightarrow> bool" where
  "resources_covered rs xs ns vs \<longleftrightarrow> list_all (\<lambda>x. verbs_covered (on_resource rs x) ns vs) xs"

lemma in_group_simps:
  "in_group [] g = []"
  "in_group (allow gs xs ns vs # rs) g =
     (if listed g gs then allow gs xs ns vs # in_group rs g else in_group rs g)"
  "in_group (allow_url us vs # rs) g = in_group rs g"
  "in_group (as @ bs) g = in_group as g @ in_group bs g"
  by (simp_all add: in_group_def allow_def allow_url_def listed_simps)

lemma on_resource_simps:
  "on_resource [] x = []"
  "on_resource (allow gs xs ns vs # rs) x =
     (if listed x xs then allow gs xs ns vs # on_resource rs x else on_resource rs x)"
  by (simp_all add: on_resource_def allow_def)

lemma with_verb_simps:
  "with_verb [] v = []"
  "with_verb (allow gs xs ns vs # rs) v =
     (if listed v vs then allow gs xs ns vs # with_verb rs v else with_verb rs v)"
  by (simp_all add: with_verb_def allow_def)

lemma names_covered_simps:
  "names_covered [] [] \<longleftrightarrow> False"
  "names_covered (allow gs xs ms vs # rs) [] \<longleftrightarrow> (if ms = [] then True else names_covered rs [])"
  "names_covered rs (n # ns) \<longleftrightarrow>
     list_all (\<lambda>n. list_ex (\<lambda>r. pr_resource_names r = [] \<or> n \<in> set (pr_resource_names r)) rs) (n # ns)"
  by (simp_all add: names_covered_def allow_def)

lemma allow_names: "pr_resource_names (allow gs xs ns vs) = ns"
  by (simp add: allow_def)

lemma covers_rule_simps:
  "covers_rule own (allow gs xs ns vs) \<longleftrightarrow> list_all (\<lambda>g. resources_covered (in_group own g) xs ns vs) gs"
  "covers_rule own (allow_url us vs) \<longleftrightarrow> list_all (\<lambda>v. list_all (permits_url own v) us) vs"
proof -
  have names: "(if ns = [] then permits_every own v g x else \<forall>n\<in>set ns. permits own v g x n) \<longleftrightarrow>
      names_covered (with_verb (on_resource (in_group own g) x) v) ns" for v g x
    by (auto simp: permits_every_def permits_def names_covered_def with_verb_def on_resource_def in_group_def
        list_all_iff list_ex_iff)
  show "covers_rule own (allow gs xs ns vs) \<longleftrightarrow>
      list_all (\<lambda>g. resources_covered (in_group own g) xs ns vs) gs"
    unfolding resources_covered_def verbs_covered_def list_all_iff names [symmetric]
    by (auto simp: covers_rule_def allow_def list_all_iff)
qed (simp add: covers_rule_def allow_url_def)

lemma literal_simps:
  "literal_rule (allow gs xs ns vs) \<longleftrightarrow> ''*'' \<notin> set gs \<and> ''*'' \<notin> set xs \<and> ''*'' \<notin> set vs"
  "literal_rule (allow_url us vs) \<longleftrightarrow> ''*'' \<notin> set us \<and> ''*'' \<notin> set vs"
  by (auto simp: literal_rule_def allow_def allow_url_def)

lemmas rule_simps =
  listed_simps permits_simps permits_every_simps permits_url_simps covers_simps covers_rule_simps literal_simps
  in_group_simps on_resource_simps with_verb_simps names_covered_simps allow_names
  verbs_covered_def resources_covered_def

lemma string_step: "(c # s = d # t) = (if c = d then s = t else False)"
  by simp

lemma walk_congs:
  "((x :: string) = y) = (x = y)"
  "listed x xs = listed x xs"
  "allow gs xs ns vs = allow gs xs ns vs"
  "in_group rs g = in_group rs g"
  "list_all P ys = list_all P ys"
  "covers_rule rs r = covers_rule rs r"
  "served = served' \<Longrightarrow> covers rs served = covers rs served'"
  "permits rs v g x n = permits rs v g x n"
  "permits_every rs v g x = permits_every rs v g x"
  by simp_all

section \<open>The vendored roles\<close>

lemmas markers =
  operator_markers_def own_resource_markers_def batch_gateway_markers_def batch_gateway_escalation_markers_def
  maas_deployment_markers_def ai_grid_markers_def ai_gateway_controller_markers_def maas_escalation_markers_def

declare
  rule_simps [simp] string_step [simp] list.inject [simp del] if_split [split del]
  walk_congs [cong]

lemma grid_roles_covered:
  "covers operator_markers grid_operator_crd" "covers operator_markers grid_operator_metrics_scraper"
  "covers operator_markers grid_operator_metrics_scraper_token"
  unfolding markers
  by (simp_all add: grid_operator_crd_def grid_operator_metrics_scraper_def grid_operator_metrics_scraper_token_def)

lemma grid_workload_covered:
  "covers operator_markers grid_operator_resources" "covers operator_markers grid_operator_leader_election"
  "covers operator_markers grid_operator_operator_config"
  unfolding markers
  by (simp_all add: grid_operator_resources_def grid_operator_leader_election_def grid_operator_operator_config_def)

lemma batch_gateway_roles_covered:
  "covers operator_markers batch_gateway_operator_role_1" "covers operator_markers batch_gateway_operator_role_2"
  "covers operator_markers batch_gateway_leader_election" "covers operator_markers batch_gateway_aggregates"
  unfolding markers
  by (simp_all add: batch_gateway_operator_role_1_def batch_gateway_operator_role_2_def
      batch_gateway_leader_election_def batch_gateway_aggregates_def)

lemma maas_roles_covered:
  "covers operator_markers maas_cluster_config_role" "covers operator_markers maas_leader_election"
  "covers operator_markers maas_ocp_role" "covers operator_markers maas_owner_role"
  "covers operator_markers maas_viewer_role" "covers operator_markers maas_secret_migrate_role"
  unfolding markers
  by (simp_all add: maas_cluster_config_role_def maas_leader_election_def maas_ocp_role_def
      maas_owner_role_def maas_viewer_role_def maas_secret_migrate_role_def)

lemma maas_controller_covered:
  "covers operator_markers maas_controller_role_1" "covers operator_markers maas_controller_role_2"
  "covers operator_markers maas_controller_role_3"
  unfolding markers
  by (simp_all add: maas_controller_role_1_def maas_controller_role_2_def maas_controller_role_3_def)

lemma maas_controller_covered':
  "covers operator_markers maas_controller_role_4" "covers operator_markers maas_controller_role_5"
  "covers operator_markers maas_controller_role_6" "covers operator_markers maas_controller_role_7"
  unfolding markers
  by (simp_all add: maas_controller_role_4_def maas_controller_role_5_def maas_controller_role_6_def
      maas_controller_role_7_def)

lemma ai_gateway_controller_covered:
  "covers operator_markers ai_gateway_controller_role_1" "covers operator_markers ai_gateway_controller_role_2"
  "covers operator_markers ai_gateway_controller_role_3"
  unfolding markers
  by (simp_all add: ai_gateway_controller_role_1_def ai_gateway_controller_role_2_def
      ai_gateway_controller_role_3_def)

lemma ai_gateway_controller_covered':
  "covers operator_markers ai_gateway_controller_role_4" "covers operator_markers ai_gateway_controller_role_5"
  unfolding markers
  by (simp_all add: ai_gateway_controller_role_4_def ai_gateway_controller_role_5_def)

text \<open>The Role that the operator itself writes.\<close>

lemma secret_migrate_covered: "covers operator_markers (role_rules (desired_role ns))"
proof -
  have "role_rules (desired_role ns) =
      [allow [''''] [''secrets''] [] [''create''], allow [''''] [''secrets''] [maasDBConfigSecret] [''get'']]"
    by (simp add: desired_role_def allow_def)
  then show ?thesis
    unfolding markers by (simp add: maasDBConfigSecret_def)
qed

declare
  rule_simps [simp del] string_step [simp del] list.inject [simp] if_split [split]
  walk_congs [cong del]

lemma vendored_covered: "list_all (covers operator_markers) vendored_roles"
  by (simp add: vendored_roles_def covers_append grid_roles_covered grid_workload_covered
      batch_gateway_operator_role_def batch_gateway_roles_covered maas_roles_covered
      maas_controller_role_def maas_controller_covered maas_controller_covered'
      ai_gateway_controller_role_def ai_gateway_controller_covered ai_gateway_controller_covered')

end
