(* ===== verification/Permissions.thy ===== *)
theory Permissions
  imports Authorised_Client Escalation
begin

text \<open>
  What the operator's code asks of the API server, against the permissions of its markers.
\<close>

section \<open>What the markers permit\<close>

declare
  rule_simps [simp] string_step [simp] list.inject [simp del] if_split [split del]
  walk_congs [cong]

lemma operator_informs:
  "informs operator_markers ''apps'' ''deployments''"
  "informs operator_markers '''' ''namespaces''"
  "informs operator_markers rbac_group ''roles''"
  "informs operator_markers rbac_group ''rolebindings''"
  "informs operator_markers ''apiextensions.k8s.io'' ''customresourcedefinitions''"
  "informs operator_markers ''maas.opendatahub.io'' ''configs''"
  unfolding informs_def markers rbac_group_def by simp_all

lemma operator_writes_namespaces:
  "permits_every operator_markers ''create'' '''' ''namespaces''"
  "permits operator_markers ''update'' '''' ''namespaces'' n"
  unfolding markers by simp_all

lemma operator_writes_roles:
  "permits_every operator_markers ''create'' rbac_group ''roles''"
  "permits operator_markers ''update'' rbac_group ''roles'' n"
  "permits operator_markers ''delete'' rbac_group ''roles'' n"
  "permits_every operator_markers ''create'' rbac_group ''rolebindings''"
  "permits operator_markers ''update'' rbac_group ''rolebindings'' n"
  "permits operator_markers ''delete'' rbac_group ''rolebindings'' n"
  unfolding markers rbac_group_def by simp_all

text \<open>The other kinds that are watched.\<close>

lemma operator_watches:
  "informs operator_markers ''components.platform.opendatahub.io'' ''aigateways''"
  "informs operator_markers '''' ''configmaps''"
  "informs operator_markers '''' ''serviceaccounts''"
  "informs operator_markers '''' ''services''"
  "informs operator_markers rbac_group ''clusterroles''"
  "informs operator_markers rbac_group ''clusterrolebindings''"
  "informs operator_markers ''admissionregistration.k8s.io'' ''validatingwebhookconfigurations''"
  "informs operator_markers ''networking.k8s.io'' ''networkpolicies''"
  "informs operator_markers ''monitoring.coreos.com'' ''servicemonitors''"
  unfolding informs_def markers rbac_group_def by simp_all

lemma grid_crd_names: "aiGridCRDNames =
   [''agenttoolproviders.grid.praxis.fast'', ''gridnetworks.grid.praxis.fast'', ''gridsites.grid.praxis.fast'',
    ''inferenceproviders.grid.praxis.fast'', ''siteinvites.grid.praxis.fast'']"
  by (simp add: aiGridCRDNames_def aiGridCRDSuffix_def)

lemma grid_crds_updated:
  "list_all (permits operator_markers ''get'' ''apiextensions.k8s.io'' ''customresourcedefinitions'') aiGridCRDNames"
  "list_all (permits operator_markers ''update'' ''apiextensions.k8s.io'' ''customresourcedefinitions'') aiGridCRDNames"
  "list_all (permits operator_markers ''patch'' ''apiextensions.k8s.io'' ''customresourcedefinitions'') aiGridCRDNames"
  unfolding markers grid_crd_names by simp_all

lemma grid_crds_not_collected:
  "\<not> permits_every operator_markers ''deletecollection'' ''apiextensions.k8s.io'' ''customresourcedefinitions''"
  unfolding markers by simp

lemma operator_other_calls:
  "permits operator_markers ''delete'' ''apps'' ''deployments'' n"
  "permits operator_markers ''get'' '''' ''configmaps'' n"
  unfolding markers by simp_all

declare
  rule_simps [simp del] string_step [simp del] list.inject [simp] if_split [split]
  walk_congs [cong del]

lemmas operator_permits =
  operator_informs operator_writes_namespaces operator_writes_roles operator_other_calls

section \<open>No CRD of the grid can be deleted\<close>

text \<open>A rule that permits deleting CRDs names them, and none of the names has the suffix.\<close>

definition keeps_suffixed :: "string \<Rightarrow> policy_rule \<Rightarrow> bool" where
  "keeps_suffixed sfx r \<longleftrightarrow>
     \<not> (listed ''delete'' (pr_verbs r) \<and> listed ''apiextensions.k8s.io'' (pr_api_groups r) \<and>
        listed ''customresourcedefinitions'' (pr_resources r)) \<or>
     pr_resource_names r \<noteq> [] \<and> list_all (\<lambda>n. \<not> has_suffix n sfx) (pr_resource_names r)"

lemma suffixed_kept:
  "list_all (keeps_suffixed sfx) rules \<Longrightarrow> has_suffix n sfx \<Longrightarrow>
   \<not> permits rules ''delete'' ''apiextensions.k8s.io'' ''customresourcedefinitions'' n"
  by (auto simp: permits_def keeps_suffixed_def list_all_iff)

lemma grid_suffix_kept: "list_all (keeps_suffixed aiGridCRDSuffix) operator_markers"
  by code_simp

section \<open>No rule has a wildcard\<close>

lemma literal_append: "list_all literal_rule (as @ bs) \<longleftrightarrow> list_all literal_rule as \<and> list_all literal_rule bs"
  by simp

lemma vendored_literal: "list_all (list_all literal_rule) vendored_roles"
  by (simp add: vendored_roles_def vendored_role_defs literal_simps)

lemma secret_migrate_literal: "list_all literal_rule (role_rules (desired_role ns))"
  by (simp add: desired_role_def literal_rule_def)

section \<open>The resources of the kinds\<close>

text \<open>The group and the resource of a kind; for a dynamic kind the RESTMapper knows the resource.\<close>

fun kind_resource :: "(gvk \<Rightarrow> string) \<Rightarrow> kind \<Rightarrow> string \<times> string" where
  "kind_resource plural ConfigMapKind = ('''', ''configmaps'')"
| "kind_resource plural ClusterRoleBindingKind = (rbac_group, ''clusterrolebindings'')"
| "kind_resource plural ClusterRoleKind = (rbac_group, ''clusterroles'')"
| "kind_resource plural RoleBindingKind = (rbac_group, ''rolebindings'')"
| "kind_resource plural RoleKind = (rbac_group, ''roles'')"
| "kind_resource plural ServiceAccountKind = ('''', ''serviceaccounts'')"
| "kind_resource plural ServiceKind = ('''', ''services'')"
| "kind_resource plural CustomResourceDefinitionKind = (''apiextensions.k8s.io'', ''customresourcedefinitions'')"
| "kind_resource plural ValidatingWebhookConfigurationKind =
     (''admissionregistration.k8s.io'', ''validatingwebhookconfigurations'')"
| "kind_resource plural NetworkPolicyKind = (''networking.k8s.io'', ''networkpolicies'')"
| "kind_resource plural DeploymentKind = (''apps'', ''deployments'')"
| "kind_resource plural (GVK g) = (gvk_group g, plural g)"

section \<open>The interface of the actions\<close>

interpretation operator: enough_permissions operator_markers "manager_options_for cf tls" for cf tls
  by unfold_locales
    (simp_all add: may_read_def may_list_def cached_def manager_options_for_def operator_permits
      secret_migrate_covered)

text \<open>The client that refuses is one that authorises.\<close>

interpretation guarded: authorising operator_markers "manager_options_for cf tls" plural bound c
  "guarded_client operator_markers (manager_options_for cf tls) plural bound denied c"
  for cf tls plural bound c denied
  by unfold_locales (rule guarded_authorises)

section \<open>Properties\<close>

text \<open>
  C11. The operator's own actions never meet a refusal. Take any API server that answers the requests
  permitted by the markers as it would without authorisation, informers of the manager's caches
  included, that takes the writes of Roles whose rules the markers cover, and that takes the write of
  a RoleBinding if the markers cover the rules, as they then are in the cluster, of the role it refers
  to (or permit binding it). Every own action returns the same result and leaves the same request and
  cluster on it as without authorisation, whatever the API answers; for the RBAC action under Managed
  if the RoleBinding it writes, the desired one or the one it has read, passes that check. A binding
  found with a foreign role reference does not have to.
\<close>

theorem own_calls_authorised:
  fixes rr :: "('w, 'c) request"
  assumes "plural maasConfigGVK = ''configs''" and "a \<in> set (own_actions E L b m)"
    and "authorises operator_markers (manager_options_for cf tls) plural bound c c'" and "rr_client rr = Some c"
    and "\<And>obj. a = ensureInfraSecretMigrationRBAC m \<Longrightarrow> rr_instance rr = IsAIGateway obj \<Longrightarrow>
      maas_state obj = managedState \<Longrightarrow> binding_permitted operator_markers bound c m obj (rr_world rr)"
  shows "a (rr\<lparr>rr_client := Some c'\<rparr>) = apsnd (\<lambda>r. r\<lparr>rr_client := Some c'\<rparr>) (a rr)"
  by (rule authorising.own_authorised [OF authorising.intro [OF operator.enough_permissions_axioms
        authorising_axioms.intro [OF assms(3)]] assms(1,2,4,5)])

text \<open>
  On the cluster in memory, where the rules of a role are those stored: the RBAC action writes its
  Role and RoleBinding through the check; without any permission it is refused.
\<close>

definition mem_rules :: "mem role_rules_view" where
  "mem_rules w ns ref =
     (case filed mem_roles role_key w (nsname_of ns (rr_name ref)) of None \<Rightarrow> [] | Some r \<Rightarrow> role_rules r)"

lemma mem_binding_rules:
  "map_option (\<lambda>(b, w). mem_rules w (rb_namespace b) (rb_role_ref b))
     (binding_written mem_client (module_for ''opendatahub'') (gateway_with '''' ''Managed'' '''' []) empty_mem) =
   Some (role_rules (desired_role ''''))"
  by code_simp

theorem own_calls_authorised_witness:
  "\<forall>cf tls. fst (ensureInfraSecretMigrationRBAC (module_for ''opendatahub'')
       (request_for (Some (guarded_client operator_markers (manager_options_for cf tls) (\<lambda>g. ''configs'') mem_rules
          (plain_error ''Forbidden'') mem_client)) empty_mem ([] :: conds) (gateway_with '''' ''Managed'' '''' []))) = Inr ()"
proof (intro allI)
  fix cf tls
  let ?plural = "\<lambda>g :: gvk. ''configs''"
  let ?m = "module_for ''opendatahub''" and ?obj = "gateway_with '''' ''Managed'' '''' []"
  let ?rr = "request_for (Some mem_client) empty_mem ([] :: conds) ?obj"
  let ?c' = "guarded_client operator_markers (manager_options_for cf tls) ?plural mem_rules (plain_error ''Forbidden'') mem_client"
  obtain b w where "binding_written mem_client ?m ?obj empty_mem = Some (b, w)"
      "mem_rules w (rb_namespace b) (rb_role_ref b) = role_rules (desired_role '''')"
    using mem_binding_rules by auto
  then have "binding_permitted operator_markers mem_rules mem_client ?m ?obj empty_mem"
    using secret_migrate_covered [of "''''"] by (simp add: binding_permitted_def may_bind_def)
  then have "ensureInfraSecretMigrationRBAC ?m (?rr\<lparr>rr_client := Some ?c'\<rparr>) =
      apsnd (\<lambda>r. r\<lparr>rr_client := Some ?c'\<rparr>) (ensureInfraSecretMigrationRBAC ?m ?rr)"
    by (intro own_calls_authorised [OF refl _ guarded_authorises, where L = decimal_lib and E = mem_lib
          and b = default_build and m = ?m]) (simp_all add: own_actions_def)
  moreover have "?rr\<lparr>rr_client := Some ?c'\<rparr> = request_for (Some ?c') empty_mem ([] :: conds) ?obj"
    by (simp add: request_for_def)
  ultimately show "fst (ensureInfraSecretMigrationRBAC ?m (request_for (Some ?c') empty_mem ([] :: conds) ?obj)) = Inr ()"
    using rbac_run_managed by simp
qed

text \<open>
  C12. The operator hands out no right that it lacks: a request that the secret-migrate
  Role or any vendored Role or ClusterRole permits, for a resource or for a URL, the markers permit
  the operator itself. The API server therefore refuses none of these roles as an escalation.
\<close>

theorem no_escalation:
  assumes "served \<in> set (role_rules (desired_role ns) # vendored_roles)"
  shows "covers operator_markers served \<and>
    (permits served v g x n \<longrightarrow> permits operator_markers v g x n) \<and>
    (permits_url served v u \<longrightarrow> permits_url operator_markers v u)"
proof -
  have "covers operator_markers served" "list_all literal_rule served"
    using assms vendored_covered secret_migrate_covered vendored_literal secret_migrate_literal
    by (auto simp: list_all_iff)
  then show ?thesis
    by (blast intro: covers_permits covers_permits_url)
qed

theorem no_escalation_witness:
  "permits maas_ocp_role ''get'' ''config.openshift.io'' ''authentications'' ''cluster'' \<and>
   permits operator_markers ''get'' ''config.openshift.io'' ''authentications'' ''cluster''"
proof -
  have "maas_ocp_role \<in> set (role_rules (desired_role []) # vendored_roles)"
    by (simp add: vendored_roles_def)
  then show ?thesis
    using no_escalation [of maas_ocp_role "[]" "''get''" "''config.openshift.io''" "''authentications''" "''cluster''"]
    by (simp add: maas_ocp_role_def permits_simps listed_simps)
qed

text \<open>
  C27. What the garbage-collection predicate rules out, the API server refuses too: no object whose
  name has the suffix of the AI Grid's CRDs, known to the operator or not, may be deleted as a CRD
  under the markers, by name or as a collection, and the predicate never gives one to the collector;
  every CRD whose readiness AIGridReady reports can be read, updated and patched.
\<close>

theorem grid_crds_kept_by_permissions:
  assumes "aiGridCRDPredicate n"
  shows "\<not> permits operator_markers ''delete'' ''apiextensions.k8s.io'' ''customresourcedefinitions'' n \<and>
    \<not> permits_every operator_markers ''deletecollection'' ''apiextensions.k8s.io'' ''customresourcedefinitions'' \<and>
    (us_gvk u = gvk_CustomResourceDefinition E \<and> us_name u = n \<longrightarrow> maasAwareGCPredicate E m u rr = (Inr False, rr)) \<and>
    (n \<in> set aiGridCRDNames \<longrightarrow> v \<in> {''get'', ''update'', ''patch''} \<longrightarrow>
      permits operator_markers v ''apiextensions.k8s.io'' ''customresourcedefinitions'' n)"
proof -
  have suffix: "has_suffix n aiGridCRDSuffix"
    using assms by (simp add: aiGridCRDPredicate_def)
  have "maasAwareGCPredicate E m u rr = (Inr False, rr)"
    if "us_gvk u = gvk_CustomResourceDefinition E \<and> us_name u = n"
    using that suffix by (simp add: maasAwareGCPredicate_def)
  moreover have "permits operator_markers v ''apiextensions.k8s.io'' ''customresourcedefinitions'' n"
    if "n \<in> set aiGridCRDNames" "v \<in> {''get'', ''update'', ''patch''}"
    using that grid_crds_updated by (auto simp: list_all_iff)
  ultimately show ?thesis
    using suffixed_kept [OF grid_suffix_kept suffix] grid_crds_not_collected by blast
qed

theorem grid_crds_kept_by_permissions_witness:
  "\<not> permits operator_markers ''delete'' ''apiextensions.k8s.io'' ''customresourcedefinitions'' ''routes.grid.praxis.fast'' \<and>
   permits operator_markers ''patch'' ''apiextensions.k8s.io'' ''customresourcedefinitions'' ''gridsites.grid.praxis.fast''"
proof -
  have "aiGridCRDPredicate ''routes.grid.praxis.fast''" "aiGridCRDPredicate ''gridsites.grid.praxis.fast''"
    by code_simp+
  moreover have "''gridsites.grid.praxis.fast'' \<in> set aiGridCRDNames"
    by (simp add: aiGridCRDNames_def aiGridCRDSuffix_def)
  ultimately show ?thesis
    using grid_crds_kept_by_permissions [of "''routes.grid.praxis.fast''"]
      grid_crds_kept_by_permissions [of "''gridsites.grid.praxis.fast''" _ _ _ _ "''patch''"] by blast
qed

text \<open>
  C28. Every informer the reconciler starts may run: the operator may list and watch every kind it
  owns or watches, in all namespaces, and its own custom resource.
\<close>

theorem informers_permitted:
  assumes "gvk_group (CoreosServiceMonitor B) = ''monitoring.coreos.com''"
    and "plural (CoreosServiceMonitor B) = ''servicemonitors''" and "plural maasConfigGVK = ''configs''"
  shows "list_all (\<lambda>(grp, resource). informs operator_markers grp resource)
    ((''components.platform.opendatahub.io'', ''aigateways'') #
     map (kind_resource plural) (map o_kind (owned_kinds B) @ map w_kind (reconciler_watches cf)))"
  using assms
  by (simp add: owned_kinds_def owns_def reconciler_watches_def operator_watches operator_informs maasConfigGVK_def)

theorem informers_permitted_witness:
  "informs operator_markers ''maas.opendatahub.io'' ''configs'' \<and>
   informs operator_markers ''monitoring.coreos.com'' ''servicemonitors''"
proof -
  let ?B = "\<lparr>CoreosServiceMonitor = \<lparr>gvk_group = ''monitoring.coreos.com'', gvk_version = ''v1'',
       gvk_kind = ''ServiceMonitor''\<rparr>, DefaultDeploymentPredicate = (\<lambda>ev. True),
     Build = (\<lambda>mgr sp. ok ()), set_release = (\<lambda>r u. u)\<rparr> :: (mem, conds, nat, unit) builder"
  show ?thesis
    using informers_permitted [where B = ?B and cf = "cfg (module_for ''apps'')" and
        plural = "\<lambda>g. if gvk_kind g = ''Config'' then ''configs'' else ''servicemonitors''"]
    by (simp add: owned_kinds_def owns_def reconciler_watches_def maasConfigGVK_def)
qed

end
