(* ===== verification/Spec2Isabelle.thy ===== *)
theory Spec2Isabelle
  imports Api_Group Removal_Fairness Handshake_Protocol Tls_Reload Permissions
begin

text \<open>
  Verification of the AI Gateway operator: a Kubernetes operator in Go whose controller reconciles
  the singleton \<^verbatim>\<open>AIGateway\<close> into three sub-modules, models as a service (MaaS), the
  batch gateway and the AI Grid.

  \<^bold>\<open>How the program works.\<close> \<^verbatim>\<open>cmd/operator/operator.go\<close> loads the
  configuration (\<^verbatim>\<open>pkg/config\<close>), resolves the TLS profile of the cluster
  (\<^verbatim>\<open>internal/tls\<close>), and registers the reconciler of
  \<^verbatim>\<open>internal/controller/aigateway\<close>. A reconcile is a list of actions over one request,
  run in order until the first error; the request carries the API client, the AIGateway, the
  manifests and rendered resources, and the conditions. Between reconciles all state is in the
  cluster and in the status of the AIGateway. Two protocols cross the boundary of the process: the
  teardown of MaaS, by annotations on the Deployment of maas-controller, and the upgrade handshake,
  by a ConfigMap of the platform and an entry of \<^verbatim>\<open>status.releases\<close>. The process runs with
  the permissions of the kubebuilder markers above \<^verbatim>\<open>NewReconciler\<close>.

  \<^bold>\<open>Theories.\<close>

  \<^item> \<open>Prelude\<close>: API and Go errors, computations (state in, result and state out, the
    state kept on an error), their combinators, and \<open>keeps\<close>, the frame predicate, with the
    collections \<open>comp_simps\<close> and \<open>frame\<close> that carry the later proofs.
  \<^item> \<open>Go_Base\<close>: maps that may be nil, prefix and suffix of byte strings, hexadecimal
    printing of 32-bit words; \<open>File_Path\<close>: \<^verbatim>\<open>Clean\<close> and \<^verbatim>\<open>Join\<close> of
    \<^verbatim>\<open>path/filepath\<close>.
  \<^item> \<open>Namespaces\<close>: \<^verbatim>\<open>deriveInfrastructureNamespace\<close>,
    \<^verbatim>\<open>deriveAIGridNamespace\<close> with FNV-1a on \<open>32 word\<close>, the watch predicates.
  \<^item> \<open>Cluster\<close>: Kubernetes objects as records, the client as a record of operations, and
    the contracts of a store, of reads, of preconditioned deletes and of the Deployments under removal
    (\<open>settled_deployments\<close>, \<open>free_deployments\<close>) as locales. \<open>Memory_Cluster\<close>
    interprets them on a cluster in memory, which only interpretations and witnesses mention.
  \<^item> \<open>Api_Types\<close>, \<open>Semver_Decimal\<close>: the custom resource, the JSON behaviour of
    \<^verbatim>\<open>PlatformName\<close> and \<^verbatim>\<open>SemVer\<close>, the contract of the semantic-version library and a
    model of it.
  \<^item> \<open>Config\<close>, \<open>Config_Loading\<close>: the configuration and its loading through the
    layers of viper, a locale with an executable instance.
  \<^item> \<open>Request\<close>, \<open>Reference_Lib\<close>: the reconciliation request, the third-party
    functions as a record, the contract of the condition manager and an instance of both.
  \<^item> \<open>Teardown\<close> (\<^verbatim>\<open>aigateway_remove.go\<close>), \<open>Infra_RBAC\<close>
    (\<^verbatim>\<open>aigateway_infra_rbac.go\<close>), \<open>Migrate_Selector\<close>
    (\<^verbatim>\<open>aigateway_migrate_selector.go\<close>), and of \<^verbatim>\<open>aigateway.go\<close>:
    \<open>Initialize\<close>, \<open>Releases\<close>, \<open>Sub_Module_Status\<close>,
    \<open>Deployments_Available\<close>, \<open>Report_Status\<close>.
  \<^item> \<open>Pipeline\<close>: \<^verbatim>\<open>aigateway_upgrade.go\<close>, \<^verbatim>\<open>renderAIGridOperator\<close> and the
    action list; \<open>Reconciler_Setup\<close>: what else \<^verbatim>\<open>NewReconciler\<close> gives to the
    builder.
  \<^item> Three theories on what the actions do over many reconciles: \<open>Removal_Protocol\<close>, the removal
    of MaaS as a step relation of operator passes, maas-controller, the collector and other writers,
    and \<open>Removal_Fairness\<close>, its infinite runs; \<open>Handshake_Protocol\<close>, the platform version
    over complete and failed passes.
  \<^item> \<open>Tls_Profile\<close> (\<^verbatim>\<open>internal/tls/profile.go\<close>), \<open>Operator_Start\<close>
    (\<^verbatim>\<open>cmd/operator\<close>, \<^verbatim>\<open>pkg/cache\<close>) and \<open>Process_Entry\<close>: the registration of the
    schemes, the command line of \<^verbatim>\<open>cmd/main.go\<close> and the exit status. \<open>Tls_Reload\<close>:
    the process, restarted by the callbacks of the TLS watcher, over any run.
  \<^item> \<open>Permission_Markers\<close>, the markers of \<^verbatim>\<open>aigateway_controller.go\<close>, and
    \<open>Vendored_Roles\<close>, the rules of the roles under \<^verbatim>\<open>config/manifests\<close>, both as lists of
    policy rules; \<open>Rbac_Rules\<close>, rules that cover rules; \<open>Escalation\<close>, the roles against the
    markers; \<open>Authorised_Client\<close>, what an API server owes to a client under authorisation, the
    check for escalation on Roles and RoleBindings included, and the locale of the permissions the
    operator's actions need; \<open>Permissions\<close>, its interpretation on the markers.
  \<^item> \<open>Store\<close>, an explicit store of cells with the contract of a deep copy, and
    \<open>Deep_Copy\<close>, the generated \<^verbatim>\<open>zz_generated.deepcopy.go\<close> over it;
    \<open>Api_Group\<close>, the scheme builder of \<^verbatim>\<open>groupversion_info.go\<close> and the accessors of a
    platform object.

  \<^bold>\<open>What the lemmas show.\<close> Derived namespaces are valid names that tell inputs apart as
  far as the code can. Initialize selects manifests by the spec and the phase of the teardown. The
  collector deletes bundle resources only when the teardown is completed, and never an AI Grid CRD;
  the order request, completion, collection is an invariant of every interleaving, but for a spec in
  which MaaS is neither Managed nor Removed: then the stale bundle is given to the collector without
  a teardown. The removal makes progress and does not regress, what an interrupted selector migration
  does to it is stated as well, and every weakly fair infinite run that stays under Removed, from a
  current selector, ends with the Deployment gone. The RBAC action leaves its objects as required,
  apart from the role an existing binding refers to, or deletes them, over any store with the
  contract; a run without a client never crashes in the operator's own code. The
  selector migration deletes only what it read. The conditions are functions of the cluster on quiet
  reads. The platform version survives failed reconciles and is echoed by the last action but one:
  over any sequence of passes it is the one read by the last pass that got that far. The events that
  wake the reconciler are exactly those of the three watches. Deep copies share no cell with the
  original. The start follows its plan step by step, and the exit status tells a failed start from a
  panic. TLS options carry only suites the run-time has, without RC4, and errors fall back as listed.
  Configuration strings come from environment, plain and structured files and default, in this order.
  The TLS watcher ends the process at most once per change or failed read, and a process whose reads
  both count as fetched settles. With the markers no call of the operator's own actions is refused, if
  an existing RoleBinding does not refer to a role beyond them; no role it applies is an escalation,
  every informer may run, and no AI Grid CRD can be deleted. Versions are canonical and ordered as
  their parsed values; NewModule succeeds exactly when its parameter files are written.

  \<^bold>\<open>Parameters.\<close> The world \<open>'w\<close> is abstract: a call may change it in any way and fail
  with any error, unless a property assumes one of the contracts, each documented behaviour of the API server, of a
  store or of a library, and none an API server made up in its place. Parameters are: the client; the
  records \<open>lib\<close>, \<open>framework\<close>, \<open>builder\<close>, \<open>manager_lib\<close> (the ODH
  framework and controller-runtime), \<open>semver_lib\<close>, \<open>viper_lib\<close>, \<open>tls_lib\<close>,
  \<open>scheme_lib\<close>, \<open>builder_lib\<close>, \<open>conditions_lib\<close>, \<open>meta_lib\<close>, cobra, the
  reaction of the TLS watcher to a change, and the RESTMapper (\<open>plural\<close>). Authorisation is the
  documented one of Kubernetes, \<open>permits\<close> and \<open>covers\<close>.
  The framework always sets the condition manager of a request. A nil client is \<open>None\<close>, and
  calling it is the error \<open>Panic\<close>. Iteration over a Go map is over a list, and the two loops
  where the order could matter are proved independent of it. A comparison sort is the library's
  \<open>sort\<close>, proved to be the only possible outcome. Recursion is structural or has a measure;
  no definition needs fuel. Steps of \<open>Removal_Protocol\<close> are whole passes: the operator is a
  single leader; other writers act between the steps and keep the existence of the Deployment of
  maas-controller, its selector and its two annotations. \<open>Handshake_Protocol\<close> takes the status
  that a pass leaves to be stored whether it failed or not, as the framework does.

  \<^bold>\<open>Not modelled.\<close> Logging and metrics; the kubebuilder markers for the validation of CRDs, and
  the generation of \<^verbatim>\<open>config/rbac/role.yaml\<close> from the others; the requests that the framework's
  own actions make under authorisation; structured configuration files other than flat maps of strings
  have no precedence statement; time (a timeout is an API error) and cancellation
  of contexts, apart from the one the TLS watcher cancels; pointer identity outside
  \<open>Deep_Copy\<close>, apart from the writes of the release wrapper through the request. What is left of
  the sources beside these is package clauses, imports, the scheme variable, the constants of the
  timeouts and comments.
\<close>

end
